(* ===== verification/Prelude.thy ===== *)
theory Prelude
  imports Main "HOL-Library.AList"
begin

text \<open>
  The vocabulary the component theories share.

  \<^item> Python exceptions are values of \<open>exc\<close>; a fallible pure function returns
    \<open>'a res\<close> (\<open>Inl\<close> the exception), an operation on external state of type
    \<open>'s\<close> is an \<open>('s, 'a) op\<close>, which returns the outcome and the new state also when
    it raises.
  \<^item> A Python \<^verbatim>\<open>dict\<close> is an association list in insertion order, read with
    \<open>map_of\<close> and written with \<open>AList.update\<close> (a new key goes last, an old key keeps its place).
  \<^item> A Python \<^verbatim>\<open>str\<close> is a \<open>string\<close> whose characters are the code
    points below 256; \<^verbatim>\<open>bytes\<close> are strings too.
  Log and trace statements of the sources have no effect on results and are left out everywhere.
\<close>

section \<open>Exceptions and results\<close>

text \<open>\<^verbatim>\<open>azure_cleanroom_core/exceptions/exception.py\<close>, class \<^verbatim>\<open>ErrorCode\<close>.\<close>

datatype error_code =
    DataStoreNotFound
  | SecretStoreNotFound
  | IdentityConfigurationNotFound
  | CollaborationNotFound
  | UnsupportedDekSecretStore
  | UnsupportedKekSecretStore
  | MultipleApplicationEndpointsNotSupported
  | DatasinkNotFound
  | DuplicatePort
  | DataStoreAlreadyExists
  | SecretStoreAlreadyExists
  | CollaborationAlreadyExists
  | BackingIdentityNotFound
  | CurrentCollaborationNotSet

text \<open>
  The exceptions the modelled code raises or handles. \<open>ApiException\<close> carries the HTTP status
  and the text of the Kubernetes client's exception; \<open>OtherException\<close> stands for any exception
  class the code never tests for.
\<close>

datatype exc =
    ValueError string
  | KeyError string
  | IndexError
  | TypeError
  | AttributeError
  | NameError string
  | AssertionError string
  | BinasciiError
  | UnicodeDecodeError
  | JSONDecodeError
  | FileNotFoundError string
  | ApiException "int option" string
  | ResourceNotFound string
  | HTTPException int string
  | JobRecordError string
  | JobRecordConflictError string
  | CleanroomSpecificationError error_code string
  | OtherException string

type_synonym 'a res = "exc + 'a"
type_synonym ('s, 'a) op = "'s \<Rightarrow> 'a res \<times> 's"
type_synonym ('k, 'v) dict = "('k \<times> 'v) list"

named_theorems op_simps \<open>evaluation rules of the result and operation monads\<close>
named_theorems py_simps \<open>evaluation rules of the Python helpers\<close>

definition bind_res :: "'a res \<Rightarrow> ('a \<Rightarrow> 'b res) \<Rightarrow> 'b res" where
  "bind_res m f = (case m of Inl e \<Rightarrow> Inl e | Inr x \<Rightarrow> f x)"

fun map_res :: "('a \<Rightarrow> 'b res) \<Rightarrow> 'a list \<Rightarrow> 'b list res" where
  "map_res f [] = Inr []"
| "map_res f (x # xs) = bind_res (f x) (\<lambda>y. bind_res (map_res f xs) (\<lambda>ys. Inr (y # ys)))"

fun fold_res :: "('a \<Rightarrow> 'b \<Rightarrow> 'b res) \<Rightarrow> 'a list \<Rightarrow> 'b \<Rightarrow> 'b res" where
  "fold_res f [] b = Inr b"
| "fold_res f (x # xs) b = bind_res (f x b) (fold_res f xs)"

definition assert_res :: "bool \<Rightarrow> string \<Rightarrow> unit res" where
  "assert_res b msg = (if b then Inr () else Inl (AssertionError msg))"

text \<open>Operations on an external state.\<close>

definition return_op :: "'a \<Rightarrow> ('s, 'a) op" where
  "return_op x s = (Inr x, s)"

definition raise_op :: "exc \<Rightarrow> ('s, 'a) op" where
  "raise_op e s = (Inl e, s)"

definition lift_res :: "'a res \<Rightarrow> ('s, 'a) op" where
  "lift_res r s = (r, s)"

definition bind_op :: "('s, 'a) op \<Rightarrow> ('a \<Rightarrow> ('s, 'b) op) \<Rightarrow> ('s, 'b) op" where
  "bind_op m f s = (case m s of (Inl e, s') \<Rightarrow> (Inl e, s') | (Inr x, s') \<Rightarrow> f x s')"

text \<open>\<^verbatim>\<open>try: m except Exception as e: h e\<close>.\<close>

definition catch_op :: "('s, 'a) op \<Rightarrow> (exc \<Rightarrow> ('s, 'a) op) \<Rightarrow> ('s, 'a) op" where
  "catch_op m h s = (case m s of (Inl e, s') \<Rightarrow> h e s' | (Inr x, s') \<Rightarrow> (Inr x, s'))"

fun map_op :: "('a \<Rightarrow> ('s, 'b) op) \<Rightarrow> 'a list \<Rightarrow> ('s, 'b list) op" where
  "map_op f [] = return_op []"
| "map_op f (x # xs) = bind_op (f x) (\<lambda>y. bind_op (map_op f xs) (\<lambda>ys. return_op (y # ys)))"

fun fold_op :: "('a \<Rightarrow> 'b \<Rightarrow> ('s, 'b) op) \<Rightarrow> 'a list \<Rightarrow> 'b \<Rightarrow> ('s, 'b) op" where
  "fold_op f [] b = return_op b"
| "fold_op f (x # xs) b = bind_op (f x b) (fold_op f xs)"

lemma bind_res_simps [simp, op_simps]:
  "bind_res (Inl e) f = Inl e"
  "bind_res (Inr x) f = f x"
  by (simp_all add: bind_res_def)

lemma bind_res_Inr_iff:
  "bind_res m f = Inr y \<longleftrightarrow> (\<exists>x. m = Inr x \<and> f x = Inr y)"
  by (cases m) auto

lemma bind_res_Inl_iff:
  "bind_res m f = Inl e \<longleftrightarrow> m = Inl e \<or> (\<exists>x. m = Inr x \<and> f x = Inl e)"
  by (cases m) auto

lemma bind_res_Inr_right [simp]: "bind_res m Inr = m"
  by (cases m) auto

lemma bind_res_assoc:
  "bind_res (bind_res m f) g = bind_res m (\<lambda>x. bind_res (f x) g)"
  by (cases m) auto

lemma bind_res_cong [fundef_cong]:
  "m = m' \<Longrightarrow> (\<And>x. m' = Inr x \<Longrightarrow> f x = f' x) \<Longrightarrow> bind_res m f = bind_res m' f'"
  by (cases m') auto

lemma assert_res_Inr_iff [simp]: "assert_res b msg = Inr u \<longleftrightarrow> b"
  by (simp add: assert_res_def)

lemma assert_res_True [simp, op_simps]: "assert_res True msg = Inr ()"
  by (simp add: assert_res_def)

lemma map_res_length: "map_res f xs = Inr ys \<Longrightarrow> length ys = length xs"
  by (induction xs arbitrary: ys) (auto simp: bind_res_Inr_iff)

lemma map_res_nth:
  "map_res f xs = Inr ys \<Longrightarrow> i < length xs \<Longrightarrow> f (xs ! i) = Inr (ys ! i)"
proof (induction xs arbitrary: ys i)
  case Nil
  then show ?case by simp
next
  case (Cons x xs)
  then show ?case by (cases i) (auto simp: bind_res_Inr_iff)
qed

lemma fold_res_append:
  "fold_res f (xs @ ys) b = bind_res (fold_res f xs b) (fold_res f ys)"
proof (induction xs arbitrary: b)
  case Nil
  then show ?case by simp
next
  case (Cons x xs)
  then show ?case by (cases "f x b") simp_all
qed

lemma return_op_apply [simp, op_simps]: "return_op x s = (Inr x, s)"
  by (simp add: return_op_def)

lemma raise_op_apply [simp, op_simps]: "raise_op e s = (Inl e, s)"
  by (simp add: raise_op_def)

lemma lift_res_apply [simp, op_simps]: "lift_res r s = (r, s)"
  by (simp add: lift_res_def)

lemma bind_op_return [simp]: "bind_op (return_op x) f = f x"
  by (rule ext) (simp add: bind_op_def)

lemma bind_op_raise [simp]: "bind_op (raise_op e) f = raise_op e"
  by (rule ext) (simp add: bind_op_def)

lemma bind_op_Inl: "m s = (Inl e, s') \<Longrightarrow> bind_op m f s = (Inl e, s')"
  by (simp add: bind_op_def)

lemma bind_op_Inr: "m s = (Inr x, s') \<Longrightarrow> bind_op m f s = f x s'"
  by (simp add: bind_op_def)

lemma catch_op_Inl: "m s = (Inl e, s') \<Longrightarrow> catch_op m h s = h e s'"
  by (simp add: catch_op_def)

lemma catch_op_Inr: "m s = (Inr x, s') \<Longrightarrow> catch_op m h s = (Inr x, s')"
  by (simp add: catch_op_def)

lemma bind_op_Inr_iff:
  "bind_op m f s = (Inr y, t) \<longleftrightarrow> (\<exists>x s'. m s = (Inr x, s') \<and> f x s' = (Inr y, t))"
  by (auto simp: bind_op_def split: prod.splits sum.splits)

lemma bind_op_Inl_iff:
  "bind_op m f s = (Inl e, t) \<longleftrightarrow>
    m s = (Inl e, t) \<or> (\<exists>x s'. m s = (Inr x, s') \<and> f x s' = (Inl e, t))"
  by (auto simp: bind_op_def split: prod.splits sum.splits)

lemma bind_op_InrE:
  assumes "bind_op m f s = (Inr y, t)"
  obtains x s' where "m s = (Inr x, s')" and "f x s' = (Inr y, t)"
  using assms by (auto simp: bind_op_Inr_iff)

lemma bind_op_assoc: "bind_op (bind_op m f) g = bind_op m (\<lambda>x. bind_op (f x) g)"
  by (rule ext) (simp add: bind_op_def split: prod.splits sum.splits)

lemma map_op_Inr_length: "map_op f xs s = (Inr ys, t) \<Longrightarrow> length ys = length xs"
  by (induction xs arbitrary: ys s t) (auto simp: bind_op_Inr_iff)

lemma map_op_all2:
  assumes "map_op f xs s = (Inr ys, t)"
    and "\<And>x s y s'. x \<in> set xs \<Longrightarrow> f x s = (Inr y, s') \<Longrightarrow> P x y"
  shows "list_all2 P xs ys"
  using assms
proof (induction xs arbitrary: ys s)
  case Nil
  then show ?case by simp
next
  case (Cons x xs)
  then obtain y s1 zs s2 where "f x s = (Inr y, s1)" "map_op f xs s1 = (Inr zs, s2)" "ys = y # zs"
    by (auto simp: bind_op_Inr_iff)
  with Cons show ?case
    by (auto simp: bind_op_Inr_iff)
qed

text \<open>An operation all of whose state changes are in a relation \<open>R\<close>.\<close>

definition steps :: "('s \<Rightarrow> 's \<Rightarrow> bool) \<Rightarrow> ('s, 'a) op \<Rightarrow> bool" where
  "steps R m \<longleftrightarrow> (\<forall>s. R s (snd (m s)))"

definition preorder_rel :: "('s \<Rightarrow> 's \<Rightarrow> bool) \<Rightarrow> bool" where
  "preorder_rel R \<longleftrightarrow> (\<forall>s. R s s) \<and> (\<forall>s t u. R s t \<longrightarrow> R t u \<longrightarrow> R s u)"

lemma steps_intros:
  assumes "preorder_rel R"
  shows "steps R (return_op x)" and "steps R (raise_op e)" and "steps R (lift_res r)"
    and "steps R m \<Longrightarrow> (\<And>x. steps R (f x)) \<Longrightarrow> steps R (bind_op m f)"
    and "steps R m' \<Longrightarrow> (\<And>e. steps R (h e)) \<Longrightarrow> steps R (catch_op m' h)"
  using assms unfolding steps_def preorder_rel_def bind_op_def catch_op_def
  by (auto split: prod.splits sum.splits) (metis snd_conv)+

lemma stepsD: "steps R m \<Longrightarrow> m s = (x, t) \<Longrightarrow> R s t"
  by (metis steps_def snd_conv)

text \<open>A read of the state.\<close>

definition get_op :: "('s \<Rightarrow> 'a) \<Rightarrow> ('s, 'a) op" where
  "get_op f s = (Inr (f s), s)"

lemma get_op_apply [simp, op_simps]: "get_op f s = (Inr (f s), s)"
  by (simp add: get_op_def)

lemma bind_get_op [simp, op_simps]: "bind_op (get_op f) g s = g (f s) s"
  by (simp add: bind_op_def)

lemma steps_get_op: "preorder_rel R \<Longrightarrow> steps R (get_op f)"
  by (simp add: steps_def preorder_rel_def)

section \<open>Lists and dictionaries\<close>

lemma map_of_update_same [simp, py_simps]: "map_of (AList.update k v d) k = Some v"
  by (simp add: update_conv')

lemma map_of_update_other [simp, py_simps]:
  "k' \<noteq> k \<Longrightarrow> map_of (AList.update k v d) k' = map_of d k'"
  by (simp add: update_conv')

lemma dict_update_fresh:
  "k \<notin> fst ` set d \<Longrightarrow> AList.update k v d = d @ [(k, v)]"
  by (induction d) auto

text \<open>\<^verbatim>\<open>xs[-n:]\<close> for a positive \<open>n\<close>.\<close>

definition last_n :: "nat \<Rightarrow> 'a list \<Rightarrow> 'a list" where
  "last_n n xs = drop (length xs - n) xs"

lemma length_last_n [simp]: "length (last_n n xs) = min n (length xs)"
  by (simp add: last_n_def)

lemma last_n_short: "length xs \<le> n \<Longrightarrow> last_n n xs = xs"
  by (simp add: last_n_def)

lemma set_last_n: "set (last_n n xs) \<subseteq> set xs"
  by (auto simp: last_n_def dest: in_set_dropD)

lemma last_last_n: "xs \<noteq> [] \<Longrightarrow> 0 < n \<Longrightarrow> last (last_n n xs) = last xs"
  by (simp add: last_n_def)

lemma distinct_map_last_n: "distinct (map f xs) \<Longrightarrow> distinct (map f (last_n n xs))"
  by (simp add: last_n_def drop_map [symmetric])

lemma last_n_snoc:
  assumes "0 < n"
  shows "last_n n (last_n n xs @ [x]) = last_n n (xs @ [x])"
proof (cases "n \<le> length xs")
  case True
  then have "last_n n xs @ [x] = drop (length xs - n) (xs @ [x])"
    by (simp add: last_n_def)
  with True assms show ?thesis by (simp add: last_n_def Suc_diff_le)
next
  case False
  then show ?thesis by (simp add: last_n_short)
qed

text \<open>The first element with a property and its index, as \<^verbatim>\<open>next((i for i, x in enumerate(xs) if p(x)), None)\<close>.\<close>

fun find_index :: "('a \<Rightarrow> bool) \<Rightarrow> 'a list \<Rightarrow> nat option" where
  "find_index p [] = None"
| "find_index p (x # xs) = (if p x then Some 0 else map_option Suc (find_index p xs))"

lemma find_index_None_iff: "find_index p xs = None \<longleftrightarrow> (\<forall>x \<in> set xs. \<not> p x)"
  by (induction xs) auto

lemma find_index_SomeD:
  "find_index p xs = Some i \<Longrightarrow> i < length xs \<and> p (xs ! i) \<and> (\<forall>j < i. \<not> p (xs ! j))"
proof (induction xs arbitrary: i)
  case Nil
  then show ?case by simp
next
  case (Cons x xs)
  show ?case
  proof (cases "p x")
    case True
    with Cons.prems show ?thesis by simp
  next
    case False
    with Cons.prems obtain k where k: "find_index p xs = Some k" "i = Suc k" by auto
    from Cons.IH [OF k(1)] k(2) False show ?thesis
      by (auto simp: less_Suc_eq_0_disj)
  qed
qed

lemma find_filter: "List.find p xs = (case filter p xs of [] \<Rightarrow> None | x # _ \<Rightarrow> Some x)"
  by (induction xs) auto

section \<open>Strings\<close>

abbreviation char_code :: "char \<Rightarrow> nat" where
  "char_code c \<equiv> of_char c"

text \<open>\<^verbatim>\<open>str.lower\<close> on the code points below 256.\<close>

definition lower_char :: "char \<Rightarrow> char" where
  "lower_char c =
    (let n = char_code c
     in if (65 \<le> n \<and> n \<le> 90) \<or> (192 \<le> n \<and> n \<le> 222 \<and> n \<noteq> 215) then char_of (n + 32) else c)"

definition str_lower :: "string \<Rightarrow> string" where
  "str_lower s = map lower_char s"

text \<open>\<^verbatim>\<open>s.replace(c, t)\<close> for a single character \<open>c\<close>.\<close>

definition str_replace_char :: "char \<Rightarrow> string \<Rightarrow> string \<Rightarrow> string" where
  "str_replace_char c t s = concat (map (\<lambda>x. if x = c then t else [x]) s)"

text \<open>\<^verbatim>\<open>s.split(c)\<close> for a single character \<open>c\<close>: at least one piece.\<close>

fun str_split :: "char \<Rightarrow> string \<Rightarrow> string list" where
  "str_split c [] = [[]]"
| "str_split c (x # xs) =
    (if x = c then [] # str_split c xs
     else (case str_split c xs of [] \<Rightarrow> [[x]] | p # ps \<Rightarrow> (x # p) # ps))"

text \<open>\<^verbatim>\<open>sep.join(xs)\<close>.\<close>

fun str_join :: "string \<Rightarrow> string list \<Rightarrow> string" where
  "str_join sep [] = []"
| "str_join sep [x] = x"
| "str_join sep (x # y # ys) = x @ sep @ str_join sep (y # ys)"

lemma str_split_nonempty [simp]: "str_split c s \<noteq> []"
  by (induction s) (auto split: list.splits)

lemma str_join_split: "str_join [c] (str_split c s) = s"
proof (induction s)
  case Nil
  then show ?case by simp
next
  case (Cons x xs)
  obtain p ps where p: "str_split c xs = p # ps"
    by (cases "str_split c xs") auto
  with Cons show ?case by (cases ps) auto
qed

lemma str_replace_char_absent:
  "c \<notin> set t \<Longrightarrow> c \<notin> set (str_replace_char c t s)"
  by (auto simp: str_replace_char_def split: if_splits)

text \<open>White space that \<^verbatim>\<open>str.strip\<close> removes.\<close>

definition is_space :: "char \<Rightarrow> bool" where
  "is_space c \<longleftrightarrow> char_code c \<in> {9, 10, 11, 12, 13, 28, 29, 30, 31, 32, 133, 160}"

definition str_strip :: "string \<Rightarrow> string" where
  "str_strip s = rev (dropWhile is_space (rev (dropWhile is_space s)))"

definition is_digit :: "char \<Rightarrow> bool" where
  "is_digit c \<longleftrightarrow> 48 \<le> char_code c \<and> char_code c \<le> 57"

definition digit_val :: "char \<Rightarrow> nat" where
  "digit_val c = char_code c - 48"

text \<open>The digits of \<^verbatim>\<open>int(s)\<close>: single underscores may separate digits.\<close>

fun int_digits :: "nat \<Rightarrow> string \<Rightarrow> nat option" where
  "int_digits n [] = Some n"
| "int_digits n (c # cs) =
    (if is_digit c then int_digits (10 * n + digit_val c) cs
     else if c = CHR ''_'' then
       (case cs of [] \<Rightarrow> None
        | d # ds \<Rightarrow> if is_digit d then int_digits (10 * n + digit_val d) ds else None)
     else None)"

definition nat_literal :: "string \<Rightarrow> nat option" where
  "nat_literal s = (case s of [] \<Rightarrow> None | c # cs \<Rightarrow> if is_digit c then int_digits 0 s else None)"

text \<open>\<^verbatim>\<open>int(s)\<close> for a string: surrounding white space, a sign, decimal digits.\<close>

definition py_int :: "string \<Rightarrow> int res" where
  "py_int s =
    (let t = str_strip s;
         r = (case t of
                [] \<Rightarrow> None
              | c # cs \<Rightarrow>
                  if c = CHR ''-'' then map_option (\<lambda>n. - int n) (nat_literal cs)
                  else if c = CHR ''+'' then map_option int (nat_literal cs)
                  else map_option int (nat_literal t))
     in case r of None \<Rightarrow> Inl (ValueError ''invalid literal for int() with base 10'') | Some i \<Rightarrow> Inr i)"

text \<open>\<^verbatim>\<open>str(n)\<close> for an integer.\<close>

definition digit_char :: "nat \<Rightarrow> char" where
  "digit_char n = char_of (48 + n)"

fun str_nat :: "nat \<Rightarrow> string" where
  "str_nat n = (if n < 10 then [digit_char n] else str_nat (n div 10) @ [digit_char (n mod 10)])"

declare str_nat.simps [simp del]

definition str_int :: "int \<Rightarrow> string" where
  "str_int i = (if i < 0 then CHR ''-'' # str_nat (nat (- i)) else str_nat (nat i))"

definition str_bool :: "bool \<Rightarrow> string" where
  "str_bool b = (if b then ''True'' else ''False'')"

text \<open>An f-string of an optional string: \<^verbatim>\<open>None\<close> prints as its name.\<close>

definition str_opt :: "string option \<Rightarrow> string" where
  "str_opt x = (case x of None \<Rightarrow> ''None'' | Some s \<Rightarrow> s)"

text \<open>\<^verbatim>\<open>x or default\<close> for an optional string.\<close>

definition or_str :: "string option \<Rightarrow> string \<Rightarrow> string" where
  "or_str x d = (case x of None \<Rightarrow> d | Some s \<Rightarrow> if s = [] then d else s)"

lemma char_code_digit_char [simp]: "n < 10 \<Longrightarrow> char_code (digit_char n) = 48 + n"
  by (simp add: digit_char_def)

lemma is_digit_digit_char [simp]: "n < 10 \<Longrightarrow> is_digit (digit_char n)"
  by (simp add: is_digit_def)

lemma digit_val_digit_char [simp]: "n < 10 \<Longrightarrow> digit_val (digit_char n) = n"
  by (simp add: digit_val_def)

lemma str_nat_nonempty [simp]: "str_nat n \<noteq> []"
  by (subst str_nat.simps) simp

lemma str_nat_digits: "\<forall>c \<in> set (str_nat n). is_digit c"
proof (induction n rule: str_nat.induct)
  case (1 n)
  show ?case
  proof (cases "n < 10")
    case True
    then show ?thesis by (subst str_nat.simps) simp
  next
    case False
    with 1 show ?thesis by (subst str_nat.simps) simp
  qed
qed

end
