(* ===== verification/Codec.thy ===== *)
theory Codec
  imports Prelude
begin

text \<open>
  Python's UTF-8 and \<^verbatim>\<open>base64\<close> codecs, which carry policies, annotations and
  configuration between the components. The decoders follow the library on malformed input as
  well, since the webhooks decode data they did not write.
\<close>

section \<open>UTF-8\<close>

definition utf8_char :: "char \<Rightarrow> string" where
  "utf8_char c =
    (let n = char_code c
     in if n < 128 then [c] else [char_of (192 + n div 64), char_of (128 + n mod 64)])"

text \<open>\<^verbatim>\<open>s.encode("utf-8")\<close>.\<close>

definition utf8_encode :: "string \<Rightarrow> string" where
  "utf8_encode s = concat (map utf8_char s)"

text \<open>
  \<^verbatim>\<open>b.decode("utf-8")\<close>. Code points from 256 on are outside the model's strings and
  are refused like malformed bytes.
\<close>

fun utf8_decode :: "string \<Rightarrow> string res" where
  "utf8_decode [] = Inr []"
| "utf8_decode (b # bs) =
    (if char_code b < (128 :: nat) then bind_res (utf8_decode bs) (\<lambda>s. Inr (b # s))
     else (case bs of
             [] \<Rightarrow> Inl UnicodeDecodeError
           | d # ds \<Rightarrow>
               if char_code b \<in> {194 :: nat, 195} \<and> 128 \<le> (char_code d :: nat) \<and> (char_code d :: nat) < 192
               then bind_res (utf8_decode ds)
                      (\<lambda>s. Inr (char_of (64 * (char_code b - 192) + (char_code d - 128) :: nat) # s))
               else Inl UnicodeDecodeError))"

definition is_ascii :: "string \<Rightarrow> bool" where
  "is_ascii s \<longleftrightarrow> (\<forall>c \<in> set s. char_code c < (128 :: nat))"

lemma utf8_encode_ascii: "is_ascii s \<Longrightarrow> utf8_encode s = s"
  by (induction s) (auto simp: utf8_encode_def is_ascii_def utf8_char_def)

lemma utf8_decode_ascii: "is_ascii s \<Longrightarrow> utf8_decode s = Inr s"
  by (induction s) (auto simp: is_ascii_def)

section \<open>Base64\<close>

definition b64_char :: "nat \<Rightarrow> char" where
  "b64_char n =
    (if n < 26 then char_of (65 + n)
     else if n < 52 then char_of (97 + (n - 26))
     else if n < 62 then char_of (48 + (n - 52))
     else if n = 62 then CHR ''+'' else CHR ''/'')"

definition b64_val :: "char \<Rightarrow> nat option" where
  "b64_val c =
    (let n = char_code c
     in if 65 \<le> n \<and> n \<le> 90 then Some (n - 65)
        else if 97 \<le> n \<and> n \<le> 122 then Some (n - 97 + 26)
        else if 48 \<le> n \<and> n \<le> 57 then Some (n - 48 + 52)
        else if n = 43 then Some 62
        else if n = 47 then Some 63
        else None)"

text \<open>\<^verbatim>\<open>base64.b64encode\<close>.\<close>

fun b64encode :: "string \<Rightarrow> string" where
  "b64encode [] = []"
| "b64encode [a] =
    [b64_char (char_code a div 4), b64_char ((char_code a mod 4) * 16), CHR ''='', CHR ''='']"
| "b64encode [a, b] =
    [b64_char (char_code a div 4),
     b64_char ((char_code a mod 4) * 16 + char_code b div 16),
     b64_char ((char_code b mod 16) * 4), CHR ''='']"
| "b64encode (a # b # c # s) =
    b64_char (char_code a div 4)
    # b64_char ((char_code a mod 4) * 16 + char_code b div 16)
    # b64_char ((char_code b mod 16) * 4 + char_code c div 64)
    # b64_char (char_code c mod 64)
    # b64encode s"

text \<open>
  \<^verbatim>\<open>base64.b64decode\<close> in its default, lenient mode: the scanner keeps the position in
  the current group of four, the bits left over and the pads seen since the last data character.
  Characters outside the alphabet are skipped, and a complete pad sequence ends the input.
\<close>

fun b64_scan :: "nat \<Rightarrow> nat \<Rightarrow> nat \<Rightarrow> string \<Rightarrow> string res" where
  "b64_scan quad left pads [] = (if quad = 0 then Inr [] else Inl BinasciiError)"
| "b64_scan quad left pads (c # cs) =
    (if c = CHR ''='' then
       (if 2 \<le> quad then
          (if 4 \<le> quad + Suc pads then Inr [] else b64_scan quad left (Suc pads) cs)
        else b64_scan quad left pads cs)
     else
       (case b64_val c of
          None \<Rightarrow> b64_scan quad left pads cs
        | Some v \<Rightarrow>
            (if quad = 0 then b64_scan 1 v 0 cs
             else if quad = 1 then
               bind_res (b64_scan 2 (v mod 16) 0 cs) (\<lambda>s. Inr (char_of (left * 4 + v div 16) # s))
             else if quad = 2 then
               bind_res (b64_scan 3 (v mod 4) 0 cs) (\<lambda>s. Inr (char_of (left * 16 + v div 4) # s))
             else
               bind_res (b64_scan 0 0 0 cs) (\<lambda>s. Inr (char_of (left * 64 + v) # s)))))"

definition b64decode :: "string \<Rightarrow> string res" where
  "b64decode s = b64_scan 0 0 0 s"

lemma b64_val_char: "n < 64 \<Longrightarrow> b64_val (b64_char n) = Some n"
  by (auto simp: b64_val_def b64_char_def Let_def)

lemma b64_char_not_pad: "n < 64 \<Longrightarrow> b64_char n \<noteq> CHR ''=''"
proof
  assume n: "n < 64" and eq: "b64_char n = CHR ''=''"
  have "b64_val (CHR ''='') = None" by (simp add: b64_val_def)
  with b64_val_char [OF n] eq show False by simp
qed

lemma b64_scan_char:
  assumes "n < 64"
  shows "b64_scan quad left pads (b64_char n # cs) =
    (if quad = 0 then b64_scan 1 n 0 cs
     else if quad = 1 then
       bind_res (b64_scan 2 (n mod 16) 0 cs) (\<lambda>s. Inr (char_of (left * 4 + n div 16) # s))
     else if quad = 2 then
       bind_res (b64_scan 3 (n mod 4) 0 cs) (\<lambda>s. Inr (char_of (left * 16 + n div 4) # s))
     else bind_res (b64_scan 0 0 0 cs) (\<lambda>s. Inr (char_of (left * 64 + n) # s)))"
  using b64_char_not_pad [OF assms] b64_val_char [OF assms] by simp

lemma b64_digit_bounds:
  fixes a b :: nat
  assumes "a < 256" "b < 256"
  shows "a div 4 < 64" and "(a mod 4) * 16 < 64" and "(a mod 4) * 16 + b div 16 < 64"
    and "(a mod 16) * 4 < 64" and "(a mod 16) * 4 + b div 64 < 64" and "a mod 64 < 64"
  using assms by auto

lemma b64_digit_join:
  fixes a b c :: nat
  assumes "b < 256" "c < 256"
  shows "a div 4 * 4 + (a mod 4 * 16) div 16 = a"
    and "a div 4 * 4 + (a mod 4 * 16 + b div 16) div 16 = a"
    and "(a mod 4 * 16 + b div 16) mod 16 * 16 + (b mod 16 * 4) div 4 = b"
    and "(a mod 4 * 16 + b div 16) mod 16 * 16 + (b mod 16 * 4 + c div 64) div 4 = b"
    and "(b mod 16 * 4 + c div 64) mod 4 * 64 + c mod 64 = c"
  using assms by simp_all

declare b64_scan.simps(2) [simp del]

lemma b64_scan_pad:
  "b64_scan 2 left 0 [CHR ''='', CHR ''=''] = Inr []"
  "b64_scan 3 left 0 [CHR ''=''] = Inr []"
  by (simp_all add: b64_scan.simps(2))

lemma b64_scan_one:
  assumes "x < 64" "y < 64"
  shows "b64_scan 0 0 0 [b64_char x, b64_char y, CHR ''='', CHR ''=''] =
    Inr [char_of (x * 4 + y div 16)]"
  using assms by (simp add: b64_scan_char b64_scan_pad)

lemma b64_scan_two:
  assumes "x < 64" "y < 64" "z < 64"
  shows "b64_scan 0 0 0 [b64_char x, b64_char y, b64_char z, CHR ''=''] =
    Inr [char_of (x * 4 + y div 16), char_of (y mod 16 * 16 + z div 4)]"
  using assms by (simp add: b64_scan_char b64_scan_pad)

lemma b64_scan_three:
  assumes "x < 64" "y < 64" "z < 64" "w < 64"
  shows "b64_scan 0 0 0 (b64_char x # b64_char y # b64_char z # b64_char w # cs) =
    bind_res (b64_scan 0 0 0 cs)
      (\<lambda>s. Inr (char_of (x * 4 + y div 16) # char_of (y mod 16 * 16 + z div 4)
        # char_of (z mod 4 * 64 + w) # s))"
  using assms by (simp add: b64_scan_char bind_res_assoc)

text \<open>Decoding inverts encoding on every byte string.\<close>

lemma b64decode_b64encode [simp]: "b64decode (b64encode s) = Inr s"
  unfolding b64decode_def
proof (induction s rule: b64encode.induct)
  case 1
  then show ?case by simp
next
  case (2 a)
  let ?a = "of_char a :: nat"
  have "b64_scan 0 0 0 (b64encode [a]) = Inr [char_of (?a div 4 * 4 + (?a mod 4 * 16) div 16)]"
    unfolding b64encode.simps by (rule b64_scan_one) (simp_all add: b64_digit_bounds [of _ 0])
  then show ?case by (simp only: b64_digit_join(1) [of 0 0] zero_less_numeral char_of_char)
next
  case (3 a b)
  let ?a = "of_char a :: nat" and ?b = "of_char b :: nat"
  have "b64_scan 0 0 0 (b64encode [a, b]) =
    Inr [char_of (?a div 4 * 4 + (?a mod 4 * 16 + ?b div 16) div 16),
         char_of ((?a mod 4 * 16 + ?b div 16) mod 16 * 16 + (?b mod 16 * 4) div 4)]"
    unfolding b64encode.simps by (rule b64_scan_two) (simp_all add: b64_digit_bounds [of _ 0] b64_digit_bounds)
  then show ?case
    by (simp only: b64_digit_join [of ?b 0] nat_of_char_less_256 zero_less_numeral char_of_char)
next
  case (4 a b c s)
  let ?a = "of_char a :: nat" and ?b = "of_char b :: nat" and ?c = "of_char c :: nat"
  have "b64_scan 0 0 0 (b64encode (a # b # c # s)) =
    bind_res (b64_scan 0 0 0 (b64encode s))
      (\<lambda>s. Inr (char_of (?a div 4 * 4 + (?a mod 4 * 16 + ?b div 16) div 16)
         # char_of ((?a mod 4 * 16 + ?b div 16) mod 16 * 16 + (?b mod 16 * 4 + ?c div 64) div 4)
         # char_of ((?b mod 16 * 4 + ?c div 64) mod 4 * 64 + ?c mod 64) # s))"
    unfolding b64encode.simps by (rule b64_scan_three) (simp_all add: b64_digit_bounds [of _ 0] b64_digit_bounds)
  then show ?case
    by (simp only: 4 bind_res_simps b64_digit_join [of ?b ?c] nat_of_char_less_256 char_of_char)
qed

lemma b64_char_ascii: "(char_code (b64_char n) :: nat) < 128"
  by (auto simp: b64_char_def)

lemma b64encode_ascii: "is_ascii (b64encode s)"
  by (induction s rule: b64encode.induct) (auto simp: is_ascii_def b64_char_ascii)

end
