(* ===== verification/Json.thy ===== *)
theory Json
  imports Codec "HOL-Library.Char_ord" "HOL-Library.List_Lexorder"
begin

text \<open>
  Python's \<^verbatim>\<open>json\<close> module: the printer with its two separator styles, the parser,
  and the proof that parsing inverts printing on every value whose objects have distinct keys.
\<close>

section \<open>JSON\<close>

text \<open>
  JSON values with integer numbers; \<^verbatim>\<open>json.loads\<close> of a text with a fractional number is
  outside the model and fails here.
\<close>

datatype json =
    JNull
  | JBool bool
  | JInt int
  | JStr string
  | JArr "json list"
  | JObj "(string \<times> json) list"

abbreviation quote_char :: char where "quote_char \<equiv> CHR 0x22"
abbreviation backslash :: char where "backslash \<equiv> CHR 0x5C"

definition hex_char :: "nat \<Rightarrow> char" where
  "hex_char n = (if n < 10 then char_of (48 + n) else char_of (97 + (n - 10)))"

definition hex_val :: "char \<Rightarrow> nat option" where
  "hex_val c =
    (let n = char_code c
     in if 48 \<le> n \<and> n \<le> 57 then Some (n - 48)
        else if 97 \<le> n \<and> n \<le> 102 then Some (n - 97 + 10)
        else if 65 \<le> n \<and> n \<le> 70 then Some (n - 65 + 10)
        else None)"

text \<open>The characters \<^verbatim>\<open>json.dumps\<close> writes as they are (\<^verbatim>\<open>ensure_ascii\<close>).\<close>

definition json_plain :: "char \<Rightarrow> bool" where
  "json_plain c \<longleftrightarrow> 32 \<le> (char_code c :: nat) \<and> (char_code c :: nat) \<le> 126 \<and> c \<noteq> quote_char \<and> c \<noteq> backslash"

definition json_esc_char :: "char \<Rightarrow> string" where
  "json_esc_char c =
    (if json_plain c then [c]
     else if c = quote_char then [backslash, quote_char]
     else if c = backslash then [backslash, backslash]
     else if c = CHR 0x0A then [backslash, CHR ''n'']
     else if c = CHR 0x0D then [backslash, CHR ''r'']
     else if c = CHR 0x09 then [backslash, CHR ''t'']
     else if c = CHR 0x08 then [backslash, CHR ''b'']
     else if c = CHR 0x0C then [backslash, CHR ''f'']
     else [backslash, CHR ''u'', CHR ''0'', CHR ''0'',
           hex_char (char_code c div 16), hex_char (char_code c mod 16)])"

definition json_esc :: "string \<Rightarrow> string" where
  "json_esc s = concat (map json_esc_char s)"

definition json_quote :: "string \<Rightarrow> string" where
  "json_quote s = quote_char # json_esc s @ [quote_char]"

text \<open>
  \<^verbatim>\<open>json.dumps\<close>, with the default separators or, with \<open>compact\<close>, with
  \<^verbatim>\<open>separators=(",", ":")\<close>.
\<close>

definition item_sep :: "bool \<Rightarrow> string" where
  "item_sep compact = (if compact then '','' else '', '')"

definition key_sep :: "bool \<Rightarrow> string" where
  "key_sep compact = (if compact then '':'' else '': '')"

fun dumps_value :: "bool \<Rightarrow> json \<Rightarrow> string"
  and dumps_elems :: "bool \<Rightarrow> json list \<Rightarrow> string"
  and dumps_members :: "bool \<Rightarrow> (string \<times> json) list \<Rightarrow> string" where
  "dumps_value p JNull = ''null''"
| "dumps_value p (JBool b) = (if b then ''true'' else ''false'')"
| "dumps_value p (JInt i) = str_int i"
| "dumps_value p (JStr s) = json_quote s"
| "dumps_value p (JArr xs) = CHR ''['' # dumps_elems p xs @ '']''"
| "dumps_value p (JObj kvs) = CHR ''{'' # dumps_members p kvs @ ''}''"
| "dumps_elems p [] = []"
| "dumps_elems p (x # xs) =
    dumps_value p x @ (if xs = [] then [] else item_sep p @ dumps_elems p xs)"
| "dumps_members p [] = []"
| "dumps_members p (kv # kvs) =
    json_quote (fst kv) @ key_sep p @ dumps_value p (snd kv)
    @ (if kvs = [] then [] else item_sep p @ dumps_members p kvs)"

definition json_dumps :: "json \<Rightarrow> string" where
  "json_dumps j = dumps_value False j"

fun sort_value :: "json \<Rightarrow> json"
  and sort_elems :: "json list \<Rightarrow> json list"
  and sort_members :: "(string \<times> json) list \<Rightarrow> (string \<times> json) list" where
  "sort_value (JArr xs) = JArr (sort_elems xs)"
| "sort_value (JObj kvs) = JObj (sort_key fst (sort_members kvs))"
| "sort_value JNull = JNull"
| "sort_value (JBool b) = JBool b"
| "sort_value (JInt i) = JInt i"
| "sort_value (JStr s) = JStr s"
| "sort_elems [] = []"
| "sort_elems (x # xs) = sort_value x # sort_elems xs"
| "sort_members [] = []"
| "sort_members (kv # kvs) = (fst kv, sort_value (snd kv)) # sort_members kvs"

text \<open>\<^verbatim>\<open>json.dumps(x, separators=(",", ":"), sort_keys=True)\<close>.\<close>

definition json_dumps_canonical :: "json \<Rightarrow> string" where
  "json_dumps_canonical j = dumps_value True (sort_value j)"

subsection \<open>Parsing\<close>

definition json_ws :: "char \<Rightarrow> bool" where
  "json_ws c \<longleftrightarrow> c \<in> {CHR 0x20, CHR 0x09, CHR 0x0A, CHR 0x0D}"

abbreviation skip_ws :: "string \<Rightarrow> string" where
  "skip_ws \<equiv> dropWhile json_ws"

definition json_unesc :: "char \<Rightarrow> char option" where
  "json_unesc d =
    (if d \<in> {quote_char, backslash, CHR ''/''} then Some d
     else if d = CHR ''n'' then Some (CHR 0x0A)
     else if d = CHR ''r'' then Some (CHR 0x0D)
     else if d = CHR ''t'' then Some (CHR 0x09)
     else if d = CHR ''b'' then Some (CHR 0x08)
     else if d = CHR ''f'' then Some (CHR 0x0C)
     else None)"

definition hex4 :: "char \<Rightarrow> char \<Rightarrow> char \<Rightarrow> char \<Rightarrow> nat option" where
  "hex4 a b c d =
    (case (hex_val a, hex_val b, hex_val c, hex_val d) of
       (Some w, Some x, Some y, Some z) \<Rightarrow> Some (((w * 16 + x) * 16 + y) * 16 + z)
     | _ \<Rightarrow> None)"

text \<open>The text after an opening quote: the string and what follows the closing quote.\<close>

fun parse_str :: "string \<Rightarrow> (string \<times> string) option" where
  "parse_str [] = None"
| "parse_str (c # cs) =
    (if c = quote_char then Some ([], cs)
     else if c = backslash then
       (case cs of
          [] \<Rightarrow> None
        | d # ds \<Rightarrow>
            if d = CHR ''u'' then
              (case ds of
                 h1 # h2 # h3 # h4 # r \<Rightarrow>
                   (case hex4 h1 h2 h3 h4 of
                      None \<Rightarrow> None
                    | Some n \<Rightarrow>
                        if n < 256 then map_option (apfst ((#) (char_of n))) (parse_str r) else None)
               | _ \<Rightarrow> None)
            else
              (case json_unesc d of
                 None \<Rightarrow> None
               | Some e \<Rightarrow> map_option (apfst ((#) e)) (parse_str ds)))
     else if (char_code c :: nat) < 32 then None
     else map_option (apfst ((#) c)) (parse_str cs))"

definition digits_val :: "string \<Rightarrow> nat" where
  "digits_val s = foldl (\<lambda>n c. 10 * n + digit_val c) 0 s"

definition parse_nat :: "string \<Rightarrow> (nat \<times> string) option" where
  "parse_nat s =
    (case s of
       [] \<Rightarrow> None
     | c # cs \<Rightarrow>
         if c = CHR ''0'' then Some (0, cs)
         else if is_digit c then Some (digits_val (takeWhile is_digit s), dropWhile is_digit s)
         else None)"

definition parse_int :: "string \<Rightarrow> (int \<times> string) option" where
  "parse_int s =
    (case s of
       [] \<Rightarrow> None
     | c # cs \<Rightarrow>
         if c = CHR ''-'' then map_option (apfst (\<lambda>n. - int n)) (parse_nat cs)
         else map_option (apfst int) (parse_nat s))"

definition parse_lit :: "string \<Rightarrow> json \<Rightarrow> string \<Rightarrow> (json \<times> string) option" where
  "parse_lit lit v s =
    (if take (length lit) s = lit then Some (v, drop (length lit) s) else None)"

text \<open>A later pair with the same key replaces the value of the earlier one.\<close>

definition dict_of :: "(string \<times> json) list \<Rightarrow> (string \<times> json) list" where
  "dict_of kvs = foldl (\<lambda>d kv. AList.update (fst kv) (snd kv) d) [] kvs"

text \<open>
  Recursive descent over the grammar of JSON. Every call spends a unit of fuel; \<open>json_loads\<close>
  starts with twice the length of the text, which is always enough (\<open>parse_fuel_enough\<close> below).
\<close>

fun parse_value :: "nat \<Rightarrow> string \<Rightarrow> (json \<times> string) option"
  and parse_elems :: "nat \<Rightarrow> string \<Rightarrow> (json list \<times> string) option"
  and parse_members :: "nat \<Rightarrow> string \<Rightarrow> ((string \<times> json) list \<times> string) option" where
  "parse_value 0 s = None"
| "parse_value (Suc n) s =
    (case s of
       [] \<Rightarrow> None
     | c # cs \<Rightarrow>
         if c = quote_char then map_option (apfst JStr) (parse_str cs)
         else if c = CHR ''{'' then
           (case skip_ws cs of
              [] \<Rightarrow> None
            | d # ds \<Rightarrow>
                if d = CHR ''}'' then Some (JObj [], ds)
                else map_option (apfst (\<lambda>m. JObj (dict_of m))) (parse_members n (d # ds)))
         else if c = CHR ''['' then
           (case skip_ws cs of
              [] \<Rightarrow> None
            | d # ds \<Rightarrow>
                if d = CHR '']'' then Some (JArr [], ds)
                else map_option (apfst JArr) (parse_elems n (d # ds)))
         else if c = CHR ''n'' then parse_lit ''null'' JNull s
         else if c = CHR ''t'' then parse_lit ''true'' (JBool True) s
         else if c = CHR ''f'' then parse_lit ''false'' (JBool False) s
         else map_option (apfst JInt) (parse_int s))"
| "parse_elems 0 s = None"
| "parse_elems (Suc n) s =
    (case parse_value n s of
       None \<Rightarrow> None
     | Some (v, r) \<Rightarrow>
         (case skip_ws r of
            [] \<Rightarrow> None
          | d # ds \<Rightarrow>
              if d = CHR '']'' then Some ([v], ds)
              else if d = CHR '','' then
                map_option (apfst ((#) v)) (parse_elems n (skip_ws ds))
              else None))"
| "parse_members 0 s = None"
| "parse_members (Suc n) s =
    (case s of
       [] \<Rightarrow> None
     | c # cs \<Rightarrow>
         if c \<noteq> quote_char then None
         else
           (case parse_str cs of
              None \<Rightarrow> None
            | Some (k, r) \<Rightarrow>
                (case skip_ws r of
                   [] \<Rightarrow> None
                 | e # es \<Rightarrow>
                     if e \<noteq> CHR '':'' then None
                     else
                       (case parse_value n (skip_ws es) of
                          None \<Rightarrow> None
                        | Some (v, r') \<Rightarrow>
                            (case skip_ws r' of
                               [] \<Rightarrow> None
                             | d # ds \<Rightarrow>
                                 if d = CHR ''}'' then Some ([(k, v)], ds)
                                 else if d = CHR '','' then
                                   map_option (apfst ((#) (k, v))) (parse_members n (skip_ws ds))
                                 else None)))))"

text \<open>\<^verbatim>\<open>json.loads\<close>.\<close>

definition json_loads :: "string \<Rightarrow> json res" where
  "json_loads s =
    (case parse_value (2 * length s + 2) (skip_ws s) of
       None \<Rightarrow> Inl JSONDecodeError
     | Some (j, r) \<Rightarrow> if skip_ws r = [] then Inr j else Inl JSONDecodeError)"

subsection \<open>Parsing inverts printing\<close>

lemma hex_val_hex_char: "n < 16 \<Longrightarrow> hex_val (hex_char n) = Some n"
  by (auto simp: hex_val_def hex_char_def Let_def)

lemma hex4_byte:
  "n < 256 \<Longrightarrow> hex4 (CHR ''0'') (CHR ''0'') (hex_char (n div 16)) (hex_char (n mod 16)) = Some n"
  by (simp add: hex4_def hex_val_hex_char) (simp add: hex_val_def)

lemma json_plain_cases:
  assumes "json_plain c"
  shows "c \<noteq> quote_char" "c \<noteq> backslash" "\<not> (char_code c :: nat) < 32"
  using assms by (simp_all add: json_plain_def)

lemma parse_str_esc_char:
  "parse_str (json_esc_char c @ cs) = map_option (apfst ((#) c)) (parse_str cs)"
proof (cases "json_plain c")
  case True
  with json_plain_cases [OF True] show ?thesis by (simp add: json_esc_char_def)
next
  case False
  have "(char_code c :: nat) < 256" by simp
  with False show ?thesis
    by (simp add: json_esc_char_def json_unesc_def hex4_byte)
qed

lemma parse_str_esc: "parse_str (json_esc s @ quote_char # r) = Some (s, r)"
  by (induction s) (simp_all add: json_esc_def parse_str_esc_char)

definition ends_number :: "string \<Rightarrow> bool" where
  "ends_number r \<longleftrightarrow> (case r of [] \<Rightarrow> True | c # _ \<Rightarrow> \<not> is_digit c)"

lemma digits_val_snoc: "digits_val (s @ [c]) = 10 * digits_val s + digit_val c"
  by (simp add: digits_val_def)

lemma digits_val_str_nat: "digits_val (str_nat n) = n"
proof (induction n rule: str_nat.induct)
  case (1 n)
  show ?case
  proof (cases "n < 10")
    case True
    then show ?thesis by (subst str_nat.simps) (simp add: digits_val_def)
  next
    case False
    with 1 show ?thesis by (subst str_nat.simps) (simp add: digits_val_snoc)
  qed
qed

lemma digit_char_0: "digit_char 0 = CHR ''0''"
  by code_simp

lemma hd_str_nat: "hd (str_nat n) = CHR ''0'' \<longleftrightarrow> n = 0"
proof (induction n rule: str_nat.induct)
  case (1 n)
  show ?case
  proof (cases "n < 10")
    case True
    have "hd (str_nat n) = digit_char n" using True by (subst str_nat.simps) simp
    moreover have "digit_char n = CHR ''0'' \<longleftrightarrow> n = 0"
    proof
      assume "digit_char n = CHR ''0''"
      with char_code_digit_char [OF True] have "48 + n = of_char (CHR ''0'')" by simp
      then show "n = 0" by simp
    qed (simp add: digit_char_0)
    ultimately show ?thesis by simp
  next
    case False
    with 1 show ?thesis by (subst str_nat.simps) (auto simp: hd_append)
  qed
qed

lemma str_nat_zero: "str_nat 0 = ''0''"
  by (subst str_nat.simps) (simp add: digit_char_0)

lemma takeWhile_str_nat:
  assumes "ends_number r"
  shows "takeWhile is_digit (str_nat n @ r) = str_nat n"
    and "dropWhile is_digit (str_nat n @ r) = r"
  using assms str_nat_digits [of n]
  by (cases r; simp add: ends_number_def takeWhile_append dropWhile_append)+

lemma parse_nat_str_nat:
  assumes "ends_number r"
  shows "parse_nat (str_nat n @ r) = Some (n, r)"
proof (cases "n = 0")
  case True
  then show ?thesis by (simp add: str_nat_zero parse_nat_def)
next
  case False
  obtain c cs where c: "str_nat n = c # cs" by (cases "str_nat n") auto
  with False hd_str_nat [of n] have "c \<noteq> CHR ''0''" by simp
  moreover from c str_nat_digits [of n] have "is_digit c" by simp
  ultimately have "parse_nat (str_nat n @ r) =
      Some (digits_val (takeWhile is_digit (str_nat n @ r)), dropWhile is_digit (str_nat n @ r))"
    by (simp add: parse_nat_def c)
  then show ?thesis by (simp add: takeWhile_str_nat [OF assms] digits_val_str_nat)
qed

lemma parse_int_str_int:
  assumes "ends_number r"
  shows "parse_int (str_int i @ r) = Some (i, r)"
proof (cases "i < 0")
  case True
  then show ?thesis using parse_nat_str_nat [OF assms] by (simp add: parse_int_def str_int_def)
next
  case False
  obtain c cs where c: "str_nat (nat i) = c # cs" by (cases "str_nat (nat i)") auto
  with str_nat_digits [of "nat i"] have "is_digit c" by simp
  then have "c \<noteq> CHR ''-''" by (auto simp: is_digit_def)
  with False c parse_nat_str_nat [OF assms, of "nat i"] show ?thesis
    by (simp add: parse_int_def str_int_def)
qed

text \<open>The first character of a printed value tells its kind.\<close>

lemma str_int_head:
  obtains c cs where "str_int i = c # cs" and "is_digit c \<or> c = CHR ''-''"
proof (cases "i < 0")
  case True
  with that show ?thesis by (simp add: str_int_def)
next
  case False
  obtain c cs where c: "str_nat (nat i) = c # cs" by (cases "str_nat (nat i)") auto
  with str_nat_digits [of "nat i"] False that show ?thesis by (simp add: str_int_def)
qed

lemma dumps_value_head:
  obtains c cs where "dumps_value p j = c # cs" and "\<not> json_ws c" and "c \<noteq> CHR '']''"
proof (cases j)
  case (JInt i)
  obtain c cs where "str_int i = c # cs" "is_digit c \<or> c = CHR ''-''" by (rule str_int_head)
  moreover then have "\<not> json_ws c" "c \<noteq> CHR '']''"
    by (auto simp: json_ws_def is_digit_def)
  ultimately show ?thesis using JInt that by simp
next
  case (JBool b)
  with that show ?thesis by (cases b) (auto simp: json_ws_def)
qed (use that in \<open>auto simp: json_ws_def json_quote_def\<close>)

lemma skip_ws_dumps: "skip_ws (dumps_value p j @ r) = dumps_value p j @ r"
  by (rule dumps_value_head [of p j]) simp

lemma skip_ws_seps:
  "skip_ws (item_sep p @ s) = CHR '','' # drop 1 (item_sep p) @ s"
  "skip_ws (drop 1 (item_sep p) @ s) = skip_ws s"
  "skip_ws (key_sep p @ s) = CHR '':'' # drop 1 (key_sep p) @ s"
  "skip_ws (drop 1 (key_sep p) @ s) = skip_ws s"
  by (simp_all add: item_sep_def key_sep_def json_ws_def)

lemma item_sep_ends_number: "ends_number (item_sep p @ s)"
  by (simp add: item_sep_def ends_number_def is_digit_def)

text \<open>Fuel a value needs, and objects with distinct keys throughout.\<close>

fun fuel_value :: "json \<Rightarrow> nat"
  and fuel_elems :: "json list \<Rightarrow> nat"
  and fuel_members :: "(string \<times> json) list \<Rightarrow> nat" where
  "fuel_value (JArr xs) = Suc (fuel_elems xs)"
| "fuel_value (JObj kvs) = Suc (fuel_members kvs)"
| "fuel_value JNull = 1"
| "fuel_value (JBool b) = 1"
| "fuel_value (JInt i) = 1"
| "fuel_value (JStr s) = 1"
| "fuel_elems [] = 0"
| "fuel_elems (x # xs) = Suc (max (fuel_value x) (fuel_elems xs))"
| "fuel_members [] = 0"
| "fuel_members (kv # kvs) = Suc (max (fuel_value (snd kv)) (fuel_members kvs))"

fun json_wf :: "json \<Rightarrow> bool"
  and json_wf_elems :: "json list \<Rightarrow> bool"
  and json_wf_members :: "(string \<times> json) list \<Rightarrow> bool" where
  "json_wf (JArr xs) = json_wf_elems xs"
| "json_wf (JObj kvs) = (distinct (map fst kvs) \<and> json_wf_members kvs)"
| "json_wf JNull = True"
| "json_wf (JBool b) = True"
| "json_wf (JInt i) = True"
| "json_wf (JStr s) = True"
| "json_wf_elems [] = True"
| "json_wf_elems (x # xs) = (json_wf x \<and> json_wf_elems xs)"
| "json_wf_members [] = True"
| "json_wf_members (kv # kvs) = (json_wf (snd kv) \<and> json_wf_members kvs)"

lemma foldl_update_distinct:
  "distinct (map fst kvs) \<Longrightarrow> fst ` set kvs \<inter> fst ` set d = {} \<Longrightarrow>
    foldl (\<lambda>d kv. AList.update (fst kv) (snd kv) d) d kvs = d @ kvs"
proof (induction kvs arbitrary: d)
  case Nil
  then show ?case by simp
next
  case (Cons kv kvs)
  then have "AList.update (fst kv) (snd kv) d = d @ [kv]"
    by (simp add: dict_update_fresh)
  with Cons show ?case by (auto simp: Cons.IH)
qed

lemma dict_of_distinct: "distinct (map fst kvs) \<Longrightarrow> dict_of kvs = kvs"
  by (simp add: dict_of_def foldl_update_distinct)

lemma dumps_elems_Cons_head:
  assumes "xs \<noteq> []"
  obtains c cs where "dumps_elems p xs = c # cs" and "\<not> json_ws c" and "c \<noteq> CHR '']''"
proof -
  from assms obtain y ys where xs: "xs = y # ys" by (cases xs) auto
  show ?thesis by (rule dumps_value_head [of p y]) (use that xs in auto)
qed

lemma dumps_members_Cons_head:
  assumes "kvs \<noteq> []"
  obtains cs where "dumps_members p kvs = quote_char # cs"
proof -
  from assms obtain y ys where xs: "kvs = y # ys" by (cases kvs) auto
  show ?thesis by (rule that) (simp add: xs json_quote_def)
qed

lemma parse_dumps:
  "json_wf j \<Longrightarrow> fuel_value j \<le> n \<Longrightarrow> ends_number r \<Longrightarrow>
    parse_value n (dumps_value p j @ r) = Some (j, r)"
  "json_wf_elems xs \<Longrightarrow> xs \<noteq> [] \<Longrightarrow> fuel_elems xs \<le> n \<Longrightarrow>
    parse_elems n (dumps_elems p xs @ CHR '']'' # r) = Some (xs, r)"
  "json_wf_members kvs \<Longrightarrow> kvs \<noteq> [] \<Longrightarrow> fuel_members kvs \<le> n \<Longrightarrow>
    parse_members n (dumps_members p kvs @ CHR ''}'' # r) = Some (kvs, r)"
proof (induction j and xs and kvs arbitrary: n r and n r and n r
    rule: fuel_value_fuel_elems_fuel_members.induct)
  case (1 xs)
  then obtain m where n: "n = Suc m" "fuel_elems xs \<le> m" by (cases n) auto
  show ?case
  proof (cases "xs = []")
    case True
    with n show ?thesis by (simp add: json_ws_def)
  next
    case False
    then obtain c cs where c: "dumps_elems p xs = c # cs" "\<not> json_ws c" "c \<noteq> CHR '']''"
      by (rule dumps_elems_Cons_head)
    with "1.IH" [of m r] "1.prems" n False show ?thesis by simp
  qed
next
  case (2 kvs)
  then obtain m where n: "n = Suc m" "fuel_members kvs \<le> m" by (cases n) auto
  show ?case
  proof (cases "kvs = []")
    case True
    with n show ?thesis by (simp add: json_ws_def)
  next
    case False
    then obtain cs where c: "dumps_members p kvs = quote_char # cs"
      by (rule dumps_members_Cons_head)
    with "2.IH" [of m r] "2.prems" n False show ?thesis
      by (simp add: json_ws_def dict_of_distinct)
  qed
next
  case 3
  then show ?case by (cases n) (auto simp: parse_lit_def)
next
  case (4 b)
  then show ?case by (cases n; cases b) (auto simp: parse_lit_def)
next
  case (5 i)
  then obtain m where n: "n = Suc m" by (cases n) auto
  obtain c cs where c: "str_int i = c # cs" "is_digit c \<or> c = CHR ''-''" by (rule str_int_head)
  then have "c \<notin> {quote_char, CHR ''{'', CHR ''['', CHR ''n'', CHR ''t'', CHR ''f''}"
    by (auto simp: is_digit_def)
  with n c parse_int_str_int [OF "5.prems"(3), of i] show ?case by simp
next
  case (6 s)
  then show ?case by (cases n) (auto simp: json_quote_def parse_str_esc)
next
  case 7
  then show ?case by simp
next
  case (8 x xs)
  then obtain m where n: "n = Suc m" "fuel_value x \<le> m" "fuel_elems xs \<le> m" by (cases n) auto
  show ?case
  proof (cases "xs = []")
    case True
    with "8.IH"(1) [of m "CHR '']'' # r"] "8.prems" n show ?thesis
      by (simp add: ends_number_def is_digit_def json_ws_def)
  next
    case False
    have v: "parse_value m (dumps_value p x @ item_sep p @ dumps_elems p xs @ CHR '']'' # r) =
        Some (x, item_sep p @ dumps_elems p xs @ CHR '']'' # r)"
      using "8.IH"(1) [of m] "8.prems" n by (simp add: item_sep_ends_number)
    obtain c cs where c: "dumps_elems p xs = c # cs" "\<not> json_ws c"
      using False by (rule dumps_elems_Cons_head)
    then have "skip_ws (dumps_elems p xs @ CHR '']'' # r) = dumps_elems p xs @ CHR '']'' # r"
      by simp
    with v "8.IH"(2) [of m r] "8.prems" n False show ?thesis
      by (simp add: skip_ws_seps del: One_nat_def)
  qed
next
  case 9
  then show ?case by simp
next
  case (10 kv kvs)
  then obtain m where n: "n = Suc m" "fuel_value (snd kv) \<le> m" "fuel_members kvs \<le> m"
    by (cases n) auto
  show ?case
  proof (cases "kvs = []")
    case True
    with "10.IH"(1) [of m "CHR ''}'' # r"] "10.prems" n show ?thesis
      by (simp add: json_quote_def parse_str_esc skip_ws_seps skip_ws_dumps ends_number_def
          is_digit_def json_ws_def del: One_nat_def)
  next
    case False
    have v: "parse_value m (dumps_value p (snd kv) @ item_sep p @ dumps_members p kvs @ CHR ''}'' # r) =
        Some (snd kv, item_sep p @ dumps_members p kvs @ CHR ''}'' # r)"
      using "10.IH"(1) [of m] "10.prems" n by (simp add: item_sep_ends_number)
    obtain cs where c: "dumps_members p kvs = quote_char # cs"
      using False by (rule dumps_members_Cons_head)
    then have "skip_ws (dumps_members p kvs @ CHR ''}'' # r) = dumps_members p kvs @ CHR ''}'' # r"
      by (simp add: json_ws_def)
    with v "10.IH"(2) [of m r] "10.prems" n False show ?thesis
      by (simp add: json_quote_def parse_str_esc skip_ws_seps skip_ws_dumps del: One_nat_def)
  qed
qed

lemma fuel_le_length:
  "fuel_value j \<le> 2 * length (dumps_value p j) + 1"
  "fuel_elems xs \<le> 2 * length (dumps_elems p xs) + 2"
  "fuel_members kvs \<le> 2 * length (dumps_members p kvs) + 2"
proof (induction j and xs and kvs rule: fuel_value_fuel_elems_fuel_members.induct)
  case (8 x xs)
  then show ?case by (auto simp: item_sep_def)
next
  case (10 kv kvs)
  then show ?case by (auto simp: item_sep_def)
qed auto

theorem json_loads_dumps_value: "json_wf j \<Longrightarrow> json_loads (dumps_value p j) = Inr j"
proof -
  assume wf: "json_wf j"
  have "fuel_value j \<le> 2 * length (dumps_value p j) + 2"
    using fuel_le_length(1) [of j p] by simp
  from parse_dumps(1) [OF wf this, of "[]" p] have
    "parse_value (2 * length (dumps_value p j) + 2) (dumps_value p j) = Some (j, [])"
    by (simp add: ends_number_def)
  moreover have "skip_ws (dumps_value p j) = dumps_value p j"
    using skip_ws_dumps [of p j "[]"] by simp
  ultimately show ?thesis by (simp add: json_loads_def)
qed

lemma json_loads_dumps [simp]: "json_wf j \<Longrightarrow> json_loads (json_dumps j) = Inr j"
  by (simp add: json_dumps_def json_loads_dumps_value)

subsection \<open>The parser's fuel is always enough\<close>

lemma length_skip_ws: "length (skip_ws s) \<le> length s"
  by (rule length_dropWhile_le)

lemma skip_ws_Cons_length: "skip_ws s = d # ds \<Longrightarrow> Suc (length ds) \<le> length s"
  using length_skip_ws [of s] by simp

lemma parse_str_length: "parse_str s = Some (k, r) \<Longrightarrow> length r < length s"
proof (induction s arbitrary: k rule: parse_str.induct)
  case (2 c cs)
  then show ?case
    by (fastforce split: if_splits list.splits option.splits)
qed simp

lemma parse_nat_length: "parse_nat s = Some (i, r) \<Longrightarrow> length r < length s"
  using length_dropWhile_le [of is_digit "tl s"]
  by (cases s) (auto simp: parse_nat_def split: if_splits)

lemma parse_int_length: "parse_int s = Some (i, r) \<Longrightarrow> length r < length s"
  by (cases s) (fastforce simp: parse_int_def dest: parse_nat_length split: if_splits)+

lemma parse_lit_length: "parse_lit lit v s = Some (j, r) \<Longrightarrow> lit \<noteq> [] \<Longrightarrow> s \<noteq> [] \<Longrightarrow> length r < length s"
  by (auto simp: parse_lit_def split: if_splits)

lemma parse_length:
  "parse_value n s = Some (v, r) \<Longrightarrow> length r < length s"
  "parse_elems n s = Some (xs, r) \<Longrightarrow> length r < length s"
  "parse_members n s = Some (kvs, r) \<Longrightarrow> length r < length s"
proof (induction n arbitrary: s v r xs kvs)
  case 0
  {
    case 1
    then show ?case by simp
  next
    case 2
    then show ?case by simp
  next
    case 3
    then show ?case by simp
  }
next
  case (Suc n)
  {
    case 1
    then show ?case
      by (auto split: list.splits if_splits
          dest!: parse_str_length parse_int_length parse_lit_length Suc.IH skip_ws_Cons_length)
  next
    case 2
    then obtain w r1 d ds where "parse_value n s = Some (w, r1)" "skip_ws r1 = d # ds"
      by (auto split: option.splits list.splits)
    moreover from this have "length r1 < length s" "Suc (length ds) \<le> length r1"
      by (auto dest: Suc.IH(1) skip_ws_Cons_length)
    ultimately show ?case
      using 2 length_skip_ws [of ds] by (auto split: if_splits dest!: Suc.IH(2))
  next
    case 3
    then obtain cs k r0 es w r1 d ds where "s = quote_char # cs" "parse_str cs = Some (k, r0)"
        "skip_ws r0 = CHR '':'' # es" "parse_value n (skip_ws es) = Some (w, r1)" "skip_ws r1 = d # ds"
      by (auto split: option.splits list.splits if_splits)
    moreover from this have "length r0 < length cs" "Suc (length es) \<le> length r0"
        "length r1 < length (skip_ws es)" "Suc (length ds) \<le> length r1"
      by (auto dest: Suc.IH(1) skip_ws_Cons_length parse_str_length)
    ultimately show ?case
      using 3 length_skip_ws [of ds] length_skip_ws [of es]
      by (auto split: if_splits dest!: Suc.IH(3))
  }
qed

text \<open>More fuel than twice the length of the text never changes the outcome.\<close>

lemma parse_fuel_enough:
  "2 * length s < n \<Longrightarrow> parse_value (Suc n) s = parse_value n s"
  "2 * length s + 1 < n \<Longrightarrow> parse_elems (Suc n) s = parse_elems n s"
  "2 * length s + 1 < n \<Longrightarrow> parse_members (Suc n) s = parse_members n s"
proof (induction n arbitrary: s)
  case 0
  {
    case 1
    then show ?case by simp
  next
    case 2
    then show ?case by simp
  next
    case 3
    then show ?case by simp
  }
next
  case (Suc n)
  {
    case 1
    have "parse_members (Suc n) (d # ds) = parse_members n (d # ds)"
      and "parse_elems (Suc n) (d # ds) = parse_elems n (d # ds)"
      if "s = c # cs" "skip_ws cs = d # ds" for c cs d ds
    proof -
      have "2 * length (d # ds) + 1 < n" using 1 that skip_ws_Cons_length [of cs d ds] by simp
      then show "parse_members (Suc n) (d # ds) = parse_members n (d # ds)"
        and "parse_elems (Suc n) (d # ds) = parse_elems n (d # ds)"
        by (rule Suc.IH(3), rule Suc.IH(2))
    qed
    note step = this
    show ?case
    proof (cases s)
      case Nil
      then show ?thesis by simp
    next
      case (Cons c cs)
      show ?thesis
      proof (cases "skip_ws cs")
        case Nil
        with Cons show ?thesis
          by (simp add: parse_value.simps(2) [of _ "c # cs"]
              del: parse_value.simps dropWhile_eq_Nil_conv)
      next
        case (Cons d ds)
        with step [OF \<open>s = c # cs\<close> Cons] \<open>s = c # cs\<close> show ?thesis
          by (simp add: parse_value.simps(2) [of _ "c # cs"]
              del: parse_value.simps parse_elems.simps parse_members.simps)
      qed
    qed
  next
    case 2
    have v: "parse_value (Suc n) s = parse_value n s" using 2 by (intro Suc.IH) simp
    have "parse_elems (Suc n) (skip_ws ds) = parse_elems n (skip_ws ds)"
      if "parse_value n s = Some (w, r)" "skip_ws r = d # ds" for w r d ds
      using 2 parse_length(1) [OF that(1)] skip_ws_Cons_length [OF that(2)] length_skip_ws [of ds]
      by (intro Suc.IH) simp
    then show ?case
      by (auto simp: v parse_elems.simps(2) [of "Suc n" s] parse_elems.simps(2) [of n s]
          simp del: parse_value.simps parse_elems.simps parse_members.simps dropWhile_eq_Nil_conv
          split: option.split list.split)
  next
    case 3
    have v: "parse_value (Suc n) (skip_ws es) = parse_value n (skip_ws es)"
      if "s = c # cs" "parse_str cs = Some (k, r)" "skip_ws r = e # es" for c cs k r e es
      using 3 that parse_str_length [OF that(2)] skip_ws_Cons_length [OF that(3)] length_skip_ws [of es]
      by (intro Suc.IH) simp
    have m: "parse_members (Suc n) (skip_ws ds) = parse_members n (skip_ws ds)"
      if "s = c # cs" "parse_str cs = Some (k, r)" "skip_ws r = e # es"
        "parse_value n (skip_ws es) = Some (w, r')" "skip_ws r' = d # ds"
      for c cs k r e es w r' d ds
      using 3 that(1) parse_str_length [OF that(2)] skip_ws_Cons_length [OF that(3)]
        parse_length(1) [OF that(4)] skip_ws_Cons_length [OF that(5)]
        length_skip_ws [of ds] length_skip_ws [of es]
      by (intro Suc.IH) simp
    show ?case
      by (auto simp: v m parse_members.simps(2) [of "Suc n" s] parse_members.simps(2) [of n s]
          simp del: parse_value.simps parse_elems.simps parse_members.simps dropWhile_eq_Nil_conv
          split: option.split list.split)
  }
qed

section \<open>Printed values are ASCII\<close>

lemma is_ascii_simps [simp]:
  "is_ascii []"
  "is_ascii (c # s) \<longleftrightarrow> char_code c < (128 :: nat) \<and> is_ascii s"
  "is_ascii (s @ t) \<longleftrightarrow> is_ascii s \<and> is_ascii t"
  by (auto simp: is_ascii_def)

lemma hex_char_ascii: "n < 16 \<Longrightarrow> char_code (hex_char n) < (128 :: nat)"
  by (auto simp: hex_char_def)

lemma json_esc_char_ascii: "is_ascii (json_esc_char c)"
proof -
  have "(char_code c :: nat) < 16 * 16" using nat_of_char_less_256 [of c] by simp
  then have "(char_code c :: nat) div 16 < 16" by (rule less_mult_imp_div_less)
  then show ?thesis
    by (auto simp: json_esc_char_def json_plain_def intro: hex_char_ascii)
qed

lemma json_quote_ascii [simp]: "is_ascii (json_quote s)"
proof -
  have "is_ascii (json_esc s)"
    by (induction s) (simp_all add: json_esc_def json_esc_char_ascii)
  then show ?thesis by (simp add: json_quote_def)
qed

lemma str_int_ascii [simp]: "is_ascii (str_int i)"
proof -
  have "is_ascii (str_nat n)" for n
    using str_nat_digits [of n] by (auto simp: is_ascii_def is_digit_def)
  then show ?thesis by (simp add: str_int_def)
qed

lemma seps_ascii [simp]: "is_ascii (item_sep p)" "is_ascii (key_sep p)"
  by (simp_all add: item_sep_def key_sep_def)

lemma dumps_ascii:
  "is_ascii (dumps_value p j)"
  "is_ascii (dumps_elems p xs)"
  "is_ascii (dumps_members p kvs)"
  by (induction p j and p xs and p kvs rule: dumps_value_dumps_elems_dumps_members.induct) auto

lemma json_dumps_ascii [simp]: "is_ascii (json_dumps j)" "is_ascii (json_dumps_canonical j)"
  by (simp_all add: json_dumps_def json_dumps_canonical_def dumps_ascii)

text \<open>Base64 and JSON texts pass through UTF-8 unchanged.\<close>

lemma b64_json_text [simp]:
  "utf8_decode (b64encode s) = Inr (b64encode s)"
  "utf8_encode (json_dumps j) = json_dumps j"
  "utf8_decode (json_dumps j) = Inr (json_dumps j)"
  by (simp_all add: utf8_encode_ascii utf8_decode_ascii b64encode_ascii)

end
