(* ===== verification/Template.thy ===== *)
theory Template
  imports Json
begin

text \<open>
  Python's \<^verbatim>\<open>string.Template\<close> and the sources' \<^verbatim>\<open>replace_vars\<close>, which fills
  the placeholders of a policy document in its serialised form and parses the result. The main
  fact is that for values of plain characters this textual substitution is the structural one:
  every string of the document is substituted on its own, and no value can change the shape of
  the document.
\<close>

section \<open>Substitution\<close>

definition is_id_start :: "char \<Rightarrow> bool" where
  "is_id_start c \<longleftrightarrow>
    (let n = char_code c :: nat in c = CHR ''_'' \<or> (65 \<le> n \<and> n \<le> 90) \<or> (97 \<le> n \<and> n \<le> 122))"

definition is_id_char :: "char \<Rightarrow> bool" where
  "is_id_char c \<longleftrightarrow> is_id_start c \<or> is_digit c"

definition lookup_var :: "(string, string) dict \<Rightarrow> string \<Rightarrow> string res" where
  "lookup_var vars name = (case map_of vars name of None \<Rightarrow> Inl (KeyError name) | Some v \<Rightarrow> Inr v)"

lemma dropWhile_Cons_length: "dropWhile P ds = e # es \<Longrightarrow> length es < length ds"
  using length_dropWhile_le [of P ds] by simp

abbreviation invalid_placeholder :: exc where
  "invalid_placeholder \<equiv> ValueError ''Invalid placeholder in string''"

text \<open>
  \<^verbatim>\<open>Template(content).substitute(vars)\<close>: \<open>$$\<close> is an escaped dollar, \<open>$name\<close> and
  \<open>${name}\<close> are replaced, any other dollar is an error. The values are the
  \<^verbatim>\<open>str()\<close> of the mapping's values.
\<close>

function template_substitute :: "(string, string) dict \<Rightarrow> string \<Rightarrow> string res" where
  "template_substitute vars [] = Inr []"
| "template_substitute vars (c # cs) =
    (if c \<noteq> CHR ''$'' then bind_res (template_substitute vars cs) (\<lambda>s. Inr (c # s))
     else
       (case cs of
          [] \<Rightarrow> Inl invalid_placeholder
        | d # ds \<Rightarrow>
            if d = CHR ''$'' then bind_res (template_substitute vars ds) (\<lambda>s. Inr (d # s))
            else if is_id_start d then
              bind_res (lookup_var vars (takeWhile is_id_char (d # ds))) (\<lambda>v.
              bind_res (template_substitute vars (dropWhile is_id_char (d # ds))) (\<lambda>s. Inr (v @ s)))
            else if d = CHR ''{'' then
              (case (takeWhile is_id_char ds, dropWhile is_id_char ds) of
                 (i # js, e # es) \<Rightarrow>
                   if is_id_start i \<and> e = CHR ''}'' then
                     bind_res (lookup_var vars (i # js)) (\<lambda>v.
                     bind_res (template_substitute vars es) (\<lambda>s. Inr (v @ s)))
                   else Inl invalid_placeholder
               | _ \<Rightarrow> Inl invalid_placeholder)
            else Inl invalid_placeholder))"
  by pat_completeness auto

termination
proof (relation "measure (\<lambda>(vars, s). length s)", goal_cases)
  case 1
  then show ?case by simp
next
  case 2
  then show ?case by simp
next
  case 3
  then show ?case by simp
next
  case (4 vars c cs d ds v)
  then have "is_id_char d" by (simp add: is_id_char_def)
  with 4 length_dropWhile_le [of is_id_char ds] show ?case by simp
next
  case (5 vars c cs d ds x y i js e es v)
  then have "dropWhile is_id_char ds = e # es" by simp
  with 5 show ?case by (auto dest: dropWhile_Cons_length)
qed

declare template_substitute.simps(2) [simp del]

text \<open>\<^verbatim>\<open>replace_vars(content, vars)\<close>.\<close>

definition replace_vars :: "string \<Rightarrow> (string, string) dict \<Rightarrow> json res" where
  "replace_vars content vars = bind_res (template_substitute vars content) json_loads"

section \<open>Structural substitution\<close>

text \<open>The specification: the template of every string and key of the document, on its own.\<close>

fun subst_value :: "(string, string) dict \<Rightarrow> json \<Rightarrow> json res"
  and subst_elems :: "(string, string) dict \<Rightarrow> json list \<Rightarrow> json list res"
  and subst_members :: "(string, string) dict \<Rightarrow> (string \<times> json) list \<Rightarrow> (string \<times> json) list res" where
  "subst_value vars (JStr s) = bind_res (template_substitute vars s) (\<lambda>t. Inr (JStr t))"
| "subst_value vars (JArr xs) = bind_res (subst_elems vars xs) (\<lambda>ys. Inr (JArr ys))"
| "subst_value vars (JObj kvs) = bind_res (subst_members vars kvs) (\<lambda>ms. Inr (JObj ms))"
| "subst_value vars JNull = Inr JNull"
| "subst_value vars (JBool b) = Inr (JBool b)"
| "subst_value vars (JInt i) = Inr (JInt i)"
| "subst_elems vars [] = Inr []"
| "subst_elems vars (x # xs) =
    bind_res (subst_value vars x) (\<lambda>y. bind_res (subst_elems vars xs) (\<lambda>ys. Inr (y # ys)))"
| "subst_members vars [] = Inr []"
| "subst_members vars (kv # kvs) =
    bind_res (template_substitute vars (fst kv)) (\<lambda>k.
    bind_res (subst_value vars (snd kv)) (\<lambda>v.
    bind_res (subst_members vars kvs) (\<lambda>ms. Inr ((k, v) # ms))))"

definition plain_vars :: "(string, string) dict \<Rightarrow> bool" where
  "plain_vars vars \<longleftrightarrow> list_all (\<lambda>kv. list_all json_plain (snd kv)) vars"

lemma json_esc_plain: "list_all json_plain s \<Longrightarrow> json_esc s = s"
  by (induction s) (simp_all add: json_esc_def json_esc_char_def)

lemma lookup_var_plain:
  "plain_vars vars \<Longrightarrow> lookup_var vars n = Inr v \<Longrightarrow> json_esc v = v"
  by (auto simp: lookup_var_def plain_vars_def list_all_iff split: option.splits
      dest!: map_of_SomeD intro!: json_esc_plain)

lemma json_esc_append: "json_esc (s @ t) = json_esc s @ json_esc t"
  by (simp add: json_esc_def)

lemma json_esc_Cons: "json_esc (c # s) = json_esc_char c @ json_esc s"
  by (simp add: json_esc_def)

text \<open>Characters that the scanner tests are plain; an escape starts with a backslash.\<close>

lemma id_char_plain: "is_id_char c \<Longrightarrow> json_plain c"
  by (auto simp: is_id_char_def is_id_start_def is_digit_def json_plain_def Let_def)

lemma special_plain: "json_plain (CHR ''$'')" "json_plain (CHR ''{'')" "json_plain (CHR ''}'')"
  by (simp_all add: json_plain_def)

lemma json_esc_char_plain: "json_plain c \<Longrightarrow> json_esc_char c = [c]"
  by (simp add: json_esc_char_def)

lemma hex_char_not_dollar: "n < 16 \<Longrightarrow> hex_char n \<noteq> CHR ''$''"
  using hex_val_hex_char [of n] by (auto simp: hex_val_def)

lemma json_esc_char_no_dollar: "c \<noteq> CHR ''$'' \<Longrightarrow> CHR ''$'' \<notin> set (json_esc_char c)"
proof -
  assume "c \<noteq> CHR ''$''"
  moreover have "char_code c div 16 < (16 :: nat)" "char_code c mod 16 < (16 :: nat)"
    by (rule less_mult_imp_div_less, simp) simp
  then have "CHR ''$'' \<noteq> hex_char (char_code c div 16)" "CHR ''$'' \<noteq> hex_char (char_code c mod 16)"
    using hex_char_not_dollar by metis+
  ultimately show ?thesis by (simp add: json_esc_char_def)
qed

lemma json_esc_char_escape:
  "\<not> json_plain c \<Longrightarrow> \<exists>t. json_esc_char c = backslash # t"
  by (simp add: json_esc_char_def)

lemma backslash_not_id: "\<not> is_id_char backslash" "\<not> is_id_char quote_char"
  by (simp_all add: is_id_char_def is_id_start_def is_digit_def)

lemma span_esc:
  "takeWhile is_id_char (json_esc s @ quote_char # r) = takeWhile is_id_char s"
  "dropWhile is_id_char (json_esc s @ quote_char # r) = json_esc (dropWhile is_id_char s) @ quote_char # r"
proof (induction s)
  case Nil
  {
    case 1
    then show ?case by (simp add: json_esc_def backslash_not_id)
  next
    case 2
    then show ?case by (simp add: json_esc_def backslash_not_id)
  }
next
  case (Cons c s)
  have c: "is_id_char c \<Longrightarrow> json_esc_char c = [c]"
    "\<not> is_id_char c \<Longrightarrow> \<exists>d t. json_esc_char c = d # t \<and> \<not> is_id_char d"
    using json_esc_char_escape [of c] backslash_not_id json_esc_char_plain [of c] id_char_plain [of c]
    by (cases "json_plain c"; auto)+
  {
    case 1
    then show ?case using c Cons(1) by (cases "is_id_char c") (auto simp: json_esc_Cons)
  next
    case 2
    then show ?case using c Cons(2) by (cases "is_id_char c") (auto simp: json_esc_Cons)
  }
qed

text \<open>Text without a dollar is copied.\<close>

lemma template_no_dollar:
  "CHR ''$'' \<notin> set t \<Longrightarrow>
    template_substitute vars (t @ r) = bind_res (template_substitute vars r) (\<lambda>s. Inr (t @ s))"
  by (induction t) (auto simp: template_substitute.simps(2) bind_res_assoc bind_res_def split: sum.splits)

lemma json_esc_char_head:
  obtains d t where "json_esc_char c = d # t"
    and "d = c \<or> (d = backslash \<and> \<not> json_plain c)"
proof (cases "json_plain c")
  case True
  with that show ?thesis by (simp add: json_esc_char_plain)
next
  case False
  with json_esc_char_escape [OF False] that show ?thesis by auto
qed

lemma bind_res_commute_Cons:
  "bind_res (bind_res m (\<lambda>s. Inr (f s))) g = bind_res m (\<lambda>s. g (f s))"
  by (simp add: bind_res_assoc)

lemma not_id_start:
  "\<not> is_id_start (CHR ''{'')" "\<not> is_id_start (CHR ''$'')" "\<not> is_id_start quote_char"
  "\<not> is_id_start backslash"
  by (simp_all add: is_id_start_def)

text \<open>
  Substitution in an escaped string: a placeholder of the string is a placeholder of the text,
  and an escape sequence never takes part in one.
\<close>

lemma template_esc:
  assumes "plain_vars vars"
  shows "template_substitute vars (json_esc s @ quote_char # r) =
    bind_res (template_substitute vars s) (\<lambda>t.
    bind_res (template_substitute vars (quote_char # r)) (\<lambda>u. Inr (json_esc t @ u)))"
  using assms
proof (induction vars s rule: template_substitute.induct)
  case (1 vars)
  then show ?case by (simp add: json_esc_def)
next
  case (2 vars c cs)
  show ?case
  proof (cases "c = CHR ''$''")
    case False
    then have "template_substitute vars (json_esc (c # cs) @ quote_char # r) =
        bind_res (template_substitute vars (json_esc cs @ quote_char # r)) (\<lambda>s. Inr (json_esc_char c @ s))"
      by (simp add: json_esc_Cons template_no_dollar json_esc_char_no_dollar)
    with False 2 show ?thesis
      by (simp add: template_substitute.simps(2) bind_res_assoc json_esc_Cons)
  next
    case dollar: True
    have esc: "json_esc (c # cs) @ quote_char # r = CHR ''$'' # (json_esc cs @ quote_char # r)"
      by (simp add: dollar json_esc_Cons json_esc_char_plain special_plain)
    show ?thesis
    proof (cases cs)
      case Nil
      then show ?thesis unfolding esc
        by (simp add: dollar json_esc_def template_substitute.simps(2) not_id_start)
    next
      case (Cons d ds)
      obtain e t where e: "json_esc_char d = e # t" "e = d \<or> (e = backslash \<and> \<not> json_plain d)"
        by (rule json_esc_char_head)
      consider (dollar) "d = CHR ''$''" | (name) "is_id_start d" "d \<noteq> CHR ''$''"
        | (brace) "d = CHR ''{''" | (bad) "d \<noteq> CHR ''$''" "\<not> is_id_start d" "d \<noteq> CHR ''{''"
        by blast
      then show ?thesis
      proof cases
        case dollar
        with 2 Cons \<open>c = CHR ''$''\<close> show ?thesis unfolding esc
          by (simp add: template_substitute.simps(2) [of vars "CHR ''$''"] json_esc_Cons
              json_esc_char_plain special_plain bind_res_assoc)
      next
        case name
        then have d: "json_esc_char d = [d]" "is_id_char d"
          by (simp_all add: is_id_char_def json_esc_char_plain id_char_plain)
        have span: "takeWhile is_id_char (d # json_esc ds @ quote_char # r) = takeWhile is_id_char (d # ds)"
          "dropWhile is_id_char (d # json_esc ds @ quote_char # r) =
            json_esc (dropWhile is_id_char (d # ds)) @ quote_char # r"
          using d by (simp_all add: span_esc)
        show ?thesis unfolding esc
          using 2 Cons name d dollar
          by (simp add: template_substitute.simps(2) [of vars "CHR ''$''"] json_esc_Cons span
              bind_res_assoc json_esc_append lookup_var_plain cong: bind_res_cong
              del: takeWhile.simps dropWhile.simps)
      next
        case brace
        have body: "json_esc cs @ quote_char # r = CHR ''{'' # json_esc ds @ quote_char # r"
          by (simp add: Cons brace json_esc_Cons json_esc_char_plain special_plain)
        show ?thesis
        proof (cases "takeWhile is_id_char ds")
          case Nil
          with brace dollar Cons show ?thesis unfolding esc body
            by (simp add: template_substitute.simps(2) [of vars "CHR ''$''"] span_esc not_id_start)
        next
          case name: (Cons i js)
          show ?thesis
          proof (cases "dropWhile is_id_char ds")
            case Nil
            then have "dropWhile is_id_char (json_esc ds @ quote_char # r) = quote_char # r"
              by (simp only: span_esc) (simp add: json_esc_def)
            with Nil name brace dollar Cons show ?thesis unfolding esc body
              by (simp add: template_substitute.simps(2) [of vars "CHR ''$''"] span_esc(1) not_id_start
                  del: dropWhile_eq_Nil_conv)
          next
            case rest: (Cons f fs)
            obtain g u where g: "json_esc_char f = g # u" "g = f \<or> (g = backslash \<and> \<not> json_plain f)"
              by (rule json_esc_char_head)
            have drop: "dropWhile is_id_char (json_esc ds @ quote_char # r) =
                g # u @ json_esc fs @ quote_char # r"
              by (simp only: span_esc rest) (simp add: json_esc_Cons g)
            show ?thesis
            proof (cases "is_id_start i \<and> f = CHR ''}''")
              case True
              then have "g = f" "u = []" using g special_plain by (auto simp: json_esc_char_def)
              with 2 True name rest drop brace dollar Cons show ?thesis unfolding esc body
                by (simp add: template_substitute.simps(2) [of vars "CHR ''$''"] span_esc(1) not_id_start
                    bind_res_assoc json_esc_append lookup_var_plain cong: bind_res_cong)
            next
              case False
              then have "\<not> (is_id_start i \<and> g = CHR ''}'')" using g by auto
              with False name rest drop brace dollar Cons show ?thesis unfolding esc body
                by (auto simp: template_substitute.simps(2) [of vars "CHR ''$''"] span_esc(1) not_id_start)
            qed
          qed
        qed
      next
        case bad
        with e have "e \<noteq> CHR ''$''" "\<not> is_id_start e" "e \<noteq> CHR ''{''"
          by (auto simp: not_id_start)
        with bad Cons dollar e show ?thesis unfolding esc
          by (simp add: template_substitute.simps(2) [of vars "CHR ''$''"] json_esc_Cons)
      qed
    qed
  qed
qed

lemma template_quote:
  assumes "plain_vars vars"
  shows "template_substitute vars (json_quote s @ r) =
    bind_res (template_substitute vars s) (\<lambda>t.
    bind_res (template_substitute vars r) (\<lambda>u. Inr (json_quote t @ u)))"
proof -
  have "template_substitute vars (quote_char # r) =
      bind_res (template_substitute vars r) (\<lambda>u. Inr (quote_char # u))"
    by (simp add: template_substitute.simps(2))
  with template_esc [OF assms, of s r] show ?thesis
    by (simp add: json_quote_def template_substitute.simps(2) [of vars quote_char] bind_res_assoc)
qed

lemma seps_no_dollar: "CHR ''$'' \<notin> set (item_sep p)" "CHR ''$'' \<notin> set (key_sep p)"
  by (simp_all add: item_sep_def key_sep_def)

lemma str_int_no_dollar: "CHR ''$'' \<notin> set (str_int i)"
  using str_nat_digits [of "nat i"] str_nat_digits [of "nat (- i)"]
  by (auto simp: str_int_def is_digit_def)

lemma subst_empty_iff:
  "subst_elems vars xs = Inr ys \<Longrightarrow> ys = [] \<longleftrightarrow> xs = []"
  "subst_members vars kvs = Inr ms \<Longrightarrow> ms = [] \<longleftrightarrow> kvs = []"
  by (cases xs; auto simp: bind_res_Inr_iff) (cases kvs; auto simp: bind_res_Inr_iff)

lemma template_dumps:
  assumes "plain_vars vars"
  shows "template_substitute vars (dumps_value p j @ r) =
      bind_res (subst_value vars j) (\<lambda>j'.
      bind_res (template_substitute vars r) (\<lambda>s. Inr (dumps_value p j' @ s)))"
    and "template_substitute vars (dumps_elems p xs @ r) =
      bind_res (subst_elems vars xs) (\<lambda>xs'.
      bind_res (template_substitute vars r) (\<lambda>s. Inr (dumps_elems p xs' @ s)))"
    and "template_substitute vars (dumps_members p kvs @ r) =
      bind_res (subst_members vars kvs) (\<lambda>kvs'.
      bind_res (template_substitute vars r) (\<lambda>s. Inr (dumps_members p kvs' @ s)))"
proof (induction j and xs and kvs arbitrary: r and r and r
    rule: fuel_value_fuel_elems_fuel_members.induct)
  case (1 xs)
  then show ?case
    by (simp add: template_substitute.simps(2) bind_res_assoc)
next
  case (2 kvs)
  then show ?case
    by (simp add: template_substitute.simps(2) bind_res_assoc)
next
  case 3
  then show ?case by (simp add: template_substitute.simps(2) bind_res_assoc)
next
  case (4 b)
  then show ?case by (cases b) (simp_all add: template_substitute.simps(2) bind_res_assoc)
next
  case (5 i)
  then show ?case by (simp add: template_no_dollar str_int_no_dollar)
next
  case (6 s)
  then show ?case by (simp add: template_quote [OF assms] bind_res_assoc)
next
  case 7
  then show ?case by simp
next
  case (8 x xs)
  then show ?case
    by (auto simp: bind_res_assoc template_no_dollar seps_no_dollar subst_empty_iff cong: bind_res_cong)
next
  case 9
  then show ?case by simp
next
  case (10 kv kvs)
  then show ?case
    by (auto simp: template_quote [OF assms] bind_res_assoc template_no_dollar seps_no_dollar
        subst_empty_iff cong: bind_res_cong)
qed

text \<open>
  Filling a serialised document is the structural substitution, with the same error when a
  placeholder is malformed or has no value.
\<close>

theorem replace_vars_dumps:
  assumes "plain_vars vars"
  shows "replace_vars (dumps_value p j) vars =
    bind_res (subst_value vars j) (\<lambda>j'. json_loads (dumps_value p j'))"
  using template_dumps(1) [OF assms, of p j "[]"]
  by (simp add: replace_vars_def bind_res_assoc)

lemma replace_vars_wf:
  assumes "plain_vars vars" and "subst_value vars j = Inr j'" and "json_wf j'"
  shows "replace_vars (json_dumps j) vars = Inr j'"
  using assms replace_vars_dumps [OF assms(1), of False j]
  by (simp add: json_dumps_def json_loads_dumps_value)

text \<open>
  C20. Filling a policy document through its serialised text gives the document in which every
  string is filled on its own: as long as the values need no JSON escaping, no value can add,
  drop or retype a member of the document.
\<close>

theorem replace_vars_structural:
  assumes "plain_vars vars" and "subst_value vars j = Inr j'" and "json_wf j'"
  shows "replace_vars (json_dumps j) vars = Inr j'"
  using assms by (rule replace_vars_wf)

theorem replace_vars_structural_witness:
  "replace_vars (json_dumps (JObj [(''image'', JStr ''$reg/otel@${digest}''), (''port'', JInt 80)]))
     [(''reg'', ''mcr''), (''digest'', ''sha256:1'')] =
   Inr (JObj [(''image'', JStr ''mcr/otel@sha256:1''), (''port'', JInt 80)])"
  by (rule replace_vars_structural) code_simp+

end
