(* ===== verification/Cleanroom_Models.thy ===== *)
theory Cleanroom_Models
  imports Template
begin

text \<open>
  The clean room specification (\<^verbatim>\<open>azure_cleanroom_core/models/cleanroom.py\<close>;
  \<^verbatim>\<open>cleanroom_sdk/models/cleanroom.py\<close> declares the same classes and differs only in
  the calls that resolve forward references). Enumerations are datatypes, model classes are records,
  optional fields are options. \<^verbatim>\<open>Identity\<close> and its token issuers refer to each
  other and form a mutual datatype; the constructors of \<open>token_issuer\<close> stand for the
  \<^verbatim>\<open>issuerType\<close> discriminator. Field names carry a prefix where several classes share
  one. The enumerations \<^verbatim>\<open>SecretProtocolType\<close>, \<^verbatim>\<open>StoreProtocolType\<close>,
  \<^verbatim>\<open>IdentityProtocolType\<close>, \<^verbatim>\<open>StoreType\<close>,
  \<^verbatim>\<open>SecretStoreType\<close> and the two application store ones are not the type of any
  field of the file and are left out; \<open>protocol_type\<close> and \<open>resource_type\<close> are their unions.
  \<^verbatim>\<open>ConsentCheckScope\<close>, \<^verbatim>\<open>ConsentProvider\<close>,
  \<^verbatim>\<open>ApplicationEndpoint\<close> and \<^verbatim>\<open>ContractValidationEndpoint\<close>
  belong to no class of the specification below and are left out as well.
\<close>

datatype sand_box_type = SandBox_Type_0 | SandBox_None

datatype resource_type =
    RT_Azure_BlobStorage
  | RT_Azure_BlobStorage_DataLakeGen2
  | RT_Azure_OneLake
  | RT_Aws_S3
  | RT_AzureKeyVault
  | RT_Cgs
  | RT_AzureContainerRegistry

datatype access_point_type = Volume_ReadWrite | Volume_ReadOnly

datatype proxy_type =
    SecureVolume_ReadOnly_Azure_OneLake
  | SecureVolume_ReadOnly_Azure_BlobStorage
  | SecureVolume_ReadOnly_Azure_BlobStorage_DataLakeGen2
  | SecureVolume_ReadOnly_Aws_S3
  | SecureVolume_ReadWrite_Azure_OneLake
  | SecureVolume_ReadWrite_Azure_BlobStorage
  | SecureVolume_ReadWrite_Azure_BlobStorage_DataLakeGen2
  | SecureVolume_ReadWrite_Aws_S3
  | Proxy_API
  | Proxy_SecureAPI

datatype proxy_mode = Proxy_Secure | Proxy_Open

datatype secret_type = ST_Secret | ST_Certificate | ST_Key

datatype dataset_format = Format_csv | Format_json | Format_parquet

datatype protocol_type =
    P_AzureAD_Federated
  | P_AzureAD_ManagedIdentity
  | P_AzureAD_Secret
  | P_Attested_OIDC
  | P_AzureKeyVault_Secret
  | P_AzureKeyVault_SecureKey
  | P_AzureKeyVault_Key
  | P_AzureKeyVault_Certificate
  | P_Cgs_Secret
  | P_Azure_BlobStorage
  | P_Azure_BlobStorage_DataLakeGen2
  | P_Azure_OneLake
  | P_Aws_S3
  | P_AzureContainerRegistry

record service_endpoint =
  ep_protocol :: protocol_type
  ep_url :: string
  ep_configuration :: "string option"

record resource =
  res_name :: string
  res_type :: resource_type
  res_id :: string
  res_provider :: service_endpoint

record cleanroom_secret =
  secretType :: secret_type
  backingResource :: resource

record encryption_secret =
  es_name :: string
  es_secret :: cleanroom_secret

record encryption_secrets =
  es_dek :: encryption_secret
  es_kek :: "encryption_secret option"

datatype identity =
    Identity (id_name: string) (id_clientId: string) (id_tenantId: string) (id_tokenIssuer: token_issuer)
  and token_issuer =
    AttestationBasedTokenIssuer (ti_issuer: service_endpoint)
  | SecretBasedTokenIssuer (ti_issuer: service_endpoint) cleanroom_secret identity
  | FederatedIdentityBasedTokenIssuer (ti_issuer: service_endpoint) identity

record document =
  documentType :: string
  authenticityReceipt :: string
  doc_identity :: "identity option"
  doc_resource :: resource

datatype policy_body = InlinePolicy "string option" | ExternalPolicy document

record policy =
  pol_policy :: "policy_body option"

record privacy_proxy_settings =
  pps_proxyType :: proxy_type
  pps_proxyMode :: proxy_mode
  pps_privacyPolicy :: "policy option"
  pps_configuration :: "string option"
  pps_encryptionSecrets :: "encryption_secrets option"
  pps_encryptionSecretAccessIdentity :: "identity option"

record access_point =
  ap_name :: string
  ap_type :: access_point_type
  ap_path :: string
  ap_store :: resource
  ap_identity :: "identity option"
  ap_protection :: privacy_proxy_settings
  ap_subdirectory :: "string option"

text \<open>
  A dataset schema is \<^verbatim>\<open>dict[str, dict[str, str]]\<close>: the properties of each field.
\<close>

type_synonym field_schema = "(string, string) dict"

record dataset_info =
  ds_name :: string
  ds_viewName :: string
  ds_schema :: "(string, field_schema) dict option"
  ds_format :: dataset_format
  ds_ownerId :: string
  ds_accessPoint :: access_point
  ds_allowedFields :: "string list"

record network_endpoint =
  ne_address :: string
  ne_port :: int

text \<open>\<^verbatim>\<open>Inbound\<close> and \<^verbatim>\<open>Outbound\<close> have the same fields.\<close>

record http_direction =
  hd_enabled :: bool
  hd_policy :: privacy_proxy_settings

record http_settings =
  http_inbound :: "http_direction option"
  http_outbound :: "http_direction option"

record tcp_outbound =
  tcp_enabled :: bool
  tcp_allowedIPs :: "network_endpoint list"

record tcp_settings =
  tcp_outbound_settings :: "tcp_outbound option"

record dns_settings =
  dns_enabled :: bool
  dns_port :: int

record network_settings =
  net_http :: "http_settings option"
  net_tcp :: "tcp_settings option"
  net_dns :: "dns_settings option"

record sandbox_settings =
  sandboxType :: sand_box_type
  sb_privacyPolicy :: "policy option"
  sb_configuration :: "string option"

text \<open>
  Applications. The two resource requests are floats that the code never computes with, it only
  prints them; the model keeps the text \<^verbatim>\<open>str\<close> gives for them.
\<close>

datatype application_start_type = Start_Auto | Start_Manual

record requests =
  req_cpu :: string
  req_memoryInGB :: string

record application_resource =
  ar_requests :: requests

record runtime_settings =
  rs_ports :: "int list"
  rs_resource :: application_resource

record image =
  img_executable :: document
  img_protection :: "privacy_proxy_settings option"
  img_enforcementPolicy :: policy

record application =
  app_name :: string
  app_image :: image
  app_startType :: application_start_type
  app_command :: "string list"
  app_environmentVariables :: "(string, string) dict"
  app_datasources :: "(string, string) dict option"
  app_datasinks :: "(string, string) dict option"
  app_runtimeSettings :: runtime_settings

text \<open>Governance and telemetry.\<close>

record governance_service =
  gs_url :: string
  gs_method :: string
  gs_validResponses :: "int list"
  gs_identity :: identity

record application_telemetry =
  at_consent :: "governance_service option"
  at_logs :: access_point

record infrastructure_telemetry =
  it_consent :: "governance_service option"
  it_metrics :: access_point
  it_traces :: access_point
  it_logs :: access_point

record telemetry =
  tel_infrastructure :: "infrastructure_telemetry option"
  tel_application :: "application_telemetry option"

record governance_settings =
  gov_consent :: "governance_service list option"
  gov_audit :: "governance_service list option"
  gov_telemetry :: "telemetry option"

record clean_room_specification =
  spec_sandbox :: "sandbox_settings option"
  spec_identities :: "identity list"
  spec_datasources :: "access_point list"
  spec_datasinks :: "access_point list"
  spec_applications :: "application list"
  spec_network :: "network_settings option"
  spec_governance :: "governance_settings option"

end
