(* ===== verification/Named_Stores.thy ===== *)
theory Named_Stores
  imports Cleanroom_Models
begin

text \<open>
  The configuration the command line extension keeps
  (\<^verbatim>\<open>azure_cleanroom_core/models/{datastore,secretstore,collaboration,dataset}.py\<close>,
  \<^verbatim>\<open>utilities/identity_manager.py\<close>): three stores of named entries that share one
  contract (locale \<open>named_store\<close>), the active collaboration, the identity manager, and the
  access point a data store entry gives a clean room.
\<close>

section \<open>Data schemas, data stores, secret stores, collaborations\<close>

datatype data_format = DF_csv | DF_json | DF_parquet

datatype data_field_type =
    DFT_string | DFT_integer | DFT_number | DFT_boolean | DFT_date | DFT_long | DFT_timestamp

record data_field =
  df_fieldName :: string
  df_fieldType :: data_field_type

record data_schema =
  dsc_format :: data_format
  dsc_fields :: "data_field list"

datatype secret_store_type = Azure_KeyVault | Azure_KeyVault_Managed_HSM | Local_File

datatype supported_secret_type = Supported_Secret | Supported_Key

record secret_store_entry =
  sse_name :: string
  sse_secretStoreType :: secret_store_type
  sse_storeProviderUrl :: string
  sse_configuration :: string
  sse_supportedSecretTypes :: "supported_secret_type list"

definition is_key_release_supported :: "secret_store_entry \<Rightarrow> bool" where
  "is_key_release_supported e \<longleftrightarrow> Supported_Key \<in> set (sse_supportedSecretTypes e)"

definition is_secret_supported :: "secret_store_entry \<Rightarrow> bool" where
  "is_secret_supported e \<longleftrightarrow> Supported_Secret \<in> set (sse_supportedSecretTypes e)"

datatype store_type =
    Store_Azure_BlobStorage
  | Store_Azure_BlobStorage_DataLakeGen2
  | Store_Azure_OneLake
  | Store_Aws_S3

datatype access_mode = Source | Sink

datatype encryption_mode = CSE | SSE_CPK | SSE

record data_store_entry =
  dse_name :: string
  dse_secretstore_config :: "string option"
  dse_secretstore_name :: "string option"
  dse_encryptionMode :: "encryption_mode option"
  dse_storeType :: store_type
  dse_storeProviderUrl :: string
  dse_storeProviderConfiguration :: "string option"
  dse_storeName :: string
  dse_datasetSchema :: "data_schema option"

record data_store_specification =
  datastores :: "data_store_entry list option"

record secret_store_specification =
  secretstores :: "secret_store_entry list option"

record collaboration_context =
  cc_name :: string
  cc_collaborator_id :: string
  cc_governance_client_name :: string
  cc_identities :: "identity list"

record collaboration_specification =
  collaborations :: "collaboration_context list option"
  current_context :: "string option"

text \<open>\<^verbatim>\<open>xs or []\<close> for an optional list.\<close>

definition or_nil :: "'a list option \<Rightarrow> 'a list" where
  "or_nil xs = (case xs of None \<Rightarrow> [] | Some ys \<Rightarrow> ys)"

lemma or_nil_simps [simp]: "or_nil None = []" "or_nil (Some xs) = xs"
  by (simp_all add: or_nil_def)

text \<open>
  The loop of the three \<^verbatim>\<open>check_*\<close> methods. They return
  \<^verbatim>\<open>(True, index, entry)\<close>, here \<open>Some (index, entry)\<close>, or
  \<^verbatim>\<open>(False, None, None)\<close>, here \<open>None\<close>.
\<close>

fun find_entry :: "('e \<Rightarrow> string) \<Rightarrow> string \<Rightarrow> nat \<Rightarrow> 'e list \<Rightarrow> (nat \<times> 'e) option" where
  "find_entry nm n i [] = None"
| "find_entry nm n i (x # xs) = (if nm x = n then Some (i, x) else find_entry nm n (Suc i) xs)"

lemma find_entry_find:
  "map_option snd (find_entry nm n i xs) = List.find (\<lambda>x. nm x = n) xs"
  by (induction xs arbitrary: i) auto

lemma find_entry_None_iff: "find_entry nm n i xs = None \<longleftrightarrow> n \<notin> nm ` set xs"
  by (induction xs arbitrary: i) auto

lemma find_entry_SomeD:
  "find_entry nm n i xs = Some (j, x) \<Longrightarrow> List.find (\<lambda>x. nm x = n) xs = Some x"
  using find_entry_find [of nm n i xs] by simp

lemma get_entry_case:
  "(case find_entry nm n i xs of None \<Rightarrow> raise_op a | Some (_, e) \<Rightarrow> return_op e) s =
    (case List.find (\<lambda>x. nm x = n) xs of None \<Rightarrow> (Inl a, s) | Some e \<Rightarrow> (Inr e, s))"
  by (induction xs arbitrary: i) auto

lemma add_entry_case:
  "(case find_entry nm n i xs of None \<Rightarrow> f | Some _ \<Rightarrow> raise_op a) s =
    (if n \<in> nm ` set xs then (Inl a, s) else f s)"
  by (induction xs arbitrary: i) auto

lemmas store_simps = bind_op_def Let_def get_entry_case add_entry_case

definition check_datastore_entry ::
  "string \<Rightarrow> (data_store_specification, (nat \<times> data_store_entry) option) op" where
  "check_datastore_entry n s =
    (let s' = s\<lparr>datastores := Some (or_nil (datastores s))\<rparr>
     in (Inr (find_entry dse_name n 0 (or_nil (datastores s'))), s'))"

definition get_datastore_entry :: "string \<Rightarrow> (data_store_specification, data_store_entry) op" where
  "get_datastore_entry n =
    bind_op (check_datastore_entry n) (\<lambda>r. case r of
      None \<Rightarrow> raise_op (CleanroomSpecificationError DataStoreNotFound
                (''Datastore '' @ n @ '' not found.''))
    | Some (_, e) \<Rightarrow> return_op e)"

definition add_datastore_entry :: "data_store_entry \<Rightarrow> (data_store_specification, unit) op" where
  "add_datastore_entry e =
    bind_op (check_datastore_entry (dse_name e)) (\<lambda>r. case r of
      Some _ \<Rightarrow> raise_op (CleanroomSpecificationError DataStoreAlreadyExists
                  (''Datastore '' @ dse_name e @ '' already exists.''))
    | None \<Rightarrow> (\<lambda>s. (Inr (), s\<lparr>datastores := Some (or_nil (datastores s) @ [e])\<rparr>)))"

definition check_secretstore_entry ::
  "string \<Rightarrow> (secret_store_specification, (nat \<times> secret_store_entry) option) op" where
  "check_secretstore_entry n s =
    (let s' = s\<lparr>secretstores := Some (or_nil (secretstores s))\<rparr>
     in (Inr (find_entry sse_name n 0 (or_nil (secretstores s'))), s'))"

definition get_secretstore_entry :: "string \<Rightarrow> (secret_store_specification, secret_store_entry) op" where
  "get_secretstore_entry n =
    bind_op (check_secretstore_entry n) (\<lambda>r. case r of
      None \<Rightarrow> raise_op (CleanroomSpecificationError SecretStoreNotFound
                (''Secret store '' @ n @ '' not found.''))
    | Some (_, e) \<Rightarrow> return_op e)"

definition add_secretstore_entry :: "secret_store_entry \<Rightarrow> (secret_store_specification, unit) op" where
  "add_secretstore_entry e =
    bind_op (check_secretstore_entry (sse_name e)) (\<lambda>r. case r of
      Some _ \<Rightarrow> raise_op (CleanroomSpecificationError SecretStoreAlreadyExists
                  (''Secret store '' @ sse_name e @ '' already exists.''))
    | None \<Rightarrow> (\<lambda>s. (Inr (), s\<lparr>secretstores := Some (or_nil (secretstores s) @ [e])\<rparr>)))"

definition check_collaboration_context ::
  "string \<Rightarrow> (collaboration_specification, (nat \<times> collaboration_context) option) op" where
  "check_collaboration_context n s =
    (let s' = s\<lparr>collaborations := Some (or_nil (collaborations s))\<rparr>
     in (Inr (find_entry cc_name n 0 (or_nil (collaborations s'))), s'))"

text \<open>The assertion that a found context is not \<^verbatim>\<open>None\<close> holds by the form of the result.\<close>

definition get_collaboration_context ::
  "string \<Rightarrow> (collaboration_specification, collaboration_context) op" where
  "get_collaboration_context n =
    bind_op (check_collaboration_context n) (\<lambda>r. case r of
      None \<Rightarrow> raise_op (CleanroomSpecificationError CollaborationNotFound
                (''Collaboration '' @ n @ '' not found.''))
    | Some (_, e) \<Rightarrow> return_op e)"

definition add_collaboration_context ::
  "collaboration_context \<Rightarrow> bool \<Rightarrow> (collaboration_specification, unit) op" where
  "add_collaboration_context e set_current_context =
    bind_op (check_collaboration_context (cc_name e)) (\<lambda>r. case r of
      Some _ \<Rightarrow> raise_op (CleanroomSpecificationError CollaborationAlreadyExists
                  (''Collaboration '' @ cc_name e @ '' already exists.''))
    | None \<Rightarrow> (\<lambda>s.
        let s1 = s\<lparr>collaborations := Some (or_nil (collaborations s) @ [e])\<rparr>
        in (Inr (), if set_current_context then s1\<lparr>current_context := Some (cc_name e)\<rparr> else s1)))"

definition get_active_collaboration_context ::
  "(collaboration_specification, collaboration_context) op" where
  "get_active_collaboration_context s =
    (case current_context s of
       None \<Rightarrow> (Inl (CleanroomSpecificationError CurrentCollaborationNotSet
                 ''Current collaboration context is not set.''), s)
     | Some n \<Rightarrow> get_collaboration_context n s)"

definition set_active_collaboration_context ::
  "string \<Rightarrow> (collaboration_specification, unit) op" where
  "set_active_collaboration_context n =
    bind_op (get_collaboration_context n) (\<lambda>e s. (Inr (), s\<lparr>current_context := Some (cc_name e)\<rparr>))"

definition clear_active_collaboration_context :: "(collaboration_specification, unit) op" where
  "clear_active_collaboration_context s = (Inr (), s\<lparr>current_context := None\<rparr>)"

section \<open>The contract of a named store\<close>

text \<open>Adding entries one after the other; an add that raises leaves the loop running.\<close>

definition add_all :: "('e \<Rightarrow> ('st, unit) op) \<Rightarrow> 'e list \<Rightarrow> 'st \<Rightarrow> 'st" where
  "add_all add es s = foldl (\<lambda>s e. snd (add e s)) s es"

locale named_store =
  fixes entries :: "'st \<Rightarrow> 'e list"
    and name_of :: "'e \<Rightarrow> string"
    and get :: "string \<Rightarrow> ('st, 'e) op"
    and add :: "'e \<Rightarrow> ('st, unit) op"
    and not_found :: "string \<Rightarrow> exc"
    and already_exists :: "string \<Rightarrow> exc"
  assumes get_result:
      "fst (get n s) = (case List.find (\<lambda>e. name_of e = n) (entries s) of
         None \<Rightarrow> Inl (not_found n) | Some e \<Rightarrow> Inr e)"
    and get_entries: "entries (snd (get n s)) = entries s"
    and add_result:
      "fst (add e s) = (if name_of e \<in> name_of ` set (entries s)
         then Inl (already_exists (name_of e)) else Inr ())"
    and add_entries:
      "entries (snd (add e s)) = (if name_of e \<in> name_of ` set (entries s)
         then entries s else entries s @ [e])"
begin

lemma add_distinct:
  "distinct (map name_of (entries s)) \<Longrightarrow> distinct (map name_of (entries (snd (add e s))))"
  by (auto simp: add_entries)

lemma add_all_distinct:
  "distinct (map name_of (entries s)) \<Longrightarrow> distinct (map name_of (entries (add_all add es s)))"
  by (induction es arbitrary: s) (auto simp: add_all_def add_distinct)

lemma find_add:
  "List.find (\<lambda>e. name_of e = n) (entries (snd (add e s))) =
    List.find (\<lambda>e. name_of e = n) (entries s @ [e])"
proof -
  have *: "List.find p (xs @ [x]) = List.find p xs" if "p x \<Longrightarrow> \<exists>y \<in> set xs. p y" for p xs and x :: 'e
    using that by (induction xs) auto
  show ?thesis
    by (auto simp: add_entries intro!: * [symmetric])
qed

lemma find_append_cong:
  "List.find p xs = List.find p ys \<Longrightarrow> List.find p (xs @ zs) = List.find p (ys @ zs)"
proof -
  have "List.find p (us @ zs) = (case List.find p us of None \<Rightarrow> List.find p zs | Some x \<Rightarrow> Some x)" for us
    by (induction us) auto
  then show "List.find p xs = List.find p ys \<Longrightarrow> List.find p (xs @ zs) = List.find p (ys @ zs)"
    by simp
qed

lemma find_add_all:
  "List.find (\<lambda>e. name_of e = n) (entries (add_all add es s)) =
    List.find (\<lambda>e. name_of e = n) (entries s @ es)"
proof (induction es arbitrary: s)
  case Nil
  then show ?case by (simp add: add_all_def)
next
  case (Cons e es)
  have "List.find (\<lambda>e. name_of e = n) (entries (add_all add (e # es) s)) =
      List.find (\<lambda>e. name_of e = n) (entries (snd (add e s)) @ es)"
    using Cons [of "snd (add e s)"] by (simp add: add_all_def)
  also have "\<dots> = List.find (\<lambda>e. name_of e = n) ((entries s @ [e]) @ es)"
    by (rule find_append_cong) (rule find_add)
  finally show ?case by simp
qed

lemma get_add_all:
  "fst (get n (add_all add es s)) =
    (case List.find (\<lambda>e. name_of e = n) (entries s @ es) of
       None \<Rightarrow> Inl (not_found n) | Some e \<Rightarrow> Inr e)"
  by (simp add: get_result find_add_all)

end

interpretation ds: named_store "\<lambda>s. or_nil (datastores s)" dse_name get_datastore_entry add_datastore_entry
  "\<lambda>n. CleanroomSpecificationError DataStoreNotFound (''Datastore '' @ n @ '' not found.'')"
  "\<lambda>n. CleanroomSpecificationError DataStoreAlreadyExists (''Datastore '' @ n @ '' already exists.'')"
  by unfold_locales
    (simp_all add: get_datastore_entry_def add_datastore_entry_def check_datastore_entry_def
      store_simps split: option.splits)

interpretation ss: named_store "\<lambda>s. or_nil (secretstores s)" sse_name get_secretstore_entry add_secretstore_entry
  "\<lambda>n. CleanroomSpecificationError SecretStoreNotFound (''Secret store '' @ n @ '' not found.'')"
  "\<lambda>n. CleanroomSpecificationError SecretStoreAlreadyExists (''Secret store '' @ n @ '' already exists.'')"
  by unfold_locales
    (simp_all add: get_secretstore_entry_def add_secretstore_entry_def check_secretstore_entry_def
      store_simps split: option.splits)

interpretation cs: named_store "\<lambda>s. or_nil (collaborations s)" cc_name get_collaboration_context
  "\<lambda>e. add_collaboration_context e current"
  "\<lambda>n. CleanroomSpecificationError CollaborationNotFound (''Collaboration '' @ n @ '' not found.'')"
  "\<lambda>n. CleanroomSpecificationError CollaborationAlreadyExists (''Collaboration '' @ n @ '' already exists.'')"
  for current
  by unfold_locales
    (simp_all add: get_collaboration_context_def add_collaboration_context_def
      check_collaboration_context_def store_simps split: option.splits)

section \<open>The active collaboration\<close>

text \<open>The steps of the methods, failing calls included.\<close>

inductive collab_step :: "collaboration_specification \<Rightarrow> collaboration_specification \<Rightarrow> bool" where
  check_step: "collab_step s (snd (check_collaboration_context n s))"
| get_step: "collab_step s (snd (get_collaboration_context n s))"
| add_step: "collab_step s (snd (add_collaboration_context e b s))"
| get_active_step: "collab_step s (snd (get_active_collaboration_context s))"
| set_active_step: "collab_step s (snd (set_active_collaboration_context n s))"
| clear_active_step: "collab_step s (snd (clear_active_collaboration_context s))"

definition collab_inv :: "collaboration_specification \<Rightarrow> bool" where
  "collab_inv s \<longleftrightarrow>
    distinct (map cc_name (or_nil (collaborations s))) \<and>
    (case current_context s of None \<Rightarrow> True
     | Some n \<Rightarrow> n \<in> cc_name ` set (or_nil (collaborations s)))"

lemma get_collaboration_state:
  "snd (get_collaboration_context n s) = s\<lparr>collaborations := Some (or_nil (collaborations s))\<rparr>"
  by (simp add: get_collaboration_context_def check_collaboration_context_def store_simps
      split: option.splits)

lemma find_name_SomeD: "List.find (\<lambda>x. nm x = n) xs = Some e \<Longrightarrow> e \<in> set xs \<and> nm e = n"
  by (auto simp: find_Some_iff)

lemma collab_inv_step:
  assumes "collab_step s s'" and "collab_inv s"
  shows "collab_inv s'"
  using assms(1)
proof cases
  case (check_step n)
  with assms(2) show ?thesis
    by (auto simp: check_collaboration_context_def collab_inv_def Let_def split: option.splits)
next
  case (get_step n)
  with assms(2) show ?thesis
    by (auto simp: get_collaboration_state collab_inv_def split: option.splits)
next
  case (add_step e b)
  with assms(2) show ?thesis
    by (auto simp: add_collaboration_context_def check_collaboration_context_def store_simps
        collab_inv_def split: option.splits)
next
  case get_active_step
  with assms(2) show ?thesis
    by (auto simp: get_active_collaboration_context_def get_collaboration_state collab_inv_def
        split: option.splits)
next
  case (set_active_step n)
  with assms(2) show ?thesis
    by (auto simp: set_active_collaboration_context_def get_collaboration_context_def
        check_collaboration_context_def store_simps collab_inv_def
        split: option.splits dest!: find_name_SomeD)
next
  case clear_active_step
  with assms(2) show ?thesis
    by (simp add: clear_active_collaboration_context_def collab_inv_def)
qed

lemma collab_inv_reachable:
  assumes "collab_step\<^sup>*\<^sup>* s s'" and "collab_inv s"
  shows "collab_inv s'"
  using assms by (induction rule: rtranclp_induct) (auto intro: collab_inv_step)

lemma get_active_found:
  assumes "collab_inv s" and "current_context s = Some n"
  shows "\<exists>e \<in> set (or_nil (collaborations s)).
    cc_name e = n \<and> fst (get_active_collaboration_context s) = Inr e"
proof -
  from assms have "n \<in> cc_name ` set (or_nil (collaborations s))" by (simp add: collab_inv_def)
  then obtain e where "List.find (\<lambda>x. cc_name x = n) (or_nil (collaborations s)) = Some e"
    by (cases "List.find (\<lambda>x. cc_name x = n) (or_nil (collaborations s))") (auto simp: find_None_iff)
  with assms(2) show ?thesis
    by (auto simp: get_active_collaboration_context_def cs.get_result dest!: find_name_SomeD)
qed

section \<open>The identity manager\<close>

definition upsert_identity :: "identity \<Rightarrow> identity list \<Rightarrow> identity list" where
  "upsert_identity x ids =
    (case find_index (\<lambda>y. id_name y = id_name x) ids of
       None \<Rightarrow> ids @ [x]
     | Some i \<Rightarrow> ids[i := x])"

definition default_identity :: identity where
  "default_identity =
    Identity ''cleanroom_cgs_oidc'' '''' ''''
      (AttestationBasedTokenIssuer
        \<lparr>ep_protocol = P_Attested_OIDC, ep_url = ''https://cgs/oidc'', ep_configuration = Some ''''\<rparr>)"

definition identity_manager_init :: "identity list \<Rightarrow> identity list" where
  "identity_manager_init ids = upsert_identity default_identity ids"

definition get_identity :: "string \<Rightarrow> identity list \<Rightarrow> identity res" where
  "get_identity n ids =
    (case filter (\<lambda>x. id_name x = n) ids of
       [] \<Rightarrow> Inl (CleanroomSpecificationError IdentityConfigurationNotFound
               (''Identity '' @ n @ '' not found in the configuration.''))
     | x # _ \<Rightarrow> Inr x)"

text \<open>The handler around the two lookups of a backing identity.\<close>

definition get_backing_identity :: "string \<Rightarrow> identity list \<Rightarrow> identity res" where
  "get_backing_identity n ids =
    (case get_identity n ids of
       Inl (CleanroomSpecificationError c m) \<Rightarrow>
         if c = IdentityConfigurationNotFound
         then Inl (CleanroomSpecificationError BackingIdentityNotFound
                (''The specified backing identity '' @ n @ '' could not be found.''))
         else Inl (CleanroomSpecificationError c m)
     | r \<Rightarrow> r)"

definition add_identity_az_federated ::
  "string \<Rightarrow> string \<Rightarrow> string \<Rightarrow> string \<Rightarrow> string \<Rightarrow> (identity list, unit) op" where
  "add_identity_az_federated n client_id tenant_id token_issuer_url backing ids =
    (case get_backing_identity backing ids of
       Inl e \<Rightarrow> (Inl e, ids)
     | Inr b \<Rightarrow> (Inr (), upsert_identity
         (Identity n client_id tenant_id
           (FederatedIdentityBasedTokenIssuer
             \<lparr>ep_protocol = P_AzureAD_Federated, ep_url = token_issuer_url, ep_configuration = Some ''''\<rparr> b))
         ids))"

definition add_identity_az_secret ::
  "string \<Rightarrow> string \<Rightarrow> string \<Rightarrow> string \<Rightarrow> string \<Rightarrow> string \<Rightarrow> (identity list, unit) op" where
  "add_identity_az_secret n client_id tenant_id secret_name secret_store_url backing ids =
    (case get_backing_identity backing ids of
       Inl e \<Rightarrow> (Inl e, ids)
     | Inr b \<Rightarrow> (Inr (), upsert_identity
         (Identity n client_id tenant_id
           (SecretBasedTokenIssuer
             \<lparr>ep_protocol = P_AzureAD_Secret, ep_url = ''https://AzureAD'', ep_configuration = Some ''''\<rparr>
             \<lparr>secretType = ST_Secret,
              backingResource =
                \<lparr>res_name = secret_name, res_type = RT_AzureKeyVault, res_id = secret_name,
                 res_provider = \<lparr>ep_protocol = P_AzureKeyVault_Secret, ep_url = secret_store_url,
                                 ep_configuration = Some ''''\<rparr>\<rparr>\<rparr>
             b))
         ids))"

definition add_identity_oidc_attested ::
  "string \<Rightarrow> string \<Rightarrow> string \<Rightarrow> string \<Rightarrow> (identity list, unit) op" where
  "add_identity_oidc_attested n client_id tenant_id issuer_url ids =
    (Inr (), upsert_identity
      (Identity n client_id tenant_id
        (AttestationBasedTokenIssuer
          \<lparr>ep_protocol = P_Attested_OIDC, ep_url = issuer_url, ep_configuration = Some ''''\<rparr>))
      ids)"

lemma upsert_identity_names:
  "map id_name (upsert_identity x ids) =
    (if id_name x \<in> id_name ` set ids then map id_name ids else map id_name ids @ [id_name x])"
proof (cases "find_index (\<lambda>y. id_name y = id_name x) ids")
  case None
  then have "id_name x \<notin> id_name ` set ids" by (auto simp: find_index_None_iff)
  with None show ?thesis by (simp add: upsert_identity_def)
next
  case (Some i)
  from find_index_SomeD [OF this] have i: "i < length ids" "id_name (ids ! i) = id_name x" by auto
  then have "id_name x \<in> id_name ` set ids" by (metis image_eqI nth_mem)
  moreover have "map id_name (ids[i := x]) = map id_name ids"
    using i by (metis list_update_id map_update)
  ultimately show ?thesis using Some by (simp add: upsert_identity_def)
qed

lemma get_identity_find:
  "get_identity n ids = (case List.find (\<lambda>x. id_name x = n) ids of
     None \<Rightarrow> Inl (CleanroomSpecificationError IdentityConfigurationNotFound
               (''Identity '' @ n @ '' not found in the configuration.''))
   | Some x \<Rightarrow> Inr x)"
  by (simp add: get_identity_def find_filter split: list.splits)

lemma find_upsert_identity:
  "List.find (\<lambda>y. id_name y = n) (upsert_identity x ids) =
    (if n = id_name x then Some x else List.find (\<lambda>y. id_name y = n) ids)"
proof (induction ids)
  case Nil
  then show ?case by (simp add: upsert_identity_def)
next
  case (Cons y ids)
  then show ?case
    by (auto simp: upsert_identity_def split: option.splits)
qed

lemma get_upsert_identity:
  "get_identity n (upsert_identity x ids) = (if n = id_name x then Inr x else get_identity n ids)"
  by (simp add: get_identity_find find_upsert_identity)

lemma upsert_identity_keys:
  "id_name ` set (upsert_identity x ids) = insert (id_name x) (id_name ` set ids)"
  "distinct (map id_name (upsert_identity x ids)) = distinct (map id_name ids)"
proof -
  have "id_name ` set (upsert_identity x ids) = set (map id_name (upsert_identity x ids))" by simp
  also have "\<dots> = insert (id_name x) (id_name ` set ids)"
    by (subst upsert_identity_names) auto
  finally show "id_name ` set (upsert_identity x ids) = insert (id_name x) (id_name ` set ids)" .
qed (auto simp: upsert_identity_names)

section \<open>Access points\<close>

definition str_encryption_mode :: "encryption_mode option \<Rightarrow> string" where
  "str_encryption_mode m =
    (case m of None \<Rightarrow> ''None'' | Some CSE \<Rightarrow> ''CSE'' | Some SSE_CPK \<Rightarrow> ''CPK'' | Some SSE \<Rightarrow> ''SSE'')"

definition store_proxy_type :: "store_type \<Rightarrow> access_mode \<Rightarrow> proxy_type" where
  "store_proxy_type t m =
    (case t of
       Store_Azure_BlobStorage \<Rightarrow>
         if m = Source then SecureVolume_ReadOnly_Azure_BlobStorage
         else SecureVolume_ReadWrite_Azure_BlobStorage
     | Store_Azure_BlobStorage_DataLakeGen2 \<Rightarrow>
         if m = Source then SecureVolume_ReadOnly_Azure_BlobStorage_DataLakeGen2
         else SecureVolume_ReadWrite_Azure_BlobStorage_DataLakeGen2
     | Store_Azure_OneLake \<Rightarrow>
         if m = Source then SecureVolume_ReadOnly_Azure_OneLake
         else SecureVolume_ReadWrite_Azure_OneLake
     | Store_Aws_S3 \<Rightarrow>
         if m = Source then SecureVolume_ReadOnly_Aws_S3 else SecureVolume_ReadWrite_Aws_S3)"

definition store_protocol :: "store_type \<Rightarrow> protocol_type" where
  "store_protocol t =
    (case t of
       Store_Azure_BlobStorage \<Rightarrow> P_Azure_BlobStorage
     | Store_Azure_BlobStorage_DataLakeGen2 \<Rightarrow> P_Azure_BlobStorage_DataLakeGen2
     | Store_Azure_OneLake \<Rightarrow> P_Azure_OneLake
     | Store_Aws_S3 \<Rightarrow> P_Aws_S3)"

text \<open>\<^verbatim>\<open>ResourceType(str(storeType))\<close>: the member with the same value.\<close>

definition store_resource_type :: "store_type \<Rightarrow> resource_type" where
  "store_resource_type t =
    (case t of
       Store_Azure_BlobStorage \<Rightarrow> RT_Azure_BlobStorage
     | Store_Azure_BlobStorage_DataLakeGen2 \<Rightarrow> RT_Azure_BlobStorage_DataLakeGen2
     | Store_Azure_OneLake \<Rightarrow> RT_Azure_OneLake
     | Store_Aws_S3 \<Rightarrow> RT_Aws_S3)"

text \<open>
  The first branch of \<^verbatim>\<open>get_access_point\<close>. \<open>uuid3\<close> is the text of
  \<^verbatim>\<open>uuid.uuid3(uuid.NAMESPACE_X500, _)\<close>, an MD5 digest.
\<close>

definition access_point_secrets ::
  "(string \<Rightarrow> string) \<Rightarrow> data_store_entry \<Rightarrow> string \<Rightarrow> string option \<Rightarrow> secret_store_entry option \<Rightarrow>
   secret_store_entry option \<Rightarrow> encryption_secrets option res" where
  "access_point_secrets uuid3 d access_name kek_name dek_store kek_store =
    (if dse_encryptionMode d \<in> {Some CSE, Some SSE_CPK} then
       (case (dek_store, kek_store) of
          (Some dek, Some kek) \<Rightarrow>
            let kn = (if kek_name = None \<or> kek_name = Some ''''
                      then take 8 (uuid3 (dse_name d @ access_name)) @ ''-kek'' else the kek_name);
                wn = ''wrapped-'' @ dse_name d @ ''-dek-'' @ kn
            in if \<not> is_secret_supported dek then
                 Inl (CleanroomSpecificationError UnsupportedDekSecretStore
                   (''Unsupported DEK secret store '' @ sse_name dek
                    @ ''. Please use Standard or Premium Key Vault''))
               else if \<not> is_key_release_supported kek then
                 Inl (CleanroomSpecificationError UnsupportedKekSecretStore
                   (''Unsupported KEK secret store '' @ sse_name kek
                    @ ''. Please use MHSM or Premium Key Vault''))
               else Inr (Some
                 \<lparr>es_dek =
                    \<lparr>es_name = wn,
                     es_secret = \<lparr>secretType = ST_Key,
                       backingResource = \<lparr>res_name = wn, res_type = RT_AzureKeyVault,
                         res_id = sse_name dek,
                         res_provider = \<lparr>ep_protocol = P_AzureKeyVault_Secret,
                           ep_url = sse_storeProviderUrl dek, ep_configuration = Some ''''\<rparr>\<rparr>\<rparr>\<rparr>,
                  es_kek = Some
                    \<lparr>es_name = kn,
                     es_secret = \<lparr>secretType = ST_Key,
                       backingResource = \<lparr>res_name = kn, res_type = RT_AzureKeyVault,
                         res_id = sse_name kek,
                         res_provider = \<lparr>ep_protocol = P_AzureKeyVault_SecureKey,
                           ep_url = sse_storeProviderUrl kek,
                           ep_configuration = Some (sse_configuration kek)\<rparr>\<rparr>\<rparr>\<rparr>\<rparr>)
        | _ \<Rightarrow> Inl (AssertionError
            (''Secret store information not specified when generating access point for datastore ''
             @ dse_name d @ '' using encryption mode '' @ str_encryption_mode (dse_encryptionMode d))))
     else Inr None)"

definition get_access_point ::
  "(string \<Rightarrow> string) \<Rightarrow> data_store_entry \<Rightarrow> string \<Rightarrow> access_mode \<Rightarrow> identity option \<Rightarrow>
   string option \<Rightarrow> secret_store_entry option \<Rightarrow> secret_store_entry option \<Rightarrow> access_point res" where
  "get_access_point uuid3 d access_name mode access_identity kek_name dek_store kek_store =
    bind_res (access_point_secrets uuid3 d access_name kek_name dek_store kek_store) (\<lambda>secrets.
    bind_res (utf8_decode (b64encode (utf8_encode (json_dumps (JObj
        [(''KeyType'', JStr ''KEK''),
         (''EncryptionMode'', JStr (str_encryption_mode (dse_encryptionMode d)))]))))) (\<lambda>cfg.
    Inr \<lparr>ap_name = access_name,
         ap_type = (if mode = Source then Volume_ReadOnly else Volume_ReadWrite),
         ap_path = '''',
         ap_store =
           \<lparr>res_name = dse_storeName d, res_type = store_resource_type (dse_storeType d),
            res_id = dse_name d,
            res_provider = \<lparr>ep_protocol = store_protocol (dse_storeType d),
              ep_url = dse_storeProviderUrl d,
              ep_configuration = dse_storeProviderConfiguration d\<rparr>\<rparr>,
         ap_identity = access_identity,
         ap_protection =
           \<lparr>pps_proxyType = store_proxy_type (dse_storeType d) mode,
            pps_proxyMode = Proxy_Secure, pps_privacyPolicy = None,
            pps_configuration = Some cfg,
            pps_encryptionSecrets = secrets,
            pps_encryptionSecretAccessIdentity = access_identity\<rparr>,
         ap_subdirectory = Some ''''\<rparr>))"

text \<open>What a sidecar reads back from the configuration of an access point.\<close>

definition read_configuration :: "access_point \<Rightarrow> json res" where
  "read_configuration ap =
    bind_res (b64decode (case pps_configuration (ap_protection ap) of None \<Rightarrow> '''' | Some c \<Rightarrow> c)) (\<lambda>b.
    bind_res (utf8_decode b) json_loads)"

lemma access_point_secrets_modes:
  "access_point_secrets uuid3 d n k dek kek = Inr r \<Longrightarrow>
    (r \<noteq> None) = (dse_encryptionMode d = Some CSE \<or> dse_encryptionMode d = Some SSE_CPK)"
  by (auto simp: access_point_secrets_def Let_def split: if_splits option.splits)

text \<open>Sample entries.\<close>

definition sample_vault :: secret_store_entry where
  "sample_vault = \<lparr>sse_name = ''akv'', sse_secretStoreType = Azure_KeyVault,
     sse_storeProviderUrl = ''https://akv'', sse_configuration = '''',
     sse_supportedSecretTypes = [Supported_Secret, Supported_Key]\<rparr>"

definition sample_store :: data_store_entry where
  "sample_store = \<lparr>dse_name = ''ds'', dse_secretstore_config = None, dse_secretstore_name = None,
     dse_encryptionMode = Some SSE_CPK, dse_storeType = Store_Azure_BlobStorage,
     dse_storeProviderUrl = ''https://blob'', dse_storeProviderConfiguration = None,
     dse_storeName = ''container'', dse_datasetSchema = None\<rparr>"

section \<open>Properties\<close>


text \<open>The same contract for the secret stores.\<close>

theorem secretstore_lookup_after_adds:
  "fst (get_secretstore_entry n (add_all add_secretstore_entry es s)) =
    (case List.find (\<lambda>e. sse_name e = n) (or_nil (secretstores s) @ es) of
       None \<Rightarrow> Inl (CleanroomSpecificationError SecretStoreNotFound (''Secret store '' @ n @ '' not found.''))
     | Some e \<Rightarrow> Inr e)"
  by (rule ss.get_add_all)

text \<open>
  C34. The active collaboration is never dangling: in every state the methods reach from an empty
  specification the names are distinct, and reading the active collaboration either reports that
  none is set or returns the collaboration of that name.
\<close>

theorem active_collaboration_valid:
  assumes "collab_step\<^sup>*\<^sup>* \<lparr>collaborations = c, current_context = None\<rparr> s" and "or_nil c = []"
  shows "distinct (map cc_name (or_nil (collaborations s))) \<and>
    (case current_context s of
       None \<Rightarrow> fst (get_active_collaboration_context s) =
         Inl (CleanroomSpecificationError CurrentCollaborationNotSet
           ''Current collaboration context is not set.'')
     | Some n \<Rightarrow> \<exists>e \<in> set (or_nil (collaborations s)).
         cc_name e = n \<and> fst (get_active_collaboration_context s) = Inr e)"
proof -
  have inv: "collab_inv s"
    by (rule collab_inv_reachable [OF assms(1)]) (simp add: collab_inv_def assms(2))
  then show ?thesis
    using get_active_found [OF inv]
    by (auto simp: collab_inv_def get_active_collaboration_context_def split: option.split)
qed

theorem active_collaboration_valid_witness:
  "\<exists>s. current_context s = Some ''c1'' \<and>
    (\<exists>e \<in> set (or_nil (collaborations s)). cc_name e = ''c1'' \<and>
      fst (get_active_collaboration_context s) = Inr e)"
proof -
  let ?empty = "\<lparr>collaborations = None, current_context = None\<rparr>"
  let ?e = "\<lparr>cc_name = ''c1'', cc_collaborator_id = ''id'', cc_governance_client_name = ''g'',
    cc_identities = []\<rparr>"
  let ?s = "snd (add_collaboration_context ?e True ?empty)"
  have "collab_step\<^sup>*\<^sup>* ?empty ?s" by (rule r_into_rtranclp) (rule add_step)
  from active_collaboration_valid [OF this] have
    "case current_context ?s of
       None \<Rightarrow> fst (get_active_collaboration_context ?s) =
         Inl (CleanroomSpecificationError CurrentCollaborationNotSet
           ''Current collaboration context is not set.'')
     | Some n \<Rightarrow> \<exists>e \<in> set (or_nil (collaborations ?s)).
         cc_name e = n \<and> fst (get_active_collaboration_context ?s) = Inr e"
    by simp
  moreover have "current_context ?s = Some ''c1''"
    by (simp add: add_collaboration_context_def check_collaboration_context_def bind_op_def)
  ultimately show ?thesis by (intro exI [of _ ?s]) simp
qed

text \<open>
  The identity manager is a map from names to identities: right after construction the default
  identity is found, an added identity is found under its name with the given ids, every other
  lookup is unchanged, and a failing add changes nothing.
\<close>

theorem identity_manager_lookup:
  "get_identity ''cleanroom_cgs_oidc'' (identity_manager_init ids) = Inr default_identity \<and>
   (case add_identity_az_federated n c t url b ids of
      (Inl e, ids') \<Rightarrow> ids' = ids \<and> b \<notin> id_name ` set ids \<and>
        e = CleanroomSpecificationError BackingIdentityNotFound
          (''The specified backing identity '' @ b @ '' could not be found.'')
    | (Inr _, ids') \<Rightarrow>
        (\<exists>x backing. get_identity n ids' = Inr x \<and> id_clientId x = c \<and> id_tenantId x = t \<and>
          get_identity b ids = Inr backing \<and>
          id_tokenIssuer x = FederatedIdentityBasedTokenIssuer (ti_issuer (id_tokenIssuer x)) backing) \<and>
        (\<forall>m. m = n \<or> get_identity m ids' = get_identity m ids) \<and>
        set (map id_name ids') = insert n (id_name ` set ids) \<and>
        distinct (map id_name ids') = distinct (map id_name ids))"
proof -
  have init: "get_identity ''cleanroom_cgs_oidc'' (identity_manager_init ids) = Inr default_identity"
    by (simp add: identity_manager_init_def get_upsert_identity default_identity_def)
  show ?thesis
  proof (cases "List.find (\<lambda>x. id_name x = b) ids")
    case None
    then have "get_identity b ids = Inl (CleanroomSpecificationError IdentityConfigurationNotFound
        (''Identity '' @ b @ '' not found in the configuration.''))"
      by (simp add: get_identity_find)
    moreover from None have "b \<notin> id_name ` set ids" by (auto simp: find_None_iff)
    ultimately show ?thesis
      by (simp add: init add_identity_az_federated_def get_backing_identity_def)
  next
    case (Some x)
    then have b: "get_identity b ids = Inr x" by (simp add: get_identity_find)
    show ?thesis
      by (simp add: init add_identity_az_federated_def get_backing_identity_def b
          get_upsert_identity upsert_identity_keys)
  qed
qed

text \<open>
  An access point carries encryption secrets exactly for the client side and customer key
  modes, it is read-only exactly for a source, its proxy is always a secure one, and its
  configuration decodes to the encryption mode of the data store.
\<close>

theorem access_point_protection:
  assumes "get_access_point uuid3 d n m i k dek kek = Inr ap"
  shows "(pps_encryptionSecrets (ap_protection ap) \<noteq> None) =
      (dse_encryptionMode d = Some CSE \<or> dse_encryptionMode d = Some SSE_CPK) \<and>
    (ap_type ap = Volume_ReadOnly) = (m = Source) \<and>
    pps_proxyMode (ap_protection ap) = Proxy_Secure \<and>
    read_configuration ap = Inr (JObj [(''KeyType'', JStr ''KEK''),
      (''EncryptionMode'', JStr (str_encryption_mode (dse_encryptionMode d)))])"
  using assms
  by (auto simp: get_access_point_def bind_res_Inr_iff read_configuration_def
      split: if_splits dest: access_point_secrets_modes)

theorem access_point_protection_witness:
  "\<exists>ap. get_access_point (\<lambda>_. ''0123456789'') sample_store ''in'' Source None None
      (Some sample_vault) (Some sample_vault) = Inr ap \<and>
    pps_encryptionSecrets (ap_protection ap) \<noteq> None \<and> ap_type ap = Volume_ReadOnly"
proof -
  obtain ap where ap: "get_access_point (\<lambda>_. ''0123456789'') sample_store ''in'' Source None None
      (Some sample_vault) (Some sample_vault) = Inr ap"
    by (simp add: get_access_point_def access_point_secrets_def sample_store_def sample_vault_def
        is_secret_supported_def is_key_release_supported_def Let_def)
  with access_point_protection [OF ap] show ?thesis
    by (simp add: sample_store_def)
qed

end
