(* ===== verification/Py_Data.thy ===== *)
theory Py_Data
  imports Json
begin

text \<open>
  Python's operations on values read from JSON or YAML: truth, subscripts, \<^verbatim>\<open>.get\<close>,
  \<^verbatim>\<open>in\<close>, \<^verbatim>\<open>int\<close>, \<^verbatim>\<open>str\<close>, in-place list extension, and
  \<^verbatim>\<open>urllib.parse.urlparse\<close>. \<^verbatim>\<open>None\<close> is \<open>JNull\<close>. A mutation
  returns the new value.
\<close>

section \<open>JSON values\<close>

definition json_truthy :: "json \<Rightarrow> bool" where
  "json_truthy j =
    (case j of JNull \<Rightarrow> False | JBool b \<Rightarrow> b | JInt i \<Rightarrow> i \<noteq> 0 | JStr s \<Rightarrow> s \<noteq> []
     | JArr xs \<Rightarrow> xs \<noteq> [] | JObj kvs \<Rightarrow> kvs \<noteq> [])"

text \<open>\<^verbatim>\<open>j[k]\<close> for a string key.\<close>

definition json_item :: "json \<Rightarrow> string \<Rightarrow> json res" where
  "json_item j k =
    (case j of JObj kvs \<Rightarrow> (case map_of kvs k of None \<Rightarrow> Inl (KeyError k) | Some v \<Rightarrow> Inr v)
     | _ \<Rightarrow> Inl TypeError)"

text \<open>\<^verbatim>\<open>j.get(k, d)\<close>.\<close>

definition json_get :: "json \<Rightarrow> string \<Rightarrow> json \<Rightarrow> json res" where
  "json_get j k d =
    (case j of JObj kvs \<Rightarrow> Inr (case map_of kvs k of None \<Rightarrow> d | Some v \<Rightarrow> v) | _ \<Rightarrow> Inl AttributeError)"

text \<open>\<^verbatim>\<open>k in j\<close> for a string \<open>k\<close>.\<close>

fun is_substring :: "string \<Rightarrow> string \<Rightarrow> bool" where
  "is_substring s [] = (s = [])"
| "is_substring s (c # cs) = (take (length s) (c # cs) = s \<or> is_substring s cs)"

definition json_contains :: "json \<Rightarrow> string \<Rightarrow> bool res" where
  "json_contains j k =
    (case j of JObj kvs \<Rightarrow> Inr (k \<in> fst ` set kvs)
     | JArr xs \<Rightarrow> Inr (JStr k \<in> set xs)
     | JStr s \<Rightarrow> Inr (is_substring k s)
     | _ \<Rightarrow> Inl TypeError)"

text \<open>\<^verbatim>\<open>j[0]\<close>, and the elements of a value that is iterated over.\<close>

definition json_first :: "json \<Rightarrow> json res" where
  "json_first j =
    (case j of JArr xs \<Rightarrow> (case xs of [] \<Rightarrow> Inl IndexError | x # _ \<Rightarrow> Inr x)
     | JStr s \<Rightarrow> (case s of [] \<Rightarrow> Inl IndexError | c # _ \<Rightarrow> Inr (JStr [c]))
     | JObj _ \<Rightarrow> Inl (KeyError ''0'')
     | _ \<Rightarrow> Inl TypeError)"

definition json_iter :: "json \<Rightarrow> json list res" where
  "json_iter j =
    (case j of JArr xs \<Rightarrow> Inr xs
     | JObj kvs \<Rightarrow> Inr (map (\<lambda>kv. JStr (fst kv)) kvs)
     | JStr s \<Rightarrow> Inr (map (\<lambda>c. JStr [c]) s)
     | _ \<Rightarrow> Inl TypeError)"

text \<open>\<^verbatim>\<open>j.extend(ys)\<close> and \<^verbatim>\<open>j.append(y)\<close>.\<close>

definition json_extend :: "json list \<Rightarrow> json \<Rightarrow> json res" where
  "json_extend ys j = (case j of JArr xs \<Rightarrow> Inr (JArr (xs @ ys)) | _ \<Rightarrow> Inl AttributeError)"

text \<open>\<^verbatim>\<open>j[k] = f(j[k])\<close>: an update in place below key \<open>k\<close>.\<close>

definition json_update_item :: "string \<Rightarrow> (json \<Rightarrow> json res) \<Rightarrow> json \<Rightarrow> json res" where
  "json_update_item k f j =
    bind_res (json_item j k) (\<lambda>v.
    bind_res (f v) (\<lambda>v'.
    (case j of JObj kvs \<Rightarrow> Inr (JObj (AList.update k v' kvs)) | _ \<Rightarrow> Inl TypeError)))"

text \<open>\<^verbatim>\<open>int(j)\<close>.\<close>

definition json_int :: "json \<Rightarrow> int res" where
  "json_int j =
    (case j of JInt i \<Rightarrow> Inr i | JBool b \<Rightarrow> Inr (if b then 1 else 0) | JStr s \<Rightarrow> py_int s | _ \<Rightarrow> Inl TypeError)"

lemma json_item_simps [simp]:
  "json_item (JObj kvs) k = (case map_of kvs k of None \<Rightarrow> Inl (KeyError k) | Some v \<Rightarrow> Inr v)"
  by (simp add: json_item_def)

lemma json_get_simps [simp]:
  "json_get (JObj kvs) k d = Inr (case map_of kvs k of None \<Rightarrow> d | Some v \<Rightarrow> v)"
  by (simp add: json_get_def)

lemma json_truthy_simps [simp]:
  "json_truthy (JStr s) = (s \<noteq> [])" "json_truthy (JObj kvs) = (kvs \<noteq> [])" "\<not> json_truthy JNull"
  by (simp_all add: json_truthy_def)

lemma json_update_item_other:
  assumes "json_update_item k f j = Inr j'" and "k' \<noteq> k"
  shows "json_item j' k' = json_item j k'"
  using assms by (cases j) (auto simp: json_update_item_def bind_res_Inr_iff split: option.splits)

lemma json_update_item_same:
  assumes "json_update_item k f j = Inr j'"
  obtains v v' where "json_item j k = Inr v" and "f v = Inr v'" and "json_item j' k = Inr v'"
  using assms by (cases j) (auto simp: json_update_item_def bind_res_Inr_iff split: option.splits)

section \<open>Printing\<close>

text \<open>
  \<^verbatim>\<open>repr\<close> of a string: single quotes, or double quotes when that saves escaping. Of the
  code points below 256 the printable ones are kept.
\<close>

definition repr_char :: "char \<Rightarrow> char \<Rightarrow> string" where
  "repr_char q c =
    (let n = char_code c :: nat
     in if c = q \<or> c = backslash then [backslash, c]
        else if n = 10 then [backslash, CHR ''n'']
        else if n = 13 then [backslash, CHR ''r'']
        else if n = 9 then [backslash, CHR ''t'']
        else if (32 \<le> n \<and> n < 127) \<or> (160 < n \<and> n \<noteq> 173) then [c]
        else [backslash, CHR ''x'', hex_char (n div 16), hex_char (n mod 16)])"

definition repr_str :: "string \<Rightarrow> string" where
  "repr_str s =
    (let apostrophe = CHR 0x27;
         q = (if apostrophe \<in> set s \<and> quote_char \<notin> set s then quote_char else apostrophe)
     in [q] @ concat (map (repr_char q) s) @ [q])"

fun py_repr :: "json \<Rightarrow> string"
  and py_repr_elems :: "json list \<Rightarrow> string"
  and py_repr_members :: "(string \<times> json) list \<Rightarrow> string" where
  "py_repr JNull = ''None''"
| "py_repr (JBool b) = str_bool b"
| "py_repr (JInt i) = str_int i"
| "py_repr (JStr s) = repr_str s"
| "py_repr (JArr xs) = ''['' @ py_repr_elems xs @ '']''"
| "py_repr (JObj kvs) = ''{'' @ py_repr_members kvs @ ''}''"
| "py_repr_elems [] = []"
| "py_repr_elems (x # xs) = py_repr x @ (if xs = [] then [] else '', '' @ py_repr_elems xs)"
| "py_repr_members [] = []"
| "py_repr_members (kv # kvs) =
    repr_str (fst kv) @ '': '' @ py_repr (snd kv) @ (if kvs = [] then [] else '', '' @ py_repr_members kvs)"

text \<open>\<^verbatim>\<open>str(j)\<close>, also what an f-string and a template put in.\<close>

definition json_str :: "json \<Rightarrow> string" where
  "json_str j = (case j of JStr s \<Rightarrow> s | _ \<Rightarrow> py_repr j)"

lemma json_str_JStr [simp]: "json_str (JStr s) = s"
  by (simp add: json_str_def)

section \<open>URLs\<close>

text \<open>
  \<^verbatim>\<open>urlparse\<close>, for the network location and the path. Control characters and spaces at the
  start and tabs and line breaks anywhere are dropped; a scheme is a letter followed by letters,
  digits, plus, minus and dot.
\<close>

definition is_alpha :: "char \<Rightarrow> bool" where
  "is_alpha c \<longleftrightarrow> (let n = char_code c :: nat in (65 \<le> n \<and> n \<le> 90) \<or> (97 \<le> n \<and> n \<le> 122))"

definition scheme_char :: "char \<Rightarrow> bool" where
  "scheme_char c \<longleftrightarrow> is_alpha c \<or> is_digit c \<or> c \<in> set ''+-.''"

definition url_clean :: "string \<Rightarrow> string" where
  "url_clean u =
    filter (\<lambda>c. (char_code c :: nat) \<notin> {9, 10, 13}) (dropWhile (\<lambda>c. (char_code c :: nat) \<le> 32) u)"

definition url_scheme_split :: "string \<Rightarrow> string \<times> string" where
  "url_scheme_split u =
    (let s = takeWhile (\<lambda>c. c \<noteq> CHR '':'') u; r = dropWhile (\<lambda>c. c \<noteq> CHR '':'') u
     in case (s, r) of
          (c # cs, _ # rest) \<Rightarrow>
            if is_alpha c \<and> list_all scheme_char (c # cs) then (str_lower s, rest) else ([], u)
        | _ \<Rightarrow> ([], u))"

definition uses_params :: "string list" where
  "uses_params = ['''', ''ftp'', ''hdl'', ''prospero'', ''http'', ''https'', ''shttp'', ''rtsp'',
     ''rtsps'', ''rtspu'', ''sip'', ''sips'', ''mms'', ''sftp'', ''tel'']"

record parsed_url =
  url_scheme :: string
  url_netloc :: string
  url_path :: string

text \<open>
  The parameters after a semicolon are cut from the last segment of the path for the schemes that
  have them. A network location with only one kind of bracket is an error.
\<close>

definition cut_params :: "string \<Rightarrow> string" where
  "cut_params p =
    (let segs = str_split (CHR ''/'') p
     in str_join ''/'' (butlast segs @ [takeWhile (\<lambda>c. c \<noteq> CHR '';'') (last segs)]))"

definition urlparse :: "string \<Rightarrow> parsed_url res" where
  "urlparse u =
    (let (scheme, r) = url_scheme_split (url_clean u);
         (netloc, tail) =
           (case r of
              c # d # rest \<Rightarrow>
                if c = CHR ''/'' \<and> d = CHR ''/''
                then (takeWhile (\<lambda>c. c \<notin> set ''/?#'') rest, dropWhile (\<lambda>c. c \<notin> set ''/?#'') rest)
                else ([], r)
            | _ \<Rightarrow> ([], r));
         path = takeWhile (\<lambda>c. c \<notin> set ''?#'') tail
     in if (CHR ''['' \<in> set netloc) \<noteq> (CHR '']'' \<in> set netloc) then Inl (ValueError ''Invalid IPv6 URL'')
        else Inr \<lparr>url_scheme = scheme, url_netloc = netloc,
                  url_path = (if scheme \<in> set uses_params then cut_params path else path)\<rparr>)"

text \<open>\<^verbatim>\<open>.hostname\<close>: without user and port, in lower case, \<^verbatim>\<open>None\<close> when empty.\<close>

definition url_hostname :: "parsed_url \<Rightarrow> string option" where
  "url_hostname p =
    (let host = last (str_split (CHR ''@'') (url_netloc p));
         h = (if CHR ''['' \<in> set host
              then takeWhile (\<lambda>c. c \<noteq> CHR '']'') (tl (dropWhile (\<lambda>c. c \<noteq> CHR ''['') host))
              else takeWhile (\<lambda>c. c \<noteq> CHR '':'') host)
     in if h = [] then None
        else Some (str_lower (takeWhile (\<lambda>c. c \<noteq> CHR ''%'') h) @ dropWhile (\<lambda>c. c \<noteq> CHR ''%'') h))"

section \<open>Reading printed numbers\<close>

lemma int_digits_all:
  "list_all is_digit s \<Longrightarrow> int_digits n s = Some (foldl (\<lambda>n c. 10 * n + digit_val c) n s)"
  by (induction s arbitrary: n) auto

lemma digit_not_space: "is_digit c \<Longrightarrow> \<not> is_space c"
  by (auto simp: is_digit_def is_space_def)

lemma str_strip_digits: "list_all is_digit s \<Longrightarrow> str_strip s = s"
proof -
  assume d: "list_all is_digit s"
  have *: "dropWhile is_space xs = xs" if "list_all is_digit xs" for xs
    using that by (cases xs) (auto dest: digit_not_space)
  show ?thesis using * [of s] * [of "rev s"] d by (simp add: str_strip_def)
qed

lemma py_int_str_nat: "py_int (str_nat n) = Inr (int n)"
proof -
  have d: "list_all is_digit (str_nat n)" using str_nat_digits [of n] by (simp add: list_all_iff)
  obtain c cs where c: "str_nat n = c # cs" by (cases "str_nat n") auto
  with d have "is_digit c" by simp
  then have "c \<noteq> CHR ''-''" "c \<noteq> CHR ''+''" by (auto simp: is_digit_def)
  moreover have "nat_literal (str_nat n) = Some n"
    using \<open>is_digit c\<close> c int_digits_all [OF d, of 0] digits_val_str_nat [of n]
    by (simp add: nat_literal_def digits_val_def)
  moreover have "str_strip (c # cs) = c # cs" using str_strip_digits [OF d] c by simp
  ultimately show ?thesis
    using c by (simp add: py_int_def)
qed

section \<open>Base64 of values\<close>

text \<open>\<^verbatim>\<open>base64.b64decode\<close> of a value.\<close>

definition json_b64decode :: "json \<Rightarrow> string res" where
  "json_b64decode j =
    (case j of
       JStr s \<Rightarrow> if is_ascii s then b64decode s
                 else Inl (ValueError ''string argument should contain only ASCII characters'')
     | _ \<Rightarrow> Inl TypeError)"

text \<open>\<^verbatim>\<open>json.loads(base64.b64decode(j).decode())\<close>.\<close>

definition json_b64_document :: "json \<Rightarrow> json res" where
  "json_b64_document j = bind_res (json_b64decode j) (\<lambda>b. bind_res (utf8_decode b) json_loads)"

lemma json_dumps_nonempty [simp]: "json_dumps j \<noteq> []"
proof -
  obtain c cs where "dumps_value False j = c # cs" by (rule dumps_value_head)
  then show ?thesis by (simp add: json_dumps_def)
qed

lemma b64encode_empty_iff [simp]: "b64encode s = [] \<longleftrightarrow> s = []"
  by (cases s rule: b64encode.cases) (auto simp: Let_def)

lemma json_b64decode_encode [simp]: "json_b64decode (JStr (b64encode s)) = Inr s"
  by (simp add: json_b64decode_def b64encode_ascii)

lemma json_b64_document_encode [simp]: "json_wf j \<Longrightarrow> json_b64_document (JStr (b64encode (json_dumps j))) = Inr j"
  by (simp add: json_b64_document_def)

section \<open>Lists and paths\<close>

text \<open>A list comprehension whose condition may raise.\<close>

fun filter_res :: "('a \<Rightarrow> bool res) \<Rightarrow> 'a list \<Rightarrow> 'a list res" where
  "filter_res p [] = Inr []"
| "filter_res p (x # xs) =
    bind_res (p x) (\<lambda>b. bind_res (filter_res p xs) (\<lambda>ys. Inr (if b then x # ys else ys)))"

text \<open>A value used where a string is needed.\<close>

definition json_as_str :: "json \<Rightarrow> string res" where
  "json_as_str j = (case j of JStr s \<Rightarrow> Inr s | _ \<Rightarrow> Inl TypeError)"

text \<open>\<^verbatim>\<open>os.path.join\<close> of two parts.\<close>

definition path_join :: "string \<Rightarrow> string \<Rightarrow> string" where
  "path_join a b =
    (if b \<noteq> [] \<and> hd b = CHR ''/'' then b
     else if a = [] \<or> last a = CHR ''/'' then a @ b else a @ ''/'' @ b)"

end
