(* ===== verification/Job_Records.thy ===== *)
theory Job_Records
  imports Json
begin

text \<open>
  Job records of the Spark frontend: \<^verbatim>\<open>models/job_record_models.py\<close>,
  \<^verbatim>\<open>clients/job_record_client.py\<close>, \<^verbatim>\<open>SparkErrorCode\<close> and
  \<^verbatim>\<open>ApplicationStateEnum\<close> of \<^verbatim>\<open>models/spark_application_models.py\<close>.

  The Kubernetes client, pydantic's \<^verbatim>\<open>model_validate\<close> and tenacity's
  \<^verbatim>\<open>retry\<close> are fields of the record \<open>jr_api\<close>, over an arbitrary state; their
  documented behaviour, with other clients writing between any two calls, is the predicate
  \<open>jr_contract\<close>. Floats are an arbitrary type with the operations of \<open>float_ops\<close>.
  A \<^verbatim>\<open>datetime\<close> is its number of microseconds; all instants carry a time zone.
\<close>

section \<open>Models\<close>

datatype application_state =
    State_New | State_Submitted | State_Running | State_Completed | State_Failed
  | State_SubmissionFailed | State_PendingRerun | State_Invalidating | State_Succeeding
  | State_Failing | State_Suspending | State_Suspended | State_Resuming | State_Unknown

definition state_value :: "application_state \<Rightarrow> string" where
  "state_value st =
    (case st of
       State_New \<Rightarrow> '''' | State_Submitted \<Rightarrow> ''SUBMITTED'' | State_Running \<Rightarrow> ''RUNNING''
     | State_Completed \<Rightarrow> ''COMPLETED'' | State_Failed \<Rightarrow> ''FAILED''
     | State_SubmissionFailed \<Rightarrow> ''SUBMISSION_FAILED'' | State_PendingRerun \<Rightarrow> ''PENDING_RERUN''
     | State_Invalidating \<Rightarrow> ''INVALIDATING'' | State_Succeeding \<Rightarrow> ''SUCCEEDING''
     | State_Failing \<Rightarrow> ''FAILING'' | State_Suspending \<Rightarrow> ''SUSPENDING''
     | State_Suspended \<Rightarrow> ''SUSPENDED'' | State_Resuming \<Rightarrow> ''RESUMING'' | State_Unknown \<Rightarrow> ''UNKNOWN'')"

definition spark_error_code_from_state :: "application_state \<Rightarrow> string" where
  "spark_error_code_from_state st =
    (case map_of [(''FAILED'', ''SPARK_JOB_FAILED''), (''SUBMISSION_FAILED'', ''SPARK_SUBMISSION_FAILED'')]
       (state_value st) of None \<Rightarrow> ''SPARK_JOB_FAILED'' | Some c \<Rightarrow> c)"

record job_run_error =
  jre_code :: string
  jre_message :: string

definition job_run_error_from_state :: "application_state \<Rightarrow> string option \<Rightarrow> job_run_error" where
  "job_run_error_from_state st msg =
    \<lparr>jre_code = spark_error_code_from_state st,
     jre_message = or_str msg (''Spark job terminated with state: '' @ state_value st)\<rparr>"

record job_run_stats =
  rows_read :: int
  rows_written :: int

record job_run =
  run_id :: string
  start_time :: "int option"
  end_time :: "int option"
  is_successful :: bool
  run_error :: "job_run_error option"
  run_stats :: "job_run_stats option"

definition validate_times :: "job_run \<Rightarrow> job_run res" where
  "validate_times r =
    (case (start_time r, end_time r) of
       (Some a, Some b) \<Rightarrow> if b < a then Inl (ValueError ''end_time must be after start_time'') else Inr r
     | _ \<Rightarrow> Inr r)"

record 'f float_ops =
  f_zero :: 'f
  f_add :: "'f \<Rightarrow> 'f \<Rightarrow> 'f"
  f_div_int :: "'f \<Rightarrow> int \<Rightarrow> 'f"
  f_round2 :: "'f \<Rightarrow> 'f"
  f_seconds :: "int \<Rightarrow> 'f" \<comment> \<open>\<^verbatim>\<open>timedelta.total_seconds\<close>, from microseconds\<close>

definition duration_seconds :: "'f float_ops \<Rightarrow> job_run \<Rightarrow> 'f" where
  "duration_seconds F r =
    (case (start_time r, end_time r) of
       (Some a, Some b) \<Rightarrow> f_seconds F (b - a)
     | _ \<Rightarrow> f_zero F)"

record 'f job_record_summary =
  total_runs :: int
  successful_runs :: int
  failed_runs :: int
  total_runtime_seconds :: 'f
  avg_duration_seconds :: 'f
  total_rows_read :: int
  total_rows_written :: int

definition empty_summary :: "'f float_ops \<Rightarrow> 'f job_record_summary" where
  "empty_summary F =
    \<lparr>total_runs = 0, successful_runs = 0, failed_runs = 0, total_runtime_seconds = f_zero F,
     avg_duration_seconds = f_zero F, total_rows_read = 0, total_rows_written = 0\<rparr>"

definition accumulate ::
  "'f float_ops \<Rightarrow> 'f job_record_summary \<Rightarrow> job_run \<Rightarrow> 'f job_record_summary res" where
  "accumulate F s run =
    (let total = total_runs s + 1;
         runtime = f_add F (total_runtime_seconds s) (duration_seconds F run)
     in if total = 0 then Inl (OtherException ''ZeroDivisionError'')
        else Inr
          \<lparr>total_runs = total,
           successful_runs = successful_runs s + (if is_successful run then 1 else 0),
           failed_runs = failed_runs s + (if \<not> is_successful run then 1 else 0),
           total_runtime_seconds = f_round2 F runtime,
           avg_duration_seconds = f_round2 F (f_div_int F runtime total),
           total_rows_read = total_rows_read s
             + (case run_stats run of None \<Rightarrow> 0 | Some x \<Rightarrow> rows_read x),
           total_rows_written = total_rows_written s
             + (case run_stats run of None \<Rightarrow> 0 | Some x \<Rightarrow> rows_written x)\<rparr>)"

record 'f job_record_status =
  latest_run :: "job_run option"
  status_runs :: "job_run list"
  status_summary :: "'f job_record_summary option"

record 'f job_record =
  jr_api_version :: string
  jr_kind :: string
  jr_metadata :: "(string, json) dict option"
  jr_query_id :: string
  jr_status :: "'f job_record_status option"

record 'f job_record_response =
  resp_query_id :: string
  resp_latest_run :: "job_run option"
  resp_runs :: "job_run list"
  resp_summary :: "'f job_record_summary option"

definition from_job_record :: "'f job_record \<Rightarrow> 'f job_record_response" where
  "from_job_record r =
    (let st = (case jr_status r of
                 None \<Rightarrow> \<lparr>latest_run = None, status_runs = [], status_summary = None\<rparr>
               | Some st \<Rightarrow> st)
     in \<lparr>resp_query_id = jr_query_id r, resp_latest_run = latest_run st,
         resp_runs = status_runs st, resp_summary = status_summary st\<rparr>)"

section \<open>The client\<close>

definition GROUP :: string where "GROUP = ''cleanroom.azure.com''"
definition VERSION :: string where "VERSION = ''v1alpha1''"
definition KIND :: string where "KIND = ''JobRecord''"
definition HISTORY_LIMIT :: nat where "HISTORY_LIMIT = 20"
definition MAX_RETRY_ATTEMPTS :: nat where "MAX_RETRY_ATTEMPTS = 5"

record 'f status_body =
  sb_apiVersion :: string
  sb_kind :: string
  sb_name :: string
  sb_resourceVersion :: json
  sb_latestRun :: job_run
  sb_runs :: "job_run list"
  sb_summary :: "'f job_record_summary"

text \<open>
  The libraries the client calls: the three calls of \<^verbatim>\<open>CustomObjectsApi\<close> (namespace and
  name or body; group, version and plural are fixed), \<^verbatim>\<open>JobRecord.model_validate\<close>,
  \<^verbatim>\<open>retry\<close> (which errors to retry, how many attempts) and the wait between attempts.
\<close>

record ('s, 'd, 'f) jr_api =
  get_custom_object :: "string \<Rightarrow> string \<Rightarrow> ('s, 'd) op"
  create_custom_object :: "string \<Rightarrow> json \<Rightarrow> ('s, 'd) op"
  patch_custom_object_status :: "string \<Rightarrow> string \<Rightarrow> 'f status_body \<Rightarrow> ('s, 'd) op"
  model_validate :: "'d \<Rightarrow> 'f job_record res"
  retrying :: "(exc \<Rightarrow> bool) \<Rightarrow> nat \<Rightarrow> ('s, 'f job_record) op \<Rightarrow> ('s, 'f job_record) op"
  pause :: "'s \<Rightarrow> 's"

definition is_conflict_error :: "exc \<Rightarrow> bool" where
  "is_conflict_error e = (case e of ApiException st _ \<Rightarrow> st = Some 409 | _ \<Rightarrow> False)"

definition conflict_retry ::
  "('s, 'd, 'f) jr_api \<Rightarrow> ('s, 'f job_record) op \<Rightarrow> ('s, 'f job_record) op" where
  "conflict_retry A m = retrying A is_conflict_error MAX_RETRY_ATTEMPTS m"

definition apply_history_limit :: "job_run list \<Rightarrow> job_run list" where
  "apply_history_limit runs = last_n HISTORY_LIMIT runs"

definition get_job_record ::
  "('s, 'd, 'f) jr_api \<Rightarrow> string \<Rightarrow> string \<Rightarrow> ('s, 'f job_record option) op" where
  "get_job_record A query_id ns =
    catch_op
      (bind_op (get_custom_object A ns query_id) (\<lambda>d.
       bind_op (lift_res (model_validate A d)) (\<lambda>r. return_op (Some r))))
      (\<lambda>e. case e of
         ApiException st m \<Rightarrow> if st = Some 404 then return_op None else raise_op e
       | _ \<Rightarrow> raise_op e)"

definition create_body :: "string \<Rightarrow> string \<Rightarrow> json" where
  "create_body query_id ns =
    JObj [(''apiVersion'', JStr (GROUP @ ''/'' @ VERSION)),
          (''kind'', JStr KIND),
          (''metadata'', JObj
            [(''name'', JStr query_id),
             (''namespace'', JStr ns),
             (''labels'', JObj [(''app.kubernetes.io/name'', JStr ''jobrecord'')]),
             (''annotations'', JObj
               [(''cleanroom.azure.com/created-by'', JStr ''cleanroom-spark-frontend'')])]),
          (''spec'', JObj [(''queryId'', JStr query_id)])]"

definition create_job_record ::
  "('s, 'd, 'f) jr_api \<Rightarrow> string \<Rightarrow> string \<Rightarrow> ('s, 'f job_record) op" where
  "create_job_record A query_id ns =
    bind_op (create_custom_object A ns (create_body query_id ns)) (\<lambda>d. lift_res (model_validate A d))"

definition get_or_create_job_record ::
  "('s, 'd, 'f) jr_api \<Rightarrow> string \<Rightarrow> string \<Rightarrow> ('s, 'f job_record) op" where
  "get_or_create_job_record A query_id ns =
    bind_op (get_job_record A query_id ns) (\<lambda>r. case r of
      Some x \<Rightarrow> return_op x
    | None \<Rightarrow>
        catch_op (create_job_record A query_id ns) (\<lambda>e.
          if is_conflict_error e then
            bind_op (get_job_record A query_id ns) (\<lambda>r. case r of
              None \<Rightarrow> raise_op (JobRecordError (''Failed to get JobRecord '' @ query_id @ '' after conflict''))
            | Some x \<Rightarrow> return_op x)
          else raise_op e))"

definition resource_version :: "'f job_record \<Rightarrow> json res" where
  "resource_version r =
    (case jr_metadata r of
       None \<Rightarrow> Inl TypeError
     | Some md \<Rightarrow> (case map_of md ''resourceVersion'' of
                      None \<Rightarrow> Inl (KeyError ''resourceVersion'') | Some v \<Rightarrow> Inr v))"

definition existing_runs :: "'f job_record_status option \<Rightarrow> job_run list" where
  "existing_runs st = (case st of None \<Rightarrow> [] | Some x \<Rightarrow> status_runs x)"

definition existing_summary :: "'f float_ops \<Rightarrow> 'f job_record_status option \<Rightarrow> 'f job_record_summary" where
  "existing_summary F st =
    (case st of
       Some x \<Rightarrow> (case status_summary x of Some s \<Rightarrow> s | None \<Rightarrow> empty_summary F)
     | None \<Rightarrow> empty_summary F)"

definition get_job_record_context ::
  "'f float_ops \<Rightarrow> ('s, 'd, 'f) jr_api \<Rightarrow> string \<Rightarrow> string \<Rightarrow>
   ('s, 'f job_record \<times> json \<times> job_run list \<times> 'f job_record_summary) op" where
  "get_job_record_context F A query_id ns =
    bind_op (get_or_create_job_record A query_id ns) (\<lambda>r.
    bind_op (lift_res (resource_version r)) (\<lambda>rv.
    return_op (r, rv, existing_runs (jr_status r), existing_summary F (jr_status r))))"

definition patch_job_record_status ::
  "'f float_ops \<Rightarrow> ('s, 'd, 'f) jr_api \<Rightarrow> string \<Rightarrow> string \<Rightarrow> json \<Rightarrow> job_run \<Rightarrow> job_run list \<Rightarrow>
   'f job_record_summary \<Rightarrow> ('s, 'f job_record) op" where
  "patch_job_record_status F A query_id ns rv run runs old_summary =
    bind_op (lift_res (accumulate F old_summary run)) (\<lambda>summary.
    bind_op (patch_custom_object_status A ns query_id
      \<lparr>sb_apiVersion = GROUP @ ''/'' @ VERSION, sb_kind = KIND, sb_name = query_id,
       sb_resourceVersion = rv, sb_latestRun = run, sb_runs = runs, sb_summary = summary\<rparr>) (\<lambda>d.
    lift_res (model_validate A d)))"

text \<open>The body of \<^verbatim>\<open>_add_run_with_retry\<close>, one attempt.\<close>

definition add_run_attempt ::
  "'f float_ops \<Rightarrow> ('s, 'd, 'f) jr_api \<Rightarrow> string \<Rightarrow> string \<Rightarrow> job_run \<Rightarrow> ('s, 'f job_record) op" where
  "add_run_attempt F A query_id ns run =
    bind_op (get_job_record_context F A query_id ns) (\<lambda>(r, rv, runs, summary).
    if run_id run \<in> run_id ` set runs then return_op r
    else patch_job_record_status F A query_id ns rv run (apply_history_limit (runs @ [run])) summary)"

definition add_run_with_retry ::
  "'f float_ops \<Rightarrow> ('s, 'd, 'f) jr_api \<Rightarrow> string \<Rightarrow> string \<Rightarrow> job_run \<Rightarrow> ('s, 'f job_record) op" where
  "add_run_with_retry F A query_id ns run = conflict_retry A (add_run_attempt F A query_id ns run)"

definition add_run ::
  "'f float_ops \<Rightarrow> ('s, 'd, 'f) jr_api \<Rightarrow> string \<Rightarrow> string \<Rightarrow> job_run \<Rightarrow> ('s, 'f job_record) op" where
  "add_run F A query_id ns run =
    catch_op (add_run_with_retry F A query_id ns run) (\<lambda>e.
      if is_conflict_error e
      then raise_op (JobRecordConflictError (''Failed to add run to JobRecord '' @ query_id @ '' after ''
             @ str_nat MAX_RETRY_ATTEMPTS @ '' retries''))
      else raise_op e)"

section \<open>What a job record promises\<close>

text \<open>Recording one run in a status, and recording it unless its id is among the kept runs.\<close>

definition record_run ::
  "'f float_ops \<Rightarrow> 'f job_record_status option \<Rightarrow> job_run \<Rightarrow> 'f job_record_status res" where
  "record_run F st run =
    bind_res (accumulate F (existing_summary F st) run) (\<lambda>sm.
    Inr \<lparr>latest_run = Some run, status_runs = last_n HISTORY_LIMIT (existing_runs st @ [run]),
         status_summary = Some sm\<rparr>)"

definition record_run_once ::
  "'f float_ops \<Rightarrow> job_run \<Rightarrow> 'f job_record_status option \<Rightarrow> 'f job_record_status option res" where
  "record_run_once F run st =
    (if run_id run \<in> run_id ` set (existing_runs st) then Inr st
     else bind_res (record_run F st run) (\<lambda>x. Inr (Some x)))"

definition status_inv :: "'f float_ops \<Rightarrow> 'f job_record_status option \<Rightarrow> bool" where
  "status_inv F st \<longleftrightarrow>
    (let runs = existing_runs st; sm = existing_summary F st
     in length runs \<le> HISTORY_LIMIT \<and> distinct (map run_id runs) \<and>
        (case st of None \<Rightarrow> True
         | Some x \<Rightarrow> latest_run x = (if runs = [] then None else Some (last runs))) \<and>
        0 \<le> successful_runs sm \<and> 0 \<le> failed_runs sm \<and>
        total_runs sm = successful_runs sm + failed_runs sm \<and> int (length runs) \<le> total_runs sm)"

lemma existing_simps [simp]:
  "existing_runs None = []" "existing_runs (Some x) = status_runs x"
  "existing_summary F None = empty_summary F"
  "existing_summary F (Some \<lparr>latest_run = l, status_runs = r, status_summary = Some s\<rparr>) = s"
  by (simp_all add: existing_runs_def existing_summary_def)

lemma accumulate_Inr:
  assumes "0 \<le> total_runs s"
  obtains s' where "accumulate F s run = Inr s'"
    and "total_runs s' = total_runs s + 1"
    and "successful_runs s' = successful_runs s + of_bool (is_successful run)"
    and "failed_runs s' = failed_runs s + of_bool (\<not> is_successful run)"
    and "total_rows_read s' = total_rows_read s + (case run_stats run of None \<Rightarrow> 0 | Some x \<Rightarrow> rows_read x)"
    and "total_rows_written s' = total_rows_written s + (case run_stats run of None \<Rightarrow> 0 | Some x \<Rightarrow> rows_written x)"
  using assms by (simp add: accumulate_def Let_def)

lemma record_run_Inr:
  assumes "status_inv F st"
  obtains sm where "accumulate F (existing_summary F st) run = Inr sm"
    and "record_run F st run = Inr \<lparr>latest_run = Some run,
      status_runs = last_n HISTORY_LIMIT (existing_runs st @ [run]), status_summary = Some sm\<rparr>"
proof -
  from assms have "0 \<le> total_runs (existing_summary F st)" by (simp add: status_inv_def Let_def)
  then obtain sm where "accumulate F (existing_summary F st) run = Inr sm" by (rule accumulate_Inr)
  with that show ?thesis by (simp add: record_run_def)
qed

lemma last_n_snoc_nonempty: "0 < n \<Longrightarrow> last_n n (xs @ [x]) \<noteq> [] \<and> last (last_n n (xs @ [x])) = x"
  by (simp add: last_n_def)

lemma status_inv_record_run:
  assumes inv: "status_inv F st" and new: "run_id run \<notin> run_id ` set (existing_runs st)"
    and r: "record_run F st run = Inr st'"
  shows "status_inv F (Some st')"
proof -
  obtain sm where sm: "accumulate F (existing_summary F st) run = Inr sm"
    and st': "st' = \<lparr>latest_run = Some run,
      status_runs = last_n HISTORY_LIMIT (existing_runs st @ [run]), status_summary = Some sm\<rparr>"
    using record_run_Inr [OF inv, of run] r by auto
  from inv have t: "0 \<le> total_runs (existing_summary F st)" by (simp add: status_inv_def Let_def)
  obtain sm' where "accumulate F (existing_summary F st) run = Inr sm'"
    "total_runs sm' = total_runs (existing_summary F st) + 1"
    "successful_runs sm' = successful_runs (existing_summary F st) + of_bool (is_successful run)"
    "failed_runs sm' = failed_runs (existing_summary F st) + of_bool (\<not> is_successful run)"
    by (rule accumulate_Inr [OF t]) auto
  moreover have "distinct (map run_id (last_n HISTORY_LIMIT (existing_runs st @ [run])))"
    using inv new by (intro distinct_map_last_n) (auto simp: status_inv_def Let_def)
  moreover have "last_n HISTORY_LIMIT (existing_runs st @ [run]) \<noteq> []"
    "last (last_n HISTORY_LIMIT (existing_runs st @ [run])) = run"
    using last_n_snoc_nonempty [of HISTORY_LIMIT "existing_runs st" run] by (simp_all add: HISTORY_LIMIT_def)
  ultimately show ?thesis
    using inv sm st' by (auto simp: status_inv_def Let_def)
qed

lemma status_inv_record_run_once:
  assumes "status_inv F st"
  obtains st' where "record_run_once F run st = Inr st'" and "status_inv F st'"
proof (cases "run_id run \<in> run_id ` set (existing_runs st)")
  case True
  with assms that show ?thesis by (simp add: record_run_once_def)
next
  case False
  obtain x where "record_run F st run = Inr x" using record_run_Inr [OF assms] by metis
  with False assms that status_inv_record_run show ?thesis
    by (fastforce simp: record_run_once_def)
qed

lemma status_inv_None [simp]: "status_inv F None"
  by (simp add: status_inv_def empty_summary_def)

text \<open>The totals over a sequence of runs.\<close>

definition count_runs :: "(job_run \<Rightarrow> bool) \<Rightarrow> job_run list \<Rightarrow> int" where
  "count_runs p rs = int (length (filter p rs))"

definition sum_stats :: "(job_run_stats \<Rightarrow> int) \<Rightarrow> job_run list \<Rightarrow> int" where
  "sum_stats f rs = sum_list (map (\<lambda>r. case run_stats r of None \<Rightarrow> 0 | Some x \<Rightarrow> f x) rs)"

lemma record_runs_history:
  assumes "distinct (map run_id rs)"
  obtains st where "fold_res (record_run_once F) rs None = Inr st"
    and "status_inv F st"
    and "existing_runs st = last_n HISTORY_LIMIT rs"
    and "total_runs (existing_summary F st) = int (length rs)"
    and "successful_runs (existing_summary F st) = count_runs is_successful rs"
    and "failed_runs (existing_summary F st) = count_runs (\<lambda>r. \<not> is_successful r) rs"
    and "total_rows_read (existing_summary F st) = sum_stats rows_read rs"
    and "total_rows_written (existing_summary F st) = sum_stats rows_written rs"
  using assms
proof (induction rs arbitrary: thesis rule: rev_induct)
  case Nil
  show ?case
    by (rule Nil.prems(1) [of None])
      (simp_all add: empty_summary_def count_runs_def sum_stats_def last_n_def)
next
  case (snoc r rs)
  obtain st where st: "fold_res (record_run_once F) rs None = Inr st" "status_inv F st"
    "existing_runs st = last_n HISTORY_LIMIT rs"
    "total_runs (existing_summary F st) = int (length rs)"
    "successful_runs (existing_summary F st) = count_runs is_successful rs"
    "failed_runs (existing_summary F st) = count_runs (\<lambda>r. \<not> is_successful r) rs"
    "total_rows_read (existing_summary F st) = sum_stats rows_read rs"
    "total_rows_written (existing_summary F st) = sum_stats rows_written rs"
    using snoc.prems(2) by (auto intro: snoc.IH)
  have new: "run_id r \<notin> run_id ` set (existing_runs st)"
    using snoc.prems(2) set_last_n [of HISTORY_LIMIT rs] by (auto simp: st(3))
  obtain sm where sm: "accumulate F (existing_summary F st) r = Inr sm"
    "record_run F st r = Inr \<lparr>latest_run = Some r,
      status_runs = last_n HISTORY_LIMIT (existing_runs st @ [r]), status_summary = Some sm\<rparr>"
    by (rule record_run_Inr [OF st(2)])
  from st(4) have t: "0 \<le> total_runs (existing_summary F st)" by simp
  show ?case
  proof (rule snoc.prems(1))
    show "fold_res (record_run_once F) (rs @ [r]) None = Inr (Some \<lparr>latest_run = Some r,
      status_runs = last_n HISTORY_LIMIT (existing_runs st @ [r]), status_summary = Some sm\<rparr>)"
      using new by (simp add: fold_res_append st(1) record_run_once_def sm(2))
  qed (use sm(1) status_inv_record_run [OF st(2) new sm(2)] st(3-8) in
      \<open>auto intro: accumulate_Inr [OF t, of F r] simp: last_n_snoc HISTORY_LIMIT_def count_runs_def sum_stats_def
        accumulate_def Let_def split: if_splits\<close>)
qed

section \<open>The client implements it\<close>

text \<open>
  What the client relies on. \<open>view s (namespace, name)\<close> is the stored record, \<open>env s t\<close>
  holds when only other clients acted between \<open>s\<close> and \<open>t\<close>; they may act before every call
  takes effect and while the client waits. A stored record never changes under the same resource
  version, a status patch takes effect only on the resource version it names, and
  \<^verbatim>\<open>retry\<close> repeats the call while the error qualifies and attempts are left.
\<close>

definition get_contract where
  "get_contract A view env \<longleftrightarrow>
    (\<forall>ns n s x t. get_custom_object A ns n s = (x, t) \<longrightarrow>
       env s t \<and>
       (case x of Inl e \<Rightarrow> True
        | Inr d \<Rightarrow> \<exists>r. view t (ns, n) = Some r \<and> model_validate A d = Inr r))"

definition create_contract where
  "create_contract A view env \<longleftrightarrow>
    (\<forall>ns n s x t. create_custom_object A ns (create_body n ns) s = (x, t) \<longrightarrow>
       (case x of Inl e \<Rightarrow> env s t
        | Inr d \<Rightarrow> \<exists>u r. env s u \<and> view u (ns, n) = None \<and> view t = (view u)((ns, n) \<mapsto> r) \<and>
            jr_status r = None \<and> jr_query_id r = n \<and> model_validate A d = Inr r))"

definition patch_contract where
  "patch_contract A view env \<longleftrightarrow>
    (\<forall>ns n b s x t. patch_custom_object_status A ns n b s = (x, t) \<longrightarrow>
       (case x of Inl e \<Rightarrow> env s t
        | Inr d \<Rightarrow> \<exists>u r r'. env s u \<and> view u (ns, n) = Some r \<and>
            resource_version r = Inr (sb_resourceVersion b) \<and> view t = (view u)((ns, n) \<mapsto> r') \<and>
            jr_status r' = Some \<lparr>latest_run = Some (sb_latestRun b), status_runs = sb_runs b,
                                 status_summary = Some (sb_summary b)\<rparr> \<and>
            jr_query_id r' = jr_query_id r \<and> model_validate A d = Inr r'))"

definition retry_contract where
  "retry_contract A env \<longleftrightarrow>
    (\<forall>t. env t (pause A t)) \<and>
    (\<forall>p n m s. retrying A p (Suc n) m s =
       (case m s of
          (Inr x, t) \<Rightarrow> (Inr x, t)
        | (Inl e, t) \<Rightarrow> if p e \<and> 0 < n then retrying A p n m (pause A t) else (Inl e, t)))"

definition env_contract where
  "env_contract view env \<longleftrightarrow>
    (\<forall>s. env s s) \<and> (\<forall>s t u. env s t \<longrightarrow> env t u \<longrightarrow> env s u) \<and>
    (\<forall>s t k r r' v. env s t \<longrightarrow> view s k = Some r \<longrightarrow> view t k = Some r' \<longrightarrow>
       resource_version r = Inr v \<longrightarrow> resource_version r' = Inr v \<longrightarrow> r = r')"

definition jr_contract ::
  "('s, 'd, 'f) jr_api \<Rightarrow> ('s \<Rightarrow> string \<times> string \<Rightarrow> 'f job_record option) \<Rightarrow> ('s \<Rightarrow> 's \<Rightarrow> bool) \<Rightarrow> bool" where
  "jr_contract A view env \<longleftrightarrow>
    env_contract view env \<and> get_contract A view env \<and> create_contract A view env \<and>
    patch_contract A view env \<and> retry_contract A env"

text \<open>Other clients acted, and this one created the record without a status.\<close>

inductive progress ::
  "('s \<Rightarrow> 'k \<Rightarrow> 'f job_record option) \<Rightarrow> ('s \<Rightarrow> 's \<Rightarrow> bool) \<Rightarrow> 'k \<Rightarrow> 's \<Rightarrow> 's \<Rightarrow> bool"
  for view env k where
  progress_refl: "progress view env k s s"
| progress_env: "progress view env k s t \<Longrightarrow> env t u \<Longrightarrow> progress view env k s u"
| progress_create:
    "progress view env k s t \<Longrightarrow> view t k = None \<Longrightarrow> view u = (view t)(k \<mapsto> r) \<Longrightarrow>
     jr_status r = None \<Longrightarrow> progress view env k s u"

lemma progress_trans:
  assumes "progress view env k t u" and "progress view env k s t"
  shows "progress view env k s u"
  using assms by (induction rule: progress.induct) (auto intro: progress.intros)

lemmas progress_step = progress_env [OF progress_refl]

lemma get_job_record_effect:
  assumes C: "jr_contract A view env" and g: "get_job_record A q ns s = (x, t)"
  shows "env s t"
    and "x = Inr (Some r) \<Longrightarrow> view t (ns, q) = Some r"
proof -
  obtain y u where y: "get_custom_object A ns q s = (y, u)" by fastforce
  have eff: "env s u \<and> (case y of Inl e \<Rightarrow> True
      | Inr d \<Rightarrow> \<exists>r. view u (ns, q) = Some r \<and> model_validate A d = Inr r)"
    using C y by (simp add: jr_contract_def get_contract_def)
  from g y eff show "env s t"
    by (auto simp: get_job_record_def catch_op_def bind_op_def split: sum.splits exc.splits if_splits)
  assume "x = Inr (Some r)"
  with g y eff show "view t (ns, q) = Some r"
    by (auto simp: get_job_record_def catch_op_def bind_op_def split: sum.splits exc.splits if_splits)
qed

lemma create_job_record_effect:
  assumes C: "jr_contract A view env" and g: "create_job_record A q ns s = (x, t)"
  shows "progress view env (ns, q) s t"
    and "x = Inr r \<Longrightarrow> view t (ns, q) = Some r"
proof -
  obtain y u where y: "create_custom_object A ns (create_body q ns) s = (y, u)" by fastforce
  have eff: "case y of Inl e \<Rightarrow> env s u
      | Inr d \<Rightarrow> \<exists>v r. env s v \<and> view v (ns, q) = None \<and> view u = (view v)((ns, q) \<mapsto> r) \<and>
          jr_status r = None \<and> jr_query_id r = q \<and> model_validate A d = Inr r"
    using C y by (simp add: jr_contract_def create_contract_def)
  from g y eff show "progress view env (ns, q) s t"
    by (auto simp: create_job_record_def bind_op_def split: sum.splits
        intro: progress_step progress_create)
  assume "x = Inr r"
  with g y eff show "view t (ns, q) = Some r"
    by (auto simp: create_job_record_def bind_op_def split: sum.splits)
qed

lemma get_or_create_effect:
  assumes C: "jr_contract A view env" and g: "get_or_create_job_record A q ns s = (x, t)"
  shows "progress view env (ns, q) s t \<and> (\<forall>r. x = Inr r \<longrightarrow> view t (ns, q) = Some r)"
proof -
  obtain y u where y: "get_job_record A q ns s = (y, u)" by fastforce
  note gy = get_job_record_effect [OF C y]
  consider (raised) e where "y = Inl e" | (found) r where "y = Inr (Some r)" | (absent) "y = Inr None"
    by (metis sum.exhaust option.exhaust)
  then show ?thesis
  proof cases
    case absent
    obtain z v where z: "create_job_record A q ns u = (z, v)" by fastforce
    note cz = create_job_record_effect [OF C z]
    obtain w t' where w: "get_job_record A q ns v = (w, t')" by fastforce
    note gw = get_job_record_effect [OF C w]
    have p: "progress view env (ns, q) s v"
      by (rule progress_trans [OF cz(1) progress_step [of env, OF gy(1)]])
    show ?thesis
      using g y absent z cz w gw p progress_env [OF p gw(1)]
      by (auto simp: get_or_create_job_record_def bind_op_def catch_op_def
          split: sum.splits option.splits if_splits)
  qed (use g y gy progress_step [of env, OF gy(1)] in
      \<open>auto simp: get_or_create_job_record_def bind_op_def\<close>)
qed

text \<open>One attempt either only advances the environment or records the run atomically.\<close>

definition recorded ::
  "'f float_ops \<Rightarrow> ('s \<Rightarrow> 'k \<Rightarrow> 'f job_record option) \<Rightarrow> 'k \<Rightarrow> job_run \<Rightarrow> 's \<Rightarrow> 'f job_record \<Rightarrow> 's \<Rightarrow> bool" where
  "recorded F view k run u rec t \<longleftrightarrow>
    (\<exists>r. view u k = Some r \<and>
      (if run_id run \<in> run_id ` set (existing_runs (jr_status r)) then rec = r \<and> t = u
       else view t = (view u)(k \<mapsto> rec) \<and>
         (\<exists>st. record_run F (jr_status r) run = Inr st \<and> jr_status rec = Some st)))"

lemma recorded_dup:
  "view u k = Some r \<Longrightarrow> run_id run \<in> run_id ` set (existing_runs (jr_status r)) \<Longrightarrow>
    recorded F view k run u r u"
  unfolding recorded_def by (rule exI [of _ r]) simp

lemma recorded_new:
  "view u k = Some r \<Longrightarrow> run_id run \<notin> run_id ` set (existing_runs (jr_status r)) \<Longrightarrow>
    view t = (view u)(k \<mapsto> rec) \<Longrightarrow> record_run F (jr_status r) run = Inr st \<Longrightarrow>
    jr_status rec = Some st \<Longrightarrow> recorded F view k run u rec t"
  unfolding recorded_def by (rule exI [of _ r]) simp

lemma patch_effect:
  assumes C: "jr_contract A view env"
    and r: "view u (ns, q) = Some r" "resource_version r = Inr v"
    and new: "run_id run \<notin> run_id ` set (existing_runs (jr_status r))"
    and g: "patch_job_record_status F A q ns v run
      (apply_history_limit (existing_runs (jr_status r) @ [run])) (existing_summary F (jr_status r)) u = (x, t)"
  shows "case x of
      Inl e \<Rightarrow> env u t
    | Inr rec \<Rightarrow> \<exists>c. env u c \<and> recorded F view (ns, q) run c rec t"
proof (cases "accumulate F (existing_summary F (jr_status r)) run")
  case (Inl e)
  with g C show ?thesis
    by (auto simp: patch_job_record_status_def bind_op_def jr_contract_def env_contract_def)
next
  case sm: (Inr sm)
  let ?runs = "apply_history_limit (existing_runs (jr_status r) @ [run])"
  let ?b = "\<lparr>sb_apiVersion = GROUP @ ''/'' @ VERSION, sb_kind = KIND, sb_name = q,
    sb_resourceVersion = v, sb_latestRun = run, sb_runs = ?runs, sb_summary = sm\<rparr>"
  obtain z w where z: "patch_custom_object_status A ns q ?b u = (z, w)" by fastforce
  from C have "patch_contract A view env" by (simp add: jr_contract_def)
  note eff = this [unfolded patch_contract_def, rule_format, OF z]
  show ?thesis
  proof (cases z)
    case (Inl e)
    with eff g sm z show ?thesis by (auto simp: patch_job_record_status_def bind_op_def)
  next
    case (Inr d)
    with eff obtain c r0 r' where c: "env u c" "view c (ns, q) = Some r0" "resource_version r0 = Inr v"
      "view w = (view c)((ns, q) \<mapsto> r')" "model_validate A d = Inr r'"
      "jr_status r' = Some \<lparr>latest_run = Some run, status_runs = ?runs, status_summary = Some sm\<rparr>"
      by auto
    from C have "env_contract view env" by (simp add: jr_contract_def)
    with c r have "r0 = r" unfolding env_contract_def by metis
    with c new sm have "recorded F view (ns, q) run c r' w"
      by (auto intro!: recorded_new simp: record_run_def apply_history_limit_def)
    moreover from c g sm z Inr have "x = Inr r'" "t = w"
      by (auto simp: patch_job_record_status_def bind_op_def)
    ultimately show ?thesis using c(1) by auto
  qed
qed

lemma add_run_attempt_effect:
  assumes C: "jr_contract A view env" and g: "add_run_attempt F A q ns run s = (x, t)"
  shows "case x of
      Inl e \<Rightarrow> progress view env (ns, q) s t
    | Inr rec \<Rightarrow> \<exists>u. progress view env (ns, q) s u \<and> recorded F view (ns, q) run u rec t"
proof -
  obtain y u where y: "get_or_create_job_record A q ns s = (y, u)" by fastforce
  note gy = get_or_create_effect [OF C y]
  note defs = add_run_attempt_def get_job_record_context_def bind_op_def
  show ?thesis
  proof (cases y)
    case (Inl e)
    with g y gy show ?thesis by (auto simp: defs)
  next
    case (Inr r)
    with gy have r: "view u (ns, q) = Some r" and p: "progress view env (ns, q) s u" by auto
    show ?thesis
    proof (cases "resource_version r")
      case (Inl e)
      with g y Inr p show ?thesis by (auto simp: defs)
    next
      case rv: (Inr v)
      show ?thesis
      proof (cases "run_id run \<in> run_id ` set (existing_runs (jr_status r))")
        case True
        with g y Inr rv have "x = Inr r" "t = u" by (simp_all add: defs)
        with p recorded_dup [of view, OF r True] show ?thesis by auto
      next
        case False
        with g y Inr rv have "patch_job_record_status F A q ns v run
            (apply_history_limit (existing_runs (jr_status r) @ [run]))
            (existing_summary F (jr_status r)) u = (x, t)"
          by (simp add: defs)
        from patch_effect [OF C r rv False this] show ?thesis
          by (auto split: sum.splits intro: progress_env [OF p])
      qed
    qed
  qed
qed

lemma retry_effect:
  assumes C: "jr_contract A view env"
    and g: "retrying A p (Suc n) (add_run_attempt F A q ns run) s = (x, t)"
  shows "case x of
      Inl e \<Rightarrow> progress view env (ns, q) s t
    | Inr rec \<Rightarrow> \<exists>u. progress view env (ns, q) s u \<and> recorded F view (ns, q) run u rec t"
  using g
proof (induction n arbitrary: s)
  case (0 s)
  from C have "retry_contract A env" by (simp add: jr_contract_def)
  with 0 have "add_run_attempt F A q ns run s = (x, t)"
    by (auto simp: retry_contract_def split: prod.splits sum.splits)
  from add_run_attempt_effect [OF C this] show ?case .
next
  case (Suc n s)
  obtain y u where y: "add_run_attempt F A q ns run s = (y, u)" by fastforce
  note eff = add_run_attempt_effect [OF C y]
  from C have R: "retry_contract A env" by (simp add: jr_contract_def)
  show ?case
  proof (cases "\<exists>e. y = Inl e \<and> p e")
    case True
    then obtain e where e: "y = Inl e" "p e" by auto
    with Suc.prems R y have "retrying A p (Suc n) (add_run_attempt F A q ns run) (pause A u) = (x, t)"
      by (simp add: retry_contract_def)
    note ih = Suc.IH [OF this]
    have "progress view env (ns, q) s (pause A u)"
      using eff e R by (auto simp: retry_contract_def intro: progress_env)
    with ih show ?thesis by (auto split: sum.splits intro: progress_trans)
  next
    case False
    with Suc.prems R y have "y = x" "u = t"
      by (auto simp: retry_contract_def split: sum.splits)
    with eff show ?thesis by (auto split: sum.splits)
  qed
qed

section \<open>A cluster that meets the contract\<close>

text \<open>
  A cluster keeps the history of statuses of every record; the resource version is the length of
  the history. Before every call the next pending write of another client takes place.
\<close>

record 'f cluster =
  history :: "string \<times> string \<Rightarrow> 'f job_record_status option list"
  pending :: "((string \<times> string) \<times> 'f job_record_status option) list"

definition cluster_view :: "'f cluster \<Rightarrow> string \<times> string \<Rightarrow> 'f job_record option" where
  "cluster_view s k =
    (if history s k = [] then None
     else Some \<lparr>jr_api_version = GROUP @ ''/'' @ VERSION, jr_kind = KIND,
       jr_metadata = Some [(''resourceVersion'', JInt (int (length (history s k))))],
       jr_query_id = snd k, jr_status = last (history s k)\<rparr>)"

definition cluster_write :: "string \<times> string \<Rightarrow> 'f job_record_status option \<Rightarrow> 'f cluster \<Rightarrow> 'f cluster" where
  "cluster_write k st s = s\<lparr>history := (history s)(k := history s k @ [st])\<rparr>"

definition cluster_env_step :: "'f cluster \<Rightarrow> 'f cluster" where
  "cluster_env_step s =
    (case pending s of [] \<Rightarrow> s | (k, st) # ps \<Rightarrow> cluster_write k st (s\<lparr>pending := ps\<rparr>))"

definition cluster_env :: "'f cluster \<Rightarrow> 'f cluster \<Rightarrow> bool" where
  "cluster_env s t \<longleftrightarrow> (\<forall>k. \<exists>new. history t k = history s k @ new)"

fun retry_loop ::
  "('s \<Rightarrow> 's) \<Rightarrow> (exc \<Rightarrow> bool) \<Rightarrow> nat \<Rightarrow> ('s, 'a) op \<Rightarrow> ('s, 'a) op" where
  "retry_loop wait p 0 m s = m s"
| "retry_loop wait p (Suc n) m s =
    (case m s of
       (Inr x, t) \<Rightarrow> (Inr x, t)
     | (Inl e, t) \<Rightarrow> if p e \<and> 0 < n then retry_loop wait p n m (wait t) else (Inl e, t))"

definition body_name :: "json \<Rightarrow> string" where
  "body_name b =
    (case b of JObj kvs \<Rightarrow>
       (case map_of kvs ''metadata'' of Some (JObj ms) \<Rightarrow>
          (case map_of ms ''name'' of Some (JStr n) \<Rightarrow> n | _ \<Rightarrow> [])
        | _ \<Rightarrow> [])
     | _ \<Rightarrow> [])"

definition cluster_api :: "('f cluster, 'f job_record, 'f) jr_api" where
  "cluster_api =
    \<lparr>get_custom_object = (\<lambda>ns n s.
       let t = cluster_env_step s
       in (case cluster_view t (ns, n) of
             None \<Rightarrow> (Inl (ApiException (Some 404) ''not found''), t) | Some r \<Rightarrow> (Inr r, t))),
     create_custom_object = (\<lambda>ns b s.
       let u = cluster_env_step s; k = (ns, body_name b)
       in if history u k \<noteq> [] then (Inl (ApiException (Some 409) ''exists''), u)
          else let t = cluster_write k None u in (Inr (the (cluster_view t k)), t)),
     patch_custom_object_status = (\<lambda>ns n b s.
       let u = cluster_env_step s; k = (ns, n)
       in (case cluster_view u k of
             None \<Rightarrow> (Inl (ApiException (Some 404) ''not found''), u)
           | Some r \<Rightarrow>
               if resource_version r \<noteq> Inr (sb_resourceVersion b)
               then (Inl (ApiException (Some 409) ''conflict''), u)
               else let t = cluster_write k (Some \<lparr>latest_run = Some (sb_latestRun b),
                          status_runs = sb_runs b, status_summary = Some (sb_summary b)\<rparr>) u
                    in (Inr (the (cluster_view t k)), t))),
     model_validate = Inr,
     retrying = retry_loop cluster_env_step,
     pause = cluster_env_step\<rparr>"

lemma body_name_create [simp]: "body_name (create_body n ns) = n"
  by (simp add: body_name_def create_body_def)

lemma cluster_env_step: "cluster_env s (cluster_env_step s)"
  by (auto simp: cluster_env_def cluster_env_step_def cluster_write_def split: list.splits)

lemma cluster_view_write:
  "cluster_view (cluster_write k st s) = (cluster_view s)(k \<mapsto> the (cluster_view (cluster_write k st s) k))"
  "jr_status (the (cluster_view (cluster_write k st s) k)) = st"
  "jr_query_id (the (cluster_view (cluster_write k st s) k)) = snd k"
  by (auto simp: cluster_view_def cluster_write_def)

lemma cluster_view_query: "cluster_view s k = Some r \<Longrightarrow> jr_query_id r = snd k"
  by (auto simp: cluster_view_def split: if_splits)

lemma cluster_env_refl: "cluster_env s s"
  by (simp add: cluster_env_def)

lemma cluster_env_trans: "cluster_env s t \<Longrightarrow> cluster_env t u \<Longrightarrow> cluster_env s u"
  unfolding cluster_env_def by (metis append.assoc)

lemma cluster_view_version:
  assumes "cluster_env s t" and "cluster_view s k = Some r" and "cluster_view t k = Some r'"
    and "resource_version r = Inr v" and "resource_version r' = Inr v"
  shows "r = r'"
proof -
  from assms(1) obtain new where new: "history t k = history s k @ new"
    unfolding cluster_env_def by blast
  from assms(2-5) have "length (history s k) = length (history t k)"
    by (auto simp: cluster_view_def resource_version_def split: if_splits)
  with new have "history t k = history s k" by simp
  with assms(2,3) show ?thesis by (simp add: cluster_view_def split: if_splits)
qed

lemma cluster_env_contract: "env_contract cluster_view cluster_env"
  unfolding env_contract_def
  using cluster_env_refl cluster_env_trans cluster_view_version by blast

lemma cluster_get_contract: "get_contract cluster_api cluster_view cluster_env"
  by (auto simp: get_contract_def cluster_api_def Let_def cluster_env_step split: option.splits)

lemma cluster_create_contract: "create_contract cluster_api cluster_view cluster_env"
  unfolding create_contract_def
proof (intro allI impI)
  fix ns n s x t
  assume c: "create_custom_object cluster_api ns (create_body n ns) s = (x, t)"
  let ?u = "cluster_env_step s"
  show "case x of Inl e \<Rightarrow> cluster_env s t
    | Inr d \<Rightarrow> \<exists>u r. cluster_env s u \<and> cluster_view u (ns, n) = None \<and>
        cluster_view t = (cluster_view u)((ns, n) \<mapsto> r) \<and> jr_status r = None \<and> jr_query_id r = n \<and>
        model_validate cluster_api d = Inr r"
  proof (cases "history ?u (ns, n) = []")
    case True
    let ?t = "cluster_write (ns, n) None ?u"
    from True c have "x = Inr (the (cluster_view ?t (ns, n)))" "t = ?t"
      by (auto simp: cluster_api_def Let_def)
    moreover from True have "cluster_view ?u (ns, n) = None" by (simp add: cluster_view_def)
    ultimately show ?thesis
      using cluster_env_step cluster_view_write [of "(ns, n)" None ?u]
      by (auto simp: cluster_api_def intro!: exI [of _ ?u])
  next
    case False
    with c show ?thesis by (auto simp: cluster_api_def Let_def cluster_env_step)
  qed
qed

lemma cluster_patch_contract: "patch_contract cluster_api cluster_view cluster_env"
  unfolding patch_contract_def
proof (intro allI impI)
  fix ns n b s x t
  assume c: "patch_custom_object_status cluster_api ns n b s = (x, t)"
  let ?u = "cluster_env_step s"
  let ?st = "Some \<lparr>latest_run = Some (sb_latestRun b), status_runs = sb_runs b,
    status_summary = Some (sb_summary b)\<rparr>"
  show "case x of Inl e \<Rightarrow> cluster_env s t
    | Inr d \<Rightarrow> \<exists>u r r'. cluster_env s u \<and> cluster_view u (ns, n) = Some r \<and>
        resource_version r = Inr (sb_resourceVersion b) \<and>
        cluster_view t = (cluster_view u)((ns, n) \<mapsto> r') \<and> jr_status r' = ?st \<and>
        jr_query_id r' = jr_query_id r \<and> model_validate cluster_api d = Inr r'"
  proof (cases "\<exists>r. cluster_view ?u (ns, n) = Some r \<and> resource_version r = Inr (sb_resourceVersion b)")
    case True
    then obtain r where r: "cluster_view ?u (ns, n) = Some r"
      "resource_version r = Inr (sb_resourceVersion b)" by auto
    let ?t = "cluster_write (ns, n) ?st ?u"
    from r c have "x = Inr (the (cluster_view ?t (ns, n)))" "t = ?t"
      by (auto simp: cluster_api_def Let_def)
    with r cluster_view_query [OF r(1)] show ?thesis
      using cluster_env_step cluster_view_write [of "(ns, n)" ?st ?u]
      by (auto simp: cluster_api_def intro!: exI [of _ ?u])
  next
    case False
    with c show ?thesis
      by (auto simp: cluster_api_def Let_def cluster_env_step split: option.splits if_splits)
  qed
qed

lemma cluster_retrying:
  "retrying cluster_api = retry_loop cluster_env_step" "pause cluster_api = cluster_env_step"
  by (simp_all add: cluster_api_def)

lemma cluster_retry_contract: "retry_contract cluster_api cluster_env"
  unfolding retry_contract_def cluster_retrying by (simp add: cluster_env_step)

lemma cluster_contract: "jr_contract cluster_api cluster_view cluster_env"
  by (simp add: jr_contract_def cluster_env_contract cluster_get_contract cluster_create_contract
      cluster_patch_contract cluster_retry_contract)

text \<open>Floats as whole numbers, and a race that makes the client retry.\<close>

definition int_floats :: "int float_ops" where
  "int_floats = \<lparr>f_zero = 0, f_add = (+), f_div_int = (div), f_round2 = (\<lambda>x. x),
     f_seconds = (\<lambda>us. us div 1000000)\<rparr>"

definition sample_run :: "string \<Rightarrow> job_run" where
  "sample_run n = \<lparr>run_id = n, start_time = Some 0, end_time = Some 5000000, is_successful = True,
     run_error = None, run_stats = Some \<lparr>rows_read = 10, rows_written = 2\<rparr>\<rparr>"

definition other_write :: "(string \<times> string) \<times> int job_record_status option" where
  "other_write = ((''ns'', ''other''), None)"

definition racing_cluster :: "int cluster" where
  "racing_cluster =
    \<lparr>history = (\<lambda>_. []),
     pending = [other_write, ((''ns'', ''q''), None), other_write,
       ((''ns'', ''q''), Some \<lparr>latest_run = Some (sample_run ''j0''), status_runs = [sample_run ''j0''],
          status_summary = None\<rparr>)]\<rparr>"

text \<open>The state after \<open>k\<close> attempts that ended in a conflict, and the waits after them.\<close>

primrec after_conflicts :: "('s, 'd, 'f) jr_api \<Rightarrow> ('s, 'a) op \<Rightarrow> nat \<Rightarrow> 's \<Rightarrow> 's option" where
  "after_conflicts A m 0 s = Some s"
| "after_conflicts A m (Suc k) s =
    (case m s of (Inl e, t) \<Rightarrow> if is_conflict_error e then after_conflicts A m k (pause A t) else None
     | _ \<Rightarrow> None)"

lemma retrying_after_conflicts:
  assumes R: "retry_contract A env" and "after_conflicts A m k s = Some t" and "k < n"
  shows "retrying A is_conflict_error n m s = retrying A is_conflict_error (n - k) m t"
  using assms(2,3)
proof (induction k arbitrary: n s)
  case 0
  then show ?case by simp
next
  case (Suc k)
  then obtain e u where e: "m s = (Inl e, u)" "is_conflict_error e" "after_conflicts A m k (pause A u) = Some t"
    by (auto split: prod.splits sum.splits if_splits)
  obtain i where i: "n = Suc i" "k < i" using Suc.prems(2) by (cases n) auto
  have "retrying A is_conflict_error n m s = retrying A is_conflict_error i m (pause A u)"
    using R e i by (simp add: retry_contract_def)
  with Suc.IH [OF e(3) i(2)] i show ?case by simp
qed

section \<open>Properties\<close>

text \<open>
  C5. Adding a run is atomic: whatever other clients do between the calls, a call that returns has,
  after possibly creating the record, found a stored record at one instant and either returned it
  because it keeps a run of that id, or replaced its status, and nothing else, by the one that
  records the run. No concurrent update is lost.
\<close>

theorem add_run_atomic:
  assumes "jr_contract A view env" and "add_run F A q ns run s = (Inr rec, t)"
  shows "\<exists>u r. progress view env (ns, q) s u \<and> view u (ns, q) = Some r \<and>
    (if run_id run \<in> run_id ` set (existing_runs (jr_status r)) then rec = r \<and> t = u
     else view t = (view u)((ns, q) \<mapsto> rec) \<and>
       (\<exists>st. record_run F (jr_status r) run = Inr st \<and> jr_status rec = Some st))"
proof -
  obtain x v where x: "retrying A is_conflict_error (Suc 4) (add_run_attempt F A q ns run) s = (x, v)"
    by fastforce
  with assms(2) have "x = Inr rec" "v = t"
    by (auto simp: add_run_def add_run_with_retry_def conflict_retry_def MAX_RETRY_ATTEMPTS_def
        catch_op_def eval_nat_numeral split: sum.splits if_splits)
  with retry_effect [OF assms(1) x] show ?thesis by (auto simp: recorded_def)
qed

theorem add_run_atomic_witness:
  "\<exists>rec t u r. add_run int_floats cluster_api ''q'' ''ns'' (sample_run ''j1'') racing_cluster = (Inr rec, t) \<and>
    cluster_view u (''ns'', ''q'') = Some r \<and>
    (''j1'' \<in> run_id ` set (existing_runs (jr_status r)) \<or>
     cluster_view t = (cluster_view u)((''ns'', ''q'') \<mapsto> rec))"
proof -
  let ?a = "add_run int_floats cluster_api ''q'' ''ns'' (sample_run ''j1'') racing_cluster"
  have "\<not> isl (fst ?a)" by code_simp
  then obtain rec t where a: "?a = (Inr rec, t)"
    by (metis isl_def prod.collapse sum.collapse(2))
  from add_run_atomic [OF cluster_contract a] show ?thesis
    using a by (auto simp: sample_run_def split: if_splits)
qed

text \<open>
  C30. The retries: after fewer than five conflicts the outcome of the next attempt, when it is not
  a conflict, is the outcome of the call; the fifth conflict in a row becomes a
  \<^verbatim>\<open>JobRecordConflictError\<close>.
\<close>

theorem add_run_retries:
  assumes "jr_contract A view env"
    and "after_conflicts A (add_run_attempt F A q ns run) k s = Some t"
    and "add_run_attempt F A q ns run t = (x, u)"
  shows "(k < 5 \<and> (\<forall>e. x = Inl e \<longrightarrow> \<not> is_conflict_error e) \<longrightarrow> add_run F A q ns run s = (x, u)) \<and>
    (k = 4 \<and> (\<exists>e. x = Inl e \<and> is_conflict_error e) \<longrightarrow>
      add_run F A q ns run s = (Inl (JobRecordConflictError (''Failed to add run to JobRecord '' @ q
        @ '' after '' @ str_nat MAX_RETRY_ATTEMPTS @ '' retries'')), u))"
proof -
  let ?m = "add_run_attempt F A q ns run"
  from assms(1) have R: "retry_contract A env" by (simp add: jr_contract_def)
  have step: "retrying A is_conflict_error 5 ?m s = (x, u)"
    if "k < 5" "(\<forall>e. x = Inl e \<longrightarrow> \<not> is_conflict_error e) \<or> k = 4"
  proof -
    define i where "i = 4 - k"
    with that(1) have i: "5 - k = Suc i" "k = 4 \<longrightarrow> i = 0" by auto
    have "retrying A is_conflict_error 5 ?m s = retrying A is_conflict_error (Suc i) ?m t"
      using retrying_after_conflicts [OF R assms(2) that(1)] i by simp
    also have "\<dots> = (x, u)"
      using R assms(3) that(2) i by (auto simp: retry_contract_def split: sum.splits)
    finally show ?thesis .
  qed
  show ?thesis
    using step by (auto simp: add_run_def add_run_with_retry_def conflict_retry_def
        MAX_RETRY_ATTEMPTS_def catch_op_def split: sum.splits)
qed

theorem add_run_retries_witness:
  "\<exists>t x u. after_conflicts cluster_api (add_run_attempt int_floats cluster_api ''q'' ''ns'' (sample_run ''j1''))
      1 racing_cluster = Some t \<and> \<not> isl x \<and>
    add_run int_floats cluster_api ''q'' ''ns'' (sample_run ''j1'') racing_cluster = (x, u)"
proof -
  let ?m = "add_run_attempt int_floats cluster_api ''q'' ''ns'' (sample_run ''j1'')"
  have "after_conflicts cluster_api ?m 1 racing_cluster \<noteq> None" by code_simp
  then obtain t where t: "after_conflicts cluster_api ?m 1 racing_cluster = Some t" by auto
  have "\<not> isl (fst (?m (the (after_conflicts cluster_api ?m 1 racing_cluster))))" by code_simp
  with t obtain x u where x: "?m t = (x, u)" "\<not> isl x" by (cases "?m t") auto
  with add_run_retries [OF cluster_contract t x(1)] t show ?thesis by (auto simp: isl_def)
qed



end
