(* ===== verification/Kube_Client.thy ===== *)
theory Kube_Client
  imports Py_Data Job_Records
begin

text \<open>
  The Kubernetes objects the frontends build (\<^verbatim>\<open>kubernetes.client.models\<close>,
  \<^verbatim>\<open>models/spark_application_models.py\<close>,
  \<^verbatim>\<open>models/cleanroom_spark_application.py\<close>) and the frontend's Kubernetes client
  (\<^verbatim>\<open>clients/kubernetes_client.py\<close>). Attributes that take whatever a JSON document
  holds have type \<open>json\<close>, with \<open>JNull\<close> for \<^verbatim>\<open>None\<close>. The calls of the
  Kubernetes library, pydantic's conversions, the clock and the certificate file are fields of
  \<open>kube_api\<close>. The tracer around every call records spans and metrics and hands results and
  exceptions on unchanged.
\<close>

section \<open>Kubernetes objects\<close>

record env_var =
  ev_name :: json
  ev_value :: json

record volume_mount =
  vm_name :: json
  vm_mount_path :: json
  vm_read_only :: json
  vm_mount_propagation :: json

record container_port =
  cp_name :: json
  cp_container_port :: int
  cp_protocol :: json

record http_get_action =
  hg_path :: json
  hg_port :: int

record probe =
  pr_http_get :: "http_get_action option"
  pr_tcp_socket :: "int option"
  pr_initial_delay_seconds :: json
  pr_period_seconds :: json
  pr_failure_threshold :: json

record container =
  c_name :: json
  c_image :: json
  c_command :: json
  c_env :: "env_var list"
  c_resource_requests :: json
  c_volume_mounts :: "volume_mount list"
  c_privileged :: json
  c_ports :: "container_port list option"
  c_startup_probe :: "probe option"
  c_restart_policy :: string

record toleration =
  tol_effect :: string
  tol_key :: string
  tol_operator :: string

record object_meta =
  om_name :: json
  om_namespace :: json
  om_creation_timestamp :: json
  om_labels :: json
  om_annotations :: json
  om_uid :: json
  om_resource_version :: json
  om_generation :: json

record config_map =
  cm_name :: string
  cm_namespace :: string
  cm_labels :: "(string, string) dict option"
  cm_data :: "(string, string) dict option"

record taint =
  taint_effect :: string

record node_condition =
  nc_type :: string
  nc_status :: string

record node_spec =
  ns_unschedulable :: "bool option"
  ns_taints :: "taint list option"

record node =
  node_metadata :: "object_meta option"
  node_spec_of :: "node_spec option"
  node_conditions :: "node_condition list option option" \<comment> \<open>\<open>None\<close>: no status\<close>

record pod =
  pod_name :: string
  pod_phase :: "string option option" \<comment> \<open>\<open>None\<close>: no status\<close>

record core_event =
  evt_name :: json
  evt_namespace :: json
  evt_reason :: "string option"
  evt_message :: "string option"
  evt_type :: "string option"
  evt_first_timestamp :: "int option"
  evt_last_timestamp :: "int option"
  evt_count :: "int option"
  evt_involved :: "json \<times> json \<times> json \<times> json" \<comment> \<open>kind, name, namespace, uid\<close>
  evt_component :: "string option"

record webhook_client_config =
  wc_service_name :: string
  wc_service_namespace :: string
  wc_path :: string
  wc_ca_bundle :: string

record mutating_webhook =
  mw_name :: string
  mw_client_config :: webhook_client_config
  mw_operations :: "string list"
  mw_api_groups :: "string list"
  mw_api_versions :: "string list"
  mw_resources :: "string list"
  mw_admission_review_versions :: "string list"
  mw_side_effects :: string
  mw_timeout_seconds :: int
  mw_failure_policy :: string
  mw_match_labels :: "(string, string) dict"

record webhook_configuration =
  wh_name :: string
  wh_webhooks :: "mutating_webhook list"

section \<open>Spark applications\<close>

record name_path =
  np_name :: string
  np_path :: string

record spark_pod_spec =
  cores :: int
  core_limit :: "string option"
  memory :: string
  configMaps :: "name_path list option"
  labels :: "(string, string) dict option"
  annotations :: "(string, string) dict option"
  env :: "env_var list option"
  volumeMounts :: "volume_mount list option"
  sidecars :: "container list option"
  initContainers :: "container list option"
  tolerations :: "toleration list option"
  nodeSelector :: "(string, string) dict option"
  securityPrivileged :: "bool option"

record driver = spark_pod_spec +
  serviceAccount :: "string option"
  serviceLabels :: "(string, string) dict option"
  kubernetesMaster :: "string option"
  driverJavaOptions :: "string option"

record executor = spark_pod_spec +
  instances :: "int option"
  deleteOnTermination :: "bool option"
  executorJavaOptions :: "string option"

datatype deploy_mode = Mode_cluster | Mode_client

record dynamic_allocation_profile =
  dap_enabled :: "bool option"
  minExecutors :: "int option"
  maxExecutors :: "int option"

record monitoring_spec =
  exposeDriverMetrics :: "bool option"
  exposeExecutorMetrics :: "bool option"

record spark_application_spec =
  sas_type :: string
  sas_name :: string
  sas_sparkVersion :: string
  sas_mode :: deploy_mode
  sas_image :: string
  sas_mainApplicationFile :: string
  sas_arguments :: "string list option"
  sas_sparkConf :: "(string, string) dict option"
  sas_volumes :: "string list option" \<comment> \<open>the names; all are empty directories\<close>
  sas_driver :: driver
  sas_executor :: executor
  sas_dynamicAllocation :: dynamic_allocation_profile
  sas_monitoring :: monitoring_spec

record cce_policy =
  rego :: string
  rego_base64 :: string
  host_data :: string

record cleanroom_spark_application =
  csa_spec :: spark_application_spec
  csa_driver_policy :: cce_policy
  csa_executor_policy :: cce_policy

record spark_application_state =
  sst_state :: application_state
  sst_errorMessage :: "string option"

record spark_driver_info =
  sdi_podName :: string
  sdi_webUIAddress :: "string option"
  sdi_webUIPort :: "int option"
  sdi_webUIServiceName :: "string option"

record spark_application_status =
  sas_applicationState :: spark_application_state
  sas_driverInfo :: spark_driver_info
  sas_executionAttempts :: "int option"
  sas_executorState :: "(string, string) dict option"
  sas_submissionAttempts :: "int option"
  sas_lastSubmissionAttemptTime :: "int option"
  sas_terminationTime :: "int option"

record spark_application =
  sa_metadata :: object_meta
  sa_status :: "spark_application_status option"

record spark_resource_settings =
  srs_group :: string
  srs_version :: string
  srs_kind :: string
  srs_plural :: string

section \<open>The client\<close>

text \<open>
  \<open>custom_*\<close> are the \<^verbatim>\<open>CustomObjectsApi\<close> calls with group, version and plural of the
  settings. \<open>validate_spark_app\<close> is \<^verbatim>\<open>SparkApplication.model_validate\<close>,
  \<open>spec_dict\<close> is \<^verbatim>\<open>spec.dict(exclude_unset=True)\<close>.
\<close>

record 's kube_api =
  custom_create :: "spark_resource_settings \<Rightarrow> string \<Rightarrow> json \<Rightarrow> ('s, unit) op"
  custom_get :: "spark_resource_settings \<Rightarrow> string \<Rightarrow> string \<Rightarrow> ('s, json) op"
  custom_patch :: "spark_resource_settings \<Rightarrow> string \<Rightarrow> string \<Rightarrow> json \<Rightarrow> ('s, unit) op"
  config_map_create :: "string \<Rightarrow> config_map \<Rightarrow> ('s, unit) op"
  config_map_read :: "string \<Rightarrow> string \<Rightarrow> ('s, config_map option) op"
  config_map_patch :: "string \<Rightarrow> string \<Rightarrow> json \<Rightarrow> ('s, unit) op"
  event_create :: "string \<Rightarrow> core_event \<Rightarrow> ('s, unit) op"
  event_list :: "string \<Rightarrow> string \<Rightarrow> ('s, core_event list option) op"
  node_list :: "string \<Rightarrow> ('s, node list option) op"
  pod_list :: "string \<Rightarrow> ('s, pod list option) op"
  webhook_read :: "string \<Rightarrow> ('s, webhook_configuration) op"
  webhook_replace :: "string \<Rightarrow> webhook_configuration \<Rightarrow> ('s, unit) op"
  webhook_create :: "webhook_configuration \<Rightarrow> ('s, unit) op"
  validate_spark_app :: "object_meta \<Rightarrow> json \<Rightarrow> spark_application res"
  spec_dict :: "spark_application_spec \<Rightarrow> json"
  utc_time :: "('s, int) op"
  file_exists :: "string \<Rightarrow> 's \<Rightarrow> bool"
  file_read :: "string \<Rightarrow> ('s, string) op"

definition CCE_POLICY_INJECTOR_LABEL :: string where
  "CCE_POLICY_INJECTOR_LABEL = ''inject-cce-policy''"
definition CCE_POLICY_ANNOTATION_NAME_LABEL :: string where
  "CCE_POLICY_ANNOTATION_NAME_LABEL = ''cce-policy-annotation-name''"
definition CCE_POLICY_CONFIG_MAP_ANNOTATION :: string where
  "CCE_POLICY_CONFIG_MAP_ANNOTATION = ''microsoft.cleanroom.spark/cce-policy-map''"
definition CCE_POLICY_CONFIG_MAP_POLICY_KEY :: string where
  "CCE_POLICY_CONFIG_MAP_POLICY_KEY = ''policy_base64''"
definition SPARK_POD_SCHEDULER_LABEL :: string where
  "SPARK_POD_SCHEDULER_LABEL = ''schedule-spark-pod''"
definition JOB_RECORD_RECORDED_ANNOTATION :: string where
  "JOB_RECORD_RECORDED_ANNOTATION = ''cleanroom.azure.com/job-record-recorded''"

text \<open>The reference to a config map that \<^verbatim>\<open>submit_job\<close> puts into an annotation.\<close>

definition config_map_reference :: "string \<Rightarrow> string \<Rightarrow> string res" where
  "config_map_reference cm ns =
    utf8_decode (b64encode (utf8_encode (json_dumps (JObj [(''name'', JStr cm), (''namespace'', JStr ns)]))))"

definition driver_config_map_name :: "cleanroom_spark_application \<Rightarrow> string" where
  "driver_config_map_name app = sas_name (csa_spec app) @ ''-driver-policy''"

definition executor_config_map_name :: "cleanroom_spark_application \<Rightarrow> string" where
  "executor_config_map_name app = sas_name (csa_spec app) @ ''-executor-policy''"

definition set_annotation ::
  "string \<Rightarrow> (string, string) dict option \<Rightarrow> (string, string) dict option" where
  "set_annotation v an =
    Some (AList.update CCE_POLICY_CONFIG_MAP_ANNOTATION v (case an of None \<Rightarrow> [] | Some d \<Rightarrow> d))"

definition annotate_policies ::
  "string \<Rightarrow> cleanroom_spark_application \<Rightarrow> cleanroom_spark_application res" where
  "annotate_policies ns app =
    bind_res (config_map_reference (executor_config_map_name app) ns) (\<lambda>er.
    bind_res (config_map_reference (driver_config_map_name app) ns) (\<lambda>dr.
    let spec = csa_spec app; d = sas_driver spec; e = sas_executor spec
    in Inr (app\<lparr>csa_spec := spec\<lparr>
         sas_driver := d\<lparr>annotations := set_annotation dr (annotations d)\<rparr>,
         sas_executor := e\<lparr>annotations := set_annotation er (annotations e)\<rparr>\<rparr>\<rparr>)))"

definition create_config_map ::
  "'s kube_api \<Rightarrow> string \<Rightarrow> string \<Rightarrow> (string, string) dict \<Rightarrow> (string, string) dict option \<Rightarrow> ('s, unit) op" where
  "create_config_map K name ns data lbls =
    config_map_create K ns
      \<lparr>cm_name = name, cm_namespace = ns, cm_labels = lbls, cm_data = Some data\<rparr>"

definition get_spark_app ::
  "'s kube_api \<Rightarrow> spark_resource_settings \<Rightarrow> string \<Rightarrow> string \<Rightarrow> ('s, spark_application) op" where
  "get_spark_app K S name ns =
    catch_op
      (bind_op (custom_get K S ns name) (\<lambda>ret.
       bind_op (lift_res (json_get ret ''metadata'' (JObj []))) (\<lambda>md.
       bind_op (lift_res (map_res (\<lambda>k. json_get md k JNull)
         [''name'', ''namespace'', ''creationTimestamp'', ''labels'', ''annotations'', ''uid'',
          ''resourceVersion'', ''generation''])) (\<lambda>vs.
       bind_op (lift_res (json_get ret ''status'' (JObj []))) (\<lambda>status.
       lift_res (validate_spark_app K
         \<lparr>om_name = vs ! 0, om_namespace = vs ! 1, om_creation_timestamp = vs ! 2, om_labels = vs ! 3,
          om_annotations = vs ! 4, om_uid = vs ! 5, om_resource_version = vs ! 6,
          om_generation = vs ! 7\<rparr>
         (if json_truthy status then status else JNull)))))))
      (\<lambda>e. case e of
         ApiException st m \<Rightarrow>
           if st = Some 404 then raise_op (ResourceNotFound (''Spark Application '' @ name @ '' not found''))
           else raise_op e
       | _ \<Rightarrow> raise_op e)"

definition patch_spark_app_annotation ::
  "'s kube_api \<Rightarrow> spark_resource_settings \<Rightarrow> string \<Rightarrow> string \<Rightarrow> string \<Rightarrow> string \<Rightarrow> ('s, unit) op" where
  "patch_spark_app_annotation K S name ns key val =
    catch_op
      (custom_patch K S ns name
        (JObj [(''metadata'', JObj [(''annotations'', JObj [(key, JStr val)])])]))
      (\<lambda>e. case e of
         ApiException st m \<Rightarrow>
           if st = Some 404 then raise_op (ResourceNotFound (''Spark Application '' @ name @ '' not found''))
           else raise_op e
       | _ \<Rightarrow> raise_op e)"

definition set_config_map_owner ::
  "'s kube_api \<Rightarrow> spark_resource_settings \<Rightarrow> string \<Rightarrow> string \<Rightarrow> string \<Rightarrow> ('s, unit) op" where
  "set_config_map_owner K S name ns app_name =
    bind_op (get_spark_app K S app_name ns) (\<lambda>app.
    config_map_patch K ns name
      (JObj [(''metadata'', JObj [(''ownerReferences'', JArr
        [JObj [(''apiVersion'', JStr (srs_group S @ ''/'' @ srs_version S)),
               (''kind'', JStr (srs_kind S)),
               (''name'', JStr app_name),
               (''uid'', om_uid (sa_metadata app)),
               (''controller'', JBool True),
               (''blockOwnerDeletion'', JBool False)]])])]))"

definition spark_body ::
  "'s kube_api \<Rightarrow> spark_resource_settings \<Rightarrow> string \<Rightarrow> string \<Rightarrow> spark_application_spec \<Rightarrow>
   (string, string) dict option \<Rightarrow> json" where
  "spark_body K S name ns spec tags =
    JObj [(''apiVersion'', JStr (srs_group S @ ''/'' @ srs_version S)),
          (''kind'', JStr (srs_kind S)),
          (''metadata'', JObj
            [(''name'', JStr name), (''namespace'', JStr ns),
             (''labels'', JObj (map (\<lambda>(k, v). (k, JStr v)) (case tags of None \<Rightarrow> [] | Some t \<Rightarrow> t)))]),
          (''spec'', spec_dict K spec)]"

definition submit_job ::
  "'s kube_api \<Rightarrow> spark_resource_settings \<Rightarrow> string \<Rightarrow> string \<Rightarrow> cleanroom_spark_application \<Rightarrow>
   (string, string) dict option \<Rightarrow> ('s, unit) op" where
  "submit_job K S name ns app tags =
    bind_op (lift_res (annotate_policies ns app)) (\<lambda>app.
    bind_op (create_config_map K (driver_config_map_name app) ns
      [(CCE_POLICY_CONFIG_MAP_POLICY_KEY, rego_base64 (csa_driver_policy app))] tags) (\<lambda>_.
    bind_op (create_config_map K (executor_config_map_name app) ns
      [(CCE_POLICY_CONFIG_MAP_POLICY_KEY, rego_base64 (csa_executor_policy app))] tags) (\<lambda>_.
    bind_op (custom_create K S ns (spark_body K S name ns (csa_spec app) tags)) (\<lambda>_.
    bind_op (set_config_map_owner K S (driver_config_map_name app) ns (sas_name (csa_spec app))) (\<lambda>_.
    set_config_map_owner K S (executor_config_map_name app) ns (sas_name (csa_spec app)))))))"

definition get_config_map :: "'s kube_api \<Rightarrow> string \<Rightarrow> string \<Rightarrow> ('s, config_map option) op" where
  "get_config_map K name ns = config_map_read K ns name"

definition get_key_from_config_map ::
  "'s kube_api \<Rightarrow> string \<Rightarrow> string \<Rightarrow> string \<Rightarrow> ('s, string option) op" where
  "get_key_from_config_map K name ns key =
    bind_op (get_config_map K name ns) (\<lambda>cm.
    return_op (case cm of
        None \<Rightarrow> None
      | Some c \<Rightarrow> (case cm_data c of
          None \<Rightarrow> None
        | Some d \<Rightarrow> (case map_of d key of None \<Rightarrow> None | Some v \<Rightarrow> if v = [] then None else Some v))))"

definition create_event ::
  "'s kube_api \<Rightarrow> string \<Rightarrow> string \<Rightarrow> string \<Rightarrow> string \<Rightarrow> json \<Rightarrow> json \<Rightarrow> json \<Rightarrow> json \<Rightarrow> string \<Rightarrow>
   ('s, unit) op" where
  "create_event K name ns message reason obj_name obj_kind obj_ns obj_uid typ =
    bind_op (utc_time K) (\<lambda>now.
    event_create K ns
      \<lparr>evt_name = JStr name, evt_namespace = JStr ns, evt_reason = Some reason, evt_message = Some message,
       evt_type = Some typ, evt_first_timestamp = Some now, evt_last_timestamp = Some now,
       evt_count = Some 1, evt_involved = (obj_kind, obj_name, obj_ns, obj_uid),
       evt_component = Some ''cleanroom-spark-frontend''\<rparr>)"

definition webhook_full_name :: "string \<Rightarrow> string \<Rightarrow> string" where
  "webhook_full_name name service_ns = name @ ''.'' @ service_ns @ ''.svc''"

definition create_mutating_webhook_configuration ::
  "'s kube_api \<Rightarrow> string \<Rightarrow> string \<Rightarrow> (string, string) dict \<Rightarrow> string \<Rightarrow> string \<Rightarrow> string \<Rightarrow> ('s, unit) op" where
  "create_mutating_webhook_configuration K name path pod_labels service_name service_ns cert_path s =
    (if \<not> file_exists K cert_path s
     then (Inl (OtherException (''Service cert file not found at '' @ cert_path)), s)
     else bind_op (file_read K cert_path) (\<lambda>cert.
       bind_op (lift_res (utf8_decode (b64encode cert))) (\<lambda>ca.
       let wname = webhook_full_name name service_ns;
           cfg = \<lparr>wc_service_name = service_name, wc_service_namespace = service_ns, wc_path = path,
                  wc_ca_bundle = ca\<rparr>;
           webhook = \<lparr>mw_name = wname, mw_client_config = cfg, mw_operations = [''CREATE''],
             mw_api_groups = [''''], mw_api_versions = [''v1''], mw_resources = [''pods''],
             mw_admission_review_versions = [''v1''], mw_side_effects = ''None'',
             mw_timeout_seconds = 10, mw_failure_policy = ''Fail'', mw_match_labels = pod_labels\<rparr>
       in catch_op
            (bind_op (webhook_read K wname) (\<lambda>existing.
             bind_op (lift_res (case wh_webhooks existing of
                 [] \<Rightarrow> Inl IndexError
               | w # ws \<Rightarrow> Inr (existing\<lparr>wh_webhooks := w\<lparr>mw_client_config := cfg\<rparr> # ws\<rparr>))) (\<lambda>updated.
             webhook_replace K wname updated)))
            (\<lambda>e. case e of
               ApiException st m \<Rightarrow>
                 if st = Some 404 then webhook_create K \<lparr>wh_name = wname, wh_webhooks = [webhook]\<rparr>
                 else raise_op e
             | _ \<Rightarrow> raise_op e))) s)"

definition list_nodes :: "'s kube_api \<Rightarrow> (string, string) dict \<Rightarrow> ('s, node list) op" where
  "list_nodes K selector =
    bind_op (node_list K (str_join '','' (map (\<lambda>(k, v). k @ ''='' @ v) selector))) (\<lambda>r.
    return_op (case r of None \<Rightarrow> [] | Some ns \<Rightarrow> ns))"

definition list_pods_on_node :: "'s kube_api \<Rightarrow> string \<Rightarrow> bool \<Rightarrow> ('s, pod list) op" where
  "list_pods_on_node K node_name active_only =
    bind_op (pod_list K (''spec.nodeName='' @ node_name)) (\<lambda>r.
    let pods = (case r of None \<Rightarrow> [] | Some ps \<Rightarrow> ps)
    in return_op (if active_only
         then filter (\<lambda>p. case pod_phase p of Some (Some ph) \<Rightarrow> ph \<in> {''Pending'', ''Running''} | _ \<Rightarrow> False) pods
         else pods))"

definition list_events_for_spark_app ::
  "'s kube_api \<Rightarrow> string \<Rightarrow> json \<Rightarrow> string \<Rightarrow> ('s, core_event list) op" where
  "list_events_for_spark_app K name uid ns =
    bind_op (event_list K ns (''involvedObject.name='' @ name @ '',involvedObject.uid='' @ json_str uid)) (\<lambda>r.
    return_op (case r of None \<Rightarrow> [] | Some es \<Rightarrow> es))"

section \<open>What the client relies on and provides\<close>

text \<open>
  Config maps are kept: a create that returns has stored the object under a name that was free,
  a read returns what is stored, and no other call of the client changes the data of a stored
  config map. \<open>view s (namespace, name)\<close> is the stored data.
\<close>

definition keeps_data :: "('s \<Rightarrow> string \<times> string \<Rightarrow> (string, string) dict option) \<Rightarrow> ('s, 'a) op \<Rightarrow> bool" where
  "keeps_data view m \<longleftrightarrow> (\<forall>s x t. m s = (x, t) \<longrightarrow> view t = view s)"

definition cm_contract ::
  "'s kube_api \<Rightarrow> ('s \<Rightarrow> string \<times> string \<Rightarrow> (string, string) dict option) \<Rightarrow> bool" where
  "cm_contract K view \<longleftrightarrow>
    (\<forall>ns cm s t. config_map_create K ns cm s = (Inr (), t) \<longrightarrow>
       view s (ns, cm_name cm) = None \<and> view t = (view s)((ns, cm_name cm) := cm_data cm)) \<and>
    (\<forall>ns n d s. view s (ns, n) = Some d \<longrightarrow>
       (\<exists>cm t. config_map_read K ns n s = (Inr (Some cm), t) \<and> cm_data cm = Some d \<and> view t = view s)) \<and>
    (\<forall>ns n b. keeps_data view (config_map_patch K ns n b)) \<and>
    (\<forall>S ns b. keeps_data view (custom_create K S ns b)) \<and>
    (\<forall>S ns n. keeps_data view (custom_get K S ns n))"

lemma keeps_dataD: "keeps_data view m \<Longrightarrow> m s = (x, t) \<Longrightarrow> view t = view s"
  by (simp add: keeps_data_def)

lemma keeps_data_bind:
  "keeps_data view m \<Longrightarrow> (\<And>x. keeps_data view (f x)) \<Longrightarrow> keeps_data view (bind_op m f)"
  by (fastforce simp: keeps_data_def bind_op_def split: prod.splits sum.splits)

lemma keeps_data_catch:
  "keeps_data view m \<Longrightarrow> (\<And>x. keeps_data view (f x)) \<Longrightarrow> keeps_data view (catch_op m f)"
  by (fastforce simp: keeps_data_def catch_op_def split: prod.splits sum.splits)

lemma keeps_data_lift [simp]:
  "keeps_data view (lift_res r)" "keeps_data view (return_op x)" "keeps_data view (raise_op e)"
  by (simp_all add: keeps_data_def)

lemma set_config_map_owner_keeps:
  assumes "cm_contract K view"
  shows "keeps_data view (set_config_map_owner K S name ns app)"
  unfolding set_config_map_owner_def get_spark_app_def
  using assms
  by (intro keeps_data_bind keeps_data_catch)
    (auto simp: cm_contract_def keeps_data_def split: exc.splits)

lemma annotate_policies_Inr:
  "annotate_policies ns app = Inr
    (let spec = csa_spec app; d = sas_driver spec; e = sas_executor spec;
         ref = (\<lambda>cm. b64encode (json_dumps (JObj [(''name'', JStr cm), (''namespace'', JStr ns)])))
     in app\<lparr>csa_spec := spec\<lparr>
         sas_driver := d\<lparr>annotations := set_annotation (ref (driver_config_map_name app)) (annotations d)\<rparr>,
         sas_executor := e\<lparr>annotations := set_annotation (ref (executor_config_map_name app)) (annotations e)\<rparr>\<rparr>\<rparr>)"
  by (simp add: annotate_policies_def config_map_reference_def Let_def)

lemma annotate_policies_fields:
  assumes "annotate_policies ns app = Inr app'"
  shows "sas_name (csa_spec app') = sas_name (csa_spec app)"
    and "csa_driver_policy app' = csa_driver_policy app"
    and "csa_executor_policy app' = csa_executor_policy app"
    and "driver_config_map_name app' = driver_config_map_name app"
    and "executor_config_map_name app' = executor_config_map_name app"
  using assms
  by (auto simp: annotate_policies_Inr Let_def driver_config_map_name_def executor_config_map_name_def)

lemma submit_job_stores:
  assumes C: "cm_contract K view" and run: "submit_job K S name ns app tags s = (Inr (), t)"
  shows "view t (ns, driver_config_map_name app) =
      Some [(CCE_POLICY_CONFIG_MAP_POLICY_KEY, rego_base64 (csa_driver_policy app))]"
    and "view t (ns, executor_config_map_name app) =
      Some [(CCE_POLICY_CONFIG_MAP_POLICY_KEY, rego_base64 (csa_executor_policy app))]"
proof -
  obtain app' where app': "annotate_policies ns app = Inr app'" by (simp add: annotate_policies_Inr)
  note f = annotate_policies_fields [OF app']
  let ?dcm = "\<lparr>cm_name = driver_config_map_name app, cm_namespace = ns, cm_labels = tags,
    cm_data = Some [(CCE_POLICY_CONFIG_MAP_POLICY_KEY, rego_base64 (csa_driver_policy app))]\<rparr>"
  let ?ecm = "\<lparr>cm_name = executor_config_map_name app, cm_namespace = ns, cm_labels = tags,
    cm_data = Some [(CCE_POLICY_CONFIG_MAP_POLICY_KEY, rego_base64 (csa_executor_policy app))]\<rparr>"
  obtain s1 s2 s3 s4 where st: "config_map_create K ns ?dcm s = (Inr (), s1)"
    "config_map_create K ns ?ecm s1 = (Inr (), s2)"
    "custom_create K S ns (spark_body K S name ns (csa_spec app') tags) s2 = (Inr (), s3)"
    "set_config_map_owner K S (driver_config_map_name app) ns (sas_name (csa_spec app)) s3 = (Inr (), s4)"
    "set_config_map_owner K S (executor_config_map_name app) ns (sas_name (csa_spec app)) s4 = (Inr (), t)"
    using run app' f by (auto simp: submit_job_def bind_op_Inr_iff create_config_map_def)
  have "view t = view s2"
    using C st(3) keeps_dataD [OF set_config_map_owner_keeps [OF C] st(4)]
      keeps_dataD [OF set_config_map_owner_keeps [OF C] st(5)]
    by (auto simp: cm_contract_def keeps_data_def)
  moreover have "view s1 = (view s)((ns, driver_config_map_name app) := cm_data ?dcm)"
    "view s2 = (view s1)((ns, executor_config_map_name app) := cm_data ?ecm)"
    using C st(1,2) unfolding cm_contract_def by fastforce+
  moreover have "driver_config_map_name app \<noteq> executor_config_map_name app"
    by (simp add: driver_config_map_name_def executor_config_map_name_def)
  ultimately show "view t (ns, driver_config_map_name app) =
      Some [(CCE_POLICY_CONFIG_MAP_POLICY_KEY, rego_base64 (csa_driver_policy app))]"
    and "view t (ns, executor_config_map_name app) =
      Some [(CCE_POLICY_CONFIG_MAP_POLICY_KEY, rego_base64 (csa_executor_policy app))]"
    by simp_all
qed

lemma get_key_stored:
  assumes C: "cm_contract K view" and v: "view s (ns, n) = Some d" "map_of d key = Some v" "v \<noteq> []"
  shows "\<exists>t. get_key_from_config_map K n ns key s = (Inr (Some v), t) \<and> view t = view s"
proof -
  obtain cm t where "config_map_read K ns n s = (Inr (Some cm), t)" "cm_data cm = Some d" "view t = view s"
    using C v(1) unfolding cm_contract_def by blast
  with v show ?thesis
    by (auto simp: get_key_from_config_map_def get_config_map_def bind_op_Inr)
qed

section \<open>A cluster in memory\<close>

record kstate =
  ks_config_maps :: "((string \<times> string) \<times> config_map) list"
  ks_objects :: "((string \<times> string) \<times> json) list"
  ks_events :: "core_event list"
  ks_nodes :: "node list"
  ks_pods :: "(string, pod list) dict"
  ks_clock :: int

definition body_metadata_name :: "json \<Rightarrow> string" where
  "body_metadata_name b =
    (case bind_res (json_item b ''metadata'') (\<lambda>m. json_item m ''name'') of Inr (JStr n) \<Rightarrow> n | _ \<Rightarrow> [])"

abbreviation not_found_exc :: exc where
  "not_found_exc \<equiv> ApiException (Some 404) ''Not Found''"

definition mem_kube :: "kstate kube_api" where
  "mem_kube =
    \<lparr>custom_create = (\<lambda>S ns b s. (Inr (), s\<lparr>ks_objects := ((ns, body_metadata_name b), b) # ks_objects s\<rparr>)),
     custom_get = (\<lambda>S ns n s. (case map_of (ks_objects s) (ns, n) of
         None \<Rightarrow> (Inl not_found_exc, s) | Some b \<Rightarrow> (Inr b, s))),
     custom_patch = (\<lambda>S ns n b s. (case map_of (ks_objects s) (ns, n) of
         None \<Rightarrow> (Inl not_found_exc, s) | Some _ \<Rightarrow> (Inr (), s))),
     config_map_create = (\<lambda>ns cm s. (case map_of (ks_config_maps s) (ns, cm_name cm) of
         Some _ \<Rightarrow> (Inl (ApiException (Some 409) ''Conflict''), s)
       | None \<Rightarrow> (Inr (), s\<lparr>ks_config_maps := ((ns, cm_name cm), cm) # ks_config_maps s\<rparr>))),
     config_map_read = (\<lambda>ns n s. (case map_of (ks_config_maps s) (ns, n) of
         None \<Rightarrow> (Inl not_found_exc, s) | Some cm \<Rightarrow> (Inr (Some cm), s))),
     config_map_patch = (\<lambda>ns n b s. (case map_of (ks_config_maps s) (ns, n) of
         None \<Rightarrow> (Inl not_found_exc, s) | Some _ \<Rightarrow> (Inr (), s))),
     event_create = (\<lambda>ns e s. (Inr (), s\<lparr>ks_events := e # ks_events s\<rparr>)),
     event_list = (\<lambda>ns q s. (Inr (Some (ks_events s)), s)),
     node_list = (\<lambda>q s. (Inr (Some (ks_nodes s)), s)),
     pod_list = (\<lambda>q s. (Inr (map_of (ks_pods s) q), s)),
     webhook_read = (\<lambda>n s. (Inl not_found_exc, s)),
     webhook_replace = (\<lambda>n w s. (Inr (), s)),
     webhook_create = (\<lambda>w s. (Inr (), s)),
     validate_spark_app = (\<lambda>m st. Inr \<lparr>sa_metadata = m, sa_status = None\<rparr>),
     spec_dict = (\<lambda>sp. JObj [(''name'', JStr (sas_name sp))]),
     utc_time = (\<lambda>s. (Inr (ks_clock s), s)),
     file_exists = (\<lambda>p s. False),
     file_read = (\<lambda>p s. (Inl (FileNotFoundError p), s))\<rparr>"

text \<open>\<open>None\<close> data of a stored config map is seen like a missing one.\<close>

definition mem_view :: "kstate \<Rightarrow> string \<times> string \<Rightarrow> (string, string) dict option" where
  "mem_view s k = (case map_of (ks_config_maps s) k of None \<Rightarrow> None | Some cm \<Rightarrow> cm_data cm)"

lemma mem_kube_contract: "cm_contract mem_kube mem_view"
  unfolding cm_contract_def keeps_data_def
  by (auto simp: mem_kube_def mem_view_def fun_eq_iff split: option.splits)

end
