(* ===== verification/App_Builder.thy ===== *)
theory App_Builder
  imports Kube_Client Template Cleanroom_Models
begin

text \<open>
  The clean room application builder
  (\<^verbatim>\<open>frontend_internal/cleanroom_application_builder.py\<close> and its models): it turns
  settings, governance, telemetry and storage items into the ordered list of sidecar containers
  with their policies. The file system, the registry client and YAML are the fields of
  \<open>doc_api\<close>. The lock around a download is created by the call that takes it, so it orders
  nothing; the model keeps the two tests of the path. A template variable is kept as the text
  \<^verbatim>\<open>str\<close> gives for its value.
\<close>

section \<open>Models\<close>

datatype attestation_type = SKR | CVM

record cleanroom_settings =
  registry_url :: string
  sidecars_policy_document_registry_url :: string
  versions_document :: string
  use_http :: bool

record service_cert_discovery =
  certificate_discovery_endpoint :: string
  discovery_host_data :: "string list"
  skip_digest_check :: bool
  constitution_digest :: "string option"
  js_app_bundle_digest :: "string option"

record cgs_settings =
  service_url :: string
  cert_base64 :: "string option"
  cert_discovery :: "service_cert_discovery option"

record telemetry_settings =
  telemetry_collection_enabled :: bool
  prometheus_endpoint :: "string option"
  loki_endpoint :: "string option"
  tempo_endpoint :: "string option"

definition default_telemetry :: telemetry_settings where
  "default_telemetry = \<lparr>telemetry_collection_enabled = False, prometheus_endpoint = Some '''',
     loki_endpoint = Some '''', tempo_endpoint = Some ''''\<rparr>"

record sidecar =
  sc_container :: container
  sc_policy :: json

record app_builder =
  ab_app_name :: "string option"
  ab_contract_id :: "string option"
  ab_settings :: cleanroom_settings
  ab_governance :: "cgs_settings option"
  ab_governance_required :: bool
  ab_attestation_type :: attestation_type
  ab_telemetry :: telemetry_settings
  ab_trace_context :: "(string, string) dict"
  ab_extra_vars :: "(string, string) dict"
  ab_storage_items :: "(access_point \<times> string) list"
  ab_ccr_proxy :: "(int \<times> int \<times> string) option"
  ab_debug_mode :: bool

section \<open>Collecting the settings\<close>

definition new_app_builder :: "cleanroom_settings \<Rightarrow> app_builder" where
  "new_app_builder cfg =
    \<lparr>ab_app_name = None, ab_contract_id = None, ab_settings = cfg, ab_governance = None,
     ab_governance_required = False, ab_attestation_type = SKR, ab_telemetry = default_telemetry,
     ab_trace_context = [], ab_extra_vars = [], ab_storage_items = [], ab_ccr_proxy = None,
     ab_debug_mode = False\<rparr>"

definition WithName :: "string \<Rightarrow> app_builder \<Rightarrow> app_builder res" where
  "WithName name b =
    (if name = [] then Inl (ValueError ''Application name cannot be empty'')
     else Inr (b\<lparr>ab_app_name := Some (str_replace_char (CHR '' '') ''-'' (str_lower name))\<rparr>))"

definition WithContractId :: "string \<Rightarrow> app_builder \<Rightarrow> app_builder" where
  "WithContractId c b = b\<lparr>ab_contract_id := Some c\<rparr>"

definition WithTelemetry ::
  "telemetry_settings \<Rightarrow> (string, string) dict \<Rightarrow> (string, string) dict \<Rightarrow> app_builder \<Rightarrow> app_builder" where
  "WithTelemetry t ctx extra b = b\<lparr>ab_telemetry := t, ab_trace_context := ctx, ab_extra_vars := extra\<rparr>"

definition WithGovernance :: "cgs_settings \<Rightarrow> attestation_type \<Rightarrow> app_builder \<Rightarrow> app_builder res" where
  "WithGovernance g a b =
    (if cert_base64 g = None \<and> cert_discovery g = None
     then Inl (ValueError ''Either cert_base64 or service_cert_discovery must be provided in governance settings.'')
     else Inr (b\<lparr>ab_governance_required := True, ab_governance := Some g, ab_attestation_type := a\<rparr>))"

definition AddStorage :: "access_point \<Rightarrow> string \<Rightarrow> app_builder \<Rightarrow> app_builder" where
  "AddStorage ap subject b = b\<lparr>ab_storage_items := ab_storage_items b @ [(ap, subject)]\<rparr>"

definition WithCcrProxyHttpsHttp :: "int \<Rightarrow> int \<Rightarrow> string \<Rightarrow> app_builder \<Rightarrow> app_builder" where
  "WithCcrProxyHttpsHttp listener destination fqdn b = b\<lparr>ab_ccr_proxy := Some (listener, destination, fqdn)\<rparr>"

section \<open>Versions and policy documents\<close>

record 's doc_api =
  temp_dir :: string
  path_exists :: "string \<Rightarrow> 's \<Rightarrow> bool"
  make_dirs :: "string \<Rightarrow> ('s, unit) op"
  oras_pull :: "bool \<Rightarrow> string \<Rightarrow> string \<Rightarrow> ('s, unit) op" \<comment> \<open>insecure, target, outdir\<close>
  load_yaml :: "string \<Rightarrow> ('s, json) op"

definition cached_pull :: "'s doc_api \<Rightarrow> string \<Rightarrow> ('s, unit) op \<Rightarrow> ('s, unit) op" where
  "cached_pull E path pull s =
    (if \<not> path_exists E path s then (if \<not> path_exists E path s then pull s else (Inr (), s)) else (Inr (), s))"

definition get_sidecars_version :: "'s doc_api \<Rightarrow> cleanroom_settings \<Rightarrow> ('s, json) op" where
  "get_sidecars_version E cfg =
    (let path = path_join (temp_dir E) ''sidecar-digests.yaml''
     in bind_op (cached_pull E path (oras_pull E (use_http cfg) (versions_document cfg) (temp_dir E))) (\<lambda>_.
        load_yaml E path))"

text \<open>\<^verbatim>\<open>[x for x in versions if x["image"] == name][0]\<close>\<close>

definition find_sidecar_version :: "string \<Rightarrow> json \<Rightarrow> json res" where
  "find_sidecar_version name versions =
    bind_res (json_iter versions) (\<lambda>xs.
    bind_res (filter_res (\<lambda>x. bind_res (json_item x ''image'') (\<lambda>i. Inr (i = JStr name))) xs) (\<lambda>ys.
    (case ys of [] \<Rightarrow> Inl IndexError | y # _ \<Rightarrow> Inr y)))"

definition get_sidecar_policy_document :: "'s doc_api \<Rightarrow> cleanroom_settings \<Rightarrow> string \<Rightarrow> ('s, json) op" where
  "get_sidecar_policy_document E cfg image_name =
    bind_op (get_sidecars_version E cfg) (\<lambda>versions.
    bind_op (lift_res (find_sidecar_version image_name versions)) (\<lambda>sc.
    bind_op (lift_res (bind_res (json_item sc ''policyDocument'') json_as_str)) (\<lambda>doc.
    let path = path_join (temp_dir E) (doc @ ''.yaml'')
    in bind_op (cached_pull E path
         (bind_op (make_dirs E (temp_dir E)) (\<lambda>_.
          bind_op (lift_res (json_item sc ''policyDocumentDigest'')) (\<lambda>digest.
          oras_pull E (use_http cfg)
            (sidecars_policy_document_registry_url cfg @ ''/policies/'' @ doc @ ''@'' @ json_str digest)
            (temp_dir E))))) (\<lambda>_.
       load_yaml E path))))"

section \<open>Containers from a pod specification\<close>

text \<open>The Kubernetes models reject \<^verbatim>\<open>None\<close> for a required attribute.\<close>

definition required :: "json \<Rightarrow> json res" where
  "required j = (if j = JNull then Inl (ValueError ''Invalid value, must not be None'') else Inr j)"

definition build_startup_probe :: "json \<Rightarrow> probe res" where
  "build_startup_probe p =
    bind_res
      (bind_res (json_contains p ''httpGet'') (\<lambda>has_http.
       if has_http then
         bind_res (json_item p ''httpGet'') (\<lambda>h.
         bind_res (json_item h ''path'') (\<lambda>path.
         bind_res (bind_res (json_item h ''port'') json_int) (\<lambda>port.
         Inr (Some \<lparr>hg_path = path, hg_port = port\<rparr>, None))))
       else
         bind_res (json_contains p ''tcpSocket'') (\<lambda>has_tcp.
         if has_tcp then
           bind_res (json_item p ''tcpSocket'') (\<lambda>h.
           bind_res (bind_res (json_item h ''port'') json_int) (\<lambda>port. Inr (None, Some port)))
         else Inr (None, None)))) (\<lambda>(http, tcp).
    bind_res (json_get p ''initialDelaySeconds'' JNull) (\<lambda>delay.
    bind_res (json_get p ''periodSeconds'' JNull) (\<lambda>period.
    bind_res (json_get p ''failureThreshold'' JNull) (\<lambda>threshold.
    Inr \<lparr>pr_http_get = http, pr_tcp_socket = tcp, pr_initial_delay_seconds = delay,
         pr_period_seconds = period, pr_failure_threshold = threshold\<rparr>))))"

definition env_of_json :: "json \<Rightarrow> env_var res" where
  "env_of_json e =
    bind_res (json_item e ''name'') (\<lambda>n. bind_res (json_item e ''value'') (\<lambda>v.
    bind_res (required n) (\<lambda>n. Inr \<lparr>ev_name = n, ev_value = v\<rparr>)))"

definition volume_mount_of_json :: "json \<Rightarrow> volume_mount res" where
  "volume_mount_of_json v =
    bind_res (json_item v ''name'') (\<lambda>n.
    bind_res (json_item v ''mountPath'') (\<lambda>p.
    bind_res (json_get v ''readOnly'' (JBool False)) (\<lambda>ro.
    bind_res (json_get v ''mountPropagation'' (JStr ''None'')) (\<lambda>mp.
    bind_res (required p) (\<lambda>p. bind_res (required n) (\<lambda>n.
    Inr \<lparr>vm_name = n, vm_mount_path = p, vm_read_only = ro, vm_mount_propagation = mp\<rparr>))))))"

definition port_of_json :: "json \<Rightarrow> container_port res" where
  "port_of_json p =
    bind_res (json_get p ''name'' JNull) (\<lambda>n.
    bind_res (bind_res (json_item p ''containerPort'') json_int) (\<lambda>c.
    bind_res (json_get p ''protocol'' JNull) (\<lambda>pr.
    Inr \<lparr>cp_name = n, cp_container_port = c, cp_protocol = pr\<rparr>)))"

definition container_of_json :: "json \<Rightarrow> container res" where
  "container_of_json obj =
    bind_res (json_item obj ''image'') (\<lambda>img.
    bind_res (json_item obj ''name'') (\<lambda>name.
    bind_res (json_item obj ''command'') (\<lambda>command.
    bind_res (bind_res (bind_res (json_get obj ''env'' (JArr [])) json_iter) (map_res env_of_json)) (\<lambda>envs.
    bind_res (bind_res (json_get obj ''resources'' (JObj [])) (\<lambda>r. json_get r ''requests'' (JObj []))) (\<lambda>reqs.
    bind_res (bind_res (bind_res (json_get obj ''volumeMounts'' (JArr [])) json_iter)
      (map_res volume_mount_of_json)) (\<lambda>vms.
    bind_res (bind_res (json_get obj ''securityContext'' (JObj []))
      (\<lambda>c. json_get c ''privileged'' (JBool False))) (\<lambda>priv.
    bind_res (bind_res (json_contains obj ''ports'') (\<lambda>has.
      if has then bind_res (bind_res (bind_res (json_item obj ''ports'') json_iter) (map_res port_of_json))
        (\<lambda>ps. Inr (Some ps))
      else Inr None)) (\<lambda>ports.
    bind_res (bind_res (json_contains obj ''startupProbe'') (\<lambda>has.
      if has then bind_res (bind_res (json_item obj ''startupProbe'') build_startup_probe) (\<lambda>p. Inr (Some p))
      else Inr None)) (\<lambda>pr.
    bind_res (required name) (\<lambda>name.
    Inr \<lparr>c_name = name, c_image = img, c_command = command, c_env = envs, c_resource_requests = reqs,
         c_volume_mounts = vms, c_privileged = priv, c_ports = ports, c_startup_probe = pr,
         c_restart_policy = ''Always''\<rparr>))))))))))"

text \<open>
  \<open>make_sidecar\<close> is the part of \<^verbatim>\<open>_get_sidecar\<close> that follows the download of the
  policy document.
\<close>

definition make_sidecar :: "bool \<Rightarrow> json \<Rightarrow> (string, string) dict \<Rightarrow> sidecar res" where
  "make_sidecar debug doc vars =
    bind_res (bind_res (json_item doc ''podSpecYaml'') (\<lambda>y. replace_vars (json_dumps y) vars)) (\<lambda>yaml.
    bind_res (bind_res (bind_res (json_item doc ''policy'') (\<lambda>p. json_item p
      (if debug then ''virtual_node_rego_debug'' else ''virtual_node_rego'')))
      (\<lambda>r. replace_vars (json_dumps r) vars)) (\<lambda>pol.
    bind_res (bind_res (bind_res (json_item yaml ''spec'') (\<lambda>sp. json_item sp ''containers'')) json_first) (\<lambda>obj.
    bind_res (container_of_json obj) (\<lambda>c.
    Inr \<lparr>sc_container = c, sc_policy = pol\<rparr>))))"

definition get_sidecar ::
  "'s doc_api \<Rightarrow> app_builder \<Rightarrow> string \<Rightarrow> (string, string) dict \<Rightarrow> ('s, sidecar) op" where
  "get_sidecar E b sidecar_name vars =
    bind_op (get_sidecars_version E (ab_settings b)) (\<lambda>versions.
    bind_op (lift_res (find_sidecar_version sidecar_name versions)) (\<lambda>sc.
    bind_op (lift_res (json_item sc ''digest'')) (\<lambda>digest.
    bind_op (get_sidecar_policy_document E (ab_settings b) sidecar_name) (\<lambda>doc.
    lift_res (make_sidecar (ab_debug_mode b) doc
      (AList.update ''digest'' (json_str digest)
        (AList.update ''containerRegistryUrl'' (registry_url (ab_settings b)) vars)))))))"

section \<open>The sidecars\<close>

definition VOLUMESTATUS_MOUNT_PATH :: string where "VOLUMESTATUS_MOUNT_PATH = ''/mnt/volumestatus''"
definition TELEMETRY_MOUNT_PATH :: string where "TELEMETRY_MOUNT_PATH = ''/mnt/telemetry''"
definition BLOBFUSE_READINESS_PORT_START :: int where "BLOBFUSE_READINESS_PORT_START = 6300"

definition governance_vars :: "string \<Rightarrow> cgs_settings \<Rightarrow> string \<Rightarrow> (string, string) dict res" where
  "governance_vars contract_id g telemetry_mount_path =
    bind_res
      (case cert_discovery g of
         Some d \<Rightarrow>
           bind_res (case discovery_host_data d of [] \<Rightarrow> Inl IndexError | h # _ \<Rightarrow> Inr h) (\<lambda>h.
           Inr [(''serviceCertDiscoveryEndpoint'', certificate_discovery_endpoint d),
                (''serviceCertDiscoverySnpHostData'', h),
                (''serviceCertDiscoverySkipDigestCheck'', str_lower (str_bool (skip_digest_check d))),
                (''serviceCertDiscoveryConstitutionDigest'', str_opt (constitution_digest d)),
                (''serviceCertDiscoveryJsappBundleDigest'', str_opt (js_app_bundle_digest d))])
       | None \<Rightarrow> Inr [(''serviceCertDiscoveryEndpoint'', ''''), (''serviceCertDiscoverySnpHostData'', ''''),
                      (''serviceCertDiscoverySkipDigestCheck'', ''''),
                      (''serviceCertDiscoveryConstitutionDigest'', ''''),
                      (''serviceCertDiscoveryJsappBundleDigest'', '''')]) (\<lambda>discovery.
    Inr ([(''cgsEndpoint'', service_url g), (''contractId'', contract_id),
          (''telemetryMountPath'', telemetry_mount_path),
          (''serviceCertBase64'', or_str (cert_base64 g) '''')] @ discovery))"

definition proxy_vars :: "int \<Rightarrow> int \<Rightarrow> string \<Rightarrow> (string, string) dict" where
  "proxy_vars listener destination fqdn =
    [(''caType'', ''cgs''), (''listenerPort'', str_int listener), (''destinationPort'', str_int destination),
     (''ccrFqdn'', fqdn)]"

text \<open>The arguments of the identity sidecar; an identity is listed once per kind, by client id.\<close>

record federated_identity =
  fid_clientId :: string
  fid_subject :: string
  fid_issuer :: string

definition add_identity_arg ::
  "identity option \<times> string \<Rightarrow> string list \<times> federated_identity list \<Rightarrow>
   (string list \<times> federated_identity list) res" where
  "add_identity_arg item acc =
    (case (item, acc) of ((i, subject), (managed, apps)) \<Rightarrow>
      (case i of
         None \<Rightarrow> Inl AttributeError
       | Some x \<Rightarrow>
           (case id_tokenIssuer x of
              AttestationBasedTokenIssuer ep \<Rightarrow>
                if ep_protocol ep = P_AzureAD_ManagedIdentity \<and> id_clientId x \<notin> set managed
                then Inr (managed @ [id_clientId x], apps) else Inr (managed, apps)
            | FederatedIdentityBasedTokenIssuer ep _ \<Rightarrow>
                if id_clientId x \<notin> fid_clientId ` set apps
                then Inr (managed, apps @ [\<lparr>fid_clientId = id_clientId x, fid_subject = subject, fid_issuer = ep_url ep\<rparr>])
                else Inr (managed, apps)
            | SecretBasedTokenIssuer _ _ _ \<Rightarrow> Inr (managed, apps))))"

definition identity_args_json :: "string \<Rightarrow> string list \<times> federated_identity list \<Rightarrow> json" where
  "identity_args_json audience acc =
    JObj [(''Identities'', JObj
      [(''ManagedIdentities'', JArr (map (\<lambda>c. JObj [(''ClientId'', JStr c)]) (fst acc))),
       (''ApplicationIdentities'', JArr (map (\<lambda>f. JObj
          [(''ClientId'', JStr (fid_clientId f)),
           (''Credential'', JObj
             [(''CredentialType'', JStr ''FederatedCredential''),
              (''FederationConfiguration'', JObj
                [(''IdTokenEndpoint'', JStr ''http://localhost:8300''), (''Subject'', JStr (fid_subject f)),
                 (''Audience'', JStr audience), (''Issuer'', JStr (fid_issuer f))])])]) (snd acc)))])]"

definition identity_vars ::
  "(identity option \<times> string) list \<Rightarrow> string \<Rightarrow> string \<Rightarrow> (string, string) dict res" where
  "identity_vars identities audience telemetry_mount_path =
    bind_res (fold_res add_identity_arg identities ([], [])) (\<lambda>acc.
    bind_res (utf8_decode (b64encode (utf8_encode (json_dumps (identity_args_json audience acc))))) (\<lambda>args.
    Inr [(''IdentitySidecarArgsBase64'', args), (''OtelMetricExportInterval'', ''5000''),
         (''telemetryMountPath'', telemetry_mount_path)]))"

definition option_json :: "string option \<Rightarrow> json" where
  "option_json x = (case x of None \<Rightarrow> JNull | Some s \<Rightarrow> JStr s)"

definition sanitize_access_name :: "string \<Rightarrow> string" where
  "sanitize_access_name n = str_replace_char (CHR ''_'') ''-'' (str_replace_char (CHR '' '') '''' (str_lower n))"

definition trace_context_b64 :: "(string, string) dict \<Rightarrow> string" where
  "trace_context_b64 ctx =
    (if ctx \<noteq> [] then b64encode (utf8_encode (json_dumps (JObj (map (\<lambda>(k, v). (k, JStr v)) ctx)))) else [])"

text \<open>\<^verbatim>\<open>str\<close> of a member of \<^verbatim>\<open>ResourceType\<close>.\<close>

definition str_resource_type :: "resource_type \<Rightarrow> string" where
  "str_resource_type t = ''ResourceType.'' @
    (case t of
       RT_Azure_BlobStorage \<Rightarrow> ''Azure_BlobStorage''
     | RT_Azure_BlobStorage_DataLakeGen2 \<Rightarrow> ''Azure_BlobStorage_DataLakeGen2''
     | RT_Azure_OneLake \<Rightarrow> ''Azure_OneLake''
     | RT_Aws_S3 \<Rightarrow> ''Aws_S3''
     | RT_AzureKeyVault \<Rightarrow> ''AzureKeyVault''
     | RT_Cgs \<Rightarrow> ''Cgs''
     | RT_AzureContainerRegistry \<Rightarrow> ''AzureContainerRegistry'')"

definition read_only_flag :: "access_point \<Rightarrow> string" where
  "read_only_flag ap = (if ap_type ap = Volume_ReadOnly then ''--read-only'' else ''--no-read-only'')"

text \<open>
  The variables of a blobfuse sidecar and the sub-directory it mounts. The secret that holds the
  data encryption key must be a secret of the governance service.
\<close>

definition cpk_secret_id :: "access_point \<Rightarrow> string \<Rightarrow> json \<Rightarrow> string res" where
  "cpk_secret_id ap access_name mode =
    (if mode = JStr ''CPK'' then
       (case pps_encryptionSecrets (ap_protection ap) of
          None \<Rightarrow> Inl (AssertionError (''Encryption secrets is null for '' @ access_name @ ''.''))
        | Some es \<Rightarrow>
            let r = backingResource (es_secret (es_dek es))
            in bind_res (assert_res (res_type r = RT_Cgs)
                 (''Expecting DEK secret backing resource type as '' @ [CHR 0x27] @ str_resource_type RT_Cgs @
                  [CHR 0x27] @ '' but value is '' @ [CHR 0x27] @ str_resource_type (res_type r) @ [CHR 0x27] @ ''.''))
                 (\<lambda>_. Inr (res_name r)))
     else Inr '''')"

text \<open>Account, endpoint, container and sub-directory, as the store's URL and protocol give them.\<close>

definition blob_location :: "access_point \<Rightarrow> (string \<times> string \<times> string \<times> string) res" where
  "blob_location ap =
    (let provider = res_provider (ap_store ap); sub = or_str (ap_subdirectory ap) ''''
     in bind_res (urlparse (ep_url provider)) (\<lambda>u.
        case url_hostname u of
          None \<Rightarrow> Inl AttributeError
        | Some host \<Rightarrow>
            if ep_protocol provider = P_Azure_OneLake then
              (case str_split (CHR ''/'') (url_path u) of
                 _ # c # rest \<Rightarrow> Inr (''onelake'', host, c, if sub = [] then str_join ''/'' rest else sub)
               | _ \<Rightarrow> Inl IndexError)
            else Inr (hd (str_split (CHR ''.'') host), ep_url provider, res_name (ap_store ap), sub)))"

definition blobfuse_vars ::
  "(string, string) dict \<Rightarrow> access_point \<Rightarrow> string \<Rightarrow> string \<Rightarrow> string \<Rightarrow> string \<Rightarrow> int \<Rightarrow>
   ((string, string) dict \<times> string) res" where
  "blobfuse_vars ctx ap mount_path access_name telemetry_mount_path volume_status_mount_path readiness_port =
    (let access_name = sanitize_access_name access_name; provider = res_provider (ap_store ap)
     in bind_res (json_b64_document (option_json (pps_configuration (ap_protection ap)))) (\<lambda>cfg.
        bind_res (json_item cfg ''EncryptionMode'') (\<lambda>mode.
        bind_res (assert_res (mode \<noteq> JStr ''CSE'')
          (''Encryption mode '' @ json_str mode @ '' is not supported for '' @ access_name @ ''.'')) (\<lambda>_.
        bind_res (cpk_secret_id ap access_name mode) (\<lambda>secret_id.
        bind_res (blob_location ap) (\<lambda>(account, endpoint, blob_container, subdirectory).
        (case ap_identity ap of
           None \<Rightarrow> Inl AttributeError
         | Some i \<Rightarrow> Inr
            ([(''datasetName'', access_name),
              (''storageContainerName'', blob_container),
              (''mountPath'', mount_path),
              (''maaUrl'', ''''),
              (''storageAccountName'', account),
              (''storageBlobEndpoint'', endpoint),
              (''readOnly'', read_only_flag ap),
              (''kekVaultUrl'', ''''), (''kekKid'', ''''), (''dekVaultUrl'', ''''), (''dekSecretName'', ''''),
              (''cgsDekSecretId'', secret_id),
              (''clientId'', id_clientId i),
              (''tenantId'', id_tenantId i),
              (''encryptionMode'', json_str mode),
              (''useAdls'',
                if ep_protocol provider \<in> {P_Azure_OneLake, P_Azure_BlobStorage_DataLakeGen2}
                then ''--use-adls'' else ''--no-use-adls''),
              (''telemetryMountPath'', telemetry_mount_path),
              (''volumeStatusMountPath'', volume_status_mount_path),
              (''traceContextJsonBase64'', trace_context_b64 ctx),
              (''readinessPort'', str_int readiness_port)], subdirectory))))))))"

text \<open>What \<^verbatim>\<open>_get_blobfuse_sidecar\<close> changes in the sidecar it has built.\<close>

definition set_readiness_port :: "int \<Rightarrow> sidecar \<Rightarrow> sidecar res" where
  "set_readiness_port port sc =
    (case c_startup_probe (sc_container sc) of
       None \<Rightarrow> Inr sc
     | Some p \<Rightarrow>
         (case pr_http_get p of
            None \<Rightarrow> Inl AttributeError
          | Some h \<Rightarrow> Inr (sc\<lparr>sc_container := (sc_container sc)
              \<lparr>c_startup_probe := Some (p\<lparr>pr_http_get := Some (h\<lparr>hg_port := port\<rparr>)\<rparr>)\<rparr>\<rparr>)))"

definition add_sub_directory :: "string \<Rightarrow> sidecar \<Rightarrow> sidecar res" where
  "add_sub_directory subdirectory sc =
    (if subdirectory = [] then Inr sc
     else
       bind_res (json_extend [JStr ''--sub-directory'', JStr subdirectory] (c_command (sc_container sc))) (\<lambda>cmd.
       bind_res (case sc_policy sc of JStr t \<Rightarrow> json_loads t | j \<Rightarrow> Inr j) (\<lambda>pol.
       bind_res (json_contains pol ''command'') (\<lambda>has.
       bind_res (if has
         then json_update_item ''command'' (json_extend [JStr ''--sub-directory'', JStr subdirectory]) pol
         else Inr pol) (\<lambda>pol.
       Inr \<lparr>sc_container = (sc_container sc)\<lparr>c_command := cmd\<rparr>, sc_policy = pol\<rparr>)))))"

definition finish_blobfuse :: "int \<Rightarrow> string \<Rightarrow> sidecar \<Rightarrow> sidecar res" where
  "finish_blobfuse port subdirectory sc =
    bind_res (set_readiness_port port sc) (add_sub_directory subdirectory)"

definition get_blobfuse_sidecar ::
  "'s doc_api \<Rightarrow> app_builder \<Rightarrow> access_point \<Rightarrow> string \<Rightarrow> string \<Rightarrow> string \<Rightarrow> string \<Rightarrow> int \<Rightarrow>
   ('s, sidecar) op" where
  "get_blobfuse_sidecar E b ap mount_path access_name telemetry_mount_path volume_status_mount_path port =
    bind_op (lift_res (blobfuse_vars (ab_trace_context b) ap mount_path access_name telemetry_mount_path
      volume_status_mount_path port)) (\<lambda>(vars, subdirectory).
    bind_op (get_sidecar E b ''blobfuse-launcher'' vars) (\<lambda>sc.
    lift_res (finish_blobfuse port subdirectory sc)))"

definition s3fs_vars ::
  "(string, string) dict \<Rightarrow> access_point \<Rightarrow> string \<Rightarrow> string \<Rightarrow> string \<Rightarrow> string \<Rightarrow>
   (string, string) dict res" where
  "s3fs_vars ctx ap mount_path access_name telemetry_mount_path volume_status_mount_path =
    (let access_name = sanitize_access_name access_name; provider = res_provider (ap_store ap)
     in bind_res (assert_res (or_str (ep_configuration provider) '''' \<noteq> '''')
          (''Store provider configuration is null for '' @ access_name @ ''.'')) (\<lambda>_.
        bind_res (json_b64_document (option_json (ep_configuration provider))) (\<lambda>cfg.
        bind_res (json_item cfg ''secretId'') (\<lambda>secret_id.
        bind_res (assert_res (secret_id \<noteq> JNull)
          (''AWS config secret Id value is not set for '' @ access_name @ ''.'')) (\<lambda>_.
        Inr [(''datasetName'', access_name),
             (''awsBucketName'', res_name (ap_store ap)),
             (''readOnly'', read_only_flag ap),
             (''mountPath'', mount_path),
             (''cgsAwsS3ConfigSecret'', json_str secret_id),
             (''awsUrl'', ep_url provider),
             (''telemetryMountPath'', telemetry_mount_path),
             (''volumeStatusMountPath'', volume_status_mount_path),
             (''traceContextJsonBase64'', trace_context_b64 ctx)])))))"

definition get_s3fs_sidecar ::
  "'s doc_api \<Rightarrow> app_builder \<Rightarrow> access_point \<Rightarrow> string \<Rightarrow> string \<Rightarrow> string \<Rightarrow> string \<Rightarrow> ('s, sidecar) op" where
  "get_s3fs_sidecar E b ap mount_path access_name telemetry_mount_path volume_status_mount_path =
    bind_op (lift_res (s3fs_vars (ab_trace_context b) ap mount_path access_name telemetry_mount_path
      volume_status_mount_path)) (get_sidecar E b ''s3fs-launcher'')"

definition otel_vars :: "telemetry_settings \<Rightarrow> string \<Rightarrow> (string, string) dict \<Rightarrow> (string, string) dict" where
  "otel_vars t telemetry_mount_path extra =
    (let extra_var = (\<lambda>k. case map_of extra k of None \<Rightarrow> '''' | Some v \<Rightarrow> v)
     in [(''telemetryCollectionEnabled'', str_bool (telemetry_collection_enabled t)),
         (''telemetryPath'', ''''),
         (''telemetryMountPath'', telemetry_mount_path),
         (''prometheusEndpoint'', str_opt (prometheus_endpoint t)),
         (''lokiEndpoint'', str_opt (loki_endpoint t)),
         (''tempoEndpoint'', str_opt (tempo_endpoint t)),
         (''sparkMetricsEndpoint'', extra_var ''sparkMetricsEndpoint''),
         (''resourceAttributes'', extra_var ''resourceAttributes'')])"

definition get_otel_sidecar :: "'s doc_api \<Rightarrow> app_builder \<Rightarrow> ('s, sidecar) op" where
  "get_otel_sidecar E b =
    get_sidecar E b ''otel-collector'' (otel_vars (ab_telemetry b) TELEMETRY_MOUNT_PATH (ab_extra_vars b))"

definition get_skr_sidecar :: "'s doc_api \<Rightarrow> app_builder \<Rightarrow> string \<Rightarrow> ('s, sidecar) op" where
  "get_skr_sidecar E b telemetry_mount_path =
    get_sidecar E b ''skr'' [(''telemetryMountPath'', telemetry_mount_path)]"

definition get_cvm_attestation_agent_sidecar :: "'s doc_api \<Rightarrow> app_builder \<Rightarrow> string \<Rightarrow> ('s, sidecar) op" where
  "get_cvm_attestation_agent_sidecar E b telemetry_mount_path =
    get_sidecar E b ''cvm-attestation-agent'' [(''telemetryMountPath'', telemetry_mount_path)]"

definition get_ccr_governance_sidecar ::
  "'s doc_api \<Rightarrow> app_builder \<Rightarrow> string \<Rightarrow> cgs_settings \<Rightarrow> string \<Rightarrow> ('s, sidecar) op" where
  "get_ccr_governance_sidecar E b contract_id g telemetry_mount_path =
    bind_op (lift_res (governance_vars contract_id g telemetry_mount_path)) (get_sidecar E b ''ccr-governance'')"

definition get_ccr_proxy_sidecar :: "'s doc_api \<Rightarrow> app_builder \<Rightarrow> int \<Rightarrow> int \<Rightarrow> string \<Rightarrow> ('s, sidecar) op" where
  "get_ccr_proxy_sidecar E b listener destination fqdn =
    get_sidecar E b ''ccr-proxy-https-http'' (proxy_vars listener destination fqdn)"

definition get_identity_sidecar ::
  "'s doc_api \<Rightarrow> app_builder \<Rightarrow> (identity option \<times> string) list \<Rightarrow> string \<Rightarrow> string \<Rightarrow> ('s, sidecar) op" where
  "get_identity_sidecar E b identities audience telemetry_mount_path =
    bind_op (lift_res (identity_vars identities audience telemetry_mount_path)) (get_sidecar E b ''identity'')"

section \<open>Build\<close>

definition governance_sidecars :: "'s doc_api \<Rightarrow> app_builder \<Rightarrow> ('s, sidecar list) op" where
  "governance_sidecars E b =
    (if ab_governance_required b then
       (case ab_governance b of
          None \<Rightarrow> raise_op (AssertionError ''Governance settings are required.'')
        | Some g \<Rightarrow>
            (case ab_contract_id b of
               None \<Rightarrow> raise_op (AssertionError ''Contract ID is required.'')
             | Some contract_id \<Rightarrow>
                 bind_op (if ab_attestation_type b = CVM
                   then get_cvm_attestation_agent_sidecar E b TELEMETRY_MOUNT_PATH
                   else get_skr_sidecar E b TELEMETRY_MOUNT_PATH) (\<lambda>attestation.
                 bind_op (get_ccr_governance_sidecar E b contract_id g TELEMETRY_MOUNT_PATH) (\<lambda>governance.
                 return_op [attestation, governance]))))
     else return_op [])"

text \<open>The loop over the storage items.\<close>

record storage_acc =
  sa_identities :: "(identity option \<times> string) list"
  sa_blobfuse :: "sidecar list"
  sa_s3fs :: "sidecar list"
  sa_next_port :: int

definition is_blob_store :: "access_point \<Rightarrow> bool" where
  "is_blob_store ap \<longleftrightarrow> res_type (ap_store ap) \<in> {RT_Azure_BlobStorage, RT_Azure_BlobStorage_DataLakeGen2}"

definition add_storage_item ::
  "'s doc_api \<Rightarrow> app_builder \<Rightarrow> string \<Rightarrow> access_point \<times> string \<Rightarrow> storage_acc \<Rightarrow> ('s, storage_acc) op" where
  "add_storage_item E b contract_id item acc =
    (case item of (ap, subject) \<Rightarrow>
      if is_blob_store ap then
        bind_op (get_blobfuse_sidecar E b ap ''/mnt/remote'' (ap_name ap) TELEMETRY_MOUNT_PATH
          VOLUMESTATUS_MOUNT_PATH (sa_next_port acc)) (\<lambda>sc.
        return_op (acc\<lparr>sa_identities := sa_identities acc @ [(ap_identity ap, contract_id @ ''-'' @ subject)],
          sa_blobfuse := sa_blobfuse acc @ [sc], sa_next_port := sa_next_port acc + 1\<rparr>))
      else if res_type (ap_store ap) = RT_Aws_S3 then
        bind_op (get_s3fs_sidecar E b ap ''/mnt/remote'' (ap_name ap) TELEMETRY_MOUNT_PATH
          VOLUMESTATUS_MOUNT_PATH) (\<lambda>sc.
        return_op (acc\<lparr>sa_s3fs := sa_s3fs acc @ [sc]\<rparr>))
      else raise_op (ValueError (''Unsupported store type '' @ str_resource_type (res_type (ap_store ap)) @
        '' for '' @ ap_name ap @ ''.'')))"

definition storage_sidecars :: "'s doc_api \<Rightarrow> app_builder \<Rightarrow> ('s, storage_acc) op" where
  "storage_sidecars E b =
    (let start = \<lparr>sa_identities = [], sa_blobfuse = [], sa_s3fs = [], sa_next_port = BLOBFUSE_READINESS_PORT_START\<rparr>
     in if ab_storage_items b = [] then return_op start
        else (case ab_contract_id b of
                None \<Rightarrow> raise_op (AssertionError ''Contract ID is required.'')
              | Some contract_id \<Rightarrow> fold_op (add_storage_item E b contract_id) (ab_storage_items b) start))"

text \<open>
  The order of the list is the order in which the containers start. The assertion of the proxy
  branch compares a flag with \<^verbatim>\<open>None\<close> and always holds.
\<close>

definition Build :: "'s doc_api \<Rightarrow> app_builder \<Rightarrow> ('s, sidecar list) op" where
  "Build E b =
    bind_op (if telemetry_collection_enabled (ab_telemetry b)
      then bind_op (get_otel_sidecar E b) (\<lambda>sc. return_op [sc]) else return_op []) (\<lambda>otel.
    bind_op (governance_sidecars E b) (\<lambda>governance.
    bind_op (case ab_ccr_proxy b of
        None \<Rightarrow> return_op []
      | Some (listener, destination, fqdn) \<Rightarrow>
          bind_op (get_ccr_proxy_sidecar E b listener destination fqdn) (\<lambda>sc. return_op [sc])) (\<lambda>proxy.
    bind_op (storage_sidecars E b) (\<lambda>acc.
    bind_op (if sa_identities acc = [] then return_op []
      else bind_op (get_identity_sidecar E b (sa_identities acc) ''api://AzureADTokenExchange''
        TELEMETRY_MOUNT_PATH) (\<lambda>sc. return_op [sc])) (\<lambda>identity.
    return_op (otel @ governance @ proxy @ identity @ sa_blobfuse acc @ sa_s3fs acc))))))"

section \<open>The plan of a build\<close>

text \<open>
  The specification of \<open>Build\<close>: a pure function from the collected settings to the requests for
  sidecars, in the order of the result. A request is a document name, the variables to fill it
  with, and for blobfuse the readiness port and the sub-directory.
\<close>

record sidecar_request =
  rq_name :: string
  rq_vars :: "(string, string) dict"
  rq_finish :: "(int \<times> string) option"

definition serve_request :: "'s doc_api \<Rightarrow> app_builder \<Rightarrow> sidecar_request \<Rightarrow> ('s, sidecar) op" where
  "serve_request E b rq =
    bind_op (get_sidecar E b (rq_name rq) (rq_vars rq)) (\<lambda>sc.
    (case rq_finish rq of None \<Rightarrow> return_op sc | Some (port, sub) \<Rightarrow> lift_res (finish_blobfuse port sub sc)))"

definition served :: "'s doc_api \<Rightarrow> app_builder \<Rightarrow> sidecar_request \<Rightarrow> sidecar \<Rightarrow> bool" where
  "served E b rq sc \<longleftrightarrow> (\<exists>s t. serve_request E b rq s = (Inr sc, t))"

definition plain_request :: "string \<Rightarrow> (string, string) dict \<Rightarrow> sidecar_request" where
  "plain_request n vars = \<lparr>rq_name = n, rq_vars = vars, rq_finish = None\<rparr>"

fun blob_requests :: "(string, string) dict \<Rightarrow> int \<Rightarrow> access_point list \<Rightarrow> sidecar_request list res" where
  "blob_requests ctx port [] = Inr []"
| "blob_requests ctx port (ap # aps) =
    bind_res (blobfuse_vars ctx ap ''/mnt/remote'' (ap_name ap) TELEMETRY_MOUNT_PATH VOLUMESTATUS_MOUNT_PATH port)
      (\<lambda>(vars, sub).
    bind_res (blob_requests ctx (port + 1) aps) (\<lambda>rqs.
    Inr (\<lparr>rq_name = ''blobfuse-launcher'', rq_vars = vars, rq_finish = Some (port, sub)\<rparr> # rqs)))"

definition s3_request :: "(string, string) dict \<Rightarrow> access_point \<Rightarrow> sidecar_request res" where
  "s3_request ctx ap =
    bind_res (s3fs_vars ctx ap ''/mnt/remote'' (ap_name ap) TELEMETRY_MOUNT_PATH VOLUMESTATUS_MOUNT_PATH)
      (\<lambda>vars. Inr (plain_request ''s3fs-launcher'' vars))"

definition governance_plan :: "app_builder \<Rightarrow> sidecar_request list res" where
  "governance_plan b =
    (if ab_governance_required b then
       (case (ab_governance b, ab_contract_id b) of
          (Some g, Some c) \<Rightarrow>
            bind_res (governance_vars c g TELEMETRY_MOUNT_PATH) (\<lambda>vars.
            Inr [plain_request (case ab_attestation_type b of CVM \<Rightarrow> ''cvm-attestation-agent'' | SKR \<Rightarrow> ''skr'')
                   [(''telemetryMountPath'', TELEMETRY_MOUNT_PATH)],
                 plain_request ''ccr-governance'' vars])
        | _ \<Rightarrow> Inl (AssertionError ''''))
     else Inr [])"

definition blob_items :: "app_builder \<Rightarrow> (access_point \<times> string) list" where
  "blob_items b = filter (\<lambda>i. is_blob_store (fst i)) (ab_storage_items b)"

definition s3_items :: "app_builder \<Rightarrow> (access_point \<times> string) list" where
  "s3_items b = filter (\<lambda>i. \<not> is_blob_store (fst i)) (ab_storage_items b)"

definition identity_subjects :: "app_builder \<Rightarrow> (identity option \<times> string) list" where
  "identity_subjects b =
    map (\<lambda>(ap, subject). (ap_identity ap, the (ab_contract_id b) @ ''-'' @ subject)) (blob_items b)"

definition identity_plan :: "app_builder \<Rightarrow> sidecar_request list res" where
  "identity_plan b =
    (if blob_items b = [] then Inr []
     else bind_res (identity_vars (identity_subjects b) ''api://AzureADTokenExchange'' TELEMETRY_MOUNT_PATH)
       (\<lambda>vars. Inr [plain_request ''identity'' vars]))"

definition sidecar_plan :: "app_builder \<Rightarrow> sidecar_request list res" where
  "sidecar_plan b =
    bind_res (governance_plan b) (\<lambda>governance.
    bind_res (identity_plan b) (\<lambda>identity.
    bind_res (blob_requests (ab_trace_context b) BLOBFUSE_READINESS_PORT_START (map fst (blob_items b))) (\<lambda>blobs.
    bind_res (map_res (s3_request (ab_trace_context b)) (map fst (s3_items b))) (\<lambda>s3.
    Inr ((if telemetry_collection_enabled (ab_telemetry b)
           then [plain_request ''otel-collector'' (otel_vars (ab_telemetry b) TELEMETRY_MOUNT_PATH (ab_extra_vars b))]
           else []) @
         governance @
         (case ab_ccr_proxy b of None \<Rightarrow> []
          | Some (l, d, f) \<Rightarrow> [plain_request ''ccr-proxy-https-http'' (proxy_vars l d f)]) @
         identity @ blobs @ s3)))))"

lemma served_plain:
  "get_sidecar E b n vars s = (Inr sc, t) \<Longrightarrow> served E b (plain_request n vars) sc"
  by (auto simp: served_def serve_request_def plain_request_def bind_op_Inr_iff)

lemma get_blobfuse_served:
  assumes "get_blobfuse_sidecar E b ap ''/mnt/remote'' (ap_name ap) TELEMETRY_MOUNT_PATH VOLUMESTATUS_MOUNT_PATH port s
    = (Inr sc, t)"
  obtains vars sub where
    "blobfuse_vars (ab_trace_context b) ap ''/mnt/remote'' (ap_name ap) TELEMETRY_MOUNT_PATH VOLUMESTATUS_MOUNT_PATH port
      = Inr (vars, sub)"
    and "served E b \<lparr>rq_name = ''blobfuse-launcher'', rq_vars = vars, rq_finish = Some (port, sub)\<rparr> sc"
proof -
  from assms obtain vars sub sc0 s0 where
    v: "blobfuse_vars (ab_trace_context b) ap ''/mnt/remote'' (ap_name ap) TELEMETRY_MOUNT_PATH VOLUMESTATUS_MOUNT_PATH port
      = Inr (vars, sub)"
    and "get_sidecar E b ''blobfuse-launcher'' vars s = (Inr sc0, s0)" "finish_blobfuse port sub sc0 = Inr sc"
    by (auto simp: get_blobfuse_sidecar_def bind_op_Inr_iff split: prod.splits)
  then have "serve_request E b \<lparr>rq_name = ''blobfuse-launcher'', rq_vars = vars, rq_finish = Some (port, sub)\<rparr> s
      = (Inr sc, s0)"
    by (simp add: serve_request_def bind_op_Inr_iff)
  then have "served E b \<lparr>rq_name = ''blobfuse-launcher'', rq_vars = vars, rq_finish = Some (port, sub)\<rparr> sc"
    by (auto simp: served_def)
  with v show ?thesis by (rule that)
qed

lemma get_s3fs_served:
  assumes "get_s3fs_sidecar E b ap ''/mnt/remote'' (ap_name ap) TELEMETRY_MOUNT_PATH VOLUMESTATUS_MOUNT_PATH s
    = (Inr sc, t)"
  obtains rq where "s3_request (ab_trace_context b) ap = Inr rq" and "served E b rq sc"
  using assms by (auto simp: get_s3fs_sidecar_def s3_request_def bind_op_Inr_iff dest: served_plain)

lemma storage_loop:
  assumes "fold_op (add_storage_item E b c) items acc s = (Inr acc', t)"
  shows "\<exists>brs srs bs ss.
    blob_requests (ab_trace_context b) (sa_next_port acc) (map fst (filter (\<lambda>i. is_blob_store (fst i)) items)) = Inr brs \<and>
    map_res (s3_request (ab_trace_context b)) (map fst (filter (\<lambda>i. \<not> is_blob_store (fst i)) items)) = Inr srs \<and>
    list_all2 (served E b) brs bs \<and> list_all2 (served E b) srs ss \<and>
    sa_blobfuse acc' = sa_blobfuse acc @ bs \<and> sa_s3fs acc' = sa_s3fs acc @ ss \<and>
    sa_identities acc' = sa_identities acc @
      map (\<lambda>(ap, subject). (ap_identity ap, c @ ''-'' @ subject)) (filter (\<lambda>i. is_blob_store (fst i)) items)"
  using assms
proof (induction items arbitrary: acc s)
  case Nil
  then show ?case by simp
next
  case (Cons item items)
  obtain ap subject where item: "item = (ap, subject)" by (cases item)
  from Cons.prems obtain acc1 s1 where step: "add_storage_item E b c item acc s = (Inr acc1, s1)"
    and rest: "fold_op (add_storage_item E b c) items acc1 s1 = (Inr acc', t)"
    by (auto simp: bind_op_Inr_iff)
  show ?case
  proof (cases "is_blob_store ap")
    case True
    from step True obtain sc where sc: "get_blobfuse_sidecar E b ap ''/mnt/remote'' (ap_name ap) TELEMETRY_MOUNT_PATH
        VOLUMESTATUS_MOUNT_PATH (sa_next_port acc) s = (Inr sc, s1)"
      and acc1: "acc1 = acc\<lparr>sa_identities := sa_identities acc @ [(ap_identity ap, c @ ''-'' @ subject)],
          sa_blobfuse := sa_blobfuse acc @ [sc], sa_next_port := sa_next_port acc + 1\<rparr>"
      by (auto simp: add_storage_item_def item bind_op_Inr_iff)
    from sc obtain vars sub where "blobfuse_vars (ab_trace_context b) ap ''/mnt/remote'' (ap_name ap)
        TELEMETRY_MOUNT_PATH VOLUMESTATUS_MOUNT_PATH (sa_next_port acc) = Inr (vars, sub)"
      and "served E b \<lparr>rq_name = ''blobfuse-launcher'', rq_vars = vars, rq_finish = Some (sa_next_port acc, sub)\<rparr> sc"
      by (rule get_blobfuse_served)
    with Cons.IH [OF rest] True show ?thesis by (auto simp: acc1 item)
  next
    case False
    from step False obtain sc where sc: "get_s3fs_sidecar E b ap ''/mnt/remote'' (ap_name ap) TELEMETRY_MOUNT_PATH
        VOLUMESTATUS_MOUNT_PATH s = (Inr sc, s1)"
      and acc1: "acc1 = acc\<lparr>sa_s3fs := sa_s3fs acc @ [sc]\<rparr>"
      by (auto simp: add_storage_item_def item bind_op_Inr_iff split: if_splits)
    from sc obtain rq where "s3_request (ab_trace_context b) ap = Inr rq" "served E b rq sc"
      by (rule get_s3fs_served)
    with Cons.IH [OF rest] False show ?thesis by (auto simp: acc1 item)
  qed
qed

lemma storage_sidecars_served:
  assumes "storage_sidecars E b s = (Inr acc, t)"
  shows "\<exists>brs srs.
    blob_requests (ab_trace_context b) BLOBFUSE_READINESS_PORT_START (map fst (blob_items b)) = Inr brs \<and>
    map_res (s3_request (ab_trace_context b)) (map fst (s3_items b)) = Inr srs \<and>
    list_all2 (served E b) brs (sa_blobfuse acc) \<and> list_all2 (served E b) srs (sa_s3fs acc) \<and>
    sa_identities acc = identity_subjects b"
proof (cases "ab_storage_items b = []")
  case True
  with assms show ?thesis
    by (auto simp: storage_sidecars_def blob_items_def s3_items_def identity_subjects_def)
next
  case False
  with assms obtain c where c: "ab_contract_id b = Some c"
    and f: "fold_op (add_storage_item E b c) (ab_storage_items b)
      \<lparr>sa_identities = [], sa_blobfuse = [], sa_s3fs = [], sa_next_port = BLOBFUSE_READINESS_PORT_START\<rparr> s = (Inr acc, t)"
    by (auto simp: storage_sidecars_def split: option.splits)
  from storage_loop [OF f] c show ?thesis
    by (simp add: blob_items_def s3_items_def identity_subjects_def)
qed

lemma governance_served:
  assumes "governance_sidecars E b s = (Inr scs, t)"
  shows "\<exists>rqs. governance_plan b = Inr rqs \<and> list_all2 (served E b) rqs scs"
proof (cases "ab_governance_required b")
  case False
  with assms show ?thesis by (simp add: governance_sidecars_def governance_plan_def)
next
  case True
  with assms obtain g c a s1 v x where g: "ab_governance b = Some g" and c: "ab_contract_id b = Some c"
    and a: "get_sidecar E b (case ab_attestation_type b of CVM \<Rightarrow> ''cvm-attestation-agent'' | SKR \<Rightarrow> ''skr'')
      [(''telemetryMountPath'', TELEMETRY_MOUNT_PATH)] s = (Inr a, s1)"
    and v: "governance_vars c g TELEMETRY_MOUNT_PATH = Inr v"
    and x: "get_sidecar E b ''ccr-governance'' v s1 = (Inr x, t)" "scs = [a, x]"
    by (cases "ab_attestation_type b")
      (auto simp: governance_sidecars_def get_ccr_governance_sidecar_def get_skr_sidecar_def
        get_cvm_attestation_agent_sidecar_def bind_op_Inr_iff split: option.splits)
  from True g c v x served_plain [OF a] served_plain [OF x(1)] show ?thesis
    by (simp add: governance_plan_def)
qed

lemma identity_served:
  assumes "(if identity_subjects b = [] then return_op []
      else bind_op (get_identity_sidecar E b (identity_subjects b) ''api://AzureADTokenExchange''
        TELEMETRY_MOUNT_PATH) (\<lambda>sc. return_op [sc])) s = (Inr scs, t)"
  shows "\<exists>rqs. identity_plan b = Inr rqs \<and> list_all2 (served E b) rqs scs"
  using assms
  by (auto simp: identity_plan_def get_identity_sidecar_def bind_op_Inr_iff identity_subjects_def
      split: if_splits dest: served_plain)

lemma Build_plan:
  assumes "Build E b s = (Inr scs, t)"
  shows "\<exists>rqs. sidecar_plan b = Inr rqs \<and> list_all2 (served E b) rqs scs"
proof -
  from assms obtain ot s1 gs s2 ps s3 acc s4 ids where
    ot: "(if telemetry_collection_enabled (ab_telemetry b)
      then bind_op (get_otel_sidecar E b) (\<lambda>sc. return_op [sc]) else return_op []) s = (Inr ot, s1)"
    and gs: "governance_sidecars E b s1 = (Inr gs, s2)"
    and ps: "(case ab_ccr_proxy b of None \<Rightarrow> return_op []
      | Some (l, d, f) \<Rightarrow> bind_op (get_ccr_proxy_sidecar E b l d f) (\<lambda>sc. return_op [sc])) s2 = (Inr ps, s3)"
    and acc: "storage_sidecars E b s3 = (Inr acc, s4)"
    and ids: "(if sa_identities acc = [] then return_op []
      else bind_op (get_identity_sidecar E b (sa_identities acc) ''api://AzureADTokenExchange''
        TELEMETRY_MOUNT_PATH) (\<lambda>sc. return_op [sc])) s4 = (Inr ids, t)"
    and scs: "scs = ot @ gs @ ps @ ids @ sa_blobfuse acc @ sa_s3fs acc"
    unfolding Build_def by (auto elim!: bind_op_InrE)
  from storage_sidecars_served [OF acc] obtain brs srs where
    st: "blob_requests (ab_trace_context b) BLOBFUSE_READINESS_PORT_START (map fst (blob_items b)) = Inr brs"
    "map_res (s3_request (ab_trace_context b)) (map fst (s3_items b)) = Inr srs"
    "list_all2 (served E b) brs (sa_blobfuse acc)" "list_all2 (served E b) srs (sa_s3fs acc)"
    "sa_identities acc = identity_subjects b" by auto
  from governance_served [OF gs] obtain grs where gr: "governance_plan b = Inr grs" "list_all2 (served E b) grs gs"
    by auto
  from ids have "\<exists>rqs. identity_plan b = Inr rqs \<and> list_all2 (served E b) rqs ids"
    unfolding st(5) by (rule identity_served)
  then obtain irs where ir: "identity_plan b = Inr irs" "list_all2 (served E b) irs ids" by auto
  have o: "list_all2 (served E b) (if telemetry_collection_enabled (ab_telemetry b)
      then [plain_request ''otel-collector'' (otel_vars (ab_telemetry b) TELEMETRY_MOUNT_PATH (ab_extra_vars b))]
      else []) ot"
    using ot by (auto simp: get_otel_sidecar_def bind_op_Inr_iff split: if_splits dest: served_plain)
  have p: "list_all2 (served E b) (case ab_ccr_proxy b of None \<Rightarrow> []
      | Some (l, d, f) \<Rightarrow> [plain_request ''ccr-proxy-https-http'' (proxy_vars l d f)]) ps"
    using ps by (auto simp: get_ccr_proxy_sidecar_def bind_op_Inr_iff split: option.splits dest: served_plain)
  show ?thesis
    unfolding sidecar_plan_def scs using st gr ir o p by (simp add: list_all2_appendI)
qed

text \<open>The places of the containers in the startup sequence.\<close>

definition startup_rank :: "string \<Rightarrow> nat" where
  "startup_rank n =
    (if n = ''otel-collector'' then 0
     else if n = ''skr'' \<or> n = ''cvm-attestation-agent'' then 1
     else if n = ''ccr-governance'' then 2
     else if n = ''ccr-proxy-https-http'' then 3
     else if n = ''identity'' then 4
     else if n = ''blobfuse-launcher'' then 5
     else 6)"

lemma blob_requests_names:
  "blob_requests ctx port aps = Inr rqs \<Longrightarrow> map rq_name rqs = replicate (length aps) ''blobfuse-launcher''"
  by (induction aps arbitrary: port rqs) (auto simp: bind_res_Inr_iff)

lemma s3_requests_names:
  "map_res (s3_request ctx) aps = Inr rqs \<Longrightarrow> map rq_name rqs = replicate (length aps) ''s3fs-launcher''"
  by (induction aps arbitrary: rqs) (auto simp: bind_res_Inr_iff s3_request_def plain_request_def)

lemma governance_plan_names:
  assumes "governance_plan b = Inr rqs"
  shows "map rq_name rqs =
    (if ab_governance_required b
     then [case ab_attestation_type b of CVM \<Rightarrow> ''cvm-attestation-agent'' | SKR \<Rightarrow> ''skr'', ''ccr-governance'']
     else [])"
  using assms by (auto simp: governance_plan_def plain_request_def bind_res_Inr_iff split: if_splits option.splits)

lemma identity_plan_names:
  "identity_plan b = Inr rqs \<Longrightarrow> map rq_name rqs = (if blob_items b = [] then [] else [''identity''])"
  by (auto simp: identity_plan_def plain_request_def bind_res_Inr_iff split: if_splits)

definition plan_names :: "app_builder \<Rightarrow> string list" where
  "plan_names b =
    (if telemetry_collection_enabled (ab_telemetry b) then [''otel-collector''] else []) @
    (if ab_governance_required b
     then [case ab_attestation_type b of CVM \<Rightarrow> ''cvm-attestation-agent'' | SKR \<Rightarrow> ''skr'', ''ccr-governance'']
     else []) @
    (if ab_ccr_proxy b = None then [] else [''ccr-proxy-https-http'']) @
    (if blob_items b = [] then [] else [''identity'']) @
    replicate (length (blob_items b)) ''blobfuse-launcher'' @
    replicate (length (s3_items b)) ''s3fs-launcher''"

lemma sidecar_plan_names:
  assumes "sidecar_plan b = Inr rqs"
  shows "map rq_name rqs = plan_names b"
proof -
  from assms obtain grs irs brs srs where
    p: "governance_plan b = Inr grs" "identity_plan b = Inr irs"
      "blob_requests (ab_trace_context b) BLOBFUSE_READINESS_PORT_START (map fst (blob_items b)) = Inr brs"
      "map_res (s3_request (ab_trace_context b)) (map fst (s3_items b)) = Inr srs"
    and rqs: "rqs = (if telemetry_collection_enabled (ab_telemetry b)
           then [plain_request ''otel-collector'' (otel_vars (ab_telemetry b) TELEMETRY_MOUNT_PATH (ab_extra_vars b))]
           else []) @ grs @
         (case ab_ccr_proxy b of None \<Rightarrow> []
          | Some (l, d, f) \<Rightarrow> [plain_request ''ccr-proxy-https-http'' (proxy_vars l d f)]) @
         irs @ brs @ srs"
    unfolding sidecar_plan_def by (auto simp: bind_res_Inr_iff)
  show ?thesis
    unfolding rqs map_append governance_plan_names [OF p(1)] identity_plan_names [OF p(2)]
      blob_requests_names [OF p(3)] s3_requests_names [OF p(4)] plan_names_def
    by (simp add: plain_request_def split: option.split)
qed

lemma startup_rank_simps:
  "startup_rank ''otel-collector'' = 0" "startup_rank ''skr'' = 1" "startup_rank ''cvm-attestation-agent'' = 1"
  "startup_rank ''ccr-governance'' = 2" "startup_rank ''ccr-proxy-https-http'' = 3" "startup_rank ''identity'' = 4"
  "startup_rank ''blobfuse-launcher'' = 5" "startup_rank ''s3fs-launcher'' = 6"
  by (simp_all add: startup_rank_def)

lemma plan_names_sorted: "sorted (map startup_rank (plan_names b))"
  unfolding plan_names_def map_append map_replicate sorted_append
  by (cases "ab_attestation_type b") (simp_all add: startup_rank_simps)

text \<open>
  C21. Whatever the registry and the file system hold, a build that succeeds returns exactly the
  sidecars of the plan, each one made from the document of its request, and the list is a correct
  startup sequence: telemetry, attestation, governance, proxy, identity, blobfuse mounts, S3 mounts.
  The identity sidecar is there, and comes first, when there is a blobfuse mount.
\<close>

theorem Build_startup_order:
  assumes "Build E b s = (Inr scs, t)"
  shows "\<exists>rqs. sidecar_plan b = Inr rqs \<and> list_all2 (served E b) rqs scs \<and>
    map rq_name rqs = plan_names b \<and> sorted (map startup_rank (map rq_name rqs))"
proof -
  from Build_plan [OF assms] obtain rqs where "sidecar_plan b = Inr rqs" "list_all2 (served E b) rqs scs" by auto
  with sidecar_plan_names plan_names_sorted show ?thesis by metis
qed

text \<open>Readiness ports.\<close>

definition readiness_port_is :: "int \<Rightarrow> sidecar \<Rightarrow> bool" where
  "readiness_port_is port sc =
    (case c_startup_probe (sc_container sc) of
       None \<Rightarrow> True
     | Some p \<Rightarrow> map_option hg_port (pr_http_get p) = Some port)"

lemma set_readiness_port_is: "set_readiness_port port sc = Inr sc' \<Longrightarrow> readiness_port_is port sc'"
  by (auto simp: set_readiness_port_def readiness_port_is_def split: option.splits)

lemma add_sub_directory_probe:
  "add_sub_directory sub sc = Inr sc' \<Longrightarrow> c_startup_probe (sc_container sc') = c_startup_probe (sc_container sc)"
  by (auto simp: add_sub_directory_def bind_res_Inr_iff split: if_splits)

lemma finish_blobfuse_port: "finish_blobfuse port sub sc = Inr sc' \<Longrightarrow> readiness_port_is port sc'"
  by (auto simp: finish_blobfuse_def bind_res_Inr_iff readiness_port_is_def
      dest!: set_readiness_port_is add_sub_directory_probe)

definition blobfuse_on_port :: "'s doc_api \<Rightarrow> app_builder \<Rightarrow> int \<Rightarrow> sidecar \<Rightarrow> bool" where
  "blobfuse_on_port E b port sc \<longleftrightarrow> readiness_port_is port sc \<and>
    (\<exists>vars sub. served E b \<lparr>rq_name = ''blobfuse-launcher'', rq_vars = vars, rq_finish = Some (port, sub)\<rparr> sc)"

lemma served_blobfuse_port:
  assumes "served E b \<lparr>rq_name = ''blobfuse-launcher'', rq_vars = vars, rq_finish = Some (port, sub)\<rparr> sc"
  shows "blobfuse_on_port E b port sc"
proof -
  from assms have "readiness_port_is port sc"
    by (auto simp: served_def serve_request_def bind_op_Inr_iff dest: finish_blobfuse_port)
  with assms show ?thesis by (auto simp: blobfuse_on_port_def)
qed

lemma blob_requests_ports:
  assumes "blob_requests ctx port aps = Inr rqs" and "list_all2 (served E b) rqs bs"
  shows "length bs = length aps \<and> (\<forall>i < length bs. blobfuse_on_port E b (port + int i) (bs ! i))"
  using assms
proof (induction aps arbitrary: port rqs bs)
  case Nil
  then show ?case by simp
next
  case (Cons ap aps)
  then obtain vars sub rqs' x bs' where rqs: "blob_requests ctx (port + 1) aps = Inr rqs'"
    and x: "served E b \<lparr>rq_name = ''blobfuse-launcher'', rq_vars = vars, rq_finish = Some (port, sub)\<rparr> x"
    and bs: "bs = x # bs'" "list_all2 (served E b) rqs' bs'"
    by (auto simp: bind_res_Inr_iff list_all2_Cons1)
  from Cons.IH [OF rqs bs(2)] bs(1) served_blobfuse_port [OF x] show ?case
    by (auto simp: nth_Cons algebra_simps split: nat.splits)
qed


text \<open>The encryption settings a blobfuse mount needs.\<close>

definition storage_key_protected :: "access_point \<Rightarrow> bool" where
  "storage_key_protected ap =
    (case bind_res (json_b64_document (option_json (pps_configuration (ap_protection ap))))
        (\<lambda>cfg. json_item cfg ''EncryptionMode'') of
       Inl e \<Rightarrow> False
     | Inr mode \<Rightarrow>
         mode \<noteq> JStr ''CSE'' \<and>
         (mode = JStr ''CPK'' \<longrightarrow>
           (case pps_encryptionSecrets (ap_protection ap) of
              None \<Rightarrow> False
            | Some es \<Rightarrow> res_type (backingResource (es_secret (es_dek es))) = RT_Cgs)))"

lemma blobfuse_vars_protected:
  assumes "blobfuse_vars ctx ap mp n tm vm port = Inr r"
  shows "storage_key_protected ap"
  using assms
  by (auto simp: blobfuse_vars_def storage_key_protected_def cpk_secret_id_def bind_res_Inr_iff Let_def
      split: option.splits if_splits)

lemma blob_requests_protected:
  "blob_requests ctx port aps = Inr rqs \<Longrightarrow> ap \<in> set aps \<Longrightarrow> storage_key_protected ap"
  by (induction aps arbitrary: port rqs) (auto simp: bind_res_Inr_iff dest: blobfuse_vars_protected)

text \<open>
  C23. No build succeeds with a blob storage item whose encryption it cannot honour: the mode is
  readable, is not client-side encryption, and with a customer-provided key the key is a secret of
  the governance service.
\<close>

theorem Build_storage_protected:
  assumes "Build E b s = (Inr scs, t)" and "(ap, subject) \<in> set (ab_storage_items b)" and "is_blob_store ap"
  shows "storage_key_protected ap"
proof -
  from Build_plan [OF assms(1)] obtain brs where
    "blob_requests (ab_trace_context b) BLOBFUSE_READINESS_PORT_START (map fst (blob_items b)) = Inr brs"
    by (auto simp: sidecar_plan_def bind_res_Inr_iff)
  moreover from assms(2,3) have "ap \<in> set (map fst (blob_items b))" by (force simp: blob_items_def)
  ultimately show ?thesis by (rule blob_requests_protected)
qed

section \<open>Identities\<close>

text \<open>
  The identities the sidecar is to serve: the client ids of the managed ones, and one entry per
  federated one, in the order of the storage items.
\<close>

definition managed_ids :: "(identity option \<times> string) list \<Rightarrow> string list" where
  "managed_ids ids = concat (map (\<lambda>(i, _). case i of None \<Rightarrow> [] | Some x \<Rightarrow>
     (case id_tokenIssuer x of
        AttestationBasedTokenIssuer ep \<Rightarrow> if ep_protocol ep = P_AzureAD_ManagedIdentity then [id_clientId x] else []
      | _ \<Rightarrow> [])) ids)"

definition federated_entries :: "(identity option \<times> string) list \<Rightarrow> (string \<times> federated_identity) list" where
  "federated_entries ids = concat (map (\<lambda>(i, subject). case i of None \<Rightarrow> [] | Some x \<Rightarrow>
     (case id_tokenIssuer x of
        FederatedIdentityBasedTokenIssuer ep _ \<Rightarrow>
          [(id_clientId x, \<lparr>fid_clientId = id_clientId x, fid_subject = subject, fid_issuer = ep_url ep\<rparr>)]
      | _ \<Rightarrow> [])) ids)"

abbreviation by_client :: "federated_identity list \<Rightarrow> (string \<times> federated_identity) list" where
  "by_client \<equiv> map (\<lambda>f. (fid_clientId f, f))"

lemma map_of_by_client_None: "map_of (by_client A) k = None \<longleftrightarrow> k \<notin> fid_clientId ` set A"
  by (induction A) auto

lemma map_add_shadowed: "g k = Some w \<Longrightarrow> f(k \<mapsto> v) ++ g = f ++ g"
  by (rule ext) (auto simp: map_add_def split: option.splits)

lemma add_identity_arg_step:
  assumes "add_identity_arg item (M, A) = Inr (M', A')" and "distinct M" and "distinct (map fid_clientId A)"
  shows "distinct M' \<and> distinct (map fid_clientId A') \<and> set M' = set M \<union> set (managed_ids [item]) \<and>
    (\<forall>es. map_of (by_client A' @ es) = map_of (by_client A @ federated_entries [item] @ es))"
proof -
  obtain x subject where item: "item = (Some x, subject)"
    using assms(1) by (cases item; cases "fst item") (auto simp: add_identity_arg_def)
  show ?thesis
  proof (cases "id_tokenIssuer x")
    case (FederatedIdentityBasedTokenIssuer ep i)
    show ?thesis
    proof (cases "id_clientId x \<in> fid_clientId ` set A")
      case True
      then obtain w where w: "map_of (by_client A) (id_clientId x) = Some w"
        by (cases "map_of (by_client A) (id_clientId x)") (simp_all add: map_of_by_client_None)
      from True assms(1) FederatedIdentityBasedTokenIssuer have same: "M' = M" "A' = A"
        by (auto simp: add_identity_arg_def item)
      from assms(2,3) FederatedIdentityBasedTokenIssuer show ?thesis
        unfolding same
        by (simp add: item managed_ids_def federated_entries_def map_add_shadowed [where g = "map_of (by_client A)", OF w])
    next
      case False
      with assms FederatedIdentityBasedTokenIssuer show ?thesis
        by (auto simp: add_identity_arg_def item managed_ids_def federated_entries_def)
    qed
  qed (use assms in \<open>auto simp: add_identity_arg_def item managed_ids_def federated_entries_def split: if_splits\<close>)
qed

lemma add_identity_args:
  assumes "fold_res add_identity_arg ids (M, A) = Inr (M', A')" and "distinct M" and "distinct (map fid_clientId A)"
  shows "distinct M' \<and> distinct (map fid_clientId A') \<and> set M' = set M \<union> set (managed_ids ids) \<and>
    map_of (by_client A') = map_of (by_client A @ federated_entries ids)"
  using assms
proof (induction ids arbitrary: M A)
  case Nil
  then show ?case by (simp add: managed_ids_def federated_entries_def)
next
  case (Cons item ids)
  then obtain M1 A1 where s: "add_identity_arg item (M, A) = Inr (M1, A1)"
    and r: "fold_res add_identity_arg ids (M1, A1) = Inr (M', A')" by (auto simp: bind_res_Inr_iff)
  note step = add_identity_arg_step [OF s Cons.prems(2,3)]
  from step Cons.IH [OF r] show ?case
    by (auto simp: managed_ids_def federated_entries_def)
qed

lemma json_wf_elems_iff: "json_wf_elems xs \<longleftrightarrow> (\<forall>x \<in> set xs. json_wf x)"
  by (induction xs) auto

lemma identity_args_wf: "json_wf (identity_args_json audience acc)"
  by (simp add: identity_args_json_def json_wf_elems_iff)


section \<open>Containers and their policies\<close>

lemma subst_members_lookup:
  assumes "subst_members vars kvs = Inr ms" and "map_of kvs k = Some v" and "CHR ''$'' \<notin> set k"
    and "distinct (map fst ms)"
  obtains v' where "subst_value vars v = Inr v'" and "map_of ms k = Some v'"
  using assms
proof (induction kvs arbitrary: ms thesis)
  case Nil
  then show ?case by simp
next
  case (Cons kv kvs)
  obtain k1 v1 where kv: "kv = (k1, v1)" by (cases kv)
  from Cons.prems(2) kv obtain k' w ms' where st: "template_substitute vars k1 = Inr k'" "subst_value vars v1 = Inr w"
    "subst_members vars kvs = Inr ms'" and ms: "ms = (k', w) # ms'" by (auto simp: bind_res_Inr_iff)
  show ?case
  proof (cases "k1 = k")
    case True
    with st(1) Cons.prems(4) have "k' = k" using template_no_dollar [of k vars "[]"] by simp
    with True Cons.prems(1,3) st(2) ms kv show ?thesis by simp
  next
    case False
    with Cons.prems(3) kv have "map_of kvs k = Some v" by simp
    from Cons.prems(5) ms have "distinct (map fst ms')" by simp
    then obtain v' where v': "subst_value vars v = Inr v'" "map_of ms' k = Some v'"
      using Cons.IH [OF _ st(3) \<open>map_of kvs k = Some v\<close> Cons.prems(4)] by blast
    from v'(2) have "k \<in> fst ` set ms'" by (metis map_of_eq_None_iff option.distinct(1))
    with Cons.prems(5) ms have "k' \<noteq> k" by auto
    with v' ms Cons.prems(1) show ?thesis by simp
  qed
qed

lemma json_wf_members_mem: "json_wf_members kvs \<Longrightarrow> map_of kvs k = Some v \<Longrightarrow> json_wf v"
  by (induction kvs) (auto split: if_splits)

lemma subst_item:
  assumes "subst_value vars j = Inr j'" and "json_wf j'" and "json_item j k = Inr v" and "CHR ''$'' \<notin> set k"
  obtains v' where "subst_value vars v = Inr v'" and "json_item j' k = Inr v'" and "json_wf v'"
proof -
  from assms(3) obtain kvs where j: "j = JObj kvs" and k: "map_of kvs k = Some v"
    by (cases j) (auto simp: json_item_def split: option.splits)
  with assms(1) obtain ms where ms: "subst_members vars kvs = Inr ms" and j': "j' = JObj ms"
    by (auto simp: bind_res_Inr_iff)
  from assms(2) j' have wf: "distinct (map fst ms)" "json_wf_members ms" by simp_all
  obtain v' where "subst_value vars v = Inr v'" and v': "map_of ms k = Some v'"
    using subst_members_lookup [OF ms k assms(4) wf(1)] by blast
  with j' json_wf_members_mem [OF wf(2) v'] show ?thesis by (intro that) auto
qed

text \<open>The command a sidecar's policy allows.\<close>

definition policy_command :: "sidecar \<Rightarrow> json res" where
  "policy_command sc =
    bind_res (case sc_policy sc of JStr t \<Rightarrow> json_loads t | j \<Rightarrow> Inr j) (\<lambda>p. json_item p ''command'')"

lemma finish_blobfuse_command:
  assumes "finish_blobfuse port sub sc = Inr sc'" and "policy_command sc = Inr (c_command (sc_container sc))"
  shows "policy_command sc' = Inr (c_command (sc_container sc'))"
proof -
  from assms(1) obtain sc1 where p: "set_readiness_port port sc = Inr sc1" and d: "add_sub_directory sub sc1 = Inr sc'"
    by (auto simp: finish_blobfuse_def bind_res_Inr_iff)
  from p have "c_command (sc_container sc1) = c_command (sc_container sc)" "sc_policy sc1 = sc_policy sc"
    by (auto simp: set_readiness_port_def split: option.splits)
  with assms(2) have c1: "policy_command sc1 = Inr (c_command (sc_container sc1))"
    by (simp add: policy_command_def)
  show ?thesis
  proof (cases "sub = []")
    case True
    with d c1 show ?thesis by (simp add: add_sub_directory_def)
  next
    case False
    from c1 obtain pol where pol: "(case sc_policy sc1 of JStr t \<Rightarrow> json_loads t | j \<Rightarrow> Inr j) = Inr pol"
      and cmd: "json_item pol ''command'' = Inr (c_command (sc_container sc1))"
      by (auto simp: policy_command_def bind_res_Inr_iff)
    then have has: "json_contains pol ''command'' = Inr True"
      by (cases pol) (auto simp: json_item_def json_contains_def split: option.splits dest: map_of_SomeD intro: rev_image_eqI)
    from d False pol has obtain cmd' pol' where
      c': "json_extend [JStr ''--sub-directory'', JStr sub] (c_command (sc_container sc1)) = Inr cmd'"
      and u: "json_update_item ''command'' (json_extend [JStr ''--sub-directory'', JStr sub]) pol = Inr pol'"
      and sc': "sc' = \<lparr>sc_container = (sc_container sc1)\<lparr>c_command := cmd'\<rparr>, sc_policy = pol'\<rparr>"
      by (auto simp: add_sub_directory_def bind_res_Inr_iff)
    from u obtain v v' where v: "json_item pol ''command'' = Inr v"
      "json_extend [JStr ''--sub-directory'', JStr sub] v = Inr v'" "json_item pol' ''command'' = Inr v'"
      by (rule json_update_item_same)
    from u have "\<nexists>t. pol' = JStr t"
      by (cases pol) (auto simp: json_update_item_def bind_res_Inr_iff)
    with v cmd c' show ?thesis by (cases pol') (auto simp: policy_command_def sc')
  qed
qed

lemma replace_vars_nested:
  assumes "plain_vars vars" and "subst_value vars j = Inr j'"
  shows "replace_vars (json_dumps (JStr (dumps_value p j))) vars = Inr (JStr (dumps_value p j'))"
proof (rule replace_vars_wf [OF assms(1)])
  show "subst_value vars (JStr (dumps_value p j)) = Inr (JStr (dumps_value p j'))"
    using template_dumps(1) [OF assms(1), of p j "[]"] assms(2) by simp
qed simp

lemma container_command: "container_of_json obj = Inr c \<Longrightarrow> json_item obj ''command'' = Inr (c_command c)"
  unfolding container_of_json_def by (auto simp only: bind_res_Inr_iff) auto

lemma make_sidecar_command:
  assumes "plain_vars vars"
    and "json_item doc ''podSpecYaml'' = Inr y" and "json_item y ''spec'' = Inr sp"
    and "json_item sp ''containers'' = Inr (JArr (obj # rest))" and "json_item obj ''command'' = Inr cmd"
    and "subst_value vars y = Inr y'" and "json_wf y'"
    and "make_sidecar debug doc vars = Inr sc"
  shows "subst_value vars cmd = Inr (c_command (sc_container sc))"
proof -
  obtain sp' where sp': "subst_value vars sp = Inr sp'" "json_item y' ''spec'' = Inr sp'" "json_wf sp'"
    by (rule subst_item [OF assms(6,7,3)]) simp_all
  obtain cs where cs: "subst_value vars (JArr (obj # rest)) = Inr cs" "json_item sp' ''containers'' = Inr cs" "json_wf cs"
    by (rule subst_item [OF sp'(1,3) assms(4)]) simp_all
  from cs obtain obj' rest' where o: "subst_value vars obj = Inr obj'" "cs = JArr (obj' # rest')" "json_wf obj'"
    by (auto simp: bind_res_Inr_iff)
  obtain cmd' where cmd': "subst_value vars cmd = Inr cmd'" "json_item obj' ''command'' = Inr cmd'"
    by (rule subst_item [OF o(1,3) assms(5)]) simp_all
  have "replace_vars (json_dumps y) vars = Inr y'" by (rule replace_vars_wf [OF assms(1,6,7)])
  with assms(2,8) sp' cs(2) o(2) have "container_of_json obj' = Inr (sc_container sc)"
    by (auto simp: make_sidecar_def bind_res_Inr_iff json_first_def)
  with cmd' container_command show ?thesis by fastforce
qed


section \<open>A concrete build\<close>

text \<open>Documents on disk: the registry is not reached.\<close>

definition disk_docs :: "(string, json) dict doc_api" where
  "disk_docs =
    \<lparr>temp_dir = ''/tmp'',
     path_exists = (\<lambda>p s. map_of s p \<noteq> None),
     make_dirs = (\<lambda>_. return_op ()),
     oras_pull = (\<lambda>_ target _. raise_op (OtherException target)),
     load_yaml = (\<lambda>p s. case map_of s p of None \<Rightarrow> (Inl (FileNotFoundError p), s) | Some j \<Rightarrow> (Inr j, s))\<rparr>"

definition sample_object :: json where
  "sample_object =
    JObj [(''name'', JStr ''c''), (''image'', JStr ''$digest''), (''command'', JArr [JStr ''run'']),
          (''startupProbe'', JObj [(''httpGet'', JObj [(''path'', JStr ''r''), (''port'', JInt 80)])])]"

definition sample_spec :: json where
  "sample_spec = JObj [(''containers'', JArr [sample_object])]"

definition sample_document :: json where
  "sample_document =
    JObj [(''podSpecYaml'', JObj [(''spec'', sample_spec)]),
          (''policy'', JObj [(''virtual_node_rego'', JObj [(''command'', JArr [JStr ''run''])])])]"

definition sample_pod_policy :: json where
  "sample_pod_policy = JObj [(''command'', JArr [JStr ''spark'']), (''env_rules'', JArr [])]"

definition sample_files :: "(string, json) dict" where
  "sample_files =
    [(''/tmp/sidecar-digests.yaml'', JArr
       [JObj [(''image'', JStr ''identity''), (''digest'', JStr ''d1''), (''policyDocument'', JStr ''p'')],
        JObj [(''image'', JStr ''blobfuse-launcher''), (''digest'', JStr ''d2''), (''policyDocument'', JStr ''p'')]]),
     (''/tmp/p.yaml'', sample_document),
     (''/tmp/cleanroom-spark-analytics-app-security-policy.yaml'',
       JObj [(''driver'', JObj [(''policy'', sample_pod_policy)]), (''executor'', JObj [(''policy'', sample_pod_policy)])])]"

definition sample_access_point :: access_point where
  "sample_access_point =
    \<lparr>ap_name = ''in_1'', ap_type = Volume_ReadOnly, ap_path = '''',
     ap_store = \<lparr>res_name = ''data'', res_type = RT_Azure_BlobStorage, res_id = ''ds'',
       res_provider = \<lparr>ep_protocol = P_Azure_BlobStorage, ep_url = ''https://acct.blob.net/'', ep_configuration = None\<rparr>\<rparr>,
     ap_identity = Some (Identity ''id'' ''client'' ''tenant''
       (AttestationBasedTokenIssuer \<lparr>ep_protocol = P_AzureAD_ManagedIdentity, ep_url = '''', ep_configuration = None\<rparr>)),
     ap_protection = \<lparr>pps_proxyType = SecureVolume_ReadOnly_Azure_BlobStorage, pps_proxyMode = Proxy_Secure,
       pps_privacyPolicy = None,
       pps_configuration = Some (b64encode (json_dumps (JObj [(''EncryptionMode'', JStr ''SSE'')]))),
       pps_encryptionSecrets = None, pps_encryptionSecretAccessIdentity = None\<rparr>,
     ap_subdirectory = Some ''d''\<rparr>"

definition sample_builder :: app_builder where
  "sample_builder = AddStorage sample_access_point ''s'' (WithContractId ''c'' (new_app_builder
    \<lparr>registry_url = ''mcr'', sidecars_policy_document_registry_url = ''mcr'', versions_document = ''v'', use_http = False\<rparr>))"

definition sample_sidecar :: "string \<Rightarrow> sidecar" where
  "sample_sidecar digest =
    \<lparr>sc_container = \<lparr>c_name = JStr ''c'', c_image = JStr digest, c_command = JArr [JStr ''run''], c_env = [],
       c_resource_requests = JObj [], c_volume_mounts = [], c_privileged = JBool False, c_ports = None,
       c_startup_probe = Some \<lparr>pr_http_get = Some \<lparr>hg_path = JStr ''r'', hg_port = 80\<rparr>, pr_tcp_socket = None,
         pr_initial_delay_seconds = JNull, pr_period_seconds = JNull, pr_failure_threshold = JNull\<rparr>,
       c_restart_policy = ''Always''\<rparr>,
     sc_policy = JObj [(''command'', JArr [JStr ''run''])]\<rparr>"

lemma template_digest: "map_of vars ''digest'' = Some d \<Longrightarrow> template_substitute vars ''$digest'' = Inr d"
  by (simp add: template_substitute.simps(2) is_id_start_def is_id_char_def lookup_var_def)

lemma template_literal: "CHR ''$'' \<notin> set s \<Longrightarrow> template_substitute vars s = Inr s"
  using template_no_dollar [of s vars "[]"] by simp

lemma make_sample_sidecar:
  assumes "plain_vars vars" and "map_of vars ''digest'' = Some d"
  shows "make_sidecar False sample_document vars = Inr (sample_sidecar d)"
  by (simp add: make_sidecar_def sample_document_def sample_spec_def sample_object_def sample_sidecar_def replace_vars_wf [OF assms(1)]
      template_digest [OF assms(2)] template_literal container_of_json_def json_get_def json_contains_def
      json_first_def json_iter_def build_startup_probe_def json_int_def required_def)

definition sample_versions :: "string \<Rightarrow> string \<Rightarrow> json" where
  "sample_versions n d = JObj [(''image'', JStr n), (''digest'', JStr d), (''policyDocument'', JStr ''p'')]"

lemma sample_versions_items:
  "json_item (sample_versions n d) ''image'' = Inr (JStr n)" "json_item (sample_versions n d) ''digest'' = Inr (JStr d)"
  "json_item (sample_versions n d) ''policyDocument'' = Inr (JStr ''p'')"
  by (simp_all add: sample_versions_def)

lemma sample_files_items:
  "map_of sample_files ''/tmp/sidecar-digests.yaml'' =
    Some (JArr [sample_versions ''identity'' ''d1'', sample_versions ''blobfuse-launcher'' ''d2''])"
  "map_of sample_files ''/tmp/p.yaml'' = Some sample_document"
  by (simp_all add: sample_files_def sample_versions_def)

lemma disk_load:
  assumes "map_of s p = Some j"
  shows "cached_pull disk_docs p m s = (Inr (), s)" and "load_yaml disk_docs p s = (Inr j, s)"
  using assms by (simp_all add: cached_pull_def disk_docs_def)

lemma sample_paths:
  "path_join (temp_dir disk_docs) ''sidecar-digests.yaml'' = ''/tmp/sidecar-digests.yaml''"
  "path_join (temp_dir disk_docs) (''p'' @ ''.yaml'') = ''/tmp/p.yaml''"
  by (simp_all add: path_join_def disk_docs_def)

lemma sample_get_versions:
  "get_sidecars_version disk_docs cfg sample_files =
    (Inr (JArr [sample_versions ''identity'' ''d1'', sample_versions ''blobfuse-launcher'' ''d2'']), sample_files)"
  unfolding get_sidecars_version_def Let_def sample_paths
  by (simp add: bind_op_def disk_load [OF sample_files_items(1)])

lemma sample_find:
  assumes "(n, d) \<in> {(''identity'', ''d1''), (''blobfuse-launcher'', ''d2'')}"
  shows "find_sidecar_version n (JArr [sample_versions ''identity'' ''d1'', sample_versions ''blobfuse-launcher'' ''d2'']) =
    Inr (sample_versions n d)"
  using assms by (auto simp: find_sidecar_version_def json_iter_def sample_versions_items)

lemma sample_policy_document:
  assumes "(n, d) \<in> {(''identity'', ''d1''), (''blobfuse-launcher'', ''d2'')}"
  shows "get_sidecar_policy_document disk_docs cfg n sample_files = (Inr sample_document, sample_files)"
  unfolding get_sidecar_policy_document_def Let_def
  by (simp add: bind_op_def sample_get_versions sample_find [OF assms] sample_versions_items json_as_str_def
      sample_paths [simplified] disk_load [OF sample_files_items(2)])

lemma plain_vars_update:
  "plain_vars vars \<Longrightarrow> list_all json_plain v \<Longrightarrow> plain_vars (AList.update k v vars)"
  by (induction vars) (auto simp: plain_vars_def)

definition sample_like :: "app_builder \<Rightarrow> bool" where
  "sample_like b \<longleftrightarrow> \<not> ab_debug_mode b \<and> registry_url (ab_settings b) = ''mcr'' \<and>
    \<not> telemetry_collection_enabled (ab_telemetry b) \<and> \<not> ab_governance_required b \<and> ab_ccr_proxy b = None \<and>
    ab_contract_id b = Some ''c'' \<and> ab_trace_context b = [] \<and>
    ab_storage_items b = [(sample_access_point, ''s'')]"

lemma get_sample_sidecar:
  assumes "sample_like b" and "plain_vars vars" and "(n, d) \<in> {(''identity'', ''d1''), (''blobfuse-launcher'', ''d2'')}"
  shows "get_sidecar disk_docs b n vars sample_files = (Inr (sample_sidecar d), sample_files)"
proof -
  let ?vars = "AList.update ''digest'' d (AList.update ''containerRegistryUrl'' ''mcr'' vars)"
  have "plain_vars ?vars" using assms(2,3) by (auto intro!: plain_vars_update simp: json_plain_def)
  then have "make_sidecar False sample_document ?vars = Inr (sample_sidecar d)"
    by (rule make_sample_sidecar) simp
  then show ?thesis
    using assms(1)
    by (simp add: get_sidecar_def bind_op_def sample_get_versions sample_find [OF assms(3)] sample_versions_items
        sample_policy_document [OF assms(3)] sample_like_def)
qed

lemma digit_plain: "is_digit c \<Longrightarrow> json_plain c"
  by (auto simp: is_digit_def json_plain_def)

lemma str_int_plain: "list_all json_plain (str_int i)"
  using str_nat_digits by (auto simp: str_int_def list_all_iff json_plain_def digit_plain [unfolded json_plain_def])

lemma sample_blob_location:
  "blob_location sample_access_point = Inr (''acct'', ''https://acct.blob.net/'', ''data'', ''d'')"
  by (simp add: blob_location_def sample_access_point_def urlparse_def url_clean_def url_scheme_split_def
      is_alpha_def scheme_char_def url_hostname_def str_lower_def lower_char_def or_str_def Let_def)

lemma sample_blob_vars:
  "\<exists>vars. blobfuse_vars [] sample_access_point ''/mnt/remote'' ''in_1'' TELEMETRY_MOUNT_PATH VOLUMESTATUS_MOUNT_PATH
    port = Inr (vars, ''d'') \<and> plain_vars vars"
proof -
  have x: "list_all json_plain (sanitize_access_name ''in_1'')"
    by (simp add: sanitize_access_name_def str_lower_def lower_char_def str_replace_char_def json_plain_def)
  show ?thesis
    by (auto simp: blobfuse_vars_def sample_blob_location cpk_secret_id_def)
      (simp_all add: sample_access_point_def option_json_def plain_vars_def x str_int_plain read_only_flag_def
        TELEMETRY_MOUNT_PATH_def VOLUMESTATUS_MOUNT_PATH_def trace_context_b64_def json_plain_def)
qed

lemma b64_char_plain: "json_plain (b64_char n)"
  by (auto simp: b64_char_def json_plain_def char_of_eq_iff take_bit_nat_eq_self)

lemma b64encode_plain: "list_all json_plain (b64encode s)"
proof -
  have "json_plain (CHR ''='')" by (simp add: json_plain_def)
  then show ?thesis by (induction s rule: b64encode.induct) (simp_all add: b64_char_plain Let_def)
qed

lemma sample_identity_vars:
  "\<exists>vars. identity_vars [(ap_identity sample_access_point, subject)] audience TELEMETRY_MOUNT_PATH = Inr vars \<and> plain_vars vars"
  by (auto simp: identity_vars_def sample_access_point_def add_identity_arg_def plain_vars_def
      utf8_encode_ascii utf8_decode_ascii b64encode_ascii b64encode_plain TELEMETRY_MOUNT_PATH_def)
    (simp_all add: json_plain_def)

lemma sample_finish: "\<exists>sc. finish_blobfuse port ''d'' (sample_sidecar d) = Inr sc"
  by (simp add: finish_blobfuse_def set_readiness_port_def add_sub_directory_def sample_sidecar_def json_extend_def
      json_contains_def json_update_item_def)

lemma sample_build:
  assumes "sample_like b"
  shows "\<exists>sc. finish_blobfuse BLOBFUSE_READINESS_PORT_START ''d'' (sample_sidecar ''d2'') = Inr sc \<and>
    Build disk_docs b sample_files = (Inr [sample_sidecar ''d1'', sc], sample_files)"
proof -
  obtain v where v: "blobfuse_vars [] sample_access_point ''/mnt/remote'' ''in_1'' TELEMETRY_MOUNT_PATH
      VOLUMESTATUS_MOUNT_PATH BLOBFUSE_READINESS_PORT_START = Inr (v, ''d'')" "plain_vars v"
    using sample_blob_vars by blast
  obtain w where w: "identity_vars [(ap_identity sample_access_point, ''c-s'')] ''api://AzureADTokenExchange''
      TELEMETRY_MOUNT_PATH = Inr w" "plain_vars w"
    using sample_identity_vars by blast
  obtain sc where sc: "finish_blobfuse BLOBFUSE_READINESS_PORT_START ''d'' (sample_sidecar ''d2'') = Inr sc"
    using sample_finish by blast
  have "is_blob_store sample_access_point" "ap_name sample_access_point = ''in_1''"
    by (simp_all add: is_blob_store_def sample_access_point_def)
  then have "storage_sidecars disk_docs b sample_files =
    (Inr \<lparr>sa_identities = [(ap_identity sample_access_point, ''c-s'')], sa_blobfuse = [sc], sa_s3fs = [],
      sa_next_port = BLOBFUSE_READINESS_PORT_START + 1\<rparr>, sample_files)"
    using assms v sc get_sample_sidecar [OF assms v(2), of "''blobfuse-launcher''" "''d2''"]
    by (simp add: storage_sidecars_def sample_like_def add_storage_item_def get_blobfuse_sidecar_def bind_op_def)
  then have "Build disk_docs b sample_files = (Inr [sample_sidecar ''d1'', sc], sample_files)"
    using assms w get_sample_sidecar [OF assms w(2), of "''identity''" "''d1''"]
    by (simp add: Build_def bind_op_def sample_like_def governance_sidecars_def get_identity_sidecar_def)
  with sc show ?thesis by blast
qed

lemma sample_builder_like: "sample_like sample_builder"
  by (simp add: sample_like_def sample_builder_def new_app_builder_def WithContractId_def AddStorage_def
      default_telemetry_def)

lemma sample_builder_build: "\<exists>x y. Build disk_docs sample_builder sample_files = (Inr [x, y], sample_files)"
  using sample_build [OF sample_builder_like] by blast

lemma sample_blob_items: "blob_items sample_builder = [(sample_access_point, ''s'')]" "s3_items sample_builder = []"
  using sample_builder_like
  by (simp_all add: blob_items_def s3_items_def sample_like_def is_blob_store_def sample_access_point_def)

theorem Build_startup_order_witness:
  "\<exists>rqs scs. sidecar_plan sample_builder = Inr rqs \<and> list_all2 (served disk_docs sample_builder) rqs scs \<and>
    map rq_name rqs = [''identity'', ''blobfuse-launcher''] \<and> length scs = 2"
proof -
  obtain x y where b: "Build disk_docs sample_builder sample_files = (Inr [x, y], sample_files)"
    using sample_builder_build by blast
  have "plan_names sample_builder = [''identity'', ''blobfuse-launcher'']"
    using sample_builder_like by (simp add: plan_names_def sample_like_def sample_blob_items)
  with Build_startup_order [OF b] show ?thesis by fastforce
qed


theorem Build_storage_protected_witness: "storage_key_protected sample_access_point"
proof -
  obtain x y where b: "Build disk_docs sample_builder sample_files = (Inr [x, y], sample_files)"
    using sample_builder_build by blast
  show ?thesis
    by (rule Build_storage_protected [OF b, of _ "''s''"])
      (use sample_builder_like in \<open>simp_all add: sample_like_def is_blob_store_def sample_access_point_def\<close>)
qed



end
