(* ===== verification/Spark_Builder.thy ===== *)
theory Spark_Builder
  imports App_Builder Complex_Main
begin

text \<open>
  The Spark application builder of the analytics frontend
  (\<^verbatim>\<open>builders/spark_application_builder.py\<close>, its confidential and virtual variants and
  \<^verbatim>\<open>builders/spark_application_builder_helper.py\<close>) and the conversion of jobs
  (\<^verbatim>\<open>utilities/job_converters.py\<close>, \<^verbatim>\<open>utilities/helpers.py\<close>). The
  methods a variant overrides take the compute provider as an argument. The policy template file,
  the process environment, SHA-256 and the trace context and baggage of OpenTelemetry are fields of
  \<open>spark_env\<close>. CPU counts are floats that are only rounded up; they are rationals here.
  \<open>Build\<close> of the source changes the driver, the executor and the arguments of the builder; the
  model returns the changed builder with the application.
\<close>

section \<open>Settings and jobs\<close>

datatype spark_compute_provider = ConfidentialVirtualNode | Virtual

record driver_settings =
  drv_cores :: rat
  drv_memory :: string
  drv_service_account :: string

record executor_settings =
  exs_cores :: rat
  exs_instances_min :: int
  exs_instances_max :: int
  exs_memory :: string
  exs_delete_on_termination :: bool

record sku_settings =
  sku_driver :: driver_settings
  sku_executor :: executor_settings

record analytics_settings =
  an_namespace :: string
  an_image :: string
  an_policy_file :: string
  an_debug_mode :: bool
  an_allow_all :: bool
  an_application_file :: string
  an_sql :: sku_settings

record examples_settings =
  ex_namespace :: string
  ex_image :: string
  ex_allow_all :: bool
  ex_application_file :: string
  ex_pi :: sku_settings

record env_data =
  ed_key :: string
  ed_value :: string
  ed_isMeasured :: bool

record job_input =
  ji_contract_id :: string
  ji_datasets :: "dataset_info list"
  ji_datasink :: "dataset_info option"
  ji_governance :: "cgs_settings option"

text \<open>A point in time is kept by its date, the only part the code prints.\<close>

type_synonym date = "int \<times> nat \<times> nat"

record sql_job_input = job_input +
  sj_query :: string
  sj_start_date :: "date option"
  sj_end_date :: "date option"
  sj_use_optimizer :: bool

section \<open>Constants\<close>

definition OTEL_TRACE_CONTEXT_ENV_KEY :: string where
  "OTEL_TRACE_CONTEXT_ENV_KEY = ''OTEL_TRACE_CONTEXT_BASE64''"

definition ALLOW_ALL_POLICY_BASE64 :: string where
  "ALLOW_ALL_POLICY_BASE64 =
    ''cGFja2FnZSBwb2xpY3kKCmFwaV9zdm4gOj0gIjAuMTAuMCIKCm1vdW50X2RldmljZSA'' @
    ''6PSB7ImFsbG93ZWQiOiB0cnVlfQptb3VudF9vdmVybGF5IDo9IHsiYWxsb3dlZCI6I'' @
    ''HRydWV9CmNyZWF0ZV9jb250YWluZXIgOj0geyJhbGxvd2VkIjogdHJ1ZSwgImVudl9'' @
    ''saXN0IjogbnVsbCwgImFsbG93X3N0ZGlvX2FjY2VzcyI6IHRydWV9CnVubW91bnRfZGV'' @
    ''2aWNlIDo9IHsiYWxsb3dlZCI6IHRydWV9IAp1bm1vdW50X292ZXJsYXkgOj0geyJhbGx'' @
    ''vd2VkIjogdHJ1ZX0KZXhlY19pbl9jb250YWluZXIgOj0geyJhbGxvd2VkIjogdHJ1ZSw'' @
    ''gImVudl9saXN0IjogbnVsbH0KZXhlY19leHRlcm5hbCA6PSB7ImFsbG93ZWQiOiB0cnV'' @
    ''lLCAiZW52X2xpc3QiOiBudWxsLCAiYWxsb3dfc3RkaW9fYWNjZXNzIjogdHJ1ZX0Kc2h'' @
    ''1dGRvd25fY29udGFpbmVyIDo9IHsiYWxsb3dlZCI6IHRydWV9CnNpZ25hbF9jb250YWl'' @
    ''uZXJfcHJvY2VzcyA6PSB7ImFsbG93ZWQiOiB0cnVlfQpwbGFuOV9tb3VudCA6PSB7ImF'' @
    ''sbG93ZWQiOiB0cnVlfQpwbGFuOV91bm1vdW50IDo9IHsiYWxsb3dlZCI6IHRydWV9Cmd'' @
    ''ldF9wcm9wZXJ0aWVzIDo9IHsiYWxsb3dlZCI6IHRydWV9CmR1bXBfc3RhY2tzIDo9IHs'' @
    ''iYWxsb3dlZCI6IHRydWV9CnJ1bnRpbWVfbG9nZ2luZyA6PSB7ImFsbG93ZWQiOiB0cnV'' @
    ''lfQpsb2FkX2ZyYWdtZW50IDo9IHsiYWxsb3dlZCI6IHRydWV9CnNjcmF0Y2hfbW91bnQ'' @
    ''gOj0geyJhbGxvd2VkIjogdHJ1ZX0Kc2NyYXRjaF91bm1vdW50IDo9IHsiYWxsb3dlZCI6IHRydWV9Cg==''"

definition ALLOW_ALL_POLICY_HASH :: string where
  "ALLOW_ALL_POLICY_HASH = ''73973b78d70cc68353426de188db5dfc57e5b766e399935fb73a61127ea26d20''"

definition SPARK_OTEL_TRACEPARENT_KEY :: string where "SPARK_OTEL_TRACEPARENT_KEY = ''spark.otel.traceparent''"
definition SPARK_JAVAAGENT_PATH :: string where "SPARK_JAVAAGENT_PATH = ''/plugins/opentelemetry-javaagent.jar''"
definition SPARK_MONITORING_PLUGIN_JAR_PATH :: string where
  "SPARK_MONITORING_PLUGIN_JAR_PATH = ''/plugins/cleanroom-monitoring-plugin.jar''"
definition SPARK_OPENTELEMETRY_JARS :: "string list" where
  "SPARK_OPENTELEMETRY_JARS =
    [''/plugins/opentelemetry-api-1.34.0.jar'', ''/plugins/opentelemetry-context-1.34.0.jar'']"
definition SPARK_MONITORING_AGENT_CLASS_NAME :: string where
  "SPARK_MONITORING_AGENT_CLASS_NAME = ''com.microsoft.azure_cleanroom.MonitoringPlugin''"
definition SPARK_PLUGINS_KEY :: string where "SPARK_PLUGINS_KEY = ''spark.plugins''"
definition SPARK_EXTRA_CLASSPATH_KEY_DRIVER :: string where
  "SPARK_EXTRA_CLASSPATH_KEY_DRIVER = ''spark.driver.extraClassPath''"
definition SPARK_EXTRA_CLASSPATH_KEY_EXECUTOR :: string where
  "SPARK_EXTRA_CLASSPATH_KEY_EXECUTOR = ''spark.executor.extraClassPath''"
definition CCE_POLICY_ANNOTATION_VALUE :: string where
  "CCE_POLICY_ANNOTATION_VALUE = ''microsoft.containerinstance.virtualnode.ccepolicy''"

section \<open>The builder\<close>

record 's spark_env =
  se_docs :: "'s doc_api"
  se_read_policy_rego :: "('s, string) op"
  se_getenv :: "string \<Rightarrow> string option"
  se_sha256_hex :: "string \<Rightarrow> string"
  se_trace_context :: "(string, string) dict"
  se_baggage :: "(string, string) dict"

record spark_builder =
  spb_image :: "string option"
  spb_app_name :: "string option"
  spb_main_application_file :: "string option"
  spb_policy_file :: "string option"
  spb_contract_id :: string
  spb_driver :: "driver option"
  spb_driver_policy :: json
  spb_executor :: "executor option"
  spb_executor_policy :: json
  spb_dynamic_allocation_profile :: dynamic_allocation_profile
  spb_debug_mode :: bool
  spb_allow_all :: bool
  spb_arguments :: "string list"
  spb_env_vars :: "env_data list"
  spb_datasets :: "dataset_info list"
  spb_datasinks :: "dataset_info list"
  spb_cleanroom_settings :: cleanroom_settings
  spb_telemetry_settings :: telemetry_settings
  spb_governance_settings :: "cgs_settings option"
  spb_trace_context :: "(string, string) dict"

definition new_spark_builder ::
  "'s spark_env \<Rightarrow> cleanroom_settings \<Rightarrow> telemetry_settings \<Rightarrow> cgs_settings option \<Rightarrow> string \<Rightarrow> spark_builder" where
  "new_spark_builder V cfg tel gov contract_id =
    \<lparr>spb_image = None, spb_app_name = None, spb_main_application_file = None, spb_policy_file = None,
     spb_contract_id = contract_id, spb_driver = None, spb_driver_policy = JNull, spb_executor = None,
     spb_executor_policy = JNull,
     spb_dynamic_allocation_profile = \<lparr>dap_enabled = None, minExecutors = None, maxExecutors = None\<rparr>,
     spb_debug_mode = False, spb_allow_all = False, spb_arguments = [], spb_env_vars = [], spb_datasets = [],
     spb_datasinks = [], spb_cleanroom_settings = cfg, spb_telemetry_settings = tel,
     spb_governance_settings = gov, spb_trace_context = se_trace_context V\<rparr>"

definition WithPolicy ::
  "spark_compute_provider \<Rightarrow> string \<Rightarrow> bool \<Rightarrow> bool \<Rightarrow> spark_builder \<Rightarrow> spark_builder" where
  "WithPolicy prov policy_file debug_mode allow_all b =
    b\<lparr>spb_policy_file := Some policy_file, spb_debug_mode := debug_mode,
      spb_allow_all := (case prov of Virtual \<Rightarrow> True | ConfidentialVirtualNode \<Rightarrow> allow_all)\<rparr>"

definition AddDataset :: "dataset_info \<Rightarrow> spark_builder \<Rightarrow> spark_builder" where
  "AddDataset d b = b\<lparr>spb_datasets := spb_datasets b @ [d]\<rparr>"

definition AddDatasink :: "dataset_info \<Rightarrow> spark_builder \<Rightarrow> spark_builder" where
  "AddDatasink d b = b\<lparr>spb_datasinks := spb_datasinks b @ [d]\<rparr>"

definition get_spark_app_policy_document :: "'s spark_env \<Rightarrow> spark_builder \<Rightarrow> ('s, json) op" where
  "get_spark_app_policy_document V b =
    (let E = se_docs V;
         path = path_join (temp_dir E) ''cleanroom-spark-analytics-app-security-policy.yaml''
     in case spb_policy_file b of
          None \<Rightarrow> return_op JNull
        | Some url \<Rightarrow>
            if url = [] then return_op JNull
            else
              bind_op (cached_pull E path
                (bind_op (make_dirs E (temp_dir E)) (\<lambda>_.
                 oras_pull E (use_http (spb_cleanroom_settings b)) url (temp_dir E)))) (\<lambda>_.
              load_yaml E path))"

text \<open>The environment rules that \<^verbatim>\<open>_get_driver\<close> and \<^verbatim>\<open>_get_executor\<close> add to the policy.\<close>

definition env_rule_of :: "string \<Rightarrow> string \<Rightarrow> json" where
  "env_rule_of pattern strategy =
    JObj [(''pattern'', JStr pattern), (''required'', JBool False), (''strategy'', JStr strategy)]"

definition env_rule :: "env_data \<Rightarrow> json" where
  "env_rule e =
    (if ed_isMeasured e then env_rule_of (ed_key e @ ''='' @ ed_value e) ''string''
     else env_rule_of (ed_key e @ ''=.*'') ''re2'')"

definition add_env_rule :: "json \<Rightarrow> json \<Rightarrow> json res" where
  "add_env_rule r = json_update_item ''env_rules'' (json_extend [r])"

definition add_env_rules :: "env_data list \<Rightarrow> json \<Rightarrow> json res" where
  "add_env_rules es pol =
    bind_res (fold_res (\<lambda>e. add_env_rule (env_rule e)) es pol)
      (add_env_rule (env_rule_of (OTEL_TRACE_CONTEXT_ENV_KEY @ ''=.+'') ''re2''))"

definition trace_context_json :: "(string, string) dict \<Rightarrow> json" where
  "trace_context_json ctx = JObj (map (\<lambda>(k, v). (k, JStr v)) ctx)"

definition pod_env :: "spark_builder \<Rightarrow> env_var list" where
  "pod_env b =
    map (\<lambda>e. \<lparr>ev_name = JStr (ed_key e), ev_value = JStr (ed_value e)\<rparr>) (spb_env_vars b) @
    [\<lparr>ev_name = JStr OTEL_TRACE_CONTEXT_ENV_KEY,
      ev_value = JStr (b64encode (utf8_encode (json_dumps (trace_context_json (spb_trace_context b)))))\<rparr>]"

definition policy_node :: "spark_builder \<Rightarrow> string" where
  "policy_node b = (if spb_debug_mode b then ''policyDebug'' else ''policy'')"

definition driver_policy_rego :: "spark_builder \<Rightarrow> json \<Rightarrow> json res" where
  "driver_policy_rego b doc =
    (if json_truthy doc then
       bind_res (bind_res (json_item doc ''driver'') (\<lambda>d. json_item d (policy_node b))) (\<lambda>pol.
       bind_res (replace_vars (json_dumps pol)
         [(''containerRegistryUrl'', str_opt (spb_image b)), (''jobId'', str_opt (spb_app_name b))]) (\<lambda>pol.
       bind_res (add_env_rules (spb_env_vars b) pol) (\<lambda>pol.
       if spb_governance_settings b \<noteq> None
       then json_update_item ''command'' (json_extend [JStr ''--governance-port'', JStr ''8300'']) pol
       else Inr pol)))
     else Inr (JObj []))"

definition base_driver :: "spark_builder \<Rightarrow> driver_settings \<Rightarrow> driver" where
  "base_driver b st =
    \<lparr>cores = \<lceil>drv_cores st\<rceil>, core_limit = None, memory = drv_memory st, configMaps = Some [], labels = Some [],
     annotations = Some [], env = Some (pod_env b), volumeMounts = Some [], sidecars = Some [],
     initContainers = Some [], tolerations = None, nodeSelector = Some [], securityPrivileged = Some True,
     serviceAccount = Some (drv_service_account st), serviceLabels = None, kubernetesMaster = None,
     driverJavaOptions = None\<rparr>"

definition get_driver_base ::
  "'s spark_env \<Rightarrow> spark_builder \<Rightarrow> driver_settings \<Rightarrow> ('s, driver \<times> json) op" where
  "get_driver_base V b st =
    (if spb_allow_all b then return_op (base_driver b st, JObj [])
     else bind_op (get_spark_app_policy_document V b) (\<lambda>doc.
       bind_op (lift_res (driver_policy_rego b doc)) (\<lambda>pol. return_op (base_driver b st, pol))))"

definition executor_policy_rego :: "spark_builder \<Rightarrow> json \<Rightarrow> json res" where
  "executor_policy_rego b doc =
    (if json_truthy doc then
       bind_res (bind_res (json_item doc ''executor'') (\<lambda>d. json_item d (policy_node b))) (\<lambda>pol.
       bind_res (replace_vars (json_dumps pol)
         [(''imageUrl'', str_opt (spb_image b)), (''jobId'', str_opt (spb_app_name b))]) (\<lambda>pol.
       add_env_rules (spb_env_vars b) pol))
     else Inr (JObj []))"

definition base_executor :: "spark_builder \<Rightarrow> executor_settings \<Rightarrow> executor" where
  "base_executor b st =
    \<lparr>cores = \<lceil>exs_cores st\<rceil>, core_limit = None, memory = exs_memory st, configMaps = Some [], labels = Some [],
     annotations = Some [], env = Some (pod_env b), volumeMounts = Some [], sidecars = Some [],
     initContainers = Some [], tolerations = None, nodeSelector = Some [], securityPrivileged = Some True,
     instances = Some (exs_instances_min st), deleteOnTermination = Some (exs_delete_on_termination st),
     executorJavaOptions = None\<rparr>"

definition executor_allocation :: "executor_settings \<Rightarrow> dynamic_allocation_profile" where
  "executor_allocation st =
    \<lparr>dap_enabled = Some True, minExecutors = Some (exs_instances_min st), maxExecutors = Some (exs_instances_max st)\<rparr>"

definition get_executor_base ::
  "'s spark_env \<Rightarrow> spark_builder \<Rightarrow> executor_settings \<Rightarrow>
   ('s, executor \<times> dynamic_allocation_profile \<times> json) op" where
  "get_executor_base V b st =
    (if spb_allow_all b then return_op (base_executor b st, executor_allocation st, JObj [])
     else bind_op (get_spark_app_policy_document V b) (\<lambda>doc.
       bind_op (lift_res (executor_policy_rego b doc)) (\<lambda>pol.
       return_op (base_executor b st, executor_allocation st, pol))))"

text \<open>The confidential variant's additions; the dictionaries it writes to are never \<^verbatim>\<open>None\<close>.\<close>

definition set_entry :: "string \<Rightarrow> string \<Rightarrow> (string, string) dict option \<Rightarrow> (string, string) dict option" where
  "set_entry k v d = map_option (AList.update k v) d"

definition vn2_annotations :: "(string, string) dict option \<Rightarrow> (string, string) dict option" where
  "vn2_annotations d =
    set_entry ''kubernetes.azure.com/set-kube-service-host-fqdn'' ''true''
      (set_entry ''microsoft.containerinstance.virtualnode.injectdns'' ''false'' d)"

definition vn2_labels :: "(string, string) dict option \<Rightarrow> (string, string) dict option" where
  "vn2_labels d =
    set_entry CCE_POLICY_ANNOTATION_NAME_LABEL CCE_POLICY_ANNOTATION_VALUE
      (set_entry SPARK_POD_SCHEDULER_LABEL ''true'' (set_entry CCE_POLICY_INJECTOR_LABEL ''true'' d))"

definition vn2_tolerations :: "toleration list" where
  "vn2_tolerations =
    [\<lparr>tol_effect = ''NoSchedule'', tol_key = ''virtual-kubelet.io/provider'', tol_operator = ''Exists''\<rparr>]"

definition vn2_driver :: "'s spark_env \<Rightarrow> driver \<Rightarrow> driver" where
  "vn2_driver V d =
    d\<lparr>kubernetesMaster := Some (''https://'' @ str_opt (se_getenv V ''KUBERNETES_SERVICE_HOST'')),
      annotations := vn2_annotations (annotations d),
      labels := vn2_labels (labels d),
      serviceLabels := Some [(''service'', ''external-dns'')],
      nodeSelector := set_entry ''virtualization'' ''virtualnode2'' (nodeSelector d),
      tolerations := Some vn2_tolerations\<rparr>"

definition vn2_executor :: "executor \<Rightarrow> executor" where
  "vn2_executor x =
    x\<lparr>annotations := vn2_annotations (annotations x),
      labels := vn2_labels (labels x),
      nodeSelector := set_entry ''virtualization'' ''virtualnode2'' (nodeSelector x),
      tolerations := Some vn2_tolerations\<rparr>"

definition get_driver ::
  "'s spark_env \<Rightarrow> spark_compute_provider \<Rightarrow> spark_builder \<Rightarrow> driver_settings \<Rightarrow> ('s, driver \<times> json) op" where
  "get_driver V prov b st =
    bind_op (get_driver_base V b st) (\<lambda>(d, pol).
    return_op (case prov of ConfidentialVirtualNode \<Rightarrow> vn2_driver V d | Virtual \<Rightarrow> d, pol))"

definition get_executor ::
  "'s spark_env \<Rightarrow> spark_compute_provider \<Rightarrow> spark_builder \<Rightarrow> executor_settings \<Rightarrow>
   ('s, executor \<times> dynamic_allocation_profile \<times> json) op" where
  "get_executor V prov b st =
    bind_op (get_executor_base V b st) (\<lambda>(x, dap, pol).
    return_op (case prov of ConfidentialVirtualNode \<Rightarrow> vn2_executor x | Virtual \<Rightarrow> x, dap, pol))"

definition AddDriver ::
  "'s spark_env \<Rightarrow> spark_compute_provider \<Rightarrow> driver_settings \<Rightarrow> spark_builder \<Rightarrow> ('s, spark_builder) op" where
  "AddDriver V prov st b =
    bind_op (get_driver V prov b st) (\<lambda>(d, pol). return_op (b\<lparr>spb_driver := Some d, spb_driver_policy := pol\<rparr>))"

definition AddExecutor ::
  "'s spark_env \<Rightarrow> spark_compute_provider \<Rightarrow> executor_settings \<Rightarrow> spark_builder \<Rightarrow> ('s, spark_builder) op" where
  "AddExecutor V prov st b =
    bind_op (get_executor V prov b st) (\<lambda>(x, dap, pol).
    return_op (b\<lparr>spb_executor := Some x, spb_dynamic_allocation_profile := dap, spb_executor_policy := pol\<rparr>))"

section \<open>Policies\<close>

text \<open>
  \<^verbatim>\<open>template % (s)\<close> for a string \<open>s\<close>. The template has only \<^verbatim>\<open>%s\<close> and
  \<^verbatim>\<open>%%\<close>; other conversions are an error here. The argument must be used exactly once.
\<close>

fun percent_format :: "string option \<Rightarrow> string \<Rightarrow> string res" where
  "percent_format arg [] = (case arg of None \<Rightarrow> Inr [] | Some _ \<Rightarrow> Inl TypeError)"
| "percent_format arg (c # cs) =
    (if c \<noteq> CHR ''%'' then bind_res (percent_format arg cs) (\<lambda>r. Inr (c # r))
     else
       (case cs of
          [] \<Rightarrow> Inl (ValueError ''incomplete format'')
        | d # ds \<Rightarrow>
            if d = CHR ''%'' then bind_res (percent_format arg ds) (\<lambda>r. Inr (d # r))
            else if d = CHR ''s'' then
              (case arg of None \<Rightarrow> Inl TypeError
               | Some s \<Rightarrow> bind_res (percent_format None ds) (\<lambda>r. Inr (s @ r)))
            else Inl (ValueError ''unsupported format character'')))"

definition get_rego_policy :: "'s spark_env \<Rightarrow> json list \<Rightarrow> ('s, string) op" where
  "get_rego_policy V regos =
    bind_op (se_read_policy_rego V) (\<lambda>template.
    lift_res (percent_format (Some (str_join '','' (map json_dumps_canonical regos))) template))"

definition policy_of_rego :: "'s spark_env \<Rightarrow> string \<Rightarrow> cce_policy" where
  "policy_of_rego V r =
    \<lparr>rego = r, rego_base64 = b64encode (utf8_encode r), host_data = se_sha256_hex V (utf8_encode r)\<rparr>"

definition get_spark_pod_policy ::
  "'s spark_env \<Rightarrow> spark_builder \<Rightarrow> sidecar list \<Rightarrow> sidecar list \<Rightarrow> ('s, cce_policy \<times> cce_policy) op" where
  "get_spark_pod_policy V b driver_sidecars executor_sidecars =
    (if spb_allow_all b then
       bind_op (lift_res (bind_res (b64decode ALLOW_ALL_POLICY_BASE64) utf8_decode)) (\<lambda>r.
       let p = \<lparr>rego = r, rego_base64 = ALLOW_ALL_POLICY_BASE64, host_data = ALLOW_ALL_POLICY_HASH\<rparr>
       in return_op (p, p))
     else
       bind_op (get_rego_policy V (spb_driver_policy b # map sc_policy driver_sidecars)) (\<lambda>dr.
       bind_op (get_rego_policy V (spb_executor_policy b # map sc_policy executor_sidecars)) (\<lambda>xr.
       return_op (policy_of_rego V dr, policy_of_rego V xr))))"

section \<open>Build of a Spark application\<close>

definition extend_list :: "'a list option \<Rightarrow> 'a list \<Rightarrow> 'a list option" where
  "extend_list xs ys = (case xs of None \<Rightarrow> Some ys | Some zs \<Rightarrow> Some (zs @ ys))"

definition spark_volumes :: "string list" where
  "spark_volumes = [''spark-local-dir-1'', ''remotemounts'', ''telemetrymounts'', ''volumestatusmounts'']"

definition spark_mount :: "string \<Rightarrow> string \<Rightarrow> bool \<Rightarrow> volume_mount" where
  "spark_mount n p ro =
    \<lparr>vm_name = JStr n, vm_mount_path = JStr p, vm_read_only = JBool ro, vm_mount_propagation = JNull\<rparr>"

definition spark_volume_mounts :: "volume_mount list" where
  "spark_volume_mounts =
    [spark_mount ''remotemounts'' ''/mnt/remote'' True,
     spark_mount ''telemetrymounts'' ''/mnt/telemetry'' False,
     spark_mount ''volumestatusmounts'' ''/mnt/volumestatus'' False,
     spark_mount ''spark-local-dir-1'' ''/var/data/spark-local-dir'' False]"

definition monitoring_env :: "'s spark_env \<Rightarrow> string \<Rightarrow> string \<Rightarrow> env_var list" where
  "monitoring_env V spark_name role =
    (let v = (\<lambda>n x. \<lparr>ev_name = JStr n, ev_value = JStr x\<rparr>);
         baggage_str = str_join '','' (map (\<lambda>(k, x). k @ ''='' @ x) (se_baggage V))
     in [v ''OTEL_EXPORTER_OTLP_ENDPOINT'' ''http://localhost:4317'',
         v ''OTEL_EXPORTER_OTLP_PROTOCOL'' ''grpc'',
         v ''OTEL_SERVICE_NAME'' (spark_name @ ''-'' @ role),
         v ''OTEL_RESOURCE_ATTRIBUTES'' (''spark.role='' @ role @ '','' @ baggage_str)])"

definition monitoring_conf :: "(string, string) dict" where
  "monitoring_conf =
    (let otel_jars = str_join '':'' (SPARK_MONITORING_PLUGIN_JAR_PATH # SPARK_OPENTELEMETRY_JARS)
     in [(SPARK_PLUGINS_KEY, SPARK_MONITORING_AGENT_CLASS_NAME),
         (SPARK_EXTRA_CLASSPATH_KEY_DRIVER, otel_jars),
         (SPARK_EXTRA_CLASSPATH_KEY_EXECUTOR, otel_jars)])"

definition configure_spark_monitoring_plugin ::
  "'s spark_env \<Rightarrow> string \<Rightarrow> driver \<Rightarrow> executor \<Rightarrow> driver \<times> executor" where
  "configure_spark_monitoring_plugin V spark_name d x =
    (let agent = ''-javaagent:'' @ SPARK_JAVAAGENT_PATH
     in (d\<lparr>driverJavaOptions := Some agent, env := extend_list (env d) (monitoring_env V spark_name ''driver'')\<rparr>,
         x\<lparr>executorJavaOptions := Some agent, env := extend_list (env x) (monitoring_env V spark_name ''executor'')\<rparr>))"

definition resource_attributes :: "'s spark_env \<Rightarrow> string \<Rightarrow> (string, string) dict" where
  "resource_attributes V spark_name =
    AList.update ''spark.role'' ''driver'' (AList.update ''service.name'' (spark_name @ ''-driver'') (se_baggage V))"

definition cleanroom_app_builder :: "'s spark_env \<Rightarrow> string \<Rightarrow> spark_builder \<Rightarrow> app_builder res" where
  "cleanroom_app_builder V spark_name b =
    bind_res (WithName spark_name (new_app_builder (spb_cleanroom_settings b))) (\<lambda>a.
    let a = WithContractId (spb_contract_id b) a;
        a = (if telemetry_collection_enabled (spb_telemetry_settings b)
             then WithTelemetry (spb_telemetry_settings b) (spb_trace_context b)
               [(''resourceAttributes'',
                  b64encode (utf8_encode (json_dumps (trace_context_json (resource_attributes V spark_name))))),
                (''sparkMetricsEndpoint'', ''http://localhost:4040'')] a
             else a)
    in bind_res (case spb_governance_settings b of None \<Rightarrow> Inr a | Some g \<Rightarrow> WithGovernance g SKR a) (\<lambda>a.
       Inr (fold (\<lambda>d. AddStorage (ds_accessPoint d) (ds_ownerId d)) (spb_datasets b @ spb_datasinks b) a)))"

text \<open>The driver, executor and Spark configuration before the containers are added.\<close>

definition configured_pods ::
  "'s spark_env \<Rightarrow> spark_builder \<Rightarrow> string \<Rightarrow> driver \<Rightarrow> executor \<Rightarrow> driver \<times> executor \<times> (string, string) dict" where
  "configured_pods V b spark_name d x =
    (let d = d\<lparr>volumeMounts := extend_list (volumeMounts d) spark_volume_mounts\<rparr>;
         x = x\<lparr>volumeMounts := extend_list (volumeMounts x) spark_volume_mounts\<rparr>
     in if telemetry_collection_enabled (spb_telemetry_settings b) then
          (case configure_spark_monitoring_plugin V spark_name d x of (d, x) \<Rightarrow>
            (d, x,
             case map_of (spb_trace_context b) ''traceparent'' of
               None \<Rightarrow> monitoring_conf
             | Some t \<Rightarrow> if t = [] then monitoring_conf
                         else AList.update SPARK_OTEL_TRACEPARENT_KEY t monitoring_conf))
        else (d, x, []))"

text \<open>The rest of \<^verbatim>\<open>Build\<close>, once the sidecars are there.\<close>

definition assemble_application ::
  "'s spark_env \<Rightarrow> spark_builder \<Rightarrow> string \<Rightarrow> string \<Rightarrow> string \<Rightarrow> sidecar list \<Rightarrow>
   driver \<Rightarrow> executor \<Rightarrow> ('s, cleanroom_spark_application \<times> spark_builder) op" where
  "assemble_application V b spark_name img main_file scs d x =
    (case configured_pods V b spark_name d x of (d, x, conf) \<Rightarrow>
       let args = spb_arguments b @
             (if spb_governance_settings b \<noteq> None then [''--governance-port'', ''8300''] else [])
       in bind_op (get_spark_pod_policy V b scs scs) (\<lambda>(dp, xp).
          let d = d\<lparr>initContainers := extend_list (initContainers d) (map sc_container scs)\<rparr>;
              x = x\<lparr>initContainers := extend_list (initContainers x) (map sc_container scs)\<rparr>
          in return_op
            (\<lparr>csa_spec =
                \<lparr>sas_type = ''Python'', sas_name = spark_name, sas_sparkVersion = ''4.0.0'',
                 sas_mode = Mode_cluster, sas_image = img, sas_mainApplicationFile = main_file,
                 sas_arguments = Some args, sas_sparkConf = Some conf, sas_volumes = Some spark_volumes,
                 sas_driver = d, sas_executor = x,
                 sas_dynamicAllocation = spb_dynamic_allocation_profile b,
                 sas_monitoring = \<lparr>exposeDriverMetrics = Some True, exposeExecutorMetrics = Some True\<rparr>\<rparr>,
              csa_driver_policy = dp, csa_executor_policy = xp\<rparr>,
             b\<lparr>spb_driver := Some d, spb_executor := Some x, spb_arguments := args\<rparr>)))"

definition spark_build_base ::
  "'s spark_env \<Rightarrow> spark_builder \<Rightarrow> ('s, cleanroom_spark_application \<times> spark_builder) op" where
  "spark_build_base V b =
    (case (spb_app_name b, spb_image b, spb_main_application_file b) of
       (Some (n # ns), Some (i # is), Some (m # ms)) \<Rightarrow>
         bind_op (lift_res (cleanroom_app_builder V (n # ns) b)) (\<lambda>a.
         bind_op (Build (se_docs V) a) (\<lambda>scs.
         (case (spb_driver b, spb_executor b) of
            (Some d, Some x) \<Rightarrow> assemble_application V b (n # ns) (i # is) (m # ms) scs d x
          | _ \<Rightarrow> raise_op AttributeError)))
     | _ \<Rightarrow> raise_op (ValueError ''Missing required fields to build SparkApplication''))"

section \<open>The virtual variant\<close>

fun set_first_image :: "string \<Rightarrow> string \<Rightarrow> container list \<Rightarrow> container list" where
  "set_first_image n img [] = []"
| "set_first_image n img (c # cs) =
    (if c_name c = JStr n then c\<lparr>c_image := JStr img\<rparr> # cs else c # set_first_image n img cs)"

definition share_remote_mount :: "volume_mount \<Rightarrow> volume_mount" where
  "share_remote_mount v =
    (if vm_name v = JStr ''remotemounts'' then v\<lparr>vm_mount_propagation := JStr ''Bidirectional''\<rparr> else v)"

definition virtual_containers :: "string \<Rightarrow> container list \<Rightarrow> container list" where
  "virtual_containers img cs =
    map (\<lambda>c. c\<lparr>c_volume_mounts := map share_remote_mount (c_volume_mounts c)\<rparr>)
      (filter (\<lambda>c. c_name c \<noteq> JStr ''skr'') (set_first_image ''ccr-governance'' img cs))"

definition virtual_spec :: "string \<Rightarrow> spark_application_spec \<Rightarrow> spark_application_spec" where
  "virtual_spec img spec =
    (let d = sas_driver spec; x = sas_executor spec
     in spec\<lparr>sas_driver := d\<lparr>initContainers := map_option (virtual_containers img) (initContainers d),
               volumeMounts := map_option (map share_remote_mount) (volumeMounts d)\<rparr>,
             sas_executor := x\<lparr>initContainers := map_option (virtual_containers img) (initContainers x),
               volumeMounts := map_option (map share_remote_mount) (volumeMounts x)\<rparr>\<rparr>)"

definition virtual_governance_image :: "cleanroom_settings \<Rightarrow> string" where
  "virtual_governance_image cfg =
    registry_url cfg @ ''/ccr-governance-virtual:'' @ last (str_split (CHR '':'') (versions_document cfg))"

definition spark_build ::
  "'s spark_env \<Rightarrow> spark_compute_provider \<Rightarrow> spark_builder \<Rightarrow> ('s, cleanroom_spark_application \<times> spark_builder) op" where
  "spark_build V prov b =
    (case prov of
       ConfidentialVirtualNode \<Rightarrow> spark_build_base V b
     | Virtual \<Rightarrow>
         bind_op (spark_build_base V b) (\<lambda>(app, b').
         let spec = virtual_spec (virtual_governance_image (spb_cleanroom_settings b)) (csa_spec app)
         in return_op (app\<lparr>csa_spec := spec\<rparr>,
              b'\<lparr>spb_driver := Some (sas_driver spec), spb_executor := Some (sas_executor spec)\<rparr>)))"

section \<open>Jobs\<close>

text \<open>Names of Spark applications.\<close>

definition app_name_char :: "char \<Rightarrow> bool" where
  "app_name_char c \<longleftrightarrow>
    (let n = char_code c :: nat in (97 \<le> n \<and> n \<le> 122) \<or> (48 \<le> n \<and> n \<le> 57) \<or> c = CHR ''-'')"

definition to_spark_app_name :: "string \<Rightarrow> string" where
  "to_spark_app_name name =
    take 63 (''cl-spark-'' @ map (\<lambda>c. if app_name_char c then c else CHR ''-'') (str_lower name))"

text \<open>\<^verbatim>\<open>strftime("%Y-%m-%d")\<close>.\<close>

definition two_digits :: "nat \<Rightarrow> string" where
  "two_digits n = (if n < 10 then ''0'' @ str_nat n else str_nat n)"

definition iso_date :: "date \<Rightarrow> string" where
  "iso_date d = (case d of (y, m, t) \<Rightarrow> str_int y @ ''-'' @ two_digits m @ ''-'' @ two_digits t)"

definition format_value :: "dataset_format \<Rightarrow> string" where
  "format_value f = (case f of Format_csv \<Rightarrow> ''csv'' | Format_json \<Rightarrow> ''json'' | Format_parquet \<Rightarrow> ''parquet'')"

definition schema_json :: "(string, field_schema) dict option \<Rightarrow> json" where
  "schema_json s =
    (case s of None \<Rightarrow> JNull
     | Some d \<Rightarrow> JObj (map (\<lambda>(k, v). (k, JObj (map (\<lambda>(k, v). (k, JStr v)) v))) d))"

definition dataset_json :: "dataset_info \<Rightarrow> string \<Rightarrow> json" where
  "dataset_json d path =
    JObj [(''name'', JStr (ds_name d)), (''viewName'', JStr (ds_viewName d)), (''path'', JStr path),
          (''format'', JStr (format_value (ds_format d))), (''schema'', schema_json (ds_schema d)),
          (''allowedFields'', JArr (map JStr (ds_allowedFields d)))]"

definition app_input_json :: "('a) sql_job_input_scheme \<Rightarrow> dataset_info \<Rightarrow> json" where
  "app_input_json job sink =
    JObj [(''query'', JStr (sj_query job)),
          (''datasets'', JArr (map (\<lambda>d. dataset_json d (''/mnt/remote/'' @ ds_name d)) (ji_datasets job))),
          (''datasink'', dataset_json sink (''/mnt/remote/'' @ ds_name sink @ ''/'' @ ji_contract_id job))]"

definition to_app_input :: "sql_job_input \<Rightarrow> string res" where
  "to_app_input job =
    (case ji_datasink job of
       None \<Rightarrow> Inl (AssertionError ''Datasink must be provided for SQL jobs'')
     | Some sink \<Rightarrow> utf8_decode (b64encode (utf8_encode (json_dumps (app_input_json job sink)))))"

definition get_spark_application_builder ::
  "'s spark_env \<Rightarrow> 'a job_input_scheme \<Rightarrow> cleanroom_settings \<Rightarrow> telemetry_settings \<Rightarrow> spark_builder" where
  "get_spark_application_builder V job cfg tel = new_spark_builder V cfg tel (ji_governance job) (ji_contract_id job)"

record spark_job_settings =
  sjs_application_image :: string
  sjs_application_file :: string
  sjs_policy_file :: string
  sjs_sku :: sku_settings
  sjs_debug_mode :: bool
  sjs_allow_all :: bool

definition convert_to_spark_spec ::
  "'s spark_env \<Rightarrow> cleanroom_settings \<Rightarrow> spark_compute_provider \<Rightarrow> string \<Rightarrow> 'a job_input_scheme \<Rightarrow>
   spark_job_settings \<Rightarrow> env_data list \<Rightarrow> telemetry_settings option \<Rightarrow> ('s, cleanroom_spark_application) op" where
  "convert_to_spark_spec V cfg prov job_id job st env_vars tel =
    (let b = get_spark_application_builder V job cfg (case tel of None \<Rightarrow> default_telemetry | Some t \<Rightarrow> t);
         b = WithPolicy prov (sjs_policy_file st) (sjs_debug_mode st) (sjs_allow_all st)
               (b\<lparr>spb_app_name := Some job_id, spb_image := Some (sjs_application_image st)\<rparr>);
         b = b\<lparr>spb_main_application_file := Some (sjs_application_file st), spb_env_vars := env_vars,
               spb_arguments := []\<rparr>
     in bind_op (AddDriver V prov (sku_driver (sjs_sku st)) b) (\<lambda>b.
        bind_op (AddExecutor V prov (sku_executor (sjs_sku st)) b) (\<lambda>b.
        let b = fold AddDataset (ji_datasets job) b;
            b = (case ji_datasink job of None \<Rightarrow> b | Some k \<Rightarrow> AddDatasink k b)
        in bind_op (spark_build V prov b) (\<lambda>(app, _). return_op app))))"

record spark_config =
  sc_cleanroom :: cleanroom_settings
  sc_compute_provider :: spark_compute_provider
  sc_analytics :: analytics_settings
  sc_examples :: examples_settings
  sc_service_url :: string

definition app_config_json :: "string \<Rightarrow> string \<Rightarrow> json" where
  "app_config_json url spark_name =
    JObj [(''eventRecorderConfiguration'', JObj
      [(''providerType'', JStr ''http''),
       (''statisticsRecorderEndpoint'', JStr (url @ ''/analytics/'' @ spark_name @ ''/record_statistics'')),
       (''eventEmitterEndpoint'', JStr (url @ ''/analytics/'' @ spark_name @ ''/record_operational_event'')),
       (''auditRecordLoggerEndpoint'', JStr ''http://localhost:8300/events'')])]"

definition sql_env_vars :: "string \<Rightarrow> string \<Rightarrow> sql_job_input \<Rightarrow> string \<Rightarrow> env_data list" where
  "sql_env_vars url job_id job job_config =
    (let date_value = (\<lambda>d. case d of None \<Rightarrow> '''' | Some t \<Rightarrow> iso_date t)
     in [\<lparr>ed_key = ''JOB_CONFIG'', ed_value = job_config, ed_isMeasured = True\<rparr>,
         \<lparr>ed_key = ''JOB_ID'', ed_value = job_id, ed_isMeasured = False\<rparr>,
         \<lparr>ed_key = ''APPLICATION_CONFIGURATION'',
          ed_value = json_dumps (app_config_json url (to_spark_app_name job_id)), ed_isMeasured = False\<rparr>,
         \<lparr>ed_key = ''START_DATE'', ed_value = date_value (sj_start_date job), ed_isMeasured = False\<rparr>,
         \<lparr>ed_key = ''END_DATE'', ed_value = date_value (sj_end_date job), ed_isMeasured = False\<rparr>])"

definition sql_to_spark_spec ::
  "'s spark_env \<Rightarrow> spark_config \<Rightarrow> string \<Rightarrow> sql_job_input \<Rightarrow> telemetry_settings option \<Rightarrow> sku_settings option \<Rightarrow>
   ('s, cleanroom_spark_application) op" where
  "sql_to_spark_spec V cfg job_id job tel override_sku =
    (let an = sc_analytics cfg
     in bind_op (lift_res (to_app_input job)) (\<lambda>job_config.
        convert_to_spark_spec V (sc_cleanroom cfg) (sc_compute_provider cfg) (to_spark_app_name job_id) job
          \<lparr>sjs_application_image = an_image an, sjs_application_file = an_application_file an,
           sjs_policy_file = an_policy_file an,
           sjs_sku = (case override_sku of None \<Rightarrow> an_sql an | Some k \<Rightarrow> k),
           sjs_debug_mode = an_debug_mode an, sjs_allow_all = an_allow_all an\<rparr>
          (sql_env_vars (sc_service_url cfg) job_id job job_config) tel))"

definition pi_to_spark_spec ::
  "'s spark_env \<Rightarrow> spark_config \<Rightarrow> string \<Rightarrow> 'a job_input_scheme \<Rightarrow> telemetry_settings option \<Rightarrow>
   ('s, cleanroom_spark_application) op" where
  "pi_to_spark_spec V cfg job_id job tel =
    (let ex = sc_examples cfg
     in convert_to_spark_spec V (sc_cleanroom cfg) (sc_compute_provider cfg) job_id job
          \<lparr>sjs_application_image = ex_image ex, sjs_application_file = ex_application_file ex, sjs_policy_file = '''',
           sjs_sku = ex_pi ex, sjs_debug_mode = True, sjs_allow_all = True\<rparr> [] tel)"

text \<open>The converter for a provider type; the error branch of the code refers to an undefined name.\<close>

datatype spark_job_converter = SQLSparkJobConverter | PiSparkJobConverter

definition get_job_converter :: "string \<Rightarrow> spark_job_converter res" where
  "get_job_converter provider_type =
    (if provider_type = ''sql'' then Inr SQLSparkJobConverter
     else if provider_type = ''pi'' then Inr PiSparkJobConverter
     else Inl (NameError ''providerType''))"

section \<open>What a build guarantees\<close>

lemma percent_format_literal:
  "CHR ''%'' \<notin> set s \<Longrightarrow> percent_format arg (s @ r) = bind_res (percent_format arg r) (\<lambda>t. Inr (s @ t))"
  by (induction s) (auto simp: bind_res_def split: sum.splits)

lemma percent_format_once:
  assumes "CHR ''%'' \<notin> set pre" and "CHR ''%'' \<notin> set post"
  shows "percent_format (Some a) (pre @ ''%s'' @ post) = Inr (pre @ a @ post)"
  using percent_format_literal [OF assms(2), of None "[]"] by (simp add: percent_format_literal [OF assms(1)])

text \<open>The policy template has one place for the containers and no other percent sign.\<close>

definition rego_template :: "'s spark_env \<Rightarrow> string \<Rightarrow> string \<Rightarrow> bool" where
  "rego_template V pre post \<longleftrightarrow> CHR ''%'' \<notin> set pre \<and> CHR ''%'' \<notin> set post \<and>
    (\<forall>s r t. se_read_policy_rego V s = (Inr r, t) \<longrightarrow> r = pre @ ''%s'' @ post)"

definition containers_rego :: "string \<Rightarrow> string \<Rightarrow> json list \<Rightarrow> string" where
  "containers_rego pre post regos = pre @ str_join '','' (map json_dumps_canonical regos) @ post"

lemma get_rego_policy_containers:
  assumes "rego_template V pre post" and "get_rego_policy V regos s = (Inr r, t)"
  shows "r = containers_rego pre post regos"
proof -
  from assms(2) obtain template s' where "se_read_policy_rego V s = (Inr template, s')"
    and f: "percent_format (Some (str_join '','' (map json_dumps_canonical regos))) template = Inr r"
    by (auto simp: get_rego_policy_def bind_op_Inr_iff)
  with assms(1) have "template = pre @ ''%s'' @ post" by (auto simp: rego_template_def)
  with f percent_format_once [of pre post "str_join '','' (map json_dumps_canonical regos)"] assms(1) show ?thesis
    by (auto simp: rego_template_def containers_rego_def)
qed

lemma spark_build_base_parts:
  assumes "spark_build_base V b s = (Inr (app, b'), t)"
  obtains d x d' x' conf scs s1 s2 dp xp where
    "spb_driver b = Some d" and "spb_executor b = Some x"
    and "configured_pods V b (the (spb_app_name b)) d x = (d', x', conf)"
    and "get_spark_pod_policy V b scs scs s1 = (Inr (dp, xp), s2)"
    and "csa_driver_policy app = dp" and "csa_executor_policy app = xp"
    and "sas_driver (csa_spec app) = d'\<lparr>initContainers := extend_list (initContainers d') (map sc_container scs)\<rparr>"
    and "sas_executor (csa_spec app) = x'\<lparr>initContainers := extend_list (initContainers x') (map sc_container scs)\<rparr>"
    and "sas_name (csa_spec app) = the (spb_app_name b)"
proof -
  from assms obtain n i m where n: "spb_app_name b = Some n"
    and r: "bind_op (lift_res (cleanroom_app_builder V n b)) (\<lambda>a. bind_op (Build (se_docs V) a) (\<lambda>scs.
         (case (spb_driver b, spb_executor b) of
            (Some d, Some x) \<Rightarrow> assemble_application V b n i m scs d x
          | _ \<Rightarrow> raise_op AttributeError))) s = (Inr (app, b'), t)"
    by (auto simp: spark_build_base_def split: option.splits list.splits)
  from r obtain scs s1 where
    "(case (spb_driver b, spb_executor b) of (Some d, Some x) \<Rightarrow> assemble_application V b n i m scs d x
      | _ \<Rightarrow> raise_op AttributeError) s1 = (Inr (app, b'), t)"
    by (auto simp only: bind_op_Inr_iff)
  then obtain d x where dx: "spb_driver b = Some d" "spb_executor b = Some x"
    and asm: "assemble_application V b n i m scs d x s1 = (Inr (app, b'), t)"
    by (auto split: option.splits)
  obtain d' x' conf where c: "configured_pods V b n d x = (d', x', conf)" by (metis prod_cases3)
  from asm obtain dp xp s2 where p: "get_spark_pod_policy V b scs scs s1 = (Inr (dp, xp), s2)"
    and "csa_driver_policy app = dp" "csa_executor_policy app = xp"
      "sas_driver (csa_spec app) = d'\<lparr>initContainers := extend_list (initContainers d') (map sc_container scs)\<rparr>"
      "sas_executor (csa_spec app) = x'\<lparr>initContainers := extend_list (initContainers x') (map sc_container scs)\<rparr>"
      "sas_name (csa_spec app) = n"
    unfolding assemble_application_def c by (auto simp: bind_op_Inr_iff Let_def)
  with dx c n show thesis by (intro that [OF dx _ p]) simp_all
qed

lemma configured_pods_keep:
  assumes "configured_pods V b n d x = (d', x', conf)"
  shows "initContainers d' = initContainers d" and "labels d' = labels d"
    and "initContainers x' = initContainers x" and "labels x' = labels x"
    and "env d = Some e \<Longrightarrow> \<exists>es. env d' = Some (e @ es)"
  using assms
  by (auto simp: configured_pods_def configure_spark_monitoring_plugin_def Let_def extend_list_def
      split: if_splits option.splits)

text \<open>The builder as a conversion leaves it before the build.\<close>

lemma fold_AddDataset:
  "spb_driver (fold AddDataset ds b) = spb_driver b" "spb_executor (fold AddDataset ds b) = spb_executor b"
  "spb_driver_policy (fold AddDataset ds b) = spb_driver_policy b"
  "spb_executor_policy (fold AddDataset ds b) = spb_executor_policy b"
  "spb_allow_all (fold AddDataset ds b) = spb_allow_all b" "spb_app_name (fold AddDataset ds b) = spb_app_name b"
  by (induction ds arbitrary: b) (simp_all add: AddDataset_def)

definition job_builder ::
  "'s spark_env \<Rightarrow> cleanroom_settings \<Rightarrow> spark_compute_provider \<Rightarrow> string \<Rightarrow> 'a job_input_scheme \<Rightarrow>
   spark_job_settings \<Rightarrow> env_data list \<Rightarrow> telemetry_settings option \<Rightarrow> spark_builder" where
  "job_builder V cfg prov job_id job st env_vars tel =
    (WithPolicy prov (sjs_policy_file st) (sjs_debug_mode st) (sjs_allow_all st)
      ((get_spark_application_builder V job cfg (case tel of None \<Rightarrow> default_telemetry | Some t \<Rightarrow> t))
        \<lparr>spb_app_name := Some job_id, spb_image := Some (sjs_application_image st)\<rparr>))
      \<lparr>spb_main_application_file := Some (sjs_application_file st), spb_env_vars := env_vars, spb_arguments := []\<rparr>"

lemma job_builder_fields [simp]:
  "spb_env_vars (job_builder V cfg prov job_id job st env_vars tel) = env_vars"
  "spb_app_name (job_builder V cfg prov job_id job st env_vars tel) = Some job_id"
  "spb_allow_all (job_builder V cfg prov job_id job st env_vars tel) \<longleftrightarrow> prov = Virtual \<or> sjs_allow_all st"
  by (auto simp: job_builder_def WithPolicy_def split: spark_compute_provider.splits)

lemma convert_via_job_builder:
  "convert_to_spark_spec V cfg prov job_id job st env_vars tel =
    bind_op (AddDriver V prov (sku_driver (sjs_sku st)) (job_builder V cfg prov job_id job st env_vars tel)) (\<lambda>b.
    bind_op (AddExecutor V prov (sku_executor (sjs_sku st)) b) (\<lambda>b.
    bind_op (spark_build V prov (case ji_datasink job of None \<Rightarrow> fold AddDataset (ji_datasets job) b
      | Some k \<Rightarrow> AddDatasink k (fold AddDataset (ji_datasets job) b))) (\<lambda>(app, _). return_op app)))"
  by (simp add: convert_to_spark_spec_def job_builder_def Let_def)

lemma convert_parts:
  assumes "convert_to_spark_spec V cfg prov job_id job st env_vars tel s = (Inr app, t)"
  obtains b d x dpol xpol dap s0 s1 s2 s3 b' where
    "get_driver V prov (job_builder V cfg prov job_id job st env_vars tel) (sku_driver (sjs_sku st)) s = (Inr (d, dpol), s0)"
    and "get_executor V prov ((job_builder V cfg prov job_id job st env_vars tel)\<lparr>spb_driver := Some d, spb_driver_policy := dpol\<rparr>)
      (sku_executor (sjs_sku st)) s1 = (Inr (x, dap, xpol), s2)"
    and "spb_driver b = Some d" and "spb_executor b = Some x" and "spb_driver_policy b = dpol"
    and "spb_executor_policy b = xpol" and "spb_allow_all b \<longleftrightarrow> prov = Virtual \<or> sjs_allow_all st"
    and "spb_app_name b = Some job_id"
    and "spark_build V prov b s3 = (Inr (app, b'), t)"
proof -
  let ?j = "job_builder V cfg prov job_id job st env_vars tel"
  from assms obtain b1 b2 s1 s2 b' where
    d: "AddDriver V prov (sku_driver (sjs_sku st)) ?j s = (Inr b1, s1)"
    and x: "AddExecutor V prov (sku_executor (sjs_sku st)) b1 s1 = (Inr b2, s2)"
    and f: "spark_build V prov (case ji_datasink job of None \<Rightarrow> fold AddDataset (ji_datasets job) b2
      | Some k \<Rightarrow> AddDatasink k (fold AddDataset (ji_datasets job) b2)) s2 = (Inr (app, b'), t)"
    by (auto simp: convert_via_job_builder bind_op_Inr_iff split: prod.splits)
  from d obtain dr dpol where dr: "get_driver V prov ?j (sku_driver (sjs_sku st)) s = (Inr (dr, dpol), s1)"
    and b1: "b1 = ?j\<lparr>spb_driver := Some dr, spb_driver_policy := dpol\<rparr>"
    by (auto simp: AddDriver_def bind_op_Inr_iff)
  from x obtain ex dap xpol where ex: "get_executor V prov b1 (sku_executor (sjs_sku st)) s1 = (Inr (ex, dap, xpol), s2)"
    and b2: "b2 = b1\<lparr>spb_executor := Some ex, spb_dynamic_allocation_profile := dap, spb_executor_policy := xpol\<rparr>"
    by (auto simp: AddExecutor_def bind_op_Inr_iff)
  show thesis
    by (rule that [OF dr ex [unfolded b1] _ _ _ _ _ _ f])
      (auto simp: fold_AddDataset AddDatasink_def b1 b2 split: option.splits)
qed

lemma get_driver_containers:
  "get_driver V prov b st s = (Inr (d, pol), t) \<Longrightarrow> initContainers d = Some [] \<and> env d = Some (pod_env b)"
  by (cases prov) (auto simp: get_driver_def get_driver_base_def base_driver_def vn2_driver_def bind_op_Inr_iff
      split: if_splits)

lemma get_executor_containers:
  "get_executor V prov b st s = (Inr (x, dap, pol), t) \<Longrightarrow> initContainers x = Some []"
  by (cases prov) (auto simp: get_executor_def get_executor_base_def base_executor_def vn2_executor_def bind_op_Inr_iff
      split: if_splits)

text \<open>A policy is consistent: the text to inject decodes to the policy, and its hash is the host data.\<close>

definition policy_consistent :: "'s spark_env \<Rightarrow> cce_policy \<Rightarrow> bool" where
  "policy_consistent V p \<longleftrightarrow>
    b64decode (rego_base64 p) = Inr (utf8_encode (rego p)) \<and> host_data p = se_sha256_hex V (utf8_encode (rego p))"

lemma policy_of_rego_consistent [simp]: "policy_consistent V (policy_of_rego V r)" "rego (policy_of_rego V r) = r"
  by (simp_all add: policy_consistent_def policy_of_rego_def)

lemma confidential_policies:
  assumes T: "rego_template V pre post"
    and run: "convert_to_spark_spec V cfg ConfidentialVirtualNode job_id job st env_vars tel s = (Inr app, t)"
    and st: "\<not> sjs_allow_all st"
  obtains d x dpol xpol dap s0 s1 s2 scs es where
    "get_driver V ConfidentialVirtualNode (job_builder V cfg ConfidentialVirtualNode job_id job st env_vars tel)
      (sku_driver (sjs_sku st)) s = (Inr (d, dpol), s0)"
    and "get_executor V ConfidentialVirtualNode
      ((job_builder V cfg ConfidentialVirtualNode job_id job st env_vars tel)\<lparr>spb_driver := Some d, spb_driver_policy := dpol\<rparr>)
      (sku_executor (sjs_sku st)) s1 = (Inr (x, dap, xpol), s2)"
    and "initContainers (sas_driver (csa_spec app)) = Some (map sc_container (scs :: sidecar list))"
    and "initContainers (sas_executor (csa_spec app)) = Some (map sc_container scs)"
    and "csa_driver_policy app = policy_of_rego V (containers_rego pre post (dpol # map sc_policy scs))"
    and "csa_executor_policy app = policy_of_rego V (containers_rego pre post (xpol # map sc_policy scs))"
    and "labels (sas_driver (csa_spec app)) = labels d" and "labels (sas_executor (csa_spec app)) = labels x"
    and "env (sas_driver (csa_spec app)) = Some (pod_env (job_builder V cfg ConfidentialVirtualNode job_id job st env_vars tel) @ es)"
proof -
  from run obtain b d x dpol xpol dap s0 s1 s2 s3 b' where
    dr: "get_driver V ConfidentialVirtualNode (job_builder V cfg ConfidentialVirtualNode job_id job st env_vars tel)
      (sku_driver (sjs_sku st)) s = (Inr (d, dpol), s0)"
    and ex: "get_executor V ConfidentialVirtualNode
      ((job_builder V cfg ConfidentialVirtualNode job_id job st env_vars tel)\<lparr>spb_driver := Some d, spb_driver_policy := dpol\<rparr>)
      (sku_executor (sjs_sku st)) s1 = (Inr (x, dap, xpol), s2)"
    and b: "spb_driver b = Some d" "spb_executor b = Some x" "spb_driver_policy b = dpol" "spb_executor_policy b = xpol"
      "spb_allow_all b \<longleftrightarrow> sjs_allow_all st"
    and build: "spark_build V ConfidentialVirtualNode b s3 = (Inr (app, b'), t)"
    by (rule convert_parts) simp
  from build have "spark_build_base V b s3 = (Inr (app, b'), t)" by (simp add: spark_build_def)
  then obtain d0 x0 d' x' conf scs s4 s5 dp xp where
    p: "spb_driver b = Some d0" "spb_executor b = Some x0"
    "configured_pods V b (the (spb_app_name b)) d0 x0 = (d', x', conf)"
    "get_spark_pod_policy V b scs scs s4 = (Inr (dp, xp), s5)"
    "csa_driver_policy app = dp" "csa_executor_policy app = xp"
    "sas_driver (csa_spec app) = d'\<lparr>initContainers := extend_list (initContainers d') (map sc_container scs)\<rparr>"
    "sas_executor (csa_spec app) = x'\<lparr>initContainers := extend_list (initContainers x') (map sc_container scs)\<rparr>"
    by (rule spark_build_base_parts) blast
  have same: "d0 = d" "x0 = x" using p(1,2) b(1,2) by simp_all
  note keep = configured_pods_keep [OF p(3) [unfolded same]]
  have i: "initContainers d' = Some []" "initContainers x' = Some []"
    using get_driver_containers [OF dr] get_executor_containers [OF ex] keep by simp_all
  obtain es where es: "env d' = Some (pod_env (job_builder V cfg ConfidentialVirtualNode job_id job st env_vars tel) @ es)"
    using keep(5) get_driver_containers [OF dr] by blast
  from p(4) b(3,4,5) st obtain dr' xr s6 where
    "get_rego_policy V (dpol # map sc_policy scs) s4 = (Inr dr', s6)" "dp = policy_of_rego V dr'"
    "get_rego_policy V (xpol # map sc_policy scs) s6 = (Inr xr, s5)" "xp = policy_of_rego V xr"
    by (auto simp: get_spark_pod_policy_def bind_op_Inr_iff)
  then have "dp = policy_of_rego V (containers_rego pre post (dpol # map sc_policy scs))"
    "xp = policy_of_rego V (containers_rego pre post (xpol # map sc_policy scs))"
    using get_rego_policy_containers [OF T] by blast+
  with p(5-8) i keep es show thesis
    by (intro that [OF dr ex, of scs es]) (simp_all add: extend_list_def)
qed


text \<open>The pods of the confidential variant carry the labels both webhooks select by.\<close>

definition webhook_labels :: "(string, string) dict option \<Rightarrow> bool" where
  "webhook_labels ls =
    (case ls of None \<Rightarrow> False
     | Some d \<Rightarrow> map_of d CCE_POLICY_INJECTOR_LABEL = Some ''true'' \<and> map_of d SPARK_POD_SCHEDULER_LABEL = Some ''true'' \<and>
         map_of d CCE_POLICY_ANNOTATION_NAME_LABEL = Some CCE_POLICY_ANNOTATION_VALUE)"

lemma label_names_distinct:
  "CCE_POLICY_INJECTOR_LABEL \<noteq> SPARK_POD_SCHEDULER_LABEL"
  "CCE_POLICY_INJECTOR_LABEL \<noteq> CCE_POLICY_ANNOTATION_NAME_LABEL"
  "SPARK_POD_SCHEDULER_LABEL \<noteq> CCE_POLICY_ANNOTATION_NAME_LABEL"
  by (simp_all add: CCE_POLICY_INJECTOR_LABEL_def SPARK_POD_SCHEDULER_LABEL_def CCE_POLICY_ANNOTATION_NAME_LABEL_def)

lemma vn2_labels_webhook: "webhook_labels (vn2_labels (Some d))"
  using label_names_distinct by (simp add: webhook_labels_def vn2_labels_def set_entry_def)

lemma get_driver_labels:
  "get_driver V ConfidentialVirtualNode b st s = (Inr (d, pol), t) \<Longrightarrow> webhook_labels (labels d)"
  by (auto simp: get_driver_def get_driver_base_def base_driver_def vn2_driver_def bind_op_Inr_iff vn2_labels_webhook
      split: if_splits)

lemma get_executor_labels:
  "get_executor V ConfidentialVirtualNode b st s = (Inr (x, dap, pol), t) \<Longrightarrow> webhook_labels (labels x)"
  by (auto simp: get_executor_def get_executor_base_def base_executor_def vn2_executor_def bind_op_Inr_iff
      vn2_labels_webhook split: if_splits)

lemma convert_webhook_labels:
  assumes "convert_to_spark_spec V cfg ConfidentialVirtualNode job_id job st env_vars tel s = (Inr app, t)"
  shows "webhook_labels (labels (sas_driver (csa_spec app))) \<and> webhook_labels (labels (sas_executor (csa_spec app)))"
proof -
  from assms obtain b d x dpol xpol dap s0 s1 s2 s3 b' where
    dr: "get_driver V ConfidentialVirtualNode (job_builder V cfg ConfidentialVirtualNode job_id job st env_vars tel)
      (sku_driver (sjs_sku st)) s = (Inr (d, dpol), s0)"
    and ex: "get_executor V ConfidentialVirtualNode
      ((job_builder V cfg ConfidentialVirtualNode job_id job st env_vars tel)\<lparr>spb_driver := Some d, spb_driver_policy := dpol\<rparr>)
      (sku_executor (sjs_sku st)) s1 = (Inr (x, dap, xpol), s2)"
    and b: "spb_driver b = Some d" "spb_executor b = Some x"
    and build: "spark_build V ConfidentialVirtualNode b s3 = (Inr (app, b'), t)"
    by (rule convert_parts) blast
  from build have "spark_build_base V b s3 = (Inr (app, b'), t)" by (simp add: spark_build_def)
  then obtain d0 x0 d' x' conf scs where
    p: "spb_driver b = Some d0" "spb_executor b = Some x0" "configured_pods V b (the (spb_app_name b)) d0 x0 = (d', x', conf)"
    "sas_driver (csa_spec app) = d'\<lparr>initContainers := extend_list (initContainers d') (map sc_container (scs :: sidecar list))\<rparr>"
    "sas_executor (csa_spec app) = x'\<lparr>initContainers := extend_list (initContainers x') (map sc_container scs)\<rparr>"
    by (rule spark_build_base_parts) blast
  with b configured_pods_keep [OF p(3)] get_driver_labels [OF dr] get_executor_labels [OF ex] show ?thesis by simp
qed

text \<open>
  C10. No pod of a confidential application can bypass the webhooks: driver and executor carry the
  labels by which policy injection and scheduling select pods, and the name of the annotation that
  receives the policy.
\<close>

theorem confidential_pods_labelled:
  assumes "convert_to_spark_spec V cfg ConfidentialVirtualNode job_id job st env_vars tel s = (Inr app, t)"
  shows "webhook_labels (labels (sas_driver (csa_spec app))) \<and> webhook_labels (labels (sas_executor (csa_spec app)))"
  by (rule convert_webhook_labels [OF assms])

text \<open>The environment rules of a policy.\<close>

lemma add_env_rule_rules:
  assumes "add_env_rule r pol = Inr pol'"
  obtains rs where "json_item pol ''env_rules'' = Inr (JArr rs)" and "json_item pol' ''env_rules'' = Inr (JArr (rs @ [r]))"
proof -
  from assms obtain v v' where "json_item pol ''env_rules'' = Inr v" "json_extend [r] v = Inr v'"
    "json_item pol' ''env_rules'' = Inr v'"
    unfolding add_env_rule_def by (rule json_update_item_same)
  with that show thesis by (cases v) (auto simp: json_extend_def)
qed

lemma fold_env_rules:
  assumes "fold_res (\<lambda>e. add_env_rule (env_rule e)) es pol = Inr pol'" and "json_item pol' ''env_rules'' = Inr (JArr rs')"
  shows "\<exists>rs. json_item pol ''env_rules'' = Inr (JArr rs) \<and> rs' = rs @ map env_rule es"
  using assms
proof (induction es arbitrary: pol)
  case Nil
  then show ?case by simp
next
  case (Cons e es)
  then obtain pol1 where s: "add_env_rule (env_rule e) pol = Inr pol1"
    and r: "fold_res (\<lambda>e. add_env_rule (env_rule e)) es pol1 = Inr pol'" by (auto simp: bind_res_Inr_iff)
  obtain rs where "json_item pol ''env_rules'' = Inr (JArr rs)" "json_item pol1 ''env_rules'' = Inr (JArr (rs @ [env_rule e]))"
    using s by (rule add_env_rule_rules)
  with Cons.IH [OF r Cons.prems(2)] show ?case by auto
qed

definition trace_rule :: json where
  "trace_rule = env_rule_of (OTEL_TRACE_CONTEXT_ENV_KEY @ ''=.+'') ''re2''"

lemma add_env_rules_rules:
  assumes "add_env_rules es pol = Inr pol'"
  shows "\<exists>rs. json_item pol' ''env_rules'' = Inr (JArr (rs @ map env_rule es @ [trace_rule]))"
proof -
  from assms obtain pol1 where f: "fold_res (\<lambda>e. add_env_rule (env_rule e)) es pol = Inr pol1"
    and t: "add_env_rule trace_rule pol1 = Inr pol'" by (auto simp: add_env_rules_def bind_res_Inr_iff trace_rule_def)
  obtain rs where r: "json_item pol1 ''env_rules'' = Inr (JArr rs)" "json_item pol' ''env_rules'' = Inr (JArr (rs @ [trace_rule]))"
    using t by (rule add_env_rule_rules)
  from fold_env_rules [OF f r(1)] r(2) show ?thesis by auto
qed

lemma driver_policy_rules:
  assumes "driver_policy_rego b doc = Inr pol" and "pol \<noteq> JObj []"
  shows "\<exists>rs. json_item pol ''env_rules'' = Inr (JArr (rs @ map env_rule (spb_env_vars b) @ [trace_rule]))"
proof -
  from assms obtain p0 p1 where e: "add_env_rules (spb_env_vars b) p0 = Inr p1"
    and c: "p1 = pol \<or> json_update_item ''command'' (json_extend [JStr ''--governance-port'', JStr ''8300'']) p1 = Inr pol"
    by (auto simp: driver_policy_rego_def bind_res_Inr_iff split: if_splits)
  from c have "json_item pol ''env_rules'' = json_item p1 ''env_rules''"
    by (auto dest: json_update_item_other [where k' = "''env_rules''"])
  with add_env_rules_rules [OF e] show ?thesis by simp
qed

lemma get_driver_rules:
  assumes "get_driver V prov b st s = (Inr (d, pol), t)" and "pol \<noteq> JObj []"
  shows "\<exists>rs. json_item pol ''env_rules'' = Inr (JArr (rs @ map env_rule (spb_env_vars b) @ [trace_rule]))"
  using assms driver_policy_rules by (auto simp: get_driver_def get_driver_base_def bind_op_Inr_iff split: if_splits)

lemma to_app_input_Inr:
  "to_app_input job = Inr jc \<Longrightarrow>
   \<exists>sink. ji_datasink job = Some sink \<and> jc = b64encode (json_dumps (app_input_json job sink))"
  by (auto simp: to_app_input_def split: option.splits)

definition job_config_rule :: "string \<Rightarrow> json" where
  "job_config_rule jc = env_rule_of (''JOB_CONFIG='' @ jc) ''string''"


text \<open>The virtual variant.\<close>

lemma virtual_containers_no_skr [simp]: "JStr ''skr'' \<notin> c_name ` set (virtual_containers img cs)"
  by (auto simp: virtual_containers_def)

lemma set_first_image_image:
  assumes "c \<in> set cs" and "c_name c = JStr n"
  shows "\<exists>c' \<in> set (set_first_image n img cs). c_name c' = JStr n \<and> c_image c' = JStr img"
  using assms by (induction cs) auto

text \<open>
  An application for the virtual provider, which has no confidential hardware, has no secure key
  release container and runs under the permissive policy, whatever the settings ask for.
\<close>

theorem virtual_application:
  assumes "convert_to_spark_spec V cfg Virtual job_id job st env_vars tel s = (Inr app, t)"
  shows "\<exists>dcs xcs. initContainers (sas_driver (csa_spec app)) = Some dcs \<and>
    initContainers (sas_executor (csa_spec app)) = Some xcs \<and>
    JStr ''skr'' \<notin> c_name ` set (dcs @ xcs) \<and>
    host_data (csa_driver_policy app) = ALLOW_ALL_POLICY_HASH \<and>
    host_data (csa_executor_policy app) = ALLOW_ALL_POLICY_HASH"
proof -
  from assms obtain b b' s3 where
    b: "spb_allow_all b \<longleftrightarrow> Virtual = Virtual \<or> sjs_allow_all st"
    and build: "spark_build V Virtual b s3 = (Inr (app, b'), t)"
    by (rule convert_parts) blast
  then have al: "spb_allow_all b" by blast
  from build obtain app0 b0 s4 where base: "spark_build_base V b s3 = (Inr (app0, b0), s4)"
    and app: "app = app0\<lparr>csa_spec := virtual_spec (virtual_governance_image (spb_cleanroom_settings b)) (csa_spec app0)\<rparr>"
    by (auto simp: spark_build_def bind_op_Inr_iff Let_def)
  from base obtain d' x' scs s1 s2 dp xp where
    p: "get_spark_pod_policy V b scs scs s1 = (Inr (dp, xp), s2)"
    "csa_driver_policy app0 = dp" "csa_executor_policy app0 = xp"
    "sas_driver (csa_spec app0) = d'\<lparr>initContainers := extend_list (initContainers d') (map sc_container (scs :: sidecar list))\<rparr>"
    "sas_executor (csa_spec app0) = x'\<lparr>initContainers := extend_list (initContainers x') (map sc_container scs)\<rparr>"
    by (rule spark_build_base_parts) blast
  from p(1) al have h: "host_data dp = ALLOW_ALL_POLICY_HASH" "host_data xp = ALLOW_ALL_POLICY_HASH"
    by (auto simp: get_spark_pod_policy_def bind_op_Inr_iff Let_def)
  have "\<exists>zs. extend_list ys xs = Some zs" for xs :: "container list" and ys by (auto simp: extend_list_def split: option.splits)
  then obtain ds xs where "extend_list (initContainers d') (map sc_container scs) = Some ds"
    "extend_list (initContainers x') (map sc_container scs) = Some xs" by metis
  with p h show ?thesis by (simp add: app virtual_spec_def Let_def image_Un)
qed

text \<open>
  C40. Names of Spark applications are valid whatever the job is called: at most 63 characters, only
  lower-case letters, digits and hyphens, with the fixed prefix. Only the first 54 characters of the
  job's name count.
\<close>

theorem to_spark_app_name_valid:
  "length (to_spark_app_name name) \<le> 63 \<and> list_all app_name_char (to_spark_app_name name) \<and>
   take 9 (to_spark_app_name name) = ''cl-spark-'' \<and>
   to_spark_app_name name = to_spark_app_name (take 54 name)"
proof -
  have t: "list_all app_name_char (take n xs)" if "list_all app_name_char xs" for n xs
    using that by (auto simp: list_all_iff dest: in_set_takeD)
  have m: "app_name_char (if app_name_char c then c else CHR ''-'')" for c
    by (cases "app_name_char c") (simp_all add: app_name_char_def)
  have "list_all app_name_char ''cl-spark-''" by (simp add: app_name_char_def)
  with m have "list_all app_name_char (to_spark_app_name name)"
    unfolding to_spark_app_name_def by (intro t) (auto simp: list_all_iff)
  then show ?thesis
    by (auto simp: to_spark_app_name_def str_lower_def take_map)
qed

text \<open>Base64 of ASCII text, read character by character.\<close>

fun b64_text :: "nat \<Rightarrow> nat \<Rightarrow> string \<Rightarrow> bool" where
  "b64_text q l [] \<longleftrightarrow> q = 0"
| "b64_text q l (c # cs) \<longleftrightarrow>
    (if c = CHR ''='' then (q = 2 \<and> cs = ''='') \<or> (q = 3 \<and> cs = [])
     else (case b64_val c of
             None \<Rightarrow> False
           | Some v \<Rightarrow>
               if q = 0 then b64_text 1 v cs
               else if q = 1 then l * 4 + v div 16 < 128 \<and> b64_text 2 (v mod 16) cs
               else if q = 2 then l * 16 + v div 4 < 128 \<and> b64_text 3 (v mod 4) cs
               else l * 64 + v < 128 \<and> b64_text 0 0 cs))"

lemma b64_text_scan: "b64_text q l s \<Longrightarrow> \<exists>r. b64_scan q l 0 s = Inr r \<and> is_ascii r"
  by (induction q l s rule: b64_text.induct)
    (auto simp: b64_scan.simps(2) is_ascii_def split: option.splits if_splits)

lemma b64_val_chars:
  "b64_val (CHR ''A'') = Some 0" "b64_val (CHR ''B'') = Some 1" "b64_val (CHR ''C'') = Some 2" "b64_val (CHR ''D'') = Some 3"
  "b64_val (CHR ''E'') = Some 4" "b64_val (CHR ''F'') = Some 5" "b64_val (CHR ''G'') = Some 6" "b64_val (CHR ''H'') = Some 7"
  "b64_val (CHR ''I'') = Some 8" "b64_val (CHR ''J'') = Some 9" "b64_val (CHR ''K'') = Some 10" "b64_val (CHR ''L'') = Some 11"
  "b64_val (CHR ''M'') = Some 12" "b64_val (CHR ''N'') = Some 13" "b64_val (CHR ''O'') = Some 14" "b64_val (CHR ''P'') = Some 15"
  "b64_val (CHR ''Q'') = Some 16" "b64_val (CHR ''R'') = Some 17" "b64_val (CHR ''S'') = Some 18" "b64_val (CHR ''T'') = Some 19"
  "b64_val (CHR ''U'') = Some 20" "b64_val (CHR ''V'') = Some 21" "b64_val (CHR ''W'') = Some 22" "b64_val (CHR ''X'') = Some 23"
  "b64_val (CHR ''Y'') = Some 24" "b64_val (CHR ''Z'') = Some 25" "b64_val (CHR ''a'') = Some 26" "b64_val (CHR ''b'') = Some 27"
  "b64_val (CHR ''c'') = Some 28" "b64_val (CHR ''d'') = Some 29" "b64_val (CHR ''e'') = Some 30" "b64_val (CHR ''f'') = Some 31"
  "b64_val (CHR ''g'') = Some 32" "b64_val (CHR ''h'') = Some 33" "b64_val (CHR ''i'') = Some 34" "b64_val (CHR ''j'') = Some 35"
  "b64_val (CHR ''k'') = Some 36" "b64_val (CHR ''l'') = Some 37" "b64_val (CHR ''m'') = Some 38" "b64_val (CHR ''n'') = Some 39"
  "b64_val (CHR ''o'') = Some 40" "b64_val (CHR ''p'') = Some 41" "b64_val (CHR ''q'') = Some 42" "b64_val (CHR ''r'') = Some 43"
  "b64_val (CHR ''s'') = Some 44" "b64_val (CHR ''t'') = Some 45" "b64_val (CHR ''u'') = Some 46" "b64_val (CHR ''v'') = Some 47"
  "b64_val (CHR ''w'') = Some 48" "b64_val (CHR ''x'') = Some 49" "b64_val (CHR ''y'') = Some 50" "b64_val (CHR ''z'') = Some 51"
  "b64_val (CHR ''0'') = Some 52" "b64_val (CHR ''1'') = Some 53" "b64_val (CHR ''2'') = Some 54" "b64_val (CHR ''3'') = Some 55"
  "b64_val (CHR ''4'') = Some 56" "b64_val (CHR ''5'') = Some 57" "b64_val (CHR ''6'') = Some 58" "b64_val (CHR ''7'') = Some 59"
  "b64_val (CHR ''8'') = Some 60" "b64_val (CHR ''9'') = Some 61"
  by (simp_all add: b64_val_def)

fun b64_run :: "nat \<times> nat \<Rightarrow> string \<Rightarrow> (nat \<times> nat) option" where
  "b64_run p [] = Some p"
| "b64_run (q, l) (c # cs) =
    (case b64_val c of
       None \<Rightarrow> None
     | Some v \<Rightarrow>
         if q = 0 then b64_run (1, v) cs
         else if q = 1 then (if l * 4 + v div 16 < 128 then b64_run (2, v mod 16) cs else None)
         else if q = 2 then (if l * 16 + v div 4 < 128 then b64_run (3, v mod 4) cs else None)
         else (if l * 64 + v < 128 then b64_run (0, 0) cs else None))"

lemma b64_text_append: "b64_run (q, l) s = Some (q', l') \<Longrightarrow> b64_text q' l' t \<Longrightarrow> b64_text q l (s @ t)"
proof (induction s arbitrary: q l)
  case Nil
  then show ?case by simp
next
  case (Cons c cs)
  have "b64_val (CHR ''='') = None" by (simp add: b64_val_def)
  with Cons show ?case by (auto split: option.splits if_splits)
qed

lemma allow_all_text: "b64_text 0 0 ALLOW_ALL_POLICY_BASE64"
  unfolding ALLOW_ALL_POLICY_BASE64_def
  by ((rule b64_text_append, (simp add: b64_val_chars; fail))+, simp add: b64_val_chars)

lemma allow_all_decodes: "\<exists>r. bind_res (b64decode ALLOW_ALL_POLICY_BASE64) utf8_decode = Inr r"
  using b64_text_scan [OF allow_all_text] by (auto simp: b64decode_def utf8_decode_ascii)
section \<open>A concrete application\<close>

definition sample_env :: "(string, json) dict spark_env" where
  "sample_env =
    \<lparr>se_docs = disk_docs, se_read_policy_rego = return_op ''c := [%s]'', se_getenv = (\<lambda>_. None),
     se_sha256_hex = (\<lambda>s. s), se_trace_context = [], se_baggage = []\<rparr>"

definition sample_dataset :: dataset_info where
  "sample_dataset =
    \<lparr>ds_name = ''in_1'', ds_viewName = ''v'', ds_schema = None, ds_format = Format_csv, ds_ownerId = ''s'',
     ds_accessPoint = sample_access_point, ds_allowedFields = []\<rparr>"

definition sample_sku :: sku_settings where
  "sample_sku =
    \<lparr>sku_driver = \<lparr>drv_cores = 3/2, drv_memory = ''1g'', drv_service_account = ''spark''\<rparr>,
     sku_executor = \<lparr>exs_cores = 1, exs_instances_min = 1, exs_instances_max = 2, exs_memory = ''1g'',
       exs_delete_on_termination = True\<rparr>\<rparr>"

definition sample_spark_config :: "spark_compute_provider \<Rightarrow> spark_config" where
  "sample_spark_config prov =
    \<lparr>sc_cleanroom = \<lparr>registry_url = ''mcr'', sidecars_policy_document_registry_url = ''mcr'', versions_document = ''v'',
       use_http = False\<rparr>,
     sc_compute_provider = prov,
     sc_analytics = \<lparr>an_namespace = ''analytics'', an_image = ''img'', an_policy_file = ''pol'', an_debug_mode = False,
       an_allow_all = False, an_application_file = ''main.py'', an_sql = sample_sku\<rparr>,
     sc_examples = \<lparr>ex_namespace = ''analytics'', ex_image = ''spark'', ex_allow_all = True,
       ex_application_file = ''pi.py'', ex_pi = sample_sku\<rparr>,
     sc_service_url = ''http://fe''\<rparr>"

definition sample_job :: sql_job_input where
  "sample_job =
    \<lparr>ji_contract_id = ''c'', ji_datasets = [], ji_datasink = Some sample_dataset, ji_governance = None,
     sj_query = ''select 1'', sj_start_date = None, sj_end_date = Some (2025, 1, 31), sj_use_optimizer = False\<rparr>"

lemma sample_rego_template: "rego_template sample_env ''c := ['' '']''"
  by (auto simp: rego_template_def sample_env_def)

lemma sample_spark_document:
  assumes "spb_policy_file b = Some ''pol''"
  shows "get_spark_app_policy_document sample_env b sample_files =
    (Inr (JObj [(''driver'', JObj [(''policy'', sample_pod_policy)]), (''executor'', JObj [(''policy'', sample_pod_policy)])]),
     sample_files)"
proof -
  have p: "path_join (temp_dir disk_docs) ''cleanroom-spark-analytics-app-security-policy.yaml'' =
    ''/tmp/cleanroom-spark-analytics-app-security-policy.yaml''" by (simp add: path_join_def disk_docs_def)
  have f: "map_of sample_files ''/tmp/cleanroom-spark-analytics-app-security-policy.yaml'' =
    Some (JObj [(''driver'', JObj [(''policy'', sample_pod_policy)]), (''executor'', JObj [(''policy'', sample_pod_policy)])])"
    by (simp add: sample_files_def)
  have d: "se_docs sample_env = disk_docs" by (simp add: sample_env_def)
  show ?thesis
    unfolding get_spark_app_policy_document_def Let_def d p assms
    by (simp add: bind_op_def disk_load [OF f])
qed

lemma sample_pod_policy_filled:
  assumes "plain_vars vars"
  shows "replace_vars (json_dumps sample_pod_policy) vars = Inr sample_pod_policy"
  by (rule replace_vars_wf [OF assms]) (simp_all add: sample_pod_policy_def template_literal)

lemma sample_env_rules: "\<exists>pol. add_env_rules es sample_pod_policy = Inr pol"
proof -
  have step: "add_env_rule r (JObj [(''command'', c), (''env_rules'', JArr rs)]) =
      Inr (JObj [(''command'', c), (''env_rules'', JArr (rs @ [r]))])" for r c rs
    by (simp add: add_env_rule_def json_update_item_def json_extend_def)
  have "fold_res (\<lambda>e. add_env_rule (env_rule e)) es (JObj [(''command'', c), (''env_rules'', JArr rs)]) =
      Inr (JObj [(''command'', c), (''env_rules'', JArr (rs @ map env_rule es))])" for c rs
    by (induction es arbitrary: rs) (simp_all add: step)
  then show ?thesis by (simp add: add_env_rules_def sample_pod_policy_def step)
qed

lemma to_spark_app_name_plain: "list_all json_plain (to_spark_app_name name)"
proof -
  have "app_name_char c \<Longrightarrow> json_plain c" for c by (auto simp: app_name_char_def json_plain_def Let_def)
  moreover have "list_all app_name_char (to_spark_app_name name)"
  proof -
    have m: "app_name_char (if app_name_char c then c else CHR ''-'')" for c
      by (cases "app_name_char c") (simp_all add: app_name_char_def)
    have "list_all app_name_char ''cl-spark-''" by (simp add: app_name_char_def)
    with m show ?thesis unfolding to_spark_app_name_def by (auto simp: list_all_iff dest!: in_set_takeD)
  qed
  ultimately show ?thesis by (simp add: list_all_iff)
qed

definition sample_spark_fields :: "spark_builder \<Rightarrow> bool" where
  "sample_spark_fields b \<longleftrightarrow> spb_policy_file b = Some ''pol'' \<and> spb_image b = Some ''img'' \<and>
    spb_main_application_file b = Some ''main.py'' \<and>
    spb_app_name b = Some (to_spark_app_name ''j'') \<and> spb_governance_settings b = None \<and> \<not> spb_debug_mode b \<and>
    spb_telemetry_settings b = default_telemetry \<and> spb_contract_id b = ''c'' \<and> spb_trace_context b = [] \<and>
    registry_url (spb_cleanroom_settings b) = ''mcr''"

lemma sample_get_driver:
  assumes "sample_spark_fields b"
  shows "\<exists>d pol. get_driver sample_env prov b st sample_files = (Inr (d, pol), sample_files)"
proof -
  have "plain_vars [(''containerRegistryUrl'', ''img''), (''jobId'', to_spark_app_name ''j'')]"
    using to_spark_app_name_plain by (simp add: plain_vars_def json_plain_def)
  note fill = sample_pod_policy_filled [OF this]
  obtain pol where pol: "add_env_rules (spb_env_vars b) sample_pod_policy = Inr pol" using sample_env_rules by blast
  have "driver_policy_rego b (JObj [(''driver'', JObj [(''policy'', sample_pod_policy)]),
      (''executor'', JObj [(''policy'', sample_pod_policy)])]) = Inr pol"
    using assms fill pol by (simp add: driver_policy_rego_def sample_spark_fields_def policy_node_def str_opt_def)
  then show ?thesis
    using assms by (simp add: get_driver_def get_driver_base_def bind_op_def sample_spark_fields_def sample_spark_document)
qed

lemma sample_get_executor:
  assumes "sample_spark_fields b"
  shows "\<exists>x dap pol. get_executor sample_env prov b st sample_files = (Inr (x, dap, pol), sample_files)"
proof -
  have "plain_vars [(''imageUrl'', ''img''), (''jobId'', to_spark_app_name ''j'')]"
    using to_spark_app_name_plain by (simp add: plain_vars_def json_plain_def)
  note fill = sample_pod_policy_filled [OF this]
  obtain pol where pol: "add_env_rules (spb_env_vars b) sample_pod_policy = Inr pol" using sample_env_rules by blast
  have "executor_policy_rego b (JObj [(''driver'', JObj [(''policy'', sample_pod_policy)]),
      (''executor'', JObj [(''policy'', sample_pod_policy)])]) = Inr pol"
    using assms fill pol by (simp add: executor_policy_rego_def sample_spark_fields_def policy_node_def str_opt_def)
  then show ?thesis
    using assms by (simp add: get_executor_def get_executor_base_def bind_op_def sample_spark_fields_def sample_spark_document)
qed

lemma to_spark_app_name_Cons: "\<exists>c cs. to_spark_app_name n = c # cs"
  by (simp add: to_spark_app_name_def)

lemma sample_app_builder:
  assumes "sample_spark_fields b" and "spb_datasets b = []" and "spb_datasinks b = [sample_dataset]"
  shows "\<exists>a. cleanroom_app_builder sample_env (to_spark_app_name ''j'') b = Inr a \<and> sample_like a"
  using assms to_spark_app_name_Cons [of "''j''"]
  by (auto simp: cleanroom_app_builder_def WithName_def sample_spark_fields_def default_telemetry_def sample_like_def
      new_app_builder_def WithContractId_def AddStorage_def sample_dataset_def)

lemma sample_pod_policies:
  "\<exists>dp xp. get_spark_pod_policy sample_env b scs scs sample_files = (Inr (dp, xp), sample_files)"
proof -
  obtain r where "bind_res (b64decode ALLOW_ALL_POLICY_BASE64) utf8_decode = Inr r" using allow_all_decodes by blast
  moreover have "\<exists>r. get_rego_policy sample_env regos sample_files = (Inr r, sample_files)" for regos
    by (simp add: get_rego_policy_def sample_env_def bind_op_def)
  then obtain f where "get_rego_policy sample_env regos sample_files = (Inr (f regos), sample_files)" for regos by metis
  ultimately show ?thesis
    by (simp add: get_spark_pod_policy_def bind_op_def Let_def)
qed

lemma sample_assemble:
  "\<exists>app b'. assemble_application sample_env b n i m scs d x sample_files = (Inr (app, b'), sample_files)"
proof -
  obtain dp xp where "get_spark_pod_policy sample_env b scs scs sample_files = (Inr (dp, xp), sample_files)"
    using sample_pod_policies by blast
  then show ?thesis by (simp add: assemble_application_def bind_op_def Let_def split: prod.split)
qed

lemma sample_spark_build:
  assumes "sample_spark_fields b" and "spb_datasets b = []" and "spb_datasinks b = [sample_dataset]"
    and "spb_driver b = Some d" and "spb_executor b = Some x"
  shows "\<exists>app b'. spark_build sample_env prov b sample_files = (Inr (app, b'), sample_files)"
proof -
  obtain a where a: "cleanroom_app_builder sample_env (to_spark_app_name ''j'') b = Inr a" "sample_like a"
    using sample_app_builder [OF assms(1-3)] by blast
  obtain scs where scs: "Build (se_docs sample_env) a sample_files = (Inr scs, sample_files)"
    using sample_build [OF a(2)] by (auto simp: sample_env_def)
  obtain c cs where n: "to_spark_app_name ''j'' = c # cs" using to_spark_app_name_Cons by blast
  obtain app b' where r: "assemble_application sample_env b (c # cs) ''img'' ''main.py'' scs d x sample_files = (Inr (app, b'), sample_files)"
    using sample_assemble by blast
  have "spark_build_base sample_env b sample_files = (Inr (app, b'), sample_files)"
    using assms a scs r n by (simp add: spark_build_base_def sample_spark_fields_def bind_op_def)
  then show ?thesis by (cases prov) (simp_all add: spark_build_def bind_op_def Let_def)
qed

definition sample_settings :: spark_job_settings where
  "sample_settings =
    \<lparr>sjs_application_image = ''img'', sjs_application_file = ''main.py'', sjs_policy_file = ''pol'',
     sjs_sku = sample_sku, sjs_debug_mode = False, sjs_allow_all = False\<rparr>"

lemma sample_convert:
  "\<exists>app. convert_to_spark_spec sample_env (sc_cleanroom (sample_spark_config prov)) prov (to_spark_app_name ''j'') sample_job
    sample_settings env_vars None sample_files = (Inr app, sample_files)"
proof -
  let ?j = "job_builder sample_env (sc_cleanroom (sample_spark_config prov)) prov (to_spark_app_name ''j'') sample_job
    sample_settings env_vars None"
  have j: "sample_spark_fields ?j" "spb_datasets ?j = []" "spb_datasinks ?j = []"
    by (simp_all add: job_builder_def sample_spark_fields_def sample_settings_def WithPolicy_def
        get_spark_application_builder_def new_spark_builder_def sample_job_def sample_spark_config_def sample_env_def)
  obtain d pol where d: "get_driver sample_env prov ?j (sku_driver sample_sku) sample_files = (Inr (d, pol), sample_files)"
    using sample_get_driver [OF j(1)] by blast
  let ?j1 = "?j\<lparr>spb_driver := Some d, spb_driver_policy := pol\<rparr>"
  have j1: "sample_spark_fields ?j1" using j(1) by (simp add: sample_spark_fields_def)
  obtain x dap xpol where x: "get_executor sample_env prov ?j1 (sku_executor sample_sku) sample_files = (Inr (x, dap, xpol), sample_files)"
    using sample_get_executor [OF j1] by blast
  let ?j2 = "AddDatasink sample_dataset (?j1\<lparr>spb_executor := Some x, spb_dynamic_allocation_profile := dap, spb_executor_policy := xpol\<rparr>)"
  have j2: "sample_spark_fields ?j2" "spb_datasets ?j2 = []" "spb_datasinks ?j2 = [sample_dataset]"
    "spb_driver ?j2 = Some d" "spb_executor ?j2 = Some x"
    using j by (simp_all add: sample_spark_fields_def AddDatasink_def)
  obtain app b' where "spark_build sample_env prov ?j2 sample_files = (Inr (app, b'), sample_files)"
    using sample_spark_build [OF j2] by blast
  moreover have "sjs_sku sample_settings = sample_sku" "ji_datasets sample_job = []" "ji_datasink sample_job = Some sample_dataset"
    by (simp_all add: sample_settings_def sample_job_def)
  ultimately show ?thesis
    using d x
    by (simp add: convert_via_job_builder AddDriver_def AddExecutor_def bind_op_def)
qed

lemma sample_convert_sql:
  "\<exists>app. sql_to_spark_spec sample_env (sample_spark_config prov) ''j'' sample_job None None sample_files = (Inr app, sample_files)"
proof -
  obtain jc where jc: "to_app_input sample_job = Inr jc" by (auto simp: to_app_input_def sample_job_def)
  have "sql_to_spark_spec sample_env (sample_spark_config prov) ''j'' sample_job None None sample_files =
    convert_to_spark_spec sample_env (sc_cleanroom (sample_spark_config prov)) prov (to_spark_app_name ''j'') sample_job
      sample_settings (sql_env_vars ''http://fe'' ''j'' sample_job jc) None sample_files"
    by (simp add: sql_to_spark_spec_def jc bind_op_def Let_def sample_settings_def sample_spark_config_def)
  then show ?thesis using sample_convert by metis
qed


theorem confidential_pods_labelled_witness:
  "\<exists>app t. convert_to_spark_spec sample_env (sc_cleanroom (sample_spark_config ConfidentialVirtualNode))
     ConfidentialVirtualNode (to_spark_app_name ''j'') sample_job sample_settings [] None sample_files = (Inr app, t) \<and>
   webhook_labels (labels (sas_driver (csa_spec app)))"
proof -
  obtain app where c: "convert_to_spark_spec sample_env (sc_cleanroom (sample_spark_config ConfidentialVirtualNode))
     ConfidentialVirtualNode (to_spark_app_name ''j'') sample_job sample_settings [] None sample_files = (Inr app, sample_files)"
    using sample_convert by blast
  from confidential_pods_labelled [OF c] c show ?thesis by blast
qed


theorem virtual_application_witness:
  "\<exists>app t. convert_to_spark_spec sample_env (sc_cleanroom (sample_spark_config Virtual)) Virtual (to_spark_app_name ''j'')
     sample_job sample_settings [] None sample_files = (Inr app, t) \<and>
   host_data (csa_driver_policy app) = ALLOW_ALL_POLICY_HASH"
proof -
  obtain app where c: "convert_to_spark_spec sample_env (sc_cleanroom (sample_spark_config Virtual)) Virtual
     (to_spark_app_name ''j'') sample_job sample_settings [] None sample_files = (Inr app, sample_files)"
    using sample_convert by blast
  from virtual_application [OF c] c show ?thesis by blast
qed

end
