(* ===== verification/Contracts.thy ===== *)
theory Contracts
  imports Py_Data
begin

text \<open>
  The contracts between the analytics application and the frontend
  (\<^verbatim>\<open>analytics_contracts\<close>): operational events, audit records and statistics events,
  with their factories. A method of a factory is a constructor of the kind, applied to the method's
  parameters; the factory functions give the object the method returns.
\<close>

section \<open>Format strings\<close>

text \<open>
  \<^verbatim>\<open>s.format(**d)\<close> for replacement fields that are plain names; doubled braces stand for
  themselves. A field without a name or with a number needs a positional argument. Fields with
  attributes, indices, conversions or a format specification do not occur and are an error here.
\<close>

definition format_field :: "(string, string) dict \<Rightarrow> string \<Rightarrow> string res" where
  "format_field d n =
    (if list_all is_digit n then Inl IndexError
     else if \<not> list_all (\<lambda>c. c \<notin> set ''.[!:{'') n then Inl (ValueError ''unsupported replacement field'')
     else (case map_of d n of None \<Rightarrow> Inl (KeyError n) | Some v \<Rightarrow> Inr v))"

fun py_format_go :: "(string, string) dict \<Rightarrow> string option \<Rightarrow> string \<Rightarrow> string res" where
  "py_format_go d None [] = Inr []"
| "py_format_go d (Some f) [] = Inl (ValueError ''expected right brace before end of string'')"
| "py_format_go d (Some f) (c # cs) =
    (if c = CHR ''}'' then
       bind_res (format_field d f) (\<lambda>v. bind_res (py_format_go d None cs) (\<lambda>r. Inr (v @ r)))
     else py_format_go d (Some (f @ [c])) cs)"
| "py_format_go d None (c # cs) =
    (if c = CHR ''{'' then
       (case cs of
          e # es \<Rightarrow>
            if e = CHR ''{'' then bind_res (py_format_go d None es) (\<lambda>r. Inr (c # r))
            else py_format_go d (Some []) cs
        | [] \<Rightarrow> Inl (ValueError ''Single left brace encountered in format string''))
     else if c = CHR ''}'' then
       (case cs of
          e # es \<Rightarrow>
            if e = CHR ''}'' then bind_res (py_format_go d None es) (\<lambda>r. Inr (c # r))
            else Inl (ValueError ''Single right brace encountered in format string'')
        | [] \<Rightarrow> Inl (ValueError ''Single right brace encountered in format string''))
     else bind_res (py_format_go d None cs) (\<lambda>r. Inr (c # r)))"

definition py_format :: "string \<Rightarrow> (string, string) dict \<Rightarrow> string res" where
  "py_format s d = py_format_go d None s"

section \<open>Operational events\<close>

record operational_event =
  oe_id :: int
  oe_name :: string
  oe_message :: string
  oe_parameters :: "(string, string) dict"

definition oe_get_message :: "operational_event \<Rightarrow> string res" where
  "oe_get_message e =
    bind_res (py_format (oe_message e) (oe_parameters e)) (\<lambda>m. Inr (''Event_'' @ str_int (oe_id e) @ '' | '' @ m))"

text \<open>The methods of \<^verbatim>\<open>OperationalEventFactory\<close>, arguments in the order of the code.\<close>

datatype operational_event_kind =
    DatasetLoadCompleted string string string
  | DatasetLoadFailed string string string
  | DatasetLoadStarted string string string string
  | DatasetWriteCompleted string string string
  | DatasetWriteFailed string string string
  | DatasetWriteStarted string string
  | QueryExecutionCompleted string
  | QueryExecutionFailed string
  | QueryExecutionStarted
  | QuerySegmentExecutionCompleted string string
  | QuerySegmentExecutionFailed string string
  | QuerySegmentExecutionStarted string

fun operational_event_of :: "operational_event_kind \<Rightarrow> operational_event" where
  "operational_event_of (DatasetLoadCompleted n p rows) =
    \<lparr>oe_id = 1002, oe_name = ''DATASET_LOAD_COMPLETED'',
     oe_message = ''Dataset {dataset_name} loaded successfully from {dataset_path} with {row_count} rows'',
     oe_parameters = [(''dataset_name'', n), (''dataset_path'', p), (''row_count'', rows)]\<rparr>"
| "operational_event_of (DatasetLoadFailed n p err) =
    \<lparr>oe_id = 1003, oe_name = ''DATASET_LOAD_FAILED'',
     oe_message = ''Failed to load dataset {dataset_name} from {dataset_path}: {error}'',
     oe_parameters = [(''dataset_name'', n), (''dataset_path'', p), (''error'', err)]\<rparr>"
| "operational_event_of (DatasetLoadStarted n p end_date start_date) =
    \<lparr>oe_id = 1001, oe_name = ''DATASET_LOAD_STARTED'',
     oe_message = ''Started loading dataset {dataset_name} from {dataset_path} for start_date: {start_date}, end_date: {end_date}'',
     oe_parameters = [(''dataset_name'', n), (''dataset_path'', p), (''end_date'', end_date), (''start_date'', start_date)]\<rparr>"
| "operational_event_of (DatasetWriteCompleted n p rows) =
    \<lparr>oe_id = 1005, oe_name = ''DATASET_WRITE_COMPLETED'',
     oe_message = ''Output to datasink {dataset_name} written successfully at {output_path} with {row_count} rows'',
     oe_parameters = [(''dataset_name'', n), (''output_path'', p), (''row_count'', rows)]\<rparr>"
| "operational_event_of (DatasetWriteFailed n err p) =
    \<lparr>oe_id = 1006, oe_name = ''DATASET_WRITE_FAILED'',
     oe_message = ''Failed to write dataset {dataset_name} to {output_path}: {error}'',
     oe_parameters = [(''dataset_name'', n), (''error'', err), (''output_path'', p)]\<rparr>"
| "operational_event_of (DatasetWriteStarted n p) =
    \<lparr>oe_id = 1004, oe_name = ''DATASET_WRITE_STARTED'',
     oe_message = ''Started writing dataset {dataset_name} to {output_path}'',
     oe_parameters = [(''dataset_name'', n), (''output_path'', p)]\<rparr>"
| "operational_event_of (QueryExecutionCompleted secs) =
    \<lparr>oe_id = 1011, oe_name = ''QUERY_EXECUTION_COMPLETED'',
     oe_message = ''Query execution completed successfully in {duration_sec} seconds'',
     oe_parameters = [(''duration_sec'', secs)]\<rparr>"
| "operational_event_of (QueryExecutionFailed err) =
    \<lparr>oe_id = 1012, oe_name = ''QUERY_EXECUTION_FAILED'', oe_message = ''Query execution failed: {error}'',
     oe_parameters = [(''error'', err)]\<rparr>"
| "operational_event_of QueryExecutionStarted =
    \<lparr>oe_id = 1010, oe_name = ''QUERY_EXECUTION_STARTED'', oe_message = ''Query execution started'', oe_parameters = []\<rparr>"
| "operational_event_of (QuerySegmentExecutionCompleted rows step) =
    \<lparr>oe_id = 1008, oe_name = ''QUERY_SEGMENT_EXECUTION_COMPLETED'',
     oe_message = ''Query segment in step {step_number} completed with {row_count} rows'',
     oe_parameters = [(''row_count'', rows), (''step_number'', step)]\<rparr>"
| "operational_event_of (QuerySegmentExecutionFailed err step) =
    \<lparr>oe_id = 1009, oe_name = ''QUERY_SEGMENT_EXECUTION_FAILED'',
     oe_message = ''Query segment in step {step_number} failed with error: {error}'',
     oe_parameters = [(''error'', err), (''step_number'', step)]\<rparr>"
| "operational_event_of (QuerySegmentExecutionStarted step) =
    \<lparr>oe_id = 1007, oe_name = ''QUERY_SEGMENT_EXECUTION_STARTED'',
     oe_message = ''Started executing query segment in step {step_number}'',
     oe_parameters = [(''step_number'', step)]\<rparr>"

section \<open>Audit records\<close>

record audit_record =
  ar_id :: int
  ar_source :: string
  ar_name :: string
  ar_message :: string
  ar_parameters :: "(string, string) dict"

definition ar_get_message :: "audit_record \<Rightarrow> string res" where
  "ar_get_message e =
    bind_res (py_format (ar_message e) (ar_parameters e)) (\<lambda>m.
    Inr (''Event_'' @ ar_name e @ ''_'' @ str_int (ar_id e) @ '' | '' @ m))"

text \<open>The methods of \<^verbatim>\<open>AuditRecordFactory\<close>, without the source all of them take first.\<close>

datatype audit_record_kind =
    AuditLoadCompleted string string
  | AuditLoadFailed string string
  | AuditWriteCompleted string string string string
  | AuditWriteFailed string string string string
  | AuditQueryCompleted string
  | AuditQueryFailed string string

fun audit_record_of :: "string \<Rightarrow> audit_record_kind \<Rightarrow> audit_record" where
  "audit_record_of src (AuditLoadCompleted n job) =
    \<lparr>ar_id = 3001, ar_source = src, ar_name = ''DATASET_LOAD_COMPLETED'',
     ar_message = ''Dataset: {dataset_name} load completed successfully | job id: {job_id}'',
     ar_parameters = [(''dataset_name'', n), (''job_id'', job)]\<rparr>"
| "audit_record_of src (AuditLoadFailed n job) =
    \<lparr>ar_id = 3002, ar_source = src, ar_name = ''DATASET_LOAD_FAILED'',
     ar_message = ''Dataset: {dataset_name} load failed | job id: {job_id}'',
     ar_parameters = [(''dataset_name'', n), (''job_id'', job)]\<rparr>"
| "audit_record_of src (AuditWriteCompleted n dest job rows) =
    \<lparr>ar_id = 3005, ar_source = src, ar_name = ''DATASET_WRITE_COMPLETED'',
     ar_message = ''Dataset write completed successfully to {destination} | dataset: {dataset_name} | rows: {row_count} | job id: {job_id}'',
     ar_parameters = [(''dataset_name'', n), (''destination'', dest), (''job_id'', job), (''row_count'', rows)]\<rparr>"
| "audit_record_of src (AuditWriteFailed n dest job reason) =
    \<lparr>ar_id = 3006, ar_source = src, ar_name = ''DATASET_WRITE_FAILED'',
     ar_message = ''Dataset write failed to {destination} | dataset: {dataset_name} | job id: {job_id} | reason: {reason}'',
     ar_parameters = [(''dataset_name'', n), (''destination'', dest), (''job_id'', job), (''reason'', reason)]\<rparr>"
| "audit_record_of src (AuditQueryCompleted job) =
    \<lparr>ar_id = 3003, ar_source = src, ar_name = ''QUERY_COMPLETED'',
     ar_message = ''Query execution completed successfully | job id: {job_id}'',
     ar_parameters = [(''job_id'', job)]\<rparr>"
| "audit_record_of src (AuditQueryFailed job reason) =
    \<lparr>ar_id = 3004, ar_source = src, ar_name = ''QUERY_FAILED'',
     ar_message = ''Query failed | job id: {job_id} | reason: {reason}'',
     ar_parameters = [(''job_id'', job), (''reason'', reason)]\<rparr>"

section \<open>Statistics\<close>

record statistics_event =
  se_type :: string
  se_data_base64 :: string

definition QUERY_STATISTICS :: string where "QUERY_STATISTICS = ''QUERY_STATISTICS''"

record 'f query_statistics =
  qs_duration_sec :: 'f
  qs_num_rows_read :: int
  qs_num_rows_written :: int

text \<open>
  \<^verbatim>\<open>StatisticsEventFactory.QueryStatistics\<close>. The text \<^verbatim>\<open>json.dumps\<close> writes for
  the data holds a float and is a parameter.
\<close>

definition QueryStatistics :: "('f query_statistics \<Rightarrow> string) \<Rightarrow> 'f \<Rightarrow> int \<Rightarrow> int \<Rightarrow> statistics_event res" where
  "QueryStatistics stats_dumps secs rows_read rows_written =
    bind_res (utf8_decode (b64encode (utf8_encode (stats_dumps
      \<lparr>qs_duration_sec = secs, qs_num_rows_read = rows_read, qs_num_rows_written = rows_written\<rparr>)))) (\<lambda>data.
    Inr \<lparr>se_type = QUERY_STATISTICS, se_data_base64 = data\<rparr>)"

section \<open>The texts of the messages\<close>

fun operational_text :: "operational_event_kind \<Rightarrow> string" where
  "operational_text (DatasetLoadCompleted n p rows) =
    ''Event_1002 | Dataset '' @ n @ '' loaded successfully from '' @ p @ '' with '' @ rows @ '' rows''"
| "operational_text (DatasetLoadFailed n p err) =
    ''Event_1003 | Failed to load dataset '' @ n @ '' from '' @ p @ '': '' @ err"
| "operational_text (DatasetLoadStarted n p end_date start_date) =
    ''Event_1001 | Started loading dataset '' @ n @ '' from '' @ p @ '' for start_date: '' @ start_date @
    '', end_date: '' @ end_date"
| "operational_text (DatasetWriteCompleted n p rows) =
    ''Event_1005 | Output to datasink '' @ n @ '' written successfully at '' @ p @ '' with '' @ rows @ '' rows''"
| "operational_text (DatasetWriteFailed n err p) =
    ''Event_1006 | Failed to write dataset '' @ n @ '' to '' @ p @ '': '' @ err"
| "operational_text (DatasetWriteStarted n p) = ''Event_1004 | Started writing dataset '' @ n @ '' to '' @ p"
| "operational_text (QueryExecutionCompleted secs) =
    ''Event_1011 | Query execution completed successfully in '' @ secs @ '' seconds''"
| "operational_text (QueryExecutionFailed err) = ''Event_1012 | Query execution failed: '' @ err"
| "operational_text QueryExecutionStarted = ''Event_1010 | Query execution started''"
| "operational_text (QuerySegmentExecutionCompleted rows step) =
    ''Event_1008 | Query segment in step '' @ step @ '' completed with '' @ rows @ '' rows''"
| "operational_text (QuerySegmentExecutionFailed err step) =
    ''Event_1009 | Query segment in step '' @ step @ '' failed with error: '' @ err"
| "operational_text (QuerySegmentExecutionStarted step) =
    ''Event_1007 | Started executing query segment in step '' @ step"

fun audit_text :: "audit_record_kind \<Rightarrow> string" where
  "audit_text (AuditLoadCompleted n job) =
    ''Event_DATASET_LOAD_COMPLETED_3001 | Dataset: '' @ n @ '' load completed successfully | job id: '' @ job"
| "audit_text (AuditLoadFailed n job) =
    ''Event_DATASET_LOAD_FAILED_3002 | Dataset: '' @ n @ '' load failed | job id: '' @ job"
| "audit_text (AuditWriteCompleted n dest job rows) =
    ''Event_DATASET_WRITE_COMPLETED_3005 | Dataset write completed successfully to '' @ dest @ '' | dataset: '' @ n @
    '' | rows: '' @ rows @ '' | job id: '' @ job"
| "audit_text (AuditWriteFailed n dest job reason) =
    ''Event_DATASET_WRITE_FAILED_3006 | Dataset write failed to '' @ dest @ '' | dataset: '' @ n @
    '' | job id: '' @ job @ '' | reason: '' @ reason"
| "audit_text (AuditQueryCompleted job) =
    ''Event_QUERY_COMPLETED_3003 | Query execution completed successfully | job id: '' @ job"
| "audit_text (AuditQueryFailed job reason) =
    ''Event_QUERY_FAILED_3004 | Query failed | job id: '' @ job @ '' | reason: '' @ reason"

lemma digit_chars:
  "digit_char 0 = CHR ''0''" "digit_char (Suc 0) = CHR ''1''" "digit_char 2 = CHR ''2''" "digit_char 3 = CHR ''3''"
  "digit_char 4 = CHR ''4''" "digit_char 5 = CHR ''5''" "digit_char 6 = CHR ''6''" "digit_char 7 = CHR ''7''"
  "digit_char 8 = CHR ''8''" "digit_char 9 = CHR ''9''"
  by code_simp+

lemma str_nat_unfold:
  "10 \<le> n \<Longrightarrow> str_nat n = str_nat (n div 10) @ [digit_char (n mod 10)]" "n < 10 \<Longrightarrow> str_nat n = [digit_char n]"
  by (subst str_nat.simps, simp)+

lemma oe_message_text [simp]: "oe_get_message (operational_event_of k) = Inr (operational_text k)"
  by (cases k) (simp_all add: oe_get_message_def py_format_def format_field_def is_digit_def str_int_def
      str_nat_unfold digit_chars)

lemma ar_message_text [simp]: "ar_get_message (audit_record_of src a) = Inr (audit_text a)"
  by (cases a) (simp_all add: ar_get_message_def py_format_def format_field_def is_digit_def str_int_def
      str_nat_unfold digit_chars)

text \<open>
  No operational event and no audit record fails to produce its message, and every parameter
  appears in it as it is: the name of a dataset or the text of an error is never read as a format.
\<close>

theorem event_messages:
  "oe_get_message (operational_event_of k) = Inr (operational_text k) \<and>
   ar_get_message (audit_record_of src a) = Inr (audit_text a)"
  by simp

end
