(* ===== verification/Scheduler.thy ===== *)
theory Scheduler
  imports Kube_Client "HOL-Library.Multiset"
begin

text \<open>
  The pod scheduler of the Spark frontend (\<^verbatim>\<open>webhooks/scheduler\<close>): the constraint
  enforcers and their factory, the node checks, and the choice of a node. The contract of the
  abstract class \<^verbatim>\<open>ConstraintEnforcer\<close> is the locale \<open>enforcer_contract\<close>.
\<close>

section \<open>Definitions\<close>

datatype enforcer = PodCountConstraint (max_pods: int)

definition create_enforcer :: "string \<Rightarrow> string \<Rightarrow> enforcer res" where
  "create_enforcer constraint_type constraint_value =
    (if constraint_type = ''POD_COUNT'' then
       (case bind_res (py_int constraint_value) (\<lambda>m.
               if m \<le> 0 then Inl (ValueError (''POD_COUNT must be positive, got '' @ str_int m)) else Inr m) of
          Inr m \<Rightarrow> Inr (PodCountConstraint m)
        | Inl (ValueError _) \<Rightarrow> Inl (ValueError (''Invalid POD_COUNT value '' @ [CHR 0x27] @ constraint_value
            @ [CHR 0x27] @ '': must be a positive integer''))
        | Inl e \<Rightarrow> Inl e)
     else Inl (ValueError (''Unknown constraint type: '' @ constraint_type)))"

fun create_enforcers :: "(string, string) dict \<Rightarrow> enforcer list res" where
  "create_enforcers [] = Inr []"
| "create_enforcers ((t, v) # cs) =
    (case create_enforcer t v of
       Inr e \<Rightarrow> bind_res (create_enforcers cs) (\<lambda>es. Inr (e # es))
     | Inl (ValueError _) \<Rightarrow> create_enforcers cs
     | Inl e \<Rightarrow> Inl e)"

definition node_name_of :: "node \<Rightarrow> json" where
  "node_name_of n = (case node_metadata n of None \<Rightarrow> JStr ''unknown'' | Some m \<Rightarrow> om_name m)"

text \<open>The loop of \<^verbatim>\<open>rank_nodes\<close>; a node whose pods cannot be listed is passed over.\<close>

fun node_pod_counts :: "'s kube_api \<Rightarrow> int \<Rightarrow> node list \<Rightarrow> ('s, (node \<times> nat) list) op" where
  "node_pod_counts K m [] = return_op []"
| "node_pod_counts K m (n # ns) =
    (\<lambda>s. case list_pods_on_node K (json_str (node_name_of n)) True s of
       (Inl e, s') \<Rightarrow> node_pod_counts K m ns s'
     | (Inr pods, s') \<Rightarrow>
         bind_op (node_pod_counts K m ns) (\<lambda>r.
           return_op (if int (length pods) < m then (n, length pods) # r else r)) s')"

fun rank_nodes :: "'s kube_api \<Rightarrow> enforcer \<Rightarrow> node list \<Rightarrow> ('s, node list) op" where
  "rank_nodes K (PodCountConstraint m) nodes =
    bind_op (node_pod_counts K m nodes) (\<lambda>cs. return_op (map fst (sort_key snd cs)))"

definition is_node_schedulable :: "node \<Rightarrow> bool" where
  "is_node_schedulable n \<longleftrightarrow>
    \<not> (case node_spec_of n of None \<Rightarrow> False | Some sp \<Rightarrow> ns_unschedulable sp = Some True) \<and>
    \<not> (case node_spec_of n of None \<Rightarrow> False
        | Some sp \<Rightarrow> (case ns_taints sp of None \<Rightarrow> False
            | Some ts \<Rightarrow> list_ex (\<lambda>t. taint_effect t \<in> set [''NoExecute'']) ts)) \<and>
    \<not> (case node_conditions n of Some (Some cs) \<Rightarrow>
          list_ex (\<lambda>c. nc_type c = ''Ready'' \<and> nc_status c \<noteq> ''True'') cs
        | _ \<Rightarrow> False)"

fun apply_enforcers :: "'s kube_api \<Rightarrow> enforcer list \<Rightarrow> node list \<Rightarrow> ('s, node list) op" where
  "apply_enforcers K [] nodes = return_op nodes"
| "apply_enforcers K (e # es) nodes =
    bind_op (rank_nodes K e nodes) (\<lambda>ranked.
      if ranked = [] then return_op [] else apply_enforcers K es ranked)"

text \<open>\<^verbatim>\<open>None\<close> is \<open>JNull\<close>.\<close>

definition select_node :: "'s kube_api \<Rightarrow> (string, string) dict \<Rightarrow> enforcer list \<Rightarrow> ('s, json) op" where
  "select_node K node_selector enforcers =
    bind_op (list_nodes K node_selector) (\<lambda>nodes.
    let schedulable = filter is_node_schedulable nodes
    in if schedulable = [] then return_op JNull
       else bind_op (apply_enforcers K enforcers schedulable) (\<lambda>ranked.
         return_op (case ranked of [] \<Rightarrow> JNull | n # _ \<Rightarrow> node_name_of n)))"

section \<open>The contract of a constraint enforcer\<close>

text \<open>
  Ranking never raises, and it filters and reorders: every node it returns is one of the given
  nodes, no node appears more often than it was given.
\<close>

locale enforcer_contract =
  fixes rank :: "node list \<Rightarrow> ('s, node list) op"
  assumes rank_returns: "\<exists>r s'. rank nodes s = (Inr r, s')"
    and rank_filters: "rank nodes s = (Inr r, s') \<Longrightarrow> mset r \<subseteq># mset nodes"
begin

lemma rank_members: "rank nodes s = (Inr r, s') \<Longrightarrow> set r \<subseteq> set nodes"
  using set_mset_mono [OF rank_filters] by simp

lemma rank_empty: "\<exists>s'. rank [] s = (Inr [], s')"
proof -
  obtain r s' where r: "rank [] s = (Inr r, s')" using rank_returns by blast
  from rank_filters [OF r] r show ?thesis by simp
qed

end

lemma node_pod_counts_returns: "\<exists>r s'. node_pod_counts K m nodes s = (Inr r, s')"
proof (induction nodes arbitrary: s)
  case Nil
  then show ?case by simp
next
  case (Cons n nodes)
  obtain x s1 where x: "list_pods_on_node K (json_str (node_name_of n)) True s = (x, s1)" by fastforce
  obtain r s2 where "node_pod_counts K m nodes s1 = (Inr r, s2)" using Cons by blast
  with x show ?case by (cases x) (auto simp: bind_op_def)
qed

lemma node_pod_counts_filters:
  "node_pod_counts K m nodes s = (Inr r, s') \<Longrightarrow> mset (map fst r) \<subseteq># mset nodes"
proof (induction nodes arbitrary: s r s')
  case Nil
  then show ?case by simp
next
  case (Cons n nodes)
  obtain x s1 where x: "list_pods_on_node K (json_str (node_name_of n)) True s = (x, s1)" by fastforce
  obtain r1 s2 where r1: "node_pod_counts K m nodes s1 = (Inr r1, s2)"
    using node_pod_counts_returns [of K m nodes s1] by blast
  have "r = r1 \<or> (\<exists>k. r = (n, k) # r1)"
    using Cons.prems x r1 by (cases x) (auto simp: bind_op_def)
  moreover have "mset (map fst r1) \<subseteq># add_mset n (mset nodes)"
    using Cons.IH [OF r1] by (rule subset_mset.order_trans) simp
  ultimately show ?case using Cons.IH [OF r1] by auto
qed

interpretation pcc: enforcer_contract "rank_nodes K e"
  for K :: "'s kube_api" and e :: enforcer
proof
  fix nodes :: "node list" and s :: 's
  obtain m where e: "e = PodCountConstraint m" by (cases e)
  show "\<exists>r s'. rank_nodes K e nodes s = (Inr r, s')"
  proof -
    obtain cs t where "node_pod_counts K m nodes s = (Inr cs, t)"
      using node_pod_counts_returns [of K m nodes s] by auto
    then have "rank_nodes K e nodes s = (Inr (map fst (sort_key snd cs)), t)"
      by (simp add: e bind_op_Inr)
    then show ?thesis by blast
  qed
  fix r s'
  assume r: "rank_nodes K e nodes s = (Inr r, s')"
  then obtain cs where cs: "node_pod_counts K m nodes s = (Inr cs, s')" "r = map fst (sort_key snd cs)"
    by (auto simp: e bind_op_Inr_iff)
  then show "mset r \<subseteq># mset nodes"
    using node_pod_counts_filters [OF cs(1)] by simp
qed

lemma apply_enforcers_returns:
  "\<exists>r s'. apply_enforcers K es nodes s = (Inr r, s') \<and> set r \<subseteq> set nodes"
proof (induction es arbitrary: nodes s)
  case Nil
  then show ?case by simp
next
  case (Cons e es)
  obtain r1 s1 where r1: "rank_nodes K e nodes s = (Inr r1, s1)"
    using pcc.rank_returns [of K e nodes s] by auto
  obtain r2 s2 where "apply_enforcers K es r1 s1 = (Inr r2, s2)" "set r2 \<subseteq> set r1"
    using Cons [of r1 s1] by auto
  with r1 pcc.rank_members [OF r1] show ?case by (auto simp: bind_op_def)
qed

section \<open>The choice of a node\<close>

text \<open>
  \<open>R\<close> gives the answer of the pod listing for every selector. The active pods of a node, when
  they can be listed, and the nodes below the limit with their counts.
\<close>

definition active_count :: "(string \<Rightarrow> pod list option res) \<Rightarrow> node \<Rightarrow> nat option" where
  "active_count R n =
    (case R (''spec.nodeName='' @ json_str (node_name_of n)) of
       Inl _ \<Rightarrow> None
     | Inr ps \<Rightarrow> Some (length (filter
         (\<lambda>p. case pod_phase p of Some (Some ph) \<Rightarrow> ph \<in> {''Pending'', ''Running''} | _ \<Rightarrow> False)
         (case ps of None \<Rightarrow> [] | Some xs \<Rightarrow> xs))))"

definition below_limit :: "(string \<Rightarrow> pod list option res) \<Rightarrow> int \<Rightarrow> node \<Rightarrow> bool" where
  "below_limit R m n = (case active_count R n of None \<Rightarrow> False | Some c \<Rightarrow> int c < m)"

lemma node_pod_counts_stable:
  assumes "\<And>q s. pod_list K q s = (R q, s)"
  shows "node_pod_counts K m nodes s =
    (Inr (map (\<lambda>n. (n, the (active_count R n))) (filter (below_limit R m) nodes)), s)"
proof (induction nodes arbitrary: s)
  case Nil
  then show ?case by simp
next
  case (Cons n nodes)
  let ?q = "''spec.nodeName='' @ json_str (node_name_of n)"
  show ?case
  proof (cases "R ?q")
    case (Inl e)
    then have "list_pods_on_node K (json_str (node_name_of n)) True s = (Inl e, s)"
      using assms by (simp add: list_pods_on_node_def bind_op_def)
    moreover from Inl have "\<not> below_limit R m n" by (simp add: below_limit_def active_count_def)
    ultimately show ?thesis using Cons by simp
  next
    case (Inr ps)
    then obtain pods where "list_pods_on_node K (json_str (node_name_of n)) True s = (Inr pods, s)"
      and c: "active_count R n = Some (length pods)"
      using assms by (simp add: list_pods_on_node_def bind_op_def active_count_def)
    with Cons show ?thesis by (simp add: bind_op_def below_limit_def)
  qed
qed

lemma rank_nodes_stable:
  assumes "\<And>q s. pod_list K q s = (R q, s)"
  shows "rank_nodes K (PodCountConstraint m) nodes s =
    (Inr (sort_key (\<lambda>n. the (active_count R n)) (filter (below_limit R m) nodes)), s)"
proof -
  have "map fst (sort_key snd (map (\<lambda>n. (n, f n)) xs)) = sort_key f xs" for f :: "node \<Rightarrow> nat" and xs
  proof -
    have ins: "insort_key snd (x, f x) (map (\<lambda>n. (n, f n)) ys) = map (\<lambda>n. (n, f n)) (insort_key f x ys)"
      for x ys by (induction ys) auto
    have "sort_key snd (map (\<lambda>n. (n, f n)) xs) = map (\<lambda>n. (n, f n)) (sort_key f xs)"
      by (induction xs) (simp_all add: ins)
    then show ?thesis by (simp add: comp_def)
  qed
  with node_pod_counts_stable [OF assms] show ?thesis
    by (simp add: bind_op_def)
qed

lemma hd_sort_key_min:
  assumes "xs \<noteq> []"
  shows "hd (sort_key f xs) \<in> set xs" and "\<forall>y \<in> set xs. f (hd (sort_key f xs)) \<le> f y"
proof -
  from assms have "sort_key f xs \<noteq> []" by (metis length_0_conv length_sort)
  then obtain z zs where z: "sort_key f xs = z # zs" by (cases "sort_key f xs") auto
  have "set (sort_key f xs) = set xs" by simp
  with z show "hd (sort_key f xs) \<in> set xs" by auto
  have "sorted (map f (sort_key f xs))" by simp
  with z have "\<forall>y \<in> set (z # zs). f z \<le> f y" by auto
  with z \<open>set (sort_key f xs) = set xs\<close> show "\<forall>y \<in> set xs. f (hd (sort_key f xs)) \<le> f y" by simp
qed

lemma create_enforcer_positive: "create_enforcer t v = Inr e \<Longrightarrow> 0 < max_pods e"
  by (cases "py_int v") (auto simp: create_enforcer_def split: if_splits exc.splits)

section \<open>Properties\<close>

text \<open>
  C19. The scheduler places a pod on a least loaded eligible node: under a pod count limit, and with
  the pod listings answering \<open>R\<close>, it picks a schedulable node whose active pods could be listed
  and are below the limit, and no such node has fewer; it picks none only when there is none.
\<close>

theorem select_node_least_loaded:
  assumes "\<And>q s. pod_list K q s = (R q, s)"
    and "node_list K (str_join '','' (map (\<lambda>(k, v). k @ ''='' @ v) sel)) s = (Inr (Some N), t)"
  shows "case filter (\<lambda>n. is_node_schedulable n \<and> below_limit R m n) N of
      [] \<Rightarrow> select_node K sel [PodCountConstraint m] s = (Inr JNull, t)
    | cands \<Rightarrow> \<exists>n \<in> set cands. select_node K sel [PodCountConstraint m] s = (Inr (node_name_of n), t) \<and>
        (\<forall>n' \<in> set cands. the (active_count R n) \<le> the (active_count R n'))"
proof -
  let ?S = "filter is_node_schedulable N"
  let ?C = "filter (below_limit R m) ?S"
  let ?f = "\<lambda>n. the (active_count R n)"
  have C: "filter (\<lambda>n. is_node_schedulable n \<and> below_limit R m n) N = ?C"
    by (auto simp: conj_commute)
  have sel: "select_node K sel [PodCountConstraint m] s =
      (Inr (case sort_key ?f ?C of [] \<Rightarrow> JNull | n # _ \<Rightarrow> node_name_of n), t)"
  proof (cases "?S = []")
    case True
    with assms(2) show ?thesis by (simp add: select_node_def list_nodes_def bind_op_def)
  next
    case False
    with assms(2) rank_nodes_stable [OF assms(1), of m ?S t] show ?thesis
      by (simp add: select_node_def list_nodes_def bind_op_def Let_def del: rank_nodes.simps)
  qed
  show ?thesis
  proof (cases "?C = []")
    case True
    with sel show ?thesis unfolding C by simp
  next
    case False
    then obtain c cs where c: "?C = c # cs" by (cases ?C) auto
    from False have "sort_key ?f ?C \<noteq> []" by (metis length_0_conv length_sort)
    then have "select_node K sel [PodCountConstraint m] s = (Inr (node_name_of (hd (sort_key ?f ?C))), t)"
      using sel by (auto split: list.splits)
    with hd_sort_key_min [OF False, of ?f] show ?thesis
      unfolding C c by (auto simp only: list.case c)
  qed
qed

definition sample_node :: "string \<Rightarrow> node" where
  "sample_node n =
    \<lparr>node_metadata = Some \<lparr>om_name = JStr n, om_namespace = JNull, om_creation_timestamp = JNull,
       om_labels = JNull, om_annotations = JNull, om_uid = JNull, om_resource_version = JNull,
       om_generation = JNull\<rparr>,
     node_spec_of = None, node_conditions = None\<rparr>"

definition sample_cluster :: kstate where
  "sample_cluster =
    \<lparr>ks_config_maps = [], ks_objects = [], ks_events = [],
     ks_nodes = [sample_node ''n1'', sample_node ''n2''],
     ks_pods = [(''spec.nodeName=n1'', [\<lparr>pod_name = ''p'', pod_phase = Some (Some ''Running'')\<rparr>])],
     ks_clock = 0\<rparr>"

text \<open>The cluster in memory with the pods of \<open>sample_cluster\<close>, whatever happens to its state.\<close>

definition fixed_pods_kube :: "kstate kube_api" where
  "fixed_pods_kube = mem_kube\<lparr>pod_list := (\<lambda>q s. (Inr (map_of (ks_pods sample_cluster) q), s))\<rparr>"

theorem select_node_least_loaded_witness:
  "select_node fixed_pods_kube [] [PodCountConstraint 25] sample_cluster = (Inr (JStr ''n2''), sample_cluster)"
proof -
  let ?R = "\<lambda>q. Inr (map_of (ks_pods sample_cluster) q)"
  have "case filter (\<lambda>n. is_node_schedulable n \<and> below_limit ?R 25 n) (ks_nodes sample_cluster) of
      [] \<Rightarrow> select_node fixed_pods_kube [] [PodCountConstraint 25] sample_cluster = (Inr JNull, sample_cluster)
    | cands \<Rightarrow> \<exists>n \<in> set cands.
        select_node fixed_pods_kube [] [PodCountConstraint 25] sample_cluster = (Inr (node_name_of n), sample_cluster) \<and>
        (\<forall>n' \<in> set cands. the (active_count ?R n) \<le> the (active_count ?R n'))"
    by (rule select_node_least_loaded) (simp_all add: fixed_pods_kube_def mem_kube_def)
  moreover have "filter (\<lambda>n. is_node_schedulable n \<and> below_limit ?R 25 n) (ks_nodes sample_cluster) =
      [sample_node ''n1'', sample_node ''n2'']"
    by code_simp
  moreover have "active_count ?R (sample_node ''n1'') = Some 1" "active_count ?R (sample_node ''n2'') = Some 0"
    "node_name_of (sample_node ''n2'') = JStr ''n2''"
    by code_simp+
  ultimately show ?thesis by auto
qed

text \<open>
  The factory: a limit written in decimal becomes that limit, every limit it creates is
  positive, and creating the enforcers of a configuration never raises.
\<close>

theorem create_enforcers_limits:
  "(\<exists>es. create_enforcers cs = Inr es \<and> list_all (\<lambda>e. 0 < max_pods e) es) \<and>
   create_enforcers [(''POD_COUNT'', str_nat (Suc n))] = Inr [PodCountConstraint (int (Suc n))]"
proof
  show "\<exists>es. create_enforcers cs = Inr es \<and> list_all (\<lambda>e. 0 < max_pods e) es"
  proof (induction cs)
    case Nil
    then show ?case by simp
  next
    case (Cons c cs)
    obtain t v where c: "c = (t, v)" by (cases c)
    have "(\<exists>e. create_enforcer t v = Inr e) \<or> (\<exists>m. create_enforcer t v = Inl (ValueError m))"
      by (auto simp: create_enforcer_def py_int_def Let_def split: option.splits if_splits)
    with Cons show ?case by (auto simp: c dest: create_enforcer_positive)
  qed
  show "create_enforcers [(''POD_COUNT'', str_nat (Suc n))] = Inr [PodCountConstraint (int (Suc n))]"
    by (simp add: create_enforcer_def py_int_str_nat)
qed

end
