(* ===== verification/Webhooks.thy ===== *)
theory Webhooks
  imports Scheduler
begin

text \<open>
  The admission webhooks of the Spark frontend (\<^verbatim>\<open>webhooks/base_webhook_handler.py\<close>,
  \<^verbatim>\<open>webhooks/scheduler/webhook_handler.py\<close>,
  \<^verbatim>\<open>webhooks/cce_policy_injector\<close>). The base class calls the abstract
  \<^verbatim>\<open>_handle_request\<close>; its contract is the locale \<open>pod_handler\<close>, interpreted for
  both subclasses. \<open>exc_str\<close> is \<^verbatim>\<open>str\<close> of an exception.
\<close>

section \<open>The base handler\<close>

type_synonym 's handler = "json \<Rightarrow> json \<Rightarrow> json \<Rightarrow> ('s, bool \<times> string \<times> string option) op"

text \<open>Base64 text is ASCII, decoding it as UTF-8 returns it unchanged.\<close>

definition create_admission_response :: "json \<Rightarrow> bool \<Rightarrow> string \<Rightarrow> string option \<Rightarrow> json" where
  "create_admission_response uid allowed message patch =
    JObj [(''apiVersion'', JStr ''admission.k8s.io/v1''),
          (''kind'', JStr ''AdmissionReview''),
          (''response'', JObj ([(''uid'', uid), (''allowed'', JBool allowed)] @
             (if \<not> allowed then
                [(''status'', JObj [(''code'', JInt (if \<not> allowed then 400 else 200)), (''message'', JStr message)])]
              else (case patch of
                  None \<Rightarrow> []
                | Some p \<Rightarrow> if p = [] then []
                    else [(''patchType'', JStr ''JSONPatch''), (''patch'', JStr (b64encode (utf8_encode p)))]))))]"

definition handle_request :: "(exc \<Rightarrow> string) \<Rightarrow> 's handler \<Rightarrow> json \<Rightarrow> ('s, json) op" where
  "handle_request exc_str handler admission_request =
    bind_op (lift_res (json_get admission_request ''request'' (JObj []))) (\<lambda>req.
    bind_op (lift_res (json_get req ''uid'' (JStr ''unknown''))) (\<lambda>uid.
    bind_op (lift_res (json_get req ''object'' (JObj []))) (\<lambda>pod.
    if \<not> json_truthy pod then
      return_op (create_admission_response uid False
        ''Pod object is missing in the admission request.'' None)
    else
      bind_op (lift_res (json_get pod ''metadata'' (JObj []))) (\<lambda>md.
      bind_op (lift_res (json_get md ''name'' (JStr ''unknown''))) (\<lambda>pname.
      bind_op (lift_res (json_get md ''namespace'' (JStr ''default''))) (\<lambda>ns.
      catch_op
        (bind_op (handler pname ns pod) (\<lambda>(allowed, message, patch).
         return_op (create_admission_response uid allowed message patch)))
        (\<lambda>e. return_op (create_admission_response uid False (''Internal error: '' @ exc_str e) None))))))))"

section \<open>The scheduler webhook\<close>

definition scheduler_handle_request ::
  "(exc \<Rightarrow> string) \<Rightarrow> 's kube_api \<Rightarrow> (string, string) dict \<Rightarrow> enforcer list \<Rightarrow> 's handler" where
  "scheduler_handle_request exc_str K selector enforcers pname ns pod =
    bind_op (lift_res (json_get pod ''spec'' (JObj []))) (\<lambda>pod_spec.
    bind_op (lift_res (json_get pod_spec ''nodeName'' JNull)) (\<lambda>node_name.
    if json_truthy node_name then return_op (True, ''Pod already has nodeName assigned'', None)
    else (\<lambda>s. case select_node K selector enforcers s of
        (Inl e, s') \<Rightarrow> (Inr (False, ''Internal error while selecting node: '' @ exc_str e, None), s')
      | (Inr selected, s') \<Rightarrow>
          if \<not> json_truthy selected then (Inr (False, ''No nodes available with capacity.'', None), s')
          else (Inr (True, ''Pod assigned to node '' @ json_str selected,
                 Some (json_dumps (JArr [JObj [(''op'', JStr ''add''), (''path'', JStr ''/spec/nodeName''),
                   (''value'', selected)]]))), s'))))"

section \<open>The policy injector webhook\<close>

definition get_policy_from_config_map ::
  "'s kube_api \<Rightarrow> string \<Rightarrow> string \<Rightarrow> string \<Rightarrow> ('s, string option) op" where
  "get_policy_from_config_map K name ns key = get_key_from_config_map K name ns key"

text \<open>The body of the \<^verbatim>\<open>try\<close> block.\<close>

definition inject_policy ::
  "'s kube_api \<Rightarrow> string \<Rightarrow> string \<Rightarrow> json \<Rightarrow> json \<Rightarrow> json \<Rightarrow> ('s, bool \<times> string \<times> string option) op" where
  "inject_policy K policy_key name_label pname map_base64 pod_labels =
    bind_op (lift_res (json_b64decode map_base64)) (\<lambda>bytes.
    bind_op (lift_res (utf8_decode bytes)) (\<lambda>doc.
    bind_op (lift_res (json_loads doc)) (\<lambda>policy_map.
    bind_op (lift_res (json_get policy_map ''name'' JNull)) (\<lambda>map_name.
    bind_op (lift_res (json_get policy_map ''namespace'' JNull)) (\<lambda>map_ns.
    if \<not> json_truthy map_name \<or> \<not> json_truthy map_ns then
      return_op (False, ''ConfigMap information is incomplete: '' @ json_dumps policy_map @ ''.'', None)
    else
      bind_op (get_policy_from_config_map K (json_str map_name) (json_str map_ns) policy_key) (\<lambda>policy.
      case policy of
        None \<Rightarrow> return_op (False, ''ConfigMap '' @ json_str map_name @ '' in namespace '' @ json_str map_ns
            @ '' does not contain '' @ [CHR 0x27] @ policy_key @ [CHR 0x27] @ '' key.'', None)
      | Some pol \<Rightarrow>
          if pol = [] then return_op (False, ''ConfigMap '' @ json_str map_name @ '' in namespace ''
            @ json_str map_ns @ '' does not contain '' @ [CHR 0x27] @ policy_key @ [CHR 0x27] @ '' key.'', None)
          else
            bind_op (lift_res (json_get pod_labels name_label JNull)) (\<lambda>annotation_name.
            if \<not> json_truthy annotation_name then
              return_op (False, ''Pod does not have '' @ [CHR 0x27] @ name_label @ [CHR 0x27] @ '' label.'', None)
            else
              return_op (True, ''Policy injected into pod '' @ json_str pname,
                Some (json_dumps (JArr [JObj
                  [(''op'', JStr ''add''),
                   (''path'', JStr (''/metadata/annotations/'' @ json_str annotation_name)),
                   (''value'', JStr pol)]])))))))))) "

definition policy_handle_request ::
  "(exc \<Rightarrow> string) \<Rightarrow> 's kube_api \<Rightarrow> string \<Rightarrow> string \<Rightarrow> string \<Rightarrow> 's handler" where
  "policy_handle_request exc_str K map_annotation policy_key name_label pname ns pod =
    bind_op (lift_res (json_get pod ''metadata'' (JObj []))) (\<lambda>md.
    bind_op (lift_res (json_get md ''labels'' (JObj []))) (\<lambda>pod_labels.
    bind_op (lift_res (json_get md ''annotations'' (JObj []))) (\<lambda>pod_annotations.
    bind_op (lift_res (json_get pod_annotations map_annotation JNull)) (\<lambda>map_base64.
    if \<not> json_truthy map_base64 then
      return_op (False, ''Pod does not have '' @ [CHR 0x27] @ map_annotation @ [CHR 0x27] @ '' annotation.'', None)
    else
      catch_op (inject_policy K policy_key name_label pname map_base64 pod_labels) (\<lambda>e.
        return_op (False,
          (case e of ApiException _ _ \<Rightarrow> ''Failed to mutate resource. Error: ''
           | _ \<Rightarrow> ''Internal error during mutation: '') @ exc_str e, None))))))"

section \<open>The contract of a handler\<close>

text \<open>A patch goes with an admission and is the text of one JSON patch operation that adds a value.\<close>

definition add_patch :: "string \<Rightarrow> json \<Rightarrow> json" where
  "add_patch path v = JArr [JObj [(''op'', JStr ''add''), (''path'', JStr path), (''value'', v)]]"

text \<open>What the API server reads from a response: admitted or not, and the patch.\<close>

definition response_allowed :: "json \<Rightarrow> bool" where
  "response_allowed r =
    (bind_res (json_item r ''response'') (\<lambda>x. json_item x ''allowed'') = Inr (JBool True))"

definition response_patch :: "json \<Rightarrow> json option res" where
  "response_patch r =
    bind_res (json_item r ''response'') (\<lambda>x.
    (case json_item x ''patch'' of
       Inl _ \<Rightarrow> Inr None
     | Inr p \<Rightarrow> bind_res (json_b64decode p) (\<lambda>b. bind_res (utf8_decode b) (\<lambda>t.
         bind_res (json_loads t) (\<lambda>j. Inr (Some j))))))"

lemma create_admission_response_denied [simp]:
  "response_allowed (create_admission_response uid a m p) = a"
  by (simp add: response_allowed_def create_admission_response_def)

lemma response_patch_simps [simp]:
  "response_patch (create_admission_response uid True m None) = Inr None"
  "response_patch (create_admission_response uid False m p) = Inr None"
  "json_wf j \<Longrightarrow> response_patch (create_admission_response uid True m (Some (json_dumps j))) = Inr (Some j)"
  by (simp_all add: response_patch_def create_admission_response_def)

locale pod_handler =
  fixes handler :: "'s handler"
  assumes patch_admits:
    "handler n ns pd s = (Inr (a, m, Some p), s') \<Longrightarrow> a \<and> (\<exists>path v. p = json_dumps (add_patch path v))"
begin

text \<open>An admission comes from the handler: an error of the handler, or a missing pod, denies.\<close>

lemma admitted_by_handler:
  assumes "handle_request es handler req s = (Inr r, s')" and "response_allowed r"
  obtains pn ns pd rq m p uid where
    "json_get req ''request'' (JObj []) = Inr rq" and "json_get rq ''object'' (JObj []) = Inr pd"
    and "handler pn ns pd s = (Inr (True, m, p), s')"
    and "r = create_admission_response uid True m p"
proof -
  obtain rq uid pd where rq: "json_get req ''request'' (JObj []) = Inr rq"
    "json_get rq ''uid'' (JStr ''unknown'') = Inr uid" "json_get rq ''object'' (JObj []) = Inr pd"
    using assms(1) by (auto simp: handle_request_def bind_op_Inr_iff)
  show ?thesis
  proof (cases "json_truthy pd")
    case False
    with assms rq show ?thesis by (auto simp: handle_request_def bind_op_Inr_iff)
  next
    case True
    obtain md pn ns where md: "json_get pd ''metadata'' (JObj []) = Inr md"
      "json_get md ''name'' (JStr ''unknown'') = Inr pn" "json_get md ''namespace'' (JStr ''default'') = Inr ns"
      using assms(1) rq True by (auto simp: handle_request_def bind_op_Inr_iff)
    obtain x t where x: "handler pn ns pd s = (x, t)" by fastforce
    show ?thesis
    proof (cases x)
      case (Inl e)
      with assms rq True md x show ?thesis
        by (auto simp: handle_request_def bind_op_def catch_op_def)
    next
      case (Inr y)
      obtain a m p where y: "y = (a, m, p)" by (cases y)
      from assms rq True md x Inr y have "r = create_admission_response uid a m p" "t = s'"
        by (auto simp: handle_request_def bind_op_def catch_op_def)
      with assms(2) x Inr y have "handler pn ns pd s = (Inr (True, m, p), s')"
        "r = create_admission_response uid True m p" by auto
      with rq(1,3) that show ?thesis by blast
    qed
  qed
qed

lemma denied_without_patch:
  assumes "handle_request es handler req s = (Inr r, s')"
  shows "response_allowed r \<or> response_patch r = Inr None"
  using assms
  by (auto simp: handle_request_def bind_op_Inr_iff catch_op_def bind_op_def split: prod.splits sum.splits if_splits)
    (metis (full_types) response_patch_simps(2))+

end

interpretation sched: pod_handler "scheduler_handle_request es K sel enf"
  for es :: "exc \<Rightarrow> string" and K :: "'s kube_api" and sel enf
proof
  fix n ns pd s a m p s'
  assume "scheduler_handle_request es K sel enf n ns pd s = (Inr (a, m, Some p), s')"
  then show "a \<and> (\<exists>path v. p = json_dumps (add_patch path v))"
    by (auto simp: scheduler_handle_request_def bind_op_Inr_iff add_patch_def
        split: if_splits prod.splits sum.splits)
qed

lemma inject_policy_result:
  assumes "inject_policy K key lbl pn b64 lbls s = (Inr (a, m, p), s')" and "a \<or> p \<noteq> None"
  obtains b t mp mn mns pol an where
    "json_b64decode b64 = Inr b" and "utf8_decode b = Inr t" and "json_loads t = Inr mp"
    and "json_get mp ''name'' JNull = Inr mn" and "json_get mp ''namespace'' JNull = Inr mns"
    and "get_key_from_config_map K (json_str mn) (json_str mns) key s = (Inr (Some pol), s')"
    and "pol \<noteq> []" and "json_get lbls lbl JNull = Inr an" and "json_truthy an" and "a"
    and "p = Some (json_dumps (add_patch (''/metadata/annotations/'' @ json_str an) (JStr pol)))"
  using assms
  by (auto simp: inject_policy_def bind_op_Inr_iff get_policy_from_config_map_def add_patch_def
      split: if_splits option.splits)

lemma policy_handle_request_result:
  assumes "policy_handle_request es K ann key lbl pn ns pd s = (Inr (a, m, p), s')" and "a \<or> p \<noteq> None"
  obtains md lbls anns b64 where
    "json_get pd ''metadata'' (JObj []) = Inr md" and "json_get md ''labels'' (JObj []) = Inr lbls"
    and "json_get md ''annotations'' (JObj []) = Inr anns" and "json_get anns ann JNull = Inr b64"
    and "inject_policy K key lbl pn b64 lbls s = (Inr (a, m, p), s')"
proof -
  obtain md lbls anns b64 where md: "json_get pd ''metadata'' (JObj []) = Inr md"
    "json_get md ''labels'' (JObj []) = Inr lbls" "json_get md ''annotations'' (JObj []) = Inr anns"
    "json_get anns ann JNull = Inr b64" "json_truthy b64"
    using assms by (auto simp: policy_handle_request_def bind_op_Inr_iff split: if_splits)
  have "inject_policy K key lbl pn b64 lbls s = (Inr (a, m, p), s')"
    using assms md
    by (auto simp: policy_handle_request_def bind_op_def catch_op_def split: prod.splits sum.splits)
  with md that show ?thesis by blast
qed

interpretation inj: pod_handler "policy_handle_request es K ann key lbl"
  for es :: "exc \<Rightarrow> string" and K :: "'s kube_api" and ann key lbl
proof
  fix n ns pd s a m p s'
  assume h: "policy_handle_request es K ann key lbl n ns pd s = (Inr (a, m, Some p), s')"
  have "a \<or> Some p \<noteq> None" by simp
  then obtain b64 lbls where "inject_policy K key lbl n b64 lbls s = (Inr (a, m, Some p), s')"
    using policy_handle_request_result [OF h] by metis
  then show "a \<and> (\<exists>path v. p = json_dumps (add_patch path v))"
    using inject_policy_result [of K key lbl n b64 lbls s a m "Some p" s'] by blast
qed

section \<open>Properties\<close>

text \<open>The reference to a config map that a pod carries in an annotation.\<close>

definition pod_config_map_ref :: "string \<Rightarrow> json \<Rightarrow> (string \<times> string) res" where
  "pod_config_map_ref ann pd =
    bind_res (json_get pd ''metadata'' (JObj [])) (\<lambda>md.
    bind_res (json_get md ''annotations'' (JObj [])) (\<lambda>anns.
    bind_res (json_get anns ann JNull) (\<lambda>b64.
    bind_res (json_b64decode b64) (\<lambda>b.
    bind_res (utf8_decode b) (\<lambda>t.
    bind_res (json_loads t) (\<lambda>mp.
    bind_res (json_get mp ''name'' JNull) (\<lambda>n.
    bind_res (json_get mp ''namespace'' JNull) (\<lambda>ns.
    Inr (json_str ns, json_str n)))))))))"

text \<open>
  C2. The policy injector fails closed: whenever it admits a pod, the pod's annotation names a
  config map, the policy read from that config map is not empty, and the response carries exactly
  one patch operation, which adds that policy as an annotation. No pod is admitted without a policy.
\<close>

theorem policy_webhook_fail_closed:
  assumes "handle_request es (policy_handle_request es K ann key lbl) req s = (Inr r, s')"
    and "response_allowed r"
  shows "\<exists>rq pd ns n pol path.
    json_get req ''request'' (JObj []) = Inr rq \<and> json_get rq ''object'' (JObj []) = Inr pd \<and>
    pod_config_map_ref ann pd = Inr (ns, n) \<and>
    get_key_from_config_map K n ns key s = (Inr (Some pol), s') \<and> pol \<noteq> [] \<and>
    response_patch r = Inr (Some (add_patch (''/metadata/annotations/'' @ path) (JStr pol)))"
proof (rule inj.admitted_by_handler [OF assms])
  fix pn ns pd rq m p uid
  assume rq: "json_get req ''request'' (JObj []) = Inr rq" "json_get rq ''object'' (JObj []) = Inr pd"
    and h: "policy_handle_request es K ann key lbl pn ns pd s = (Inr (True, m, p), s')"
    and r: "r = create_admission_response uid True m p"
  obtain md lbls anns b64 where md: "json_get pd ''metadata'' (JObj []) = Inr md"
    "json_get md ''annotations'' (JObj []) = Inr anns" "json_get anns ann JNull = Inr b64"
    and i: "inject_policy K key lbl pn b64 lbls s = (Inr (True, m, p), s')"
    by (rule policy_handle_request_result [OF h]) auto
  show ?thesis
    by (rule inject_policy_result [OF i], simp)
      (use rq md r in \<open>auto simp: pod_config_map_ref_def add_patch_def\<close>)
qed

text \<open>A pod with a policy reference, and the config map it names.\<close>

definition sample_pod :: json where
  "sample_pod = JObj [(''metadata'', JObj
     [(''name'', JStr ''driver''),
      (''labels'', JObj [(''lbl'', JStr ''ccepolicy'')]),
      (''annotations'', JObj [(''ann'', JStr (b64encode (json_dumps (JObj
         [(''name'', JStr ''cm''), (''namespace'', JStr ''ns'')]))))])])]"

definition sample_request :: json where
  "sample_request = JObj [(''request'', JObj [(''uid'', JStr ''u1''), (''object'', sample_pod)])]"

definition policy_cluster :: kstate where
  "policy_cluster = sample_cluster\<lparr>ks_config_maps := [((''ns'', ''cm''),
     \<lparr>cm_name = ''cm'', cm_namespace = ''ns'', cm_labels = None, cm_data = Some [(''k'', ''cG9s'')]\<rparr>)]\<rparr>"

lemma sample_request_admitted:
  "\<exists>r. handle_request (\<lambda>_. []) (policy_handle_request (\<lambda>_. []) mem_kube ''ann'' ''k'' ''lbl'')
     sample_request policy_cluster = (Inr r, policy_cluster) \<and> response_allowed r"
  by (simp add: handle_request_def policy_handle_request_def inject_policy_def sample_request_def
      sample_pod_def bind_op_def catch_op_def get_policy_from_config_map_def get_key_from_config_map_def
      get_config_map_def mem_kube_def policy_cluster_def)

theorem policy_webhook_fail_closed_witness:
  "\<exists>r s' pol path.
    handle_request (\<lambda>_. []) (policy_handle_request (\<lambda>_. []) mem_kube ''ann'' ''k'' ''lbl'') sample_request
      policy_cluster = (Inr r, s') \<and>
    response_patch r = Inr (Some (add_patch (''/metadata/annotations/'' @ path) (JStr pol))) \<and> pol \<noteq> []"
proof -
  let ?h = "handle_request (\<lambda>_. []) (policy_handle_request (\<lambda>_. []) mem_kube ''ann'' ''k'' ''lbl'')
    sample_request policy_cluster"
  obtain r where h: "?h = (Inr r, policy_cluster)" and a: "response_allowed r"
    using sample_request_admitted by blast
  from policy_webhook_fail_closed [OF h a] h show ?thesis by blast
qed

text \<open>
  C32. The scheduler webhook admits a pod only if it already names a node or the response patches
  the pod with the node the scheduler selected.
\<close>

theorem scheduler_webhook_assigns_node:
  assumes "handle_request es (scheduler_handle_request es K sel enf) req s = (Inr r, s')"
    and "response_allowed r"
  shows "\<exists>rq pd spec nn.
    json_get req ''request'' (JObj []) = Inr rq \<and> json_get rq ''object'' (JObj []) = Inr pd \<and>
    json_get pd ''spec'' (JObj []) = Inr spec \<and> json_get spec ''nodeName'' JNull = Inr nn \<and>
    (json_truthy nn \<and> response_patch r = Inr None \<or>
     (\<exists>n uid m. select_node K sel enf s = (Inr n, s') \<and> json_truthy n \<and>
        r = create_admission_response uid True m (Some (json_dumps (add_patch ''/spec/nodeName'' n)))))"
proof (rule sched.admitted_by_handler [OF assms])
  fix pn ns pd rq m p uid
  assume "json_get req ''request'' (JObj []) = Inr rq" "json_get rq ''object'' (JObj []) = Inr pd"
    "scheduler_handle_request es K sel enf pn ns pd s = (Inr (True, m, p), s')"
    "r = create_admission_response uid True m p"
  then show ?thesis
    by (auto simp: scheduler_handle_request_def bind_op_Inr_iff add_patch_def
        split: if_splits prod.splits sum.splits)
qed

definition schedule_request :: json where
  "schedule_request = JObj [(''request'', JObj [(''object'', JObj [(''spec'', JObj [])])])]"

lemma schedule_request_admitted:
  "response_allowed (projr (fst (handle_request (\<lambda>_. [])
     (scheduler_handle_request (\<lambda>_. []) mem_kube [] [PodCountConstraint 25]) schedule_request sample_cluster)))"
  "\<not> isl (fst (handle_request (\<lambda>_. [])
     (scheduler_handle_request (\<lambda>_. []) mem_kube [] [PodCountConstraint 25]) schedule_request sample_cluster))"
  by code_simp+

theorem scheduler_webhook_assigns_node_witness:
  "\<exists>r s' n. handle_request (\<lambda>_. []) (scheduler_handle_request (\<lambda>_. []) mem_kube [] [PodCountConstraint 25])
      schedule_request sample_cluster = (Inr r, s') \<and>
    select_node mem_kube [] [PodCountConstraint 25] sample_cluster = (Inr n, s') \<and> json_truthy n"
proof -
  let ?h = "handle_request (\<lambda>_. []) (scheduler_handle_request (\<lambda>_. []) mem_kube [] [PodCountConstraint 25])
    schedule_request sample_cluster"
  obtain r s' where h: "?h = (Inr r, s')"
    using schedule_request_admitted(2) by (cases ?h; cases "fst ?h") auto
  with schedule_request_admitted(1) have "response_allowed r" by simp
  from scheduler_webhook_assigns_node [OF h this] h show ?thesis
    by (auto simp: schedule_request_def)
qed



end
