(* ===== verification/Frontend.thy ===== *)
theory Frontend
  imports Spark_Builder Contracts Webhooks
begin

text \<open>
  The analytics frontend service (\<^verbatim>\<open>cleanroom_spark_frontend/main.py\<close>) and its AI
  optimizer client (\<^verbatim>\<open>clients/ai_optimizer_client.py\<close>). The globals of the module are
  the fields of \<open>frontend\<close>, with the libraries the handlers call: the Kubernetes and job record
  clients' APIs, the clock, UUIDs, HTTP, the validation of statistics and optimizer replies, and the
  texts of exceptions and instants. A handler is an operation; an HTTP error is
  \<open>HTTPException\<close>. Metrics, logs, middleware and the server loop are left out.
\<close>

section \<open>State\<close>

record optimized_config =
  oc_driver_cores :: rat
  oc_driver_memory :: string
  oc_executor_cores :: rat
  oc_executor_memory :: string
  oc_executor_instances_min :: int
  oc_executor_instances_max :: int
  oc_reasoning :: "string option"

record ('s, 'd, 'f) frontend =
  fe_kube :: "'s kube_api"
  fe_resource :: spark_resource_settings
  fe_records :: "('s, 'd, 'f) jr_api"
  fe_floats :: "'f float_ops"
  fe_env :: "'s spark_env"
  fe_spark :: spark_config
  fe_telemetry :: telemetry_settings
  fe_optimizer_enabled :: bool
  fe_optimizer_endpoint :: string
  fe_service_name :: string
  fe_service_namespace :: string
  fe_str_exc :: "exc \<Rightarrow> string"
  fe_isoformat :: "int \<Rightarrow> string"
  fe_unix_time :: "('s, int) op"
  fe_uuid4 :: "('s, string) op"
  fe_parse_stats :: "string \<Rightarrow> 'f query_statistics res"
  fe_post :: "string \<Rightarrow> json \<Rightarrow> ('s, int \<times> json res) op" \<comment> \<open>status, \<^verbatim>\<open>response.json()\<close>\<close>
  fe_decode_optimizer :: "string \<Rightarrow> optimized_config res"

abbreviation fe_namespace :: "('s, 'd, 'f) frontend \<Rightarrow> string" where
  "fe_namespace F \<equiv> an_namespace (sc_analytics (fe_spark F))"

section \<open>The optimizer client\<close>

definition newline :: char where "newline = CHR 0x0A"
definition dquote :: string where "dquote = [quote_char]"
definition code_fence :: string where "code_fence = [CHR 0x60, CHR 0x60, CHR 0x60]"

text \<open>The index of the first occurrence, as \<^verbatim>\<open>str.find\<close>; \<open>None\<close> is \<^verbatim>\<open>-1\<close>.\<close>

fun find_sub :: "string \<Rightarrow> string \<Rightarrow> nat option" where
  "find_sub sub [] = (if sub = [] then Some 0 else None)"
| "find_sub sub (c # cs) =
    (if take (length sub) (c # cs) = sub then Some 0 else map_option Suc (find_sub sub cs))"

definition find_from :: "string \<Rightarrow> string \<Rightarrow> nat \<Rightarrow> nat option" where
  "find_from sub s start =
    (if length s < start then None else map_option (\<lambda>i. start + i) (find_sub sub (drop start s)))"

text \<open>\<^verbatim>\<open>s[start:end]\<close> where a missing \<open>end\<close> is \<^verbatim>\<open>-1\<close>: all but the last character.\<close>

definition slice_to :: "string \<Rightarrow> nat \<Rightarrow> nat option \<Rightarrow> string" where
  "slice_to s start e = drop start (take (case e of None \<Rightarrow> length s - 1 | Some n \<Rightarrow> n) s)"

definition after_fence :: "string \<Rightarrow> string \<Rightarrow> string" where
  "after_fence fence s =
    (case find_sub fence s of
       None \<Rightarrow> s
     | Some i \<Rightarrow> let start = i + length fence in str_strip (slice_to s start (find_from code_fence s start)))"

definition braces_part :: "string \<Rightarrow> string option" where
  "braces_part s =
    (let e = length s - length (takeWhile (\<lambda>c. c \<noteq> CHR ''}'') (rev s))
     in case find_sub ''{'' s of
          None \<Rightarrow> None
        | Some i \<Rightarrow> if i < e then Some (drop i (take e s)) else None)"

definition parse_response :: "(string \<Rightarrow> optimized_config res) \<Rightarrow> json \<Rightarrow> optimized_config option" where
  "parse_response decode response =
    (case response of
       JStr s \<Rightarrow>
         (let s = (if is_substring (code_fence @ ''json'') s then after_fence (code_fence @ ''json'') s
                   else if is_substring code_fence s then after_fence code_fence s else s)
          in case braces_part s of
               None \<Rightarrow> None
             | Some t \<Rightarrow> (case decode t of Inl _ \<Rightarrow> None | Inr c \<Rightarrow> Some c))
     | _ \<Rightarrow> None)"

definition build_prompt :: "string \<Rightarrow> string \<Rightarrow> string" where
  "build_prompt query dataset_info =
    (let q = (\<lambda>s. dquote @ s @ dquote)
     in str_join [newline]
      [''You are an Apache Spark resource optimization expert. Given a SQL query and dataset information, recommend optimal Spark driver and executor configurations.'',
       '''',
       ''SQL Query:'',
       query,
       '''',
       ''Dataset Info:'',
       dataset_info,
       '''',
       ''Provide recommendations for:'',
       ''1. Driver cores (float, e.g., 1.0, 2.0)'',
       ''2. Driver memory (string with unit, e.g., '' @ q ''1g'' @ '', '' @ q ''2g'' @ '', '' @ q ''4g'' @ '')'',
       ''3. Executor cores (float, e.g., 1.0, 2.0, 4.0)'',
       ''4. Executor memory (string with unit, e.g., '' @ q ''1g'' @ '', '' @ q ''2g'' @ '', '' @ q ''4g'' @ '')'',
       ''5. Minimum executor instances (integer)'',
       ''6. Maximum executor instances (integer)'',
       '''',
       ''Respond ONLY with a valid JSON object in this exact format:'',
       ''{'',
       ''    '' @ q ''driverCores'' @ '': <float>,'',
       ''    '' @ q ''driverMemory'' @ '': '' @ q ''<memory>'' @ '','',
       ''    '' @ q ''executorCores'' @ '': <float>,'',
       ''    '' @ q ''executorMemory'' @ '': '' @ q ''<memory>'' @ '','',
       ''    '' @ q ''executorInstancesMin'' @ '': <int>,'',
       ''    '' @ q ''executorInstancesMax'' @ '': <int>,'',
       ''    '' @ q ''reasoning'' @ '': '' @ q ''<brief explanation>'',
       ''}'',
       '''',
       ''Example: {'' @ q ''driverCores'' @ '': 2.0, '' @ q ''driverMemory'' @ '': '' @ q ''2g'' @ '', '' @
         q ''executorCores'' @ '': 2.0, '' @ q ''executorMemory'' @ '': '' @ q ''2g'' @ '', '' @
         q ''executorInstancesMin'' @ '': 2, '' @ q ''executorInstancesMax'' @ '': 4, '' @
         q ''reasoning'' @ '': '' @ q ''Medium query complexity with aggregations'' @ ''}''])"

text \<open>\<^verbatim>\<open>None\<close> is \<open>JNull\<close>; every exception gives \<^verbatim>\<open>None\<close>.\<close>

definition reply_content :: "json \<Rightarrow> json res" where
  "reply_content result =
    bind_res (json_contains result ''choices'') (\<lambda>has.
    if has then
      bind_res (json_item result ''choices'') (\<lambda>choices.
      bind_res (json_iter choices) (\<lambda>xs.
      if xs = [] then Inr JNull
      else bind_res (json_first choices) (\<lambda>c.
        bind_res (json_contains c ''message'') (\<lambda>has.
        if has then bind_res (json_item c ''message'') (\<lambda>m. json_get m ''content'' (JStr ''''))
        else Inr JNull))))
    else Inr JNull)"

definition call_ai_model :: "('s, 'd, 'f) frontend \<Rightarrow> string \<Rightarrow> ('s, json) op" where
  "call_ai_model F prompt =
    catch_op
      (bind_op (fe_post F (fe_optimizer_endpoint F @ ''/v1/chat/completions'')
        (JObj [(''model'', JStr ''llama-3.1-8b-instruct''),
               (''messages'', JArr [JObj [(''role'', JStr ''user''), (''content'', JStr prompt)]])])) (\<lambda>(status, body).
       if status = 200 then lift_res (bind_res body reply_content) else return_op JNull))
      (\<lambda>e. return_op JNull)"

definition get_optimized_config :: "('s, 'd, 'f) frontend \<Rightarrow> string \<Rightarrow> string \<Rightarrow> ('s, optimized_config option) op" where
  "get_optimized_config F query dataset_info =
    catch_op
      (bind_op (call_ai_model F (build_prompt query dataset_info)) (\<lambda>response.
       return_op (if json_truthy response then parse_response (fe_decode_optimizer F) response else None)))
      (\<lambda>e. return_op None)"

section \<open>Submitting jobs\<close>

datatype any_job = PlainJob job_input | SqlJob sql_job_input

definition to_spark_spec ::
  "'s spark_env \<Rightarrow> spark_config \<Rightarrow> spark_job_converter \<Rightarrow> string \<Rightarrow> any_job \<Rightarrow> telemetry_settings option \<Rightarrow>
   sku_settings option \<Rightarrow> ('s, cleanroom_spark_application) op" where
  "to_spark_spec V cfg converter job_id job tel override_sku =
    (case converter of
       SQLSparkJobConverter \<Rightarrow>
         (case job of
            PlainJob _ \<Rightarrow> raise_op (ValueError ''Job is not of type SQLJobInput'')
          | SqlJob j \<Rightarrow> sql_to_spark_spec V cfg job_id j tel override_sku)
     | PiSparkJobConverter \<Rightarrow>
         (case job of PlainJob j \<Rightarrow> pi_to_spark_spec V cfg job_id j tel | SqlJob j \<Rightarrow> pi_to_spark_spec V cfg job_id j tel))"

definition fe_submit_job ::
  "('s, 'd, 'f) frontend \<Rightarrow> string \<Rightarrow> string \<Rightarrow> any_job \<Rightarrow> string \<Rightarrow> bool \<Rightarrow> (string, string) dict option \<Rightarrow>
   sku_settings option \<Rightarrow> ('s, string) op" where
  "fe_submit_job F provider_type job_id job ns enable_telemetry tags override_sku =
    bind_op (lift_res (get_job_converter provider_type)) (\<lambda>converter.
    bind_op (to_spark_spec (fe_env F) (fe_spark F) converter job_id job
      (if enable_telemetry then Some (fe_telemetry F) else None) override_sku) (\<lambda>app.
    let job_name = sas_name (csa_spec app)
    in bind_op (submit_job (fe_kube F) (fe_resource F) job_name ns app tags) (\<lambda>_.
       return_op job_name)))"

definition dataset_info_text :: "dataset_info list \<Rightarrow> string" where
  "dataset_info_text ds =
    ''Datasets: '' @ str_nat (length ds) @ [newline] @
    concat (map (\<lambda>d. ''- '' @ ds_name d @ '': format=DatasetFormat.'' @ format_value (ds_format d) @ '', '' @
      (case ds_schema d of
         None \<Rightarrow> ''''
       | Some sc \<Rightarrow> if sc = [] then ''''
                    else ''fields='' @ str_nat (case map_of sc ''fields'' of None \<Rightarrow> 0 | Some fs \<Rightarrow> length fs)) @
      [newline]) ds)"

definition sku_of_config :: "sku_settings \<Rightarrow> optimized_config \<Rightarrow> sku_settings" where
  "sku_of_config base c =
    \<lparr>sku_driver = \<lparr>drv_cores = oc_driver_cores c, drv_memory = oc_driver_memory c,
       drv_service_account = drv_service_account (sku_driver base)\<rparr>,
     sku_executor = \<lparr>exs_cores = oc_executor_cores c, exs_instances_min = oc_executor_instances_min c,
       exs_instances_max = oc_executor_instances_max c, exs_memory = oc_executor_memory c,
       exs_delete_on_termination = exs_delete_on_termination (sku_executor base)\<rparr>\<rparr>"

text \<open>The settings the optimizer gives, if any, with its reasoning.\<close>

definition optimize :: "('s, 'd, 'f) frontend \<Rightarrow> sql_job_input \<Rightarrow> ('s, (sku_settings \<times> string option) option) op" where
  "optimize F job =
    (if fe_optimizer_enabled F \<and> sj_use_optimizer job then
       catch_op
         (bind_op (get_optimized_config F (sj_query job) (dataset_info_text (ji_datasets job))) (\<lambda>c.
          return_op (map_option (\<lambda>c. (sku_of_config (an_sql (sc_analytics (fe_spark F))) c, oc_reasoning c)) c)))
         (\<lambda>e. return_op None)
     else return_op None)"

datatype submit_result =
    Submitted string
  | DryRun string bool "string option" sku_settings

definition generate_query_id :: "('s, 'd, 'f) frontend \<Rightarrow> string \<Rightarrow> string" where
  "generate_query_id F query = take 32 (se_sha256_hex (fe_env F) (utf8_encode query))"

definition http_500 :: "('s, 'd, 'f) frontend \<Rightarrow> string \<Rightarrow> exc \<Rightarrow> ('s, 'a) op" where
  "http_500 F what e = raise_op (HTTPException 500 (what @ '': '' @ fe_str_exc F e))"

definition submit_sql_job ::
  "('s, 'd, 'f) frontend \<Rightarrow> sql_job_input \<Rightarrow> string \<Rightarrow> string \<Rightarrow> bool \<Rightarrow> bool \<Rightarrow> ('s, submit_result) op" where
  "submit_sql_job F job job_id query_id enable_telemetry dry_run =
    bind_op (if job_id = [] then bind_op (fe_unix_time F) (\<lambda>t. return_op (str_int t)) else return_op job_id) (\<lambda>job_id.
    let query_id = (if query_id = [] then generate_query_id F (sj_query job) else query_id);
        tags = [(''job_type'', ''sql''), (''query_id'', query_id)]
    in catch_op
      (bind_op (optimize F job) (\<lambda>opt.
       if dry_run then
         return_op (DryRun job_id (opt \<noteq> None) (case opt of None \<Rightarrow> None | Some (_, r) \<Rightarrow> r)
           (case opt of None \<Rightarrow> an_sql (sc_analytics (fe_spark F)) | Some (k, _) \<Rightarrow> k))
       else
         bind_op (fe_submit_job F ''sql'' job_id (SqlJob job) (fe_namespace F) enable_telemetry (Some tags)
           (map_option fst opt)) (\<lambda>name. return_op (Submitted name))))
      (http_500 F ''Failed to submit SQL job''))"

definition get_sql_job_policy ::
  "('s, 'd, 'f) frontend \<Rightarrow> sql_job_input \<Rightarrow> bool \<Rightarrow> ('s, cce_policy \<times> cce_policy) op" where
  "get_sql_job_policy F job enable_telemetry =
    bind_op (fe_unix_time F) (\<lambda>t.
    bind_op (lift_res (get_job_converter ''sql'')) (\<lambda>converter.
    catch_op
      (bind_op (to_spark_spec (fe_env F) (fe_spark F) converter (str_int t) (SqlJob job)
        (if enable_telemetry then Some (fe_telemetry F) else None) None) (\<lambda>app.
       return_op (csa_driver_policy app, csa_executor_policy app)))
      (http_500 F ''Failed to get spark pod policy'')))"

definition submit_pi_job :: "('s, 'd, 'f) frontend \<Rightarrow> ('s, string) op" where
  "submit_pi_job F =
    bind_op (fe_unix_time F) (\<lambda>t.
    let job_id = ''spark-pi-python-'' @ str_int t
    in catch_op
      (fe_submit_job F ''pi'' job_id
        (PlainJob \<lparr>ji_contract_id = job_id, ji_datasets = [], ji_datasink = None, ji_governance = None\<rparr>)
        (fe_namespace F) False (Some [(''job_type'', ''pi'')]) None)
      (http_500 F ''Failed to submit PI job''))"

section \<open>Status and history\<close>

text \<open>The first statistics event that can be read.\<close>

fun parse_query_stats_from_events :: "('s, 'd, 'f) frontend \<Rightarrow> core_event list \<Rightarrow> int \<times> int" where
  "parse_query_stats_from_events F [] = (0, 0)"
| "parse_query_stats_from_events F (e # es) =
    (if evt_reason e = Some QUERY_STATISTICS \<and> or_str (evt_message e) '''' \<noteq> '''' then
       (case fe_parse_stats F (or_str (evt_message e) '''') of
          Inr st \<Rightarrow> (qs_num_rows_read st, qs_num_rows_written st)
        | Inl _ \<Rightarrow> parse_query_stats_from_events F es)
     else parse_query_stats_from_events F es)"

definition is_terminal :: "application_state \<Rightarrow> bool" where
  "is_terminal st \<longleftrightarrow> st \<in> {State_Completed, State_Failed, State_SubmissionFailed}"

definition job_run_of ::
  "('s, 'd, 'f) frontend \<Rightarrow> string \<Rightarrow> spark_application_status \<Rightarrow> core_event list \<Rightarrow> ('s, job_run) op" where
  "job_run_of F job_id st events =
    (let state = sst_state (sas_applicationState st); ok = (state = State_Completed);
         (rr, rw) = parse_query_stats_from_events F events
     in bind_op (case sas_terminationTime st of
            Some t \<Rightarrow> return_op t
          | None \<Rightarrow> bind_op (utc_time (fe_kube F)) (\<lambda>now. return_op ((now div 1000000) * 1000000))) (\<lambda>finish.
        lift_res (validate_times
          \<lparr>run_id = job_id, start_time = sas_lastSubmissionAttemptTime st, end_time = Some finish, is_successful = ok,
           run_error = (if ok then None
             else Some (job_run_error_from_state state (sst_errorMessage (sas_applicationState st)))),
           run_stats = Some \<lparr>rows_read = rr, rows_written = rw\<rparr>\<rparr>)))"

definition query_id_label :: "object_meta \<Rightarrow> json res" where
  "query_id_label md = (if json_truthy (om_labels md) then json_get (om_labels md) ''query_id'' JNull else Inr JNull)"

definition record_job_run ::
  "('s, 'd, 'f) frontend \<Rightarrow> spark_application \<Rightarrow> string \<Rightarrow> spark_application_status \<Rightarrow> string \<Rightarrow> core_event list \<Rightarrow>
   ('s, unit) op" where
  "record_job_run F app job_id st ns events =
    bind_op (lift_res (query_id_label (sa_metadata app))) (\<lambda>q.
    if \<not> json_truthy q then return_op ()
    else
      catch_op
        (bind_op (job_run_of F job_id st events) (\<lambda>run.
         bind_op (lift_res (json_as_str q)) (\<lambda>query_id.
         bind_op (add_run (fe_floats F) (fe_records F) query_id ns run) (\<lambda>_.
         catch_op
           (patch_spark_app_annotation (fe_kube F) (fe_resource F) job_id ns JOB_RECORD_RECORDED_ANNOTATION ''true'')
           (\<lambda>e. return_op ())))))
        (\<lambda>e. return_op ()))"

record event_view =
  ev_view_name :: json
  ev_reason :: "string option"
  ev_message :: "string option"
  ev_type :: "string option"
  ev_firstTimestamp :: "string option"
  ev_lastTimestamp :: "string option"
  ev_count :: "int option"

definition event_view_of :: "('s, 'd, 'f) frontend \<Rightarrow> core_event \<Rightarrow> event_view" where
  "event_view_of F e =
    \<lparr>ev_view_name = evt_name e, ev_reason = evt_reason e, ev_message = evt_message e, ev_type = evt_type e,
     ev_firstTimestamp = map_option (fe_isoformat F) (evt_first_timestamp e),
     ev_lastTimestamp = map_option (fe_isoformat F) (evt_last_timestamp e), ev_count = evt_count e\<rparr>"

record status_response =
  st_id :: string
  st_status :: "spark_application_status option" \<comment> \<open>\<open>None\<close>: the state is unknown\<close>
  st_events :: "event_view list"

definition recorded_annotation :: "object_meta \<Rightarrow> bool res" where
  "recorded_annotation md =
    (if json_truthy (om_annotations md)
     then bind_res (json_get (om_annotations md) JOB_RECORD_RECORDED_ANNOTATION JNull) (\<lambda>v. Inr (json_truthy v))
     else Inr False)"

definition fetch_events :: "('s, 'd, 'f) frontend \<Rightarrow> string \<Rightarrow> object_meta \<Rightarrow> ('s, core_event list) op" where
  "fetch_events F job_id md =
    (if json_truthy (om_uid md)
     then catch_op (list_events_for_spark_app (fe_kube F) job_id (om_uid md) (fe_namespace F)) (\<lambda>e. return_op [])
     else return_op [])"

definition get_status_body :: "('s, 'd, 'f) frontend \<Rightarrow> string \<Rightarrow> ('s, status_response) op" where
  "get_status_body F job_id =
    bind_op (get_spark_app (fe_kube F) (fe_resource F) job_id (fe_namespace F)) (\<lambda>app.
    (case sa_status app of
       None \<Rightarrow> return_op \<lparr>st_id = job_id, st_status = None, st_events = []\<rparr>
     | Some st \<Rightarrow>
         bind_op (lift_res (recorded_annotation (sa_metadata app))) (\<lambda>is_recorded.
         bind_op (fetch_events F job_id (sa_metadata app)) (\<lambda>events.
         bind_op (if is_terminal (sst_state (sas_applicationState st)) \<and> \<not> is_recorded then
             bind_op (lift_res (if om_labels (sa_metadata app) = JNull then Inr JNull
               else json_get (om_labels (sa_metadata app)) ''job_type'' (JStr ''unknown''))) (\<lambda>_.
             record_job_run F app job_id st (fe_namespace F) events)
           else return_op ()) (\<lambda>_.
         return_op \<lparr>st_id = job_id, st_status = Some st, st_events = map (event_view_of F) events\<rparr>)))))"

definition get_status :: "('s, 'd, 'f) frontend \<Rightarrow> string \<Rightarrow> ('s, status_response) op" where
  "get_status F job_id =
    catch_op (get_status_body F job_id) (\<lambda>e. case e of
      ResourceNotFound _ \<Rightarrow> raise_op (HTTPException 404 (''Job with ID '' @ job_id @ '' not found''))
    | _ \<Rightarrow> http_500 F ''Failed to get job status'' e)"

definition get_runs :: "('s, 'd, 'f) frontend \<Rightarrow> string \<Rightarrow> ('s, 'f job_record_response) op" where
  "get_runs F query_id =
    (if query_id = [] \<or> str_strip query_id = []
     then raise_op (HTTPException 400 ''query_id cannot be null or empty.'')
     else catch_op
       (bind_op (get_job_record (fe_records F) query_id (fe_namespace F)) (\<lambda>r. case r of
          None \<Rightarrow> raise_op (HTTPException 404 (''No run history found for query ID: '' @ query_id))
        | Some r \<Rightarrow> return_op (from_job_record r)))
       (\<lambda>e. case e of
          HTTPException _ _ \<Rightarrow> raise_op e
        | _ \<Rightarrow> http_500 F (''Failed to get runs for query '' @ query_id) e))"

section \<open>Events of a running job\<close>

text \<open>
  \<^verbatim>\<open>get_spark_app\<close> always builds a \<^verbatim>\<open>V1ObjectMeta\<close>, a plain object and so never falsy:
  the tests for a missing \<^verbatim>\<open>metadata\<close> are always passed.
\<close>

definition create_spark_app_event ::
  "('s, 'd, 'f) frontend \<Rightarrow> string \<Rightarrow> string \<Rightarrow> string \<Rightarrow> string \<Rightarrow> string \<Rightarrow> ('s, unit) op" where
  "create_spark_app_event F job_id event_name message reason typ =
    catch_op
      (bind_op (get_spark_app (fe_kube F) (fe_resource F) job_id (fe_namespace F)) (\<lambda>app.
       let md = sa_metadata app
       in if \<not> json_truthy (om_name md) \<or> \<not> json_truthy (om_namespace md) \<or> \<not> json_truthy (om_uid md)
          then raise_op (HTTPException 500 (''Spark application '' @ job_id @ '' has incomplete metadata''))
          else create_event (fe_kube F) event_name (fe_namespace F) message reason
                 (om_name md) (JStr ''SparkApplication'') (om_namespace md) (om_uid md) typ))
      (\<lambda>e. case e of
         ResourceNotFound _ \<Rightarrow> raise_op (HTTPException 404 (''Spark application '' @ job_id @ '' not found''))
       | _ \<Rightarrow> raise_op e)"

definition record_operational_event :: "('s, 'd, 'f) frontend \<Rightarrow> string \<Rightarrow> operational_event \<Rightarrow> ('s, unit) op" where
  "record_operational_event F job_id event =
    catch_op
      (bind_op (fe_uuid4 F) (\<lambda>u.
       bind_op (lift_res (oe_get_message event)) (\<lambda>m.
       create_spark_app_event F job_id (job_id @ ''-event-'' @ str_int (oe_id event) @ ''-'' @ take 8 u) m
         (oe_name event) ''Normal'')))
      (http_500 F ''Failed to record operational event'')"

definition record_statistics :: "('s, 'd, 'f) frontend \<Rightarrow> string \<Rightarrow> statistics_event \<Rightarrow> ('s, unit) op" where
  "record_statistics F job_id event =
    catch_op
      (if se_type event \<noteq> QUERY_STATISTICS
       then raise_op (HTTPException 400 (''Invalid statistics event type: '' @ se_type event @
         ''. Expected '' @ [CHR 0x27] @ ''QueryStatistics'' @ [CHR 0x27]))
       else
         bind_op (lift_res (bind_res (json_b64decode (JStr (se_data_base64 event))) utf8_decode)) (\<lambda>data.
         bind_op (lift_res (fe_parse_stats F data)) (\<lambda>st.
         create_spark_app_event F job_id (job_id @ ''-statistics'') data (se_type event) ''Normal'')))
      (\<lambda>e. case e of
         ResourceNotFound _ \<Rightarrow> raise_op (HTTPException 404 (''Spark application '' @ job_id @ '' not found''))
       | _ \<Rightarrow> http_500 F ''Failed to record statistics'' e)"

section \<open>Attestation report and startup\<close>

definition service_cert_location :: "('s, 'd, 'f) frontend \<Rightarrow> string" where
  "service_cert_location F =
    (case se_getenv (fe_env F) ''SERVICE_CERT_LOCATION'' of None \<Rightarrow> ''/app/service/service-cert.pem'' | Some p \<Rightarrow> p)"

definition isSevSnp :: "('s, 'd, 'f) frontend \<Rightarrow> bool" where
  "isSevSnp F \<longleftrightarrow> se_getenv (fe_env F) ''INSECURE_VIRTUAL_ENVIRONMENT'' \<noteq> Some ''true''"

text \<open>\<^verbatim>\<open>raise_for_status\<close> raises from status 400 on.\<close>

definition get_report :: "('s, 'd, 'f) frontend \<Rightarrow> string \<Rightarrow> ('s, json) op" where
  "get_report F report_data =
    bind_op (fe_post F ''http://localhost:8284/attest/combined''
      (JObj [(''runtime_data'', JStr (b64encode report_data))])) (\<lambda>(status, body).
    if 400 \<le> status \<and> status < 600 then raise_op (OtherException ''HTTPError'')
    else
      bind_op (lift_res body) (\<lambda>data.
      bind_op (lift_res (map_res (\<lambda>k. json_get data k JNull) [''evidence'', ''endorsements'', ''uvm_endorsements''])) (\<lambda>vs.
      return_op (JObj [(''attestation'', vs ! 0), (''platformCertificates'', vs ! 1), (''uvmEndorsements'', vs ! 2)]))))"

definition report_data :: "string \<Rightarrow> string" where
  "report_data cert = utf8_encode (json_dumps (JObj [(''serviceCert'', JStr cert)]))"

definition getFrontendReport :: "('s, 'd, 'f) frontend \<Rightarrow> ('s, json) op" where
  "getFrontendReport F s =
    (let path = service_cert_location F
     in if \<not> file_exists (fe_kube F) path s
        then raise_op (HTTPException 404 (''Service cert file not found at '' @ path)) s
        else
          bind_op (file_read (fe_kube F) path) (\<lambda>cert.
          bind_op (if isSevSnp F
            then bind_op (get_report F (report_data cert)) (\<lambda>r. return_op (''snp'', r))
            else return_op (''virtual'', JNull)) (\<lambda>(platform, report).
          return_op (JObj [(''platform'', JStr platform), (''report'', report),
            (''reportDataPayload'', JStr (b64encode (report_data cert)))]))) s)"

definition CCE_POLICY_INJECTOR_WEBHOOK_NAME :: string where
  "CCE_POLICY_INJECTOR_WEBHOOK_NAME = ''cce-policy-injector''"
definition SPARK_POD_SCHEDULER_WEBHOOK_NAME :: string where
  "SPARK_POD_SCHEDULER_WEBHOOK_NAME = ''cleanroom-spark-pod-scheduler''"

text \<open>The part of \<^verbatim>\<open>main\<close> that changes the cluster: the two webhooks.\<close>

definition register_webhooks :: "('s, 'd, 'f) frontend \<Rightarrow> ('s, unit) op" where
  "register_webhooks F s =
    (let path = service_cert_location F; K = fe_kube F
     in if \<not> file_exists K path s then raise_op (FileNotFoundError (''File not found at '' @ path @ ''.'')) s
        else
          bind_op (create_mutating_webhook_configuration K CCE_POLICY_INJECTOR_WEBHOOK_NAME ''/pod/ccepolicy/mutate''
            [(CCE_POLICY_INJECTOR_LABEL, ''true'')] (fe_service_name F) (fe_service_namespace F) path) (\<lambda>_.
          create_mutating_webhook_configuration K SPARK_POD_SCHEDULER_WEBHOOK_NAME ''/pod/schedulednode/mutate''
            [(SPARK_POD_SCHEDULER_LABEL, ''true'')] (fe_service_name F) (fe_service_namespace F) path) s)"

section \<open>Operations that only step in the environment\<close>

text \<open>
  The calls of the status handler on other objects than job records are steps of the environment
  of the job records.
\<close>

definition kube_steps :: "'s kube_api \<Rightarrow> ('s \<Rightarrow> 's \<Rightarrow> bool) \<Rightarrow> bool" where
  "kube_steps K R \<longleftrightarrow>
    steps R (utc_time K) \<and> (\<forall>ns q. steps R (event_list K ns q)) \<and>
    (\<forall>S ns n. steps R (custom_get K S ns n)) \<and> (\<forall>S ns n b. steps R (custom_patch K S ns n b))"

lemma kube_client_steps:
  assumes "preorder_rel R" and "kube_steps K R"
  shows "steps R (get_spark_app K S n ns)" and "steps R (patch_spark_app_annotation K S n ns k v)"
    and "steps R (list_events_for_spark_app K n uid ns)"
  using assms(2) unfolding kube_steps_def get_spark_app_def patch_spark_app_annotation_def
    list_events_for_spark_app_def
  by (intro steps_intros [OF assms(1)];
      force split: exc.split intro: steps_intros [OF assms(1)])+

lemma fetch_events_steps:
  assumes "preorder_rel R" and "kube_steps (fe_kube F) R"
  shows "steps R (fetch_events F job md)"
  unfolding fetch_events_def using kube_client_steps [OF assms]
  by (auto intro!: steps_intros [OF assms(1)])

lemma job_run_of_steps:
  assumes "preorder_rel R" and "kube_steps (fe_kube F) R"
  shows "steps R (job_run_of F job st events)"
  unfolding job_run_of_def Let_def using assms(2)
  by (auto simp: kube_steps_def split: prod.split option.split intro!: steps_intros [OF assms(1)])
    (use assms(1) in \<open>simp_all add: steps_def preorder_rel_def\<close>)

lemma jr_contract_preorder: "jr_contract A view R \<Longrightarrow> preorder_rel R"
  by (auto simp: jr_contract_def env_contract_def preorder_rel_def)

section \<open>Recording a finished job\<close>

lemma add_run_effect:
  assumes C: "jr_contract A view R" and g: "add_run F A q ns run s = (x, t)"
  shows "case x of
      Inl e \<Rightarrow> progress view R (ns, q) s t
    | Inr rec \<Rightarrow> \<exists>u. progress view R (ns, q) s u \<and> recorded F view (ns, q) run u rec t"
proof -
  obtain y v where y: "retrying A is_conflict_error (Suc 4) (add_run_attempt F A q ns run) s = (y, v)"
    by fastforce
  with g have "v = t" "\<And>r. x = Inr r \<Longrightarrow> y = Inr r" "\<And>e. x = Inl e \<Longrightarrow> \<exists>e'. y = Inl e'"
    by (auto simp: add_run_def add_run_with_retry_def conflict_retry_def MAX_RETRY_ATTEMPTS_def
        catch_op_def eval_nat_numeral split: sum.splits if_splits)
  with retry_effect [OF C y] show ?thesis by (cases x) auto
qed

text \<open>What the run of a finished job says.\<close>

definition run_describes :: "('s, 'd, 'f) frontend \<Rightarrow> string \<Rightarrow> spark_application_status \<Rightarrow> core_event list \<Rightarrow> job_run \<Rightarrow> bool" where
  "run_describes F job st events run \<longleftrightarrow>
    run_id run = job \<and> is_successful run = (sst_state (sas_applicationState st) = State_Completed) \<and>
    (run_error run = None) = is_successful run \<and>
    start_time run = sas_lastSubmissionAttemptTime st \<and>
    (\<forall>e. sas_terminationTime st = Some e \<longrightarrow> end_time run = Some e) \<and>
    (\<forall>a b. start_time run = Some a \<longrightarrow> end_time run = Some b \<longrightarrow> a \<le> b) \<and>
    (case parse_query_stats_from_events F events of (rr, rw) \<Rightarrow>
       run_stats run = Some \<lparr>rows_read = rr, rows_written = rw\<rparr>)"

lemma job_run_of_describes:
  assumes "job_run_of F job st events s = (Inr run, t)"
  shows "run_describes F job st events run"
  using assms
  by (auto simp: job_run_of_def run_describes_def bind_op_Inr_iff Let_def validate_times_def
      split: prod.splits option.splits if_splits)

lemma record_job_run_effect:
  assumes C: "jr_contract (fe_records F) view R" and K: "kube_steps (fe_kube F) R"
    and run: "record_job_run F app job st ns events s = (x, t)"
  shows "R s t \<or>
    (\<exists>q r. query_id_label (sa_metadata app) = Inr (JStr q) \<and> q \<noteq> [] \<and> run_describes F job st events r \<and>
      (progress view R (ns, q) s t \<or>
       (\<exists>u v rec. progress view R (ns, q) s u \<and> recorded (fe_floats F) view (ns, q) r u rec v \<and> R v t)))"
proof -
  note P = jr_contract_preorder [OF C]
  have refl: "R s s" for s using P by (simp add: preorder_rel_def)
  show ?thesis
  proof (cases "query_id_label (sa_metadata app)")
    case (Inl e)
    with run refl show ?thesis by (simp add: record_job_run_def bind_op_def)
  next
    case q: (Inr j)
    show ?thesis
    proof (cases "json_truthy j")
      case False
      with q run refl show ?thesis by (simp add: record_job_run_def bind_op_def)
    next
      case truthy: True
      obtain y s1 where y: "job_run_of F job st events s = (y, s1)" by fastforce
      note e1 = stepsD [OF job_run_of_steps [OF P K] y]
      show ?thesis
      proof (cases "\<exists>r n. y = Inr r \<and> json_as_str j = Inr n")
        case False
        with q run y truthy e1 show ?thesis
          by (auto simp: record_job_run_def bind_op_def catch_op_def split: sum.splits)
      next
        case True
        then obtain r n where r: "y = Inr r" and n: "j = JStr n"
          by (auto simp: json_as_str_def split: json.splits)
        obtain z s2 where z: "add_run (fe_floats F) (fe_records F) n ns r s1 = (z, s2)" by fastforce
        obtain w s3 where w: "patch_spark_app_annotation (fe_kube F) (fe_resource F) job ns
            JOB_RECORD_RECORDED_ANNOTATION ''true'' s2 = (w, s3)" by fastforce
        note e2 = stepsD [OF kube_client_steps(2) [OF P K] w]
        have start: "progress view R (ns, n) s s1" using e1 by (blast intro: progress.intros)
        have t: "t = (case z of Inl _ \<Rightarrow> s2 | Inr _ \<Rightarrow> s3)"
          using run q truthy y r n z w
          by (auto simp: record_job_run_def bind_op_def catch_op_def json_as_str_def split: sum.splits)
        have d: "n \<noteq> []" "run_describes F job st events r"
          using truthy n job_run_of_describes y r by (auto simp: json_truthy_def)
        from add_run_effect [OF C z] t e2 show ?thesis
          using q n d progress_trans [OF _ start] by (cases z) (auto intro!: disjI2)
      qed
    qed
  qed
qed

lemma get_status_state:
  assumes "get_status F job s = (x, t)"
  obtains y where "get_status_body F job s = (y, t)" and "\<And>r. y = Inr r \<Longrightarrow> x = Inr r"
  using assms by (auto simp: get_status_def catch_op_def http_500_def split: prod.splits sum.splits exc.splits)

lemma fetch_events_Inr: obtains events t where "fetch_events F job md s = (Inr events, t)"
  by (cases "fetch_events F job md s")
    (auto simp: fetch_events_def catch_op_def split: if_splits prod.splits sum.splits)

lemma get_status_body_early:
  assumes "get_spark_app (fe_kube F) (fe_resource F) job (fe_namespace F) s = (z, s1)"
    and "\<nexists>app st b. z = Inr app \<and> sa_status app = Some st \<and> recorded_annotation (sa_metadata app) = Inr b"
  shows "snd (get_status_body F job s) = s1"
  using assms by (auto simp: get_status_body_def bind_op_def split: sum.splits option.splits)

lemma get_status_body_late:
  assumes "get_spark_app (fe_kube F) (fe_resource F) job (fe_namespace F) s = (Inr app, s1)"
    and "sa_status app = Some st" and "recorded_annotation (sa_metadata app) = Inr b"
    and "fetch_events F job (sa_metadata app) s1 = (Inr events, s2)"
  shows "get_status_body F job s =
    bind_op (if is_terminal (sst_state (sas_applicationState st)) \<and> \<not> b then
        bind_op (lift_res (if om_labels (sa_metadata app) = JNull then Inr JNull
          else json_get (om_labels (sa_metadata app)) ''job_type'' (JStr ''unknown''))) (\<lambda>_.
        record_job_run F app job st (fe_namespace F) events)
      else return_op ()) (\<lambda>_.
    return_op \<lparr>st_id = job, st_status = Some st, st_events = map (event_view_of F) events\<rparr>) s2"
  using assms by (simp add: get_status_body_def bind_op_Inr)


text \<open>A frontend whose cluster holds one application, and no optimizer.\<close>

definition still_kube :: "json \<Rightarrow> spark_application_status option \<Rightarrow> core_event list \<Rightarrow> 's kube_api" where
  "still_kube meta st events =
    \<lparr>custom_create = (\<lambda>S ns b. return_op ()),
     custom_get = (\<lambda>S ns n. return_op (JObj [(''metadata'', meta)])),
     custom_patch = (\<lambda>S ns n b. return_op ()),
     config_map_create = (\<lambda>ns cm. return_op ()),
     config_map_read = (\<lambda>ns n. raise_op not_found_exc),
     config_map_patch = (\<lambda>ns n b. return_op ()),
     event_create = (\<lambda>ns e. return_op ()),
     event_list = (\<lambda>ns q. return_op (Some events)),
     node_list = (\<lambda>q. return_op None), pod_list = (\<lambda>q. return_op None),
     webhook_read = (\<lambda>n. raise_op not_found_exc), webhook_replace = (\<lambda>n w. return_op ()),
     webhook_create = (\<lambda>w. return_op ()),
     validate_spark_app = (\<lambda>m _. Inr \<lparr>sa_metadata = m, sa_status = st\<rparr>),
     spec_dict = (\<lambda>sp. JObj []), utc_time = return_op 0,
     file_exists = (\<lambda>p s. True), file_read = (\<lambda>p. return_op ''cert'')\<rparr>"

definition still_env :: "'s spark_env" where
  "still_env =
    \<lparr>se_docs = \<lparr>temp_dir = ''/tmp'', path_exists = (\<lambda>p s. True), make_dirs = (\<lambda>p. return_op ()),
       oras_pull = (\<lambda>i t d. return_op ()), load_yaml = (\<lambda>p. return_op (JObj []))\<rparr>,
     se_read_policy_rego = return_op ''%s'', se_getenv = (\<lambda>_. None), se_sha256_hex = (\<lambda>s. s),
     se_trace_context = [], se_baggage = []\<rparr>"

definition sample_frontend :: "'s kube_api \<Rightarrow> 's spark_env \<Rightarrow> ('s, 'd, 'f) jr_api \<Rightarrow> 'f float_ops \<Rightarrow> ('s, 'd, 'f) frontend" where
  "sample_frontend K V A Fl =
    \<lparr>fe_kube = K, fe_resource = \<lparr>srs_group = ''g'', srs_version = ''v'', srs_kind = ''k'', srs_plural = ''ks''\<rparr>,
     fe_records = A, fe_floats = Fl, fe_env = V, fe_spark = sample_spark_config ConfidentialVirtualNode,
     fe_telemetry = default_telemetry, fe_optimizer_enabled = True, fe_optimizer_endpoint = ''http://ai'',
     fe_service_name = ''fe'', fe_service_namespace = ''fe'', fe_str_exc = (\<lambda>_. ''failed''),
     fe_isoformat = str_int, fe_unix_time = return_op 7, fe_uuid4 = return_op ''01234567-89'',
     fe_parse_stats = (\<lambda>t. if t = ''stats'' then Inr \<lparr>qs_duration_sec = f_zero Fl, qs_num_rows_read = 5, qs_num_rows_written = 2\<rparr>
       else Inl JSONDecodeError),
     fe_post = (\<lambda>url body. return_op (500, Inr JNull)),
     fe_decode_optimizer = (\<lambda>_. Inl JSONDecodeError)\<rparr>"

definition ended_status :: spark_application_status where
  "ended_status =
    \<lparr>sas_applicationState = \<lparr>sst_state = State_Completed, sst_errorMessage = None\<rparr>,
     sas_driverInfo = \<lparr>sdi_podName = ''p'', sdi_webUIAddress = None, sdi_webUIPort = None, sdi_webUIServiceName = None\<rparr>,
     sas_executionAttempts = None, sas_executorState = None, sas_submissionAttempts = None,
     sas_lastSubmissionAttemptTime = Some 1000000, sas_terminationTime = Some 3000000\<rparr>"

definition ended_meta :: json where
  "ended_meta = JObj [(''name'', JStr ''j1''), (''namespace'', JStr ''analytics''), (''uid'', JStr ''u''),
     (''labels'', JObj [(''query_id'', JStr ''q'')])]"

definition ended_frontend :: "(int cluster, int job_record, int) frontend" where
  "ended_frontend = sample_frontend (still_kube ended_meta (Some ended_status) []) still_env cluster_api int_floats"

lemma still_kube_steps: "preorder_rel R \<Longrightarrow> kube_steps (still_kube meta st events) R"
  by (auto simp: kube_steps_def still_kube_def intro: steps_intros)


section \<open>Answers of the status handler\<close>

definition json_dict_or_none :: "json \<Rightarrow> bool" where
  "json_dict_or_none j \<longleftrightarrow> j = JNull \<or> (\<exists>d. j = JObj d)"

lemma json_get_dict: "json_get (JObj d) k v = Inr (case map_of d k of None \<Rightarrow> v | Some x \<Rightarrow> x)"
  by (simp add: json_get_def)

lemma catch_all_Inr: "\<exists>x t. catch_op m (\<lambda>e. return_op v) s = (Inr x, t)"
  by (cases "m s") (auto simp: catch_op_def split: sum.splits)

lemma query_id_label_Inr: "json_dict_or_none (om_labels md) \<Longrightarrow> \<exists>q. query_id_label md = Inr q"
  by (auto simp: json_dict_or_none_def query_id_label_def json_get_dict)

lemma recorded_annotation_Inr: "json_dict_or_none (om_annotations md) \<Longrightarrow> \<exists>b. recorded_annotation md = Inr b"
  by (auto simp: json_dict_or_none_def recorded_annotation_def json_get_dict)

lemma record_job_run_returns:
  assumes "json_dict_or_none (om_labels (sa_metadata app))"
  obtains t where "record_job_run F app job st ns events s = (Inr (), t)"
proof -
  obtain q where q: "query_id_label (sa_metadata app) = Inr q"
    using query_id_label_Inr [OF assms] by blast
  show ?thesis
  proof (cases "json_truthy q")
    case False
    with q that show ?thesis by (simp add: record_job_run_def bind_op_def)
  next
    case True
    with q have "\<exists>m. record_job_run F app job st ns events s = catch_op m (\<lambda>e. return_op ()) s"
      by (auto simp: record_job_run_def bind_op_def)
    then show ?thesis using catch_all_Inr that by (metis (full_types) old.unit.exhaust)
  qed
qed

text \<open>
  C31. A status query is answered whatever happens to the events and the job record: once the
  application is read and has a status, with labels and annotations that are dictionaries or
  missing, the handler returns that status; listing events and recording the run cannot make it fail.
\<close>

theorem get_status_answers:
  assumes "get_spark_app (fe_kube F) (fe_resource F) job (fe_namespace F) s = (Inr app, s1)"
    and "sa_status app = Some st"
    and "json_dict_or_none (om_labels (sa_metadata app))"
    and "json_dict_or_none (om_annotations (sa_metadata app))"
  shows "\<exists>evs t. get_status F job s = (Inr \<lparr>st_id = job, st_status = Some st, st_events = evs\<rparr>, t)"
proof -
  obtain b where b: "recorded_annotation (sa_metadata app) = Inr b"
    using recorded_annotation_Inr [OF assms(4)] by blast
  obtain events s2 where w: "fetch_events F job (sa_metadata app) s1 = (Inr events, s2)" by (rule fetch_events_Inr)
  obtain t where "record_job_run F app job st (fe_namespace F) events s2 = (Inr (), t)"
    using record_job_run_returns [OF assms(3)] .
  then have "\<exists>t. get_status_body F job s =
      (Inr \<lparr>st_id = job, st_status = Some st, st_events = map (event_view_of F) events\<rparr>, t)"
    using assms(3) unfolding get_status_body_late [OF assms(1,2) b w]
    by (auto simp: bind_op_def json_dict_or_none_def json_get_dict)
  then show ?thesis by (auto simp: get_status_def catch_op_def)
qed

theorem get_status_answers_witness:
  "\<exists>evs t. get_status ended_frontend ''j1'' racing_cluster =
    (Inr \<lparr>st_id = ''j1'', st_status = Some ended_status, st_events = evs\<rparr>, t)"
proof -
  have g: "get_spark_app (fe_kube ended_frontend) (fe_resource ended_frontend) ''j1'' (fe_namespace ended_frontend) racing_cluster =
    (Inr \<lparr>sa_metadata = \<lparr>om_name = JStr ''j1'', om_namespace = JStr ''analytics'', om_creation_timestamp = JNull,
       om_labels = JObj [(''query_id'', JStr ''q'')], om_annotations = JNull, om_uid = JStr ''u'',
       om_resource_version = JNull, om_generation = JNull\<rparr>, sa_status = Some ended_status\<rparr>, racing_cluster)"
    by (simp add: get_spark_app_def ended_frontend_def sample_frontend_def still_kube_def ended_meta_def
        json_get_def catch_op_def bind_op_def)
  show ?thesis
    by (rule get_status_answers [OF g]) (simp_all add: json_dict_or_none_def)
qed

section \<open>Statistics\<close>

lemma parse_query_stats_skip:
  "\<forall>x \<in> set es. evt_reason x \<noteq> Some QUERY_STATISTICS \<Longrightarrow>
    parse_query_stats_from_events F (es @ es') = parse_query_stats_from_events F es'"
  by (induction es) auto

lemma create_spark_app_event_Inr:
  assumes "create_spark_app_event F job n m r typ s = (Inr (), t)"
  obtains s1 e where "event_create (fe_kube F) (fe_namespace F) e s1 = (Inr (), t)"
    "evt_reason e = Some r" "evt_message e = Some m" "evt_name e = JStr n" "evt_type e = Some typ"
  using assms
  by (auto simp: create_spark_app_event_def create_event_def catch_op_def Let_def bind_op_Inr_iff
      split: prod.splits sum.splits exc.splits if_splits)


definition int_dumps :: "unit query_statistics \<Rightarrow> string" where
  "int_dumps d = json_dumps (JArr [JInt (qs_num_rows_read d), JInt (qs_num_rows_written d)])"

definition int_parse :: "string \<Rightarrow> unit query_statistics res" where
  "int_parse t =
    (case json_loads t of
       Inr (JArr [JInt a, JInt b]) \<Rightarrow> Inr \<lparr>qs_duration_sec = (), qs_num_rows_read = a, qs_num_rows_written = b\<rparr>
     | _ \<Rightarrow> Inl JSONDecodeError)"

definition unit_floats :: "unit float_ops" where
  "unit_floats = \<lparr>f_zero = (), f_add = (\<lambda>_ _. ()), f_div_int = (\<lambda>_ _. ()), f_round2 = (\<lambda>x. x), f_seconds = (\<lambda>_. ())\<rparr>"

definition still_records :: "('s, unit, unit) jr_api" where
  "still_records =
    \<lparr>get_custom_object = (\<lambda>ns n. raise_op not_found_exc), create_custom_object = (\<lambda>ns b. raise_op not_found_exc),
     patch_custom_object_status = (\<lambda>ns n b. raise_op not_found_exc), model_validate = (\<lambda>_. Inl TypeError),
     retrying = (\<lambda>p n m. m), pause = (\<lambda>s. s)\<rparr>"

definition still_frontend :: "(unit, unit, unit) frontend" where
  "still_frontend =
    (sample_frontend (still_kube ended_meta (Some ended_status) []) still_env still_records unit_floats)
      \<lparr>fe_parse_stats := int_parse\<rparr>"

lemma still_frontend_simps:
  "fe_kube still_frontend = still_kube ended_meta (Some ended_status) []"
  "fe_env still_frontend = still_env" "fe_parse_stats still_frontend = int_parse"
  "fe_post still_frontend = (\<lambda>url body. return_op (500, Inr JNull))"
  "fe_decode_optimizer still_frontend = (\<lambda>_. Inl JSONDecodeError)"
  "fe_uuid4 still_frontend = return_op ''01234567-89''"
  by (simp_all add: still_frontend_def sample_frontend_def)

lemma still_kube_simps:
  "event_create (still_kube m st ev) = (\<lambda>ns e. return_op ())" "utc_time (still_kube m st ev) = return_op 0"
  "file_exists (still_kube m st ev) = (\<lambda>p s. True)" "file_read (still_kube m st ev) = (\<lambda>p. return_op ''cert'')"
  by (simp_all add: still_kube_def)

lemma still_get_spark_app:
  "get_spark_app (still_kube ended_meta (Some ended_status) []) S n ns s =
    (Inr \<lparr>sa_metadata = \<lparr>om_name = JStr ''j1'', om_namespace = JStr ''analytics'', om_creation_timestamp = JNull,
       om_labels = JObj [(''query_id'', JStr ''q'')], om_annotations = JNull, om_uid = JStr ''u'',
       om_resource_version = JNull, om_generation = JNull\<rparr>, sa_status = Some ended_status\<rparr>, s)"
  by (simp add: get_spark_app_def still_kube_def ended_meta_def json_get_def catch_op_def bind_op_def)


section \<open>The optimizer cannot stop a job\<close>

text \<open>No usable reply: the call raises, does not return 200, or no text can be decoded.\<close>

definition optimizer_unusable :: "('s, 'd, 'f) frontend \<Rightarrow> bool" where
  "optimizer_unusable F \<longleftrightarrow>
    (\<forall>t. isl (fe_decode_optimizer F t)) \<or>
    (\<forall>url body s. case fst (fe_post F url body s) of Inl _ \<Rightarrow> True | Inr (status, _) \<Rightarrow> status \<noteq> 200)"

lemma call_ai_model_Inr: "\<exists>r t. call_ai_model F p s = (Inr r, t)"
  unfolding call_ai_model_def by (rule catch_all_Inr)

lemma get_optimized_config_Inr: "\<exists>r t. get_optimized_config F q d s = (Inr r, t)"
  unfolding get_optimized_config_def by (rule catch_all_Inr)

lemma parse_response_undecodable: "\<forall>t. isl (decode t) \<Longrightarrow> parse_response decode r = None"
proof -
  assume "\<forall>t. isl (decode t)"
  then have "decode = (\<lambda>t. Inl (projl (decode t)))" by (simp add: fun_eq_iff)
  then obtain g where "decode = (\<lambda>t. Inl (g t))" by (rule that)
  then show ?thesis by (simp add: parse_response_def Let_def split: json.split option.split)
qed

lemma get_optimized_config_unusable:
  assumes "optimizer_unusable F"
  shows "\<exists>t. get_optimized_config F q d s = (Inr None, t)"
proof -
  obtain r t where r: "call_ai_model F (build_prompt q d) s = (Inr r, t)" using call_ai_model_Inr [of F "build_prompt q d" s] by blast
  have "\<not> (\<forall>t. isl (fe_decode_optimizer F t)) \<Longrightarrow> r = JNull"
    using assms r by (auto simp: optimizer_unusable_def call_ai_model_def catch_op_def bind_op_def
        split: prod.splits sum.splits if_splits) (metis fst_conv)
  moreover have "\<forall>t. isl (fe_decode_optimizer F t) \<Longrightarrow> parse_response (fe_decode_optimizer F) r = None"
    by (rule parse_response_undecodable)
  ultimately have "\<not> json_truthy r \<or> parse_response (fe_decode_optimizer F) r = None"
    by (cases "\<forall>t. isl (fe_decode_optimizer F t)") (auto simp: json_truthy_def)
  then show ?thesis
    using r by (auto simp: get_optimized_config_def catch_op_def bind_op_def)
qed

lemma optimize_unusable:
  assumes "optimizer_unusable F"
  shows "\<exists>t. optimize F job s = (Inr None, t)"
proof -
  obtain t where "get_optimized_config F (sj_query job) (dataset_info_text (ji_datasets job)) s = (Inr None, t)"
    using get_optimized_config_unusable [OF assms] by blast
  then show ?thesis by (simp add: optimize_def catch_op_def bind_op_Inr)
qed

lemma optimizer_flag_unused [simp]:
  "fe_submit_job (F\<lparr>fe_optimizer_enabled := b\<rparr>) = fe_submit_job F"
  "http_500 (F\<lparr>fe_optimizer_enabled := b\<rparr>) = http_500 F"
  "generate_query_id (F\<lparr>fe_optimizer_enabled := b\<rparr>) = generate_query_id F"
  by (simp_all add: fe_submit_job_def http_500_def generate_query_id_def fun_eq_iff)

text \<open>
  The optimizer cannot stop a job: when it gives no usable reply, submitting a SQL job behaves
  exactly as with the optimizer switched off, from the state in which the request to it left the world.
\<close>

theorem optimizer_failure_harmless:
  assumes "optimizer_unusable F" and "job_id \<noteq> []"
  shows "\<exists>s1. submit_sql_job F job job_id query_id tel dry s =
    submit_sql_job (F\<lparr>fe_optimizer_enabled := False\<rparr>) job job_id query_id tel dry s1"
proof -
  obtain t where t: "optimize F job s = (Inr None, t)" using optimize_unusable [OF assms(1)] by blast
  have off: "optimize (F\<lparr>fe_optimizer_enabled := False\<rparr>) job u = (Inr None, u)" for u by (simp add: optimize_def)
  show ?thesis
    by (rule exI [of _ t])
      (use assms(2) t off [of t] in \<open>simp add: submit_sql_job_def Let_def catch_op_def bind_op_Inr\<close>)
qed

theorem optimizer_failure_harmless_witness:
  "\<exists>s1. submit_sql_job still_frontend (sample_job\<lparr>sj_use_optimizer := True\<rparr>) ''j'' '''' False True () =
    submit_sql_job (still_frontend\<lparr>fe_optimizer_enabled := False\<rparr>) (sample_job\<lparr>sj_use_optimizer := True\<rparr>)
      ''j'' '''' False True s1"
  by (rule optimizer_failure_harmless) (simp_all add: optimizer_unusable_def still_frontend_simps)

section \<open>Replies of the model\<close>

lemma find_sub_first:
  assumes "sub \<noteq> []" and "hd sub \<notin> set pre"
  shows "find_sub sub (pre @ sub @ post) = Some (length pre)"
  using assms(2)
proof (induction pre)
  case Nil
  with assms(1) show ?case by (cases sub) auto
next
  case (Cons c pre)
  then have "take (length sub) (c # pre @ sub @ post) \<noteq> sub" using assms(1) by (cases sub) auto
  with Cons show ?case by simp
qed

lemma is_substring_find: "is_substring sub s \<longleftrightarrow> find_sub sub s \<noteq> None"
  by (induction s) auto

lemma find_sub_absent: "sub \<noteq> [] \<Longrightarrow> hd sub \<notin> set s \<Longrightarrow> find_sub sub s = None"
proof (induction s)
  case (Cons c s)
  then have "take (length sub) (c # s) \<noteq> sub" by (cases sub) auto
  with Cons show ?case by simp
qed auto

lemma str_strip_spaces:
  assumes "list_all is_space ws" and "list_all is_space ws'" and "s \<noteq> []" "\<not> is_space (hd s)" "\<not> is_space (last s)"
  shows "str_strip (ws @ s @ ws') = s"
proof -
  have "dropWhile is_space (ws @ t) = dropWhile is_space t" if "list_all is_space ws" for ws t
    using that by (induction ws) auto
  moreover have "dropWhile is_space (s @ ws') = s @ ws'" using assms(3,4) by (cases s) auto
  moreover have "dropWhile is_space (rev s) = rev s" using assms(3,5) by (cases s rule: rev_cases) auto
  ultimately show ?thesis using assms by (simp add: str_strip_def)
qed

definition is_object_text :: "string \<Rightarrow> bool" where
  "is_object_text t \<longleftrightarrow> t \<noteq> [] \<and> hd t = CHR ''{'' \<and> last t = CHR ''}''"

lemma braces_part_object:
  assumes "is_object_text t" and "CHR ''{'' \<notin> set pre" and "CHR ''}'' \<notin> set post"
  shows "braces_part (pre @ t @ post) = Some t"
proof -
  from assms(1) obtain t' where t': "t = CHR ''{'' # t'" by (cases t) (auto simp: is_object_text_def)
  have f: "find_sub ''{'' (pre @ t @ post) = Some (length pre)"
    using find_sub_first [of "''{''" pre "t' @ post"] assms(2) t' by simp
  obtain t'' where t'': "t = t'' @ [CHR ''}'']"
    using assms(1) by (cases t rule: rev_cases) (auto simp: is_object_text_def)
  have "takeWhile (\<lambda>c. c \<noteq> CHR ''}'') (rev post @ CHR ''}'' # rest) = rev post" for rest
    using assms(3) by (simp add: takeWhile_append takeWhile_eq_all_conv)
  then have "takeWhile (\<lambda>c. c \<noteq> CHR ''}'') (rev (pre @ t @ post)) = rev post" by (simp add: t'')
  with f t' show ?thesis by (simp add: braces_part_def Let_def)
qed

lemma object_text_ends: "is_object_text t \<Longrightarrow> t \<noteq> [] \<and> \<not> is_space (hd t) \<and> \<not> is_space (last t)"
  by (auto simp: is_object_text_def is_space_def)

lemma plain_reply:
  assumes "is_object_text t" and "CHR 0x60 \<notin> set (pre @ t @ post)" "CHR ''{'' \<notin> set pre" "CHR ''}'' \<notin> set post"
  shows "parse_response decode (JStr (pre @ t @ post)) = (case decode t of Inl _ \<Rightarrow> None | Inr c \<Rightarrow> Some c)"
proof -
  have "find_sub (code_fence @ s) (pre @ t @ post) = None" for s
    using assms(2) by (intro find_sub_absent) (auto simp: code_fence_def)
  from this [of "''json''"] this [of "[]"] braces_part_object [OF assms(1,3,4)] show ?thesis
    by (simp add: parse_response_def Let_def is_substring_find)
qed

lemma after_fence_block:
  assumes "find_sub fence (pre @ fence @ body @ code_fence @ post) = Some (length pre)"
    and "find_sub code_fence (body @ code_fence @ post) = Some (length body)"
  shows "after_fence fence (pre @ fence @ body @ code_fence @ post) = str_strip body"
  using assms by (simp add: after_fence_def Let_def find_from_def slice_to_def)

lemma fenced_reply:
  assumes "is_object_text t" and "CHR 0x60 \<notin> set (pre @ t)" and ws: "list_all is_space ws" "list_all is_space ws'"
  shows "parse_response decode (JStr (pre @ code_fence @ ''json'' @ ws @ t @ ws' @ code_fence @ post)) =
    (case decode t of Inl _ \<Rightarrow> None | Inr c \<Rightarrow> Some c)"
proof -
  let ?r = "pre @ code_fence @ ''json'' @ ws @ t @ ws' @ code_fence @ post"
  have hd: "hd code_fence = CHR 0x60" "code_fence \<noteq> []" by (simp_all add: code_fence_def)
  have "\<not> is_space (CHR 0x60)" by (simp add: is_space_def)
  then have "CHR 0x60 \<notin> set (ws @ t @ ws')" using ws assms(2) by (auto simp: list_all_iff)
  then have e: "find_sub code_fence ((ws @ t @ ws') @ code_fence @ post) = Some (length (ws @ t @ ws'))"
    using hd find_sub_first [of code_fence "ws @ t @ ws'" post] by simp
  have f: "find_sub (code_fence @ ''json'') ?r = Some (length pre)"
    using find_sub_first [of "code_fence @ ''json''" pre "ws @ t @ ws' @ code_fence @ post"] assms(2) hd by simp
  have "str_strip (ws @ t @ ws') = t"
    using object_text_ends [OF assms(1)] by (intro str_strip_spaces ws) auto
  then have "after_fence (code_fence @ ''json'') ?r = t"
    using after_fence_block [of "code_fence @ ''json''" pre "ws @ t @ ws'" post] e f by simp
  with f braces_part_object [OF assms(1), of "[]" "[]"] show ?thesis
    by (simp add: parse_response_def Let_def is_substring_find)
qed

text \<open>
  What the model may wrap its answer in: a JSON object is found in a plain reply, between any
  text without an opening brace before it and without a closing brace after it, and inside the first
  fenced block of a reply, marked as JSON, with white space around it. The object's text, and
  nothing else, is what is decoded.
\<close>

theorem reply_object_found:
  assumes "is_object_text t" and "CHR 0x60 \<notin> set (pre @ t)"
  shows "(CHR 0x60 \<notin> set post \<and> CHR ''{'' \<notin> set pre \<and> CHR ''}'' \<notin> set post \<longrightarrow>
      parse_response decode (JStr (pre @ t @ post)) = (case decode t of Inl _ \<Rightarrow> None | Inr c \<Rightarrow> Some c)) \<and>
    (list_all is_space ws \<and> list_all is_space ws' \<longrightarrow>
      parse_response decode (JStr (pre @ code_fence @ ''json'' @ ws @ t @ ws' @ code_fence @ post)) =
        (case decode t of Inl _ \<Rightarrow> None | Inr c \<Rightarrow> Some c))"
  using plain_reply [OF assms(1), of pre post decode] fenced_reply [OF assms, of ws ws' decode post] assms(2) by simp

definition sample_optimum :: optimized_config where
  "sample_optimum = \<lparr>oc_driver_cores = 1, oc_driver_memory = ''1g'', oc_executor_cores = 1, oc_executor_memory = ''1g'',
     oc_executor_instances_min = 1, oc_executor_instances_max = 2, oc_reasoning = None\<rparr>"

definition sample_decode :: "string \<Rightarrow> optimized_config res" where
  "sample_decode t = (if t = ''{a}'' then Inr sample_optimum else Inl JSONDecodeError)"

theorem reply_object_found_witness:
  "parse_response sample_decode (JStr (''so: '' @ ''{a}'' @ ''ok'')) = Some sample_optimum \<and>
   parse_response sample_decode (JStr (''so: '' @ code_fence @ ''json'' @ '' '' @ ''{a}'' @ [] @ code_fence @ ''ok'')) =
     Some sample_optimum"
  using reply_object_found [of "''{a}''" "''so: ''" "''ok''" sample_decode "'' ''" "[]"]
  by (simp add: is_object_text_def is_space_def sample_decode_def)

section \<open>Error codes\<close>

lemma get_spark_app_404:
  assumes "custom_get K S ns job s = (Inl (ApiException (Some 404) m), s')"
  shows "get_spark_app K S job ns s = (Inl (ResourceNotFound (''Spark Application '' @ job @ '' not found'')), s')"
  using assms by (simp add: get_spark_app_def catch_op_def bind_op_def)

text \<open>
  C39. A job the cluster does not know: its status is answered with 404, but an operational event
  for it with 500, whose detail holds the text of the 404 the handler raised and caught itself; and
  a statistics event of another type than the expected one is answered with 500 instead of 400.
\<close>

theorem unknown_job_codes:
  assumes unknown: "\<And>s. \<exists>s'. custom_get (fe_kube F) (fe_resource F) (fe_namespace F) job s =
      (Inl (ApiException (Some 404) m), s')"
    and uuid: "fe_uuid4 F s = (Inr u, s1)" and msg: "oe_get_message event = Inr msg"
    and stats: "se_type st \<noteq> QUERY_STATISTICS"
  shows "(\<exists>t. get_status F job s = (Inl (HTTPException 404 (''Job with ID '' @ job @ '' not found'')), t)) \<and>
    (\<exists>t. record_operational_event F job event s =
      (Inl (HTTPException 500 (''Failed to record operational event: '' @
        fe_str_exc F (HTTPException 404 (''Spark application '' @ job @ '' not found'')))), t)) \<and>
    (\<exists>d. record_statistics F job st s = (Inl (HTTPException 500 d), s))"
proof (intro conjI)
  have g: "\<exists>s'. get_spark_app (fe_kube F) (fe_resource F) job (fe_namespace F) s =
      (Inl (ResourceNotFound (''Spark Application '' @ job @ '' not found'')), s')" for s
    using unknown [of s] by (auto dest!: get_spark_app_404)
  obtain s2 where s2: "get_spark_app (fe_kube F) (fe_resource F) job (fe_namespace F) s =
      (Inl (ResourceNotFound (''Spark Application '' @ job @ '' not found'')), s2)" using g by blast
  then show "\<exists>t. get_status F job s = (Inl (HTTPException 404 (''Job with ID '' @ job @ '' not found'')), t)"
    by (simp add: get_status_def get_status_body_def catch_op_def bind_op_def)
  obtain s3 where s3: "get_spark_app (fe_kube F) (fe_resource F) job (fe_namespace F) s1 =
      (Inl (ResourceNotFound (''Spark Application '' @ job @ '' not found'')), s3)" using g by blast
  then have "create_spark_app_event F job n m' r k s1 =
      (Inl (HTTPException 404 (''Spark application '' @ job @ '' not found'')), s3)" for n m' r k
    by (simp add: create_spark_app_event_def catch_op_def bind_op_def)
  then show "\<exists>t. record_operational_event F job event s =
      (Inl (HTTPException 500 (''Failed to record operational event: '' @
        fe_str_exc F (HTTPException 404 (''Spark application '' @ job @ '' not found'')))), t)"
    using uuid msg by (simp add: record_operational_event_def catch_op_def bind_op_def http_500_def)
  show "\<exists>d. record_statistics F job st s = (Inl (HTTPException 500 d), s)"
    using stats by (simp add: record_statistics_def catch_op_def http_500_def)
qed

definition empty_frontend :: "(unit, unit, unit) frontend" where
  "empty_frontend = still_frontend
    \<lparr>fe_kube := (still_kube JNull None [])\<lparr>custom_get := (\<lambda>S ns n. raise_op (ApiException (Some 404) ''gone''))\<rparr>\<rparr>"

theorem unknown_job_codes_witness:
  "\<exists>t d. get_status empty_frontend ''j'' () = (Inl (HTTPException 404 (''Job with ID '' @ ''j'' @ '' not found'')), t) \<and>
    record_operational_event empty_frontend ''j'' (operational_event_of QueryExecutionStarted) () =
      (Inl (HTTPException 500 (''Failed to record operational event: '' @ ''failed'')), t) \<and>
    record_statistics empty_frontend ''j'' \<lparr>se_type = ''QueryStatistics'', se_data_base64 = []\<rparr> () =
      (Inl (HTTPException 500 d), ())"
proof -
  have "\<not> isl (oe_get_message (operational_event_of QueryExecutionStarted))" by code_simp
  then obtain m where m: "oe_get_message (operational_event_of QueryExecutionStarted) = Inr m"
    by (auto simp: isl_def) (metis sum.exhaust)
  have "\<exists>s'. custom_get (fe_kube empty_frontend) (fe_resource empty_frontend) (fe_namespace empty_frontend) ''j'' s =
      (Inl (ApiException (Some 404) ''gone''), s')" for s
    by (simp add: empty_frontend_def)
  moreover have "fe_uuid4 empty_frontend () = (Inr ''01234567-89'', ())"
    by (simp add: empty_frontend_def still_frontend_simps)
  ultimately show ?thesis
    using unknown_job_codes [of empty_frontend "''j''" "''gone''" "()" "''01234567-89''" "()"
        "operational_event_of QueryExecutionStarted" m "\<lparr>se_type = ''QueryStatistics'', se_data_base64 = []\<rparr>"] m
    by (simp add: QUERY_STATISTICS_def empty_frontend_def still_frontend_def sample_frontend_def)
qed

section \<open>The attestation report\<close>

text \<open>
  C27. The attestation report binds the service certificate: the payload a client gets decodes to
  the certificate file's content, and on SEV-SNP the very same bytes are the runtime data sent to
  the attestation agent whose evidence the report holds; without SEV-SNP there is no report.
\<close>

theorem report_binds_certificate:
  assumes "getFrontendReport F s = (Inr r, t)"
  shows "\<exists>cert s1 payload platform report.
    file_read (fe_kube F) (service_cert_location F) s = (Inr cert, s1) \<and>
    r = JObj [(''platform'', JStr platform), (''report'', report), (''reportDataPayload'', JStr payload)] \<and>
    bind_res (bind_res (b64decode payload) utf8_decode) json_loads = Inr (JObj [(''serviceCert'', JStr cert)]) \<and>
    (if isSevSnp F then platform = ''snp'' \<and> (\<exists>status data.
        fe_post F ''http://localhost:8284/attest/combined'' (JObj [(''runtime_data'', JStr payload)]) s1 =
          (Inr (status, Inr data), t) \<and>
        json_get data ''evidence'' JNull = json_get report ''attestation'' JNull)
     else platform = ''virtual'' \<and> report = JNull \<and> t = s1)"
proof -
  have ascii: "report_data c = json_dumps (JObj [(''serviceCert'', JStr c)])" for c
    by (simp add: report_data_def utf8_encode_ascii)
  have rt: "bind_res (bind_res (b64decode (b64encode (report_data c))) utf8_decode) json_loads =
      Inr (JObj [(''serviceCert'', JStr c)])" for c
    by (simp add: ascii utf8_decode_ascii)
  show ?thesis
    using assms rt
    by (auto simp: getFrontendReport_def Let_def bind_op_Inr_iff get_report_def json_get_dict bind_res_Inr_iff
        split: if_splits prod.splits)
qed

theorem report_binds_certificate_witness:
  "\<exists>r payload. getFrontendReport (still_frontend\<lparr>fe_post := (\<lambda>url b. return_op (200, Inr (JObj [(''evidence'', JStr ''e'')])))\<rparr>) () =
      (Inr r, ()) \<and>
    json_get r ''reportDataPayload'' JNull = Inr (JStr payload) \<and>
    bind_res (bind_res (b64decode payload) utf8_decode) json_loads = Inr (JObj [(''serviceCert'', JStr ''cert'')])"
proof -
  let ?F = "still_frontend\<lparr>fe_post := (\<lambda>url b. return_op (200, Inr (JObj [(''evidence'', JStr ''e'')])))\<rparr>"
  have F: "fe_kube ?F = still_kube ended_meta (Some ended_status) []" by (simp add: still_frontend_simps)
  obtain r where r: "getFrontendReport ?F () = (Inr r, ())"
    by (simp add: getFrontendReport_def get_report_def still_frontend_simps still_kube_simps bind_op_def json_get_dict
        isSevSnp_def still_env_def)
  from report_binds_certificate [OF r] obtain payload pl re where
    "r = JObj [(''platform'', JStr pl), (''report'', re), (''reportDataPayload'', JStr payload)]"
    "bind_res (bind_res (b64decode payload) utf8_decode) json_loads = Inr (JObj [(''serviceCert'', JStr ''cert'')])"
    unfolding F still_kube_simps return_op_apply by blast
  with r show ?thesis by (simp add: json_get_dict)
qed

end
