(* ===== verification/Reporters.thy ===== *)
theory Reporters
  imports Contracts
begin

text \<open>
  The analytics application's adapters: \<^verbatim>\<open>utilities/http_utilities.py\<close>, the HTTP and the
  mock implementations of the three reporting interfaces, and \<^verbatim>\<open>AdapterFactory\<close>. The HTTP
  session, the sleep between attempts and the serialisation of pydantic models are parameters. The
  interface the query runner relies on is the locale \<open>reporting\<close>: no report of an event made by the
  factories raises.
\<close>

section \<open>The HTTP client\<close>

record http_request =
  rq_method :: string
  rq_url :: string
  rq_data :: string
  rq_json :: "(string, json) dict"
  rq_headers :: "(string, string) dict"
  rq_verify :: bool

record 's http_client =
  hc_request :: "http_request \<Rightarrow> ('s, int) op" \<comment> \<open>\<^verbatim>\<open>session.request\<close>, the status of the response\<close>
  hc_transient :: "exc \<Rightarrow> bool" \<comment> \<open>\<^verbatim>\<open>ConnectionError\<close> or \<^verbatim>\<open>Timeout\<close> of \<^verbatim>\<open>requests\<close>\<close>
  hc_sleep :: "int \<Rightarrow> ('s, unit) op"
  hc_max_retries :: nat
  hc_retry_delay :: int
  hc_dump_event :: "operational_event \<Rightarrow> string"
  hc_dump_statistics :: "statistics_event \<Rightarrow> string"

text \<open>
  The retry decorator: \<open>n\<close> is the number of attempts that may still follow the first. Only transient
  errors are retried, and the last one is raised as it is.
\<close>

primrec with_retry :: "'s http_client \<Rightarrow> ('s, 'a) op \<Rightarrow> nat \<Rightarrow> ('s, 'a) op" where
  "with_retry C m 0 = m"
| "with_retry C m (Suc n) =
    catch_op m (\<lambda>e.
      if hc_transient C e then bind_op (hc_sleep C (hc_retry_delay C)) (\<lambda>_. with_retry C m n) else raise_op e)"

definition request_headers :: "(string, json) dict \<Rightarrow> (string, string) dict \<Rightarrow> (string, string) dict" where
  "request_headers json headers =
    (if json \<noteq> [] \<and> \<not> list_ex (\<lambda>(k, v). str_lower k = ''content-type'') headers
     then AList.update ''Content-Type'' ''application/json'' headers else headers)"

definition execute_request :: "'s http_client \<Rightarrow> http_request \<Rightarrow> ('s, unit) op" where
  "execute_request C r =
    bind_op (hc_request C (r\<lparr>rq_headers := request_headers (rq_json r) (rq_headers r)\<rparr>)) (\<lambda>status.
    if 400 \<le> status \<and> status < 600 then raise_op (OtherException ''HTTPError'') else return_op ())"

definition do_request :: "'s http_client \<Rightarrow> http_request \<Rightarrow> ('s, unit) op" where
  "do_request C r = with_retry C (execute_request C r) (hc_max_retries C - 1)"

definition put_with_retry :: "'s http_client \<Rightarrow> string \<Rightarrow> string \<Rightarrow> bool \<Rightarrow> (string, json) dict \<Rightarrow> ('s, unit) op" where
  "put_with_retry C endpoint data verify_ssl json =
    do_request C \<lparr>rq_method = ''PUT'', rq_url = endpoint, rq_data = data, rq_json = json, rq_headers = [],
      rq_verify = verify_ssl\<rparr>"

section \<open>The adapters\<close>

record 's reporters =
  log_operational_event :: "operational_event \<Rightarrow> ('s, unit) op"
  log_audit_record :: "audit_record \<Rightarrow> ('s, unit) op"
  record_statistics_event :: "statistics_event \<Rightarrow> ('s, unit) op"

definition http_log_event :: "'s http_client \<Rightarrow> string \<Rightarrow> operational_event \<Rightarrow> ('s, unit) op" where
  "http_log_event C endpoint e =
    catch_op (put_with_retry C endpoint (hc_dump_event C e) False []) (\<lambda>_. return_op ())"

definition http_log_audit :: "'s http_client \<Rightarrow> string \<Rightarrow> audit_record \<Rightarrow> ('s, unit) op" where
  "http_log_audit C endpoint r =
    catch_op (bind_op (lift_res (ar_get_message r)) (\<lambda>m.
      put_with_retry C endpoint [] True [(''source'', JStr (ar_source r)), (''message'', JStr m)])) (\<lambda>_. return_op ())"

definition http_record_statistics :: "'s http_client \<Rightarrow> string \<Rightarrow> statistics_event \<Rightarrow> ('s, unit) op" where
  "http_record_statistics C endpoint e =
    catch_op (put_with_retry C endpoint (hc_dump_statistics C e) False []) (\<lambda>_. return_op ())"

definition http_reporters :: "'s http_client \<Rightarrow> string \<Rightarrow> string \<Rightarrow> string \<Rightarrow> 's reporters" where
  "http_reporters C statistics_endpoint event_endpoint audit_endpoint =
    \<lparr>log_operational_event = http_log_event C event_endpoint,
     log_audit_record = http_log_audit C audit_endpoint,
     record_statistics_event = http_record_statistics C statistics_endpoint\<rparr>"

text \<open>The mock adapters print the message to the log.\<close>

definition mock_reporters :: "'s reporters" where
  "mock_reporters =
    \<lparr>log_operational_event = (\<lambda>e. bind_op (lift_res (oe_get_message e)) (\<lambda>_. return_op ())),
     log_audit_record = (\<lambda>r. bind_op (lift_res (ar_get_message r)) (\<lambda>_. return_op ())),
     record_statistics_event = (\<lambda>e. return_op ())\<rparr>"

datatype provider_type = Provider_Http | Provider_Mock

definition AdapterFactory ::
  "'s http_client \<Rightarrow> provider_type \<Rightarrow> string option \<Rightarrow> string option \<Rightarrow> string option \<Rightarrow> 's reporters res" where
  "AdapterFactory C provider statistics_recorder_endpoint event_emitter_endpoint audit_record_logger_endpoint =
    (case provider of
       Provider_Http \<Rightarrow>
         if or_str statistics_recorder_endpoint [] = [] \<or> or_str event_emitter_endpoint [] = [] \<or>
            or_str audit_record_logger_endpoint [] = []
         then Inl (ValueError ''Statistics, Event emitter and Audit record endpoints must be provided for Http provider type'')
         else Inr (http_reporters C (or_str statistics_recorder_endpoint []) (or_str event_emitter_endpoint [])
                (or_str audit_record_logger_endpoint []))
     | Provider_Mock \<Rightarrow> Inr mock_reporters)"

section \<open>The contract of the reporters\<close>

locale reporting =
  fixes R :: "'s reporters"
  assumes events_return: "\<exists>t. log_operational_event R (operational_event_of k) s = (Inr (), t)"
    and audits_return: "\<exists>t. log_audit_record R (audit_record_of src k') s = (Inr (), t)"
    and statistics_return: "\<exists>t. record_statistics_event R e s = (Inr (), t)"
begin

text \<open>A report before an operation leaves its outcome to the operation, in a later state.\<close>

lemma event_then:
  "\<exists>t. bind_op (log_operational_event R (operational_event_of k)) f s = f () t"
  using events_return [of k s] by (auto simp: bind_op_def)

lemma audit_then: "\<exists>t. bind_op (log_audit_record R (audit_record_of src k)) f s = f () t"
  using audits_return [of src k s] by (auto simp: bind_op_def)

text \<open>Reporting a failure ends in raising it again.\<close>

lemma failure_reported:
  "\<exists>t. bind_op (log_operational_event R (operational_event_of k)) (\<lambda>_.
     bind_op (log_audit_record R (audit_record_of src k')) (\<lambda>_. raise_op x)) s = (Inl x, t)"
  using event_then [of k _ s] audit_then [of src k'] by (metis raise_op_apply)

end

lemma catch_all_returns: "\<exists>t. catch_op m (\<lambda>_. return_op ()) s = (Inr (), t)"
  by (auto simp: catch_op_def split: prod.split sum.split)

interpretation http: reporting "http_reporters C st ev au" for C st ev au
  by unfold_locales
    (simp_all add: http_reporters_def http_log_event_def http_log_audit_def http_record_statistics_def catch_all_returns)

interpretation mock: reporting mock_reporters
  by unfold_locales (simp_all add: mock_reporters_def bind_op_def)

lemma AdapterFactory_reporting: "AdapterFactory C p st ev au = Inr R \<Longrightarrow> reporting R"
  using http.reporting_axioms mock.reporting_axioms
  by (auto simp: AdapterFactory_def split: provider_type.splits if_splits)

end
