(* ===== verification/Dataset_Loader.thy ===== *)
theory Dataset_Loader
  imports Reporters Spark_Builder
begin

text \<open>
  Loading and writing datasets in the analytics application:
  \<^verbatim>\<open>utilities/dataset_loader.py\<close> and \<^verbatim>\<open>config/configuration.py\<close>. Spark and what
  the module calls of the system are the fields of \<open>spark\<close>, over an abstract state and an abstract
  type of data frames; an action or a call that reaches the cluster is an operation, a
  transformation a function. A data frame is true in a condition.
\<close>

declare audit_record_of.simps [simp del] operational_event_of.simps [simp del]

section \<open>Configuration and types\<close>

record app_dataset =
  di_name :: string
  di_view_name :: string
  di_path :: string
  di_format :: dataset_format
  di_schema :: "(string, field_schema) dict option"
  di_allowedFields :: "string list"

record query_configuration =
  qc_query :: string
  qc_datasets :: "app_dataset list"
  qc_datasink :: app_dataset

datatype spark_type =
    StringType | IntegerType | LongType | TimestampType | DoubleType | BooleanType | DateType
  | ArrayType spark_type

text \<open>The fields of a \<^verbatim>\<open>StructType\<close>: name, type and whether it is nullable.\<close>

type_synonym struct_type = "(string \<times> spark_type \<times> bool) list"

record ('s, 'df, 'f) spark =
  sp_list_tables :: "('s, string list) op"
  sp_table :: "string \<Rightarrow> ('s, 'df) op"
  sp_sql :: "string \<Rightarrow> ('s, 'df) op"
  sp_count :: "'df \<Rightarrow> ('s, int) op"
  sp_columns :: "'df \<Rightarrow> string list"
  sp_schema :: "'df \<Rightarrow> struct_type"
  sp_select :: "string list \<Rightarrow> 'df \<Rightarrow> 'df res"
  sp_filter_ge :: "string \<Rightarrow> int \<Rightarrow> 'df \<Rightarrow> 'df res" \<comment> \<open>\<^verbatim>\<open>df.filter(col(c) >= v)\<close>\<close>
  sp_union_by_name :: "'df \<Rightarrow> 'df \<Rightarrow> 'df res"
  sp_read :: "dataset_format \<Rightarrow> string \<Rightarrow> string \<Rightarrow> struct_type \<Rightarrow> ('s, 'df) op" \<comment> \<open>format, file pattern, path, schema; recursive\<close>
  sp_cache :: "'df \<Rightarrow> ('s, unit) op"
  sp_create_view :: "string \<Rightarrow> 'df \<Rightarrow> ('s, unit) op"
  sp_conf_set :: "string \<Rightarrow> string \<Rightarrow> ('s, unit) op"
  sp_write :: "string \<Rightarrow> string \<Rightarrow> 'df \<Rightarrow> ('s, unit) op" \<comment> \<open>format, path; with a header, overwriting\<close>
  sp_makedirs :: "string \<Rightarrow> ('s, unit) op"
  sp_today :: "('s, date) op"
  sp_monotonic_ns :: "('s, int) op"
  sp_seconds :: "int \<Rightarrow> 'f" \<comment> \<open>\<^verbatim>\<open>ns / 1e9\<close>\<close>
  sp_str_float :: "'f \<Rightarrow> string"
  sp_stats_dumps :: "'f query_statistics \<Rightarrow> string"
  sp_str_exc :: "exc \<Rightarrow> string"

section \<open>Schemas\<close>

text \<open>
  \<^verbatim>\<open>parse_field\<close> on the properties of a field, which are strings. An array's item schema is
  such a string and an object's members are too, so that reading their type raises; an array
  without items gets the default, whose type is a string.
\<close>

definition parse_field :: "field_schema \<Rightarrow> spark_type res" where
  "parse_field p =
    (case map_of p ''type'' of
       None \<Rightarrow> Inr StringType
     | Some t \<Rightarrow>
         if t = ''string'' then Inr StringType
         else if t = ''integer'' then Inr IntegerType
         else if t = ''long'' then Inr LongType
         else if t = ''timestamp'' then Inr TimestampType
         else if t = ''number'' then Inr DoubleType
         else if t = ''boolean'' then Inr BooleanType
         else if t = ''date'' then Inr DateType
         else if t = ''array'' then
           (case map_of p ''items'' of None \<Rightarrow> Inr (ArrayType StringType) | Some _ \<Rightarrow> Inl AttributeError)
         else if t = ''object'' then Inl AttributeError
         else Inr StringType)"

text \<open>A field is required when it is a property of a field called \<^verbatim>\<open>required\<close>.\<close>

definition parse_json_schema :: "(string, field_schema) dict option \<Rightarrow> struct_type res" where
  "parse_json_schema schema =
    (case schema of
       None \<Rightarrow> Inl AttributeError
     | Some d \<Rightarrow>
         map_res (\<lambda>(p, q). bind_res (parse_field q) (\<lambda>t.
           Inr (p, t, (case map_of d ''required'' of None \<Rightarrow> True | Some r \<Rightarrow> p \<notin> fst ` set r)))) d)"

definition field_types :: "struct_type \<Rightarrow> (string, spark_type) dict" where
  "field_types fs = fold (\<lambda>(n, t, nullable) d. AList.update n t d) fs []"

definition is_schema_compatible :: "struct_type \<Rightarrow> struct_type \<Rightarrow> bool" where
  "is_schema_compatible df_schema expected_schema =
    list_all (\<lambda>(n, t). map_of (field_types expected_schema) n = Some t) (field_types df_schema)"

section \<open>Dates\<close>

definition leap_year :: "int \<Rightarrow> bool" where
  "leap_year y \<longleftrightarrow> y mod 4 = 0 \<and> (y mod 100 \<noteq> 0 \<or> y mod 400 = 0)"

definition days_in_month :: "int \<Rightarrow> nat \<Rightarrow> nat" where
  "days_in_month y m =
    (if m = 2 then (if leap_year y then 29 else 28) else if m \<in> {4, 6, 9, 11} then 30 else 31)"

fun valid_date :: "date \<Rightarrow> bool" where
  "valid_date (y, m, t) \<longleftrightarrow> 1 \<le> y \<and> y \<le> 9999 \<and> 1 \<le> m \<and> m \<le> 12 \<and> 1 \<le> t \<and> t \<le> days_in_month y m"

fun date_le :: "date \<Rightarrow> date \<Rightarrow> bool" where
  "date_le (y, m, t) (y', m', t') \<longleftrightarrow> y < y' \<or> y = y' \<and> (m < m' \<or> m = m' \<and> t \<le> t')"

text \<open>\<^verbatim>\<open>d + timedelta(days=1)\<close>: the last day of the calendar has no successor.\<close>

fun next_day :: "date \<Rightarrow> date option" where
  "next_day (y, m, t) =
    (if t < days_in_month y m then Some (y, m, Suc t)
     else if m < 12 then Some (y, Suc m, 1)
     else if y < 9999 then Some (y + 1, 1, 1)
     else None)"

text \<open>
  \<^verbatim>\<open>strptime(s, "%Y-%m-%d")\<close>: four digits; a month of one or two digits; a day of one or two
  digits, or a space and a digit.
\<close>

definition strptime_month :: "string \<Rightarrow> bool" where
  "strptime_month m \<longleftrightarrow>
    (case m of
       [a] \<Rightarrow> is_digit a \<and> a \<noteq> CHR ''0''
     | [a, b] \<Rightarrow> a = CHR ''0'' \<and> is_digit b \<and> b \<noteq> CHR ''0'' \<or> a = CHR ''1'' \<and> b \<in> set ''012''
     | _ \<Rightarrow> False)"

definition strptime_day :: "string \<Rightarrow> bool" where
  "strptime_day t \<longleftrightarrow>
    (case t of
       [a] \<Rightarrow> is_digit a \<and> a \<noteq> CHR ''0''
     | [a, b] \<Rightarrow> a \<in> set ''0 '' \<and> is_digit b \<and> b \<noteq> CHR ''0'' \<or> a \<in> set ''12'' \<and> is_digit b \<or>
         a = CHR ''3'' \<and> b \<in> set ''01''
     | _ \<Rightarrow> False)"

definition strptime_date :: "string \<Rightarrow> date res" where
  "strptime_date s =
    (case str_split (CHR ''-'') s of
       [y, m, t] \<Rightarrow>
         if length y = 4 \<and> list_all is_digit y \<and> strptime_month m \<and> strptime_day t then
           let d = (int (digits_val y), digits_val m, digits_val (filter is_digit t))
           in if valid_date d then Inr d else Inl (ValueError ''day is out of range for month'')
         else Inl (ValueError ''time data does not match format'')
     | _ \<Rightarrow> Inl (ValueError ''time data does not match format''))"

section \<open>Loading\<close>

definition load_dataset_folder :: "('s, 'df, 'f) spark \<Rightarrow> app_dataset \<Rightarrow> string \<Rightarrow> ('s, 'df) op" where
  "load_dataset_folder S ds data_path =
    bind_op (lift_res (parse_json_schema (di_schema ds))) (\<lambda>schema.
    sp_read S (di_format ds) (''*.'' @ format_value (di_format ds)) data_path schema)"

text \<open>One day of the range: a folder that does not exist is skipped.\<close>

definition load_day :: "('s, 'df, 'f) spark \<Rightarrow> app_dataset \<Rightarrow> date \<Rightarrow> 'df list \<Rightarrow> ('s, 'df list) op" where
  "load_day S ds d all_dfs =
    catch_op (bind_op (load_dataset_folder S ds (path_join (di_path ds) (iso_date d))) (\<lambda>df. return_op (all_dfs @ [df])))
      (\<lambda>e. if is_substring ''Path does not exist'' (sp_str_exc S e) then return_op all_dfs else raise_op e)"

text \<open>The loop over the days; adding a day to the last one of the calendar overflows.\<close>

function (sequential) load_dates ::
  "('s, 'df, 'f) spark \<Rightarrow> app_dataset \<Rightarrow> date \<Rightarrow> date \<Rightarrow> 'df list \<Rightarrow> ('s, 'df list) op" where
  "load_dates S ds current end_day all_dfs =
    (if \<not> date_le current end_day then return_op all_dfs
     else
       (case next_day current of
          None \<Rightarrow> bind_op (load_day S ds current all_dfs) (\<lambda>_. raise_op (OtherException ''OverflowError''))
        | Some nxt \<Rightarrow> bind_op (load_day S ds current all_dfs) (load_dates S ds nxt end_day)))"
  by pat_completeness auto
termination
  by (relation "measures [\<lambda>(S, ds, (y, m, t), e, dfs). nat (9999 - y), \<lambda>(S, ds, (y, m, t), e, dfs). 12 - m,
      \<lambda>(S, ds, (y, m, t), e, dfs). 31 - t]")
    (auto simp: days_in_month_def split: if_splits)

declare load_dates.simps [simp del]

definition load_consolidated :: "('s, 'df, 'f) spark \<Rightarrow> app_dataset \<Rightarrow> string \<Rightarrow> string \<Rightarrow> ('s, 'df) op" where
  "load_consolidated S ds start_date end_date =
    bind_op
      (if start_date \<noteq> [] \<and> end_date \<noteq> [] then
         bind_op (lift_res (strptime_date start_date)) (\<lambda>start.
         bind_op (lift_res (strptime_date end_date)) (\<lambda>end_day.
         bind_op (load_dates S ds start end_day []) (\<lambda>all_dfs.
         case all_dfs of
           [] \<Rightarrow> return_op None
         | df # dfs \<Rightarrow> bind_op (lift_res (fold_res (\<lambda>b a. sp_union_by_name S a b) dfs df)) (\<lambda>u. return_op (Some u)))))
       else return_op None) (\<lambda>consolidated.
    case consolidated of None \<Rightarrow> load_dataset_folder S ds (di_path ds) | Some df \<Rightarrow> return_op df)"

text \<open>The allowed fields the data frame has, in the order they are allowed.\<close>

definition allowed_columns :: "('s, 'df, 'f) spark \<Rightarrow> app_dataset \<Rightarrow> 'df \<Rightarrow> string list" where
  "allowed_columns S ds df = filter (\<lambda>f. f \<in> set (sp_columns S df)) (di_allowedFields ds)"

definition load_dataset_async ::
  "('s, 'df, 'f) spark \<Rightarrow> 's reporters \<Rightarrow> app_dataset \<Rightarrow> string \<Rightarrow> string \<Rightarrow> string \<Rightarrow> ('s, int) op" where
  "load_dataset_async S R ds start_date end_date job_id =
    bind_op (log_operational_event R (operational_event_of (DatasetLoadStarted (di_name ds) (di_path ds)
      (if end_date \<noteq> [] then end_date else ''NA'') (if start_date \<noteq> [] then start_date else ''NA'')))) (\<lambda>_.
    catch_op
      (bind_op (load_consolidated S ds start_date end_date) (\<lambda>df.
       bind_op (lift_res (sp_select S (allowed_columns S ds df) df)) (\<lambda>df.
       bind_op (sp_cache S df) (\<lambda>_.
       bind_op (sp_create_view S (di_view_name ds) df) (\<lambda>_.
       bind_op (sp_count S df) (\<lambda>row_count.
       bind_op (log_operational_event R (operational_event_of
         (DatasetLoadCompleted (di_name ds) (di_path ds) (str_int row_count)))) (\<lambda>_.
       bind_op (log_audit_record R (audit_record_of ''dataset_loader'' (AuditLoadCompleted (di_name ds) job_id))) (\<lambda>_.
       return_op row_count))))))))
      (\<lambda>e.
       bind_op (log_operational_event R (operational_event_of
         (DatasetLoadFailed (di_name ds) (di_path ds) (sp_str_exc S e)))) (\<lambda>_.
       bind_op (log_audit_record R (audit_record_of ''dataset_loader'' (AuditLoadFailed (di_name ds) job_id))) (\<lambda>_.
       raise_op e))))"

section \<open>Writing\<close>

definition output_path :: "app_dataset \<Rightarrow> date \<Rightarrow> string \<Rightarrow> string" where
  "output_path ds today job_id = di_path ds @ ''/'' @ iso_date today @ ''/'' @ job_id"

definition write_body :: "('s, 'df, 'f) spark \<Rightarrow> 's reporters \<Rightarrow> string \<Rightarrow> 'df \<Rightarrow> app_dataset \<Rightarrow> string \<Rightarrow> ('s, int) op" where
  "write_body S R job_id df ds path =
    bind_op (lift_res (sp_select S (allowed_columns S ds df) df)) (\<lambda>df.
    bind_op (lift_res (parse_json_schema (di_schema ds))) (\<lambda>dataset_schema.
    if \<not> is_schema_compatible (sp_schema S df) dataset_schema
    then raise_op (ValueError ''DataFrame schema does not match expected dataset schema.'')
    else
      bind_op (sp_count S df) (\<lambda>_.
      bind_op (sp_makedirs S path) (\<lambda>_.
      bind_op (sp_write S (format_value (di_format ds)) path df) (\<lambda>_.
      bind_op (sp_count S df) (\<lambda>row_count.
      bind_op (log_operational_event R (operational_event_of
        (DatasetWriteCompleted (di_name ds) path (str_int row_count)))) (\<lambda>_.
      bind_op (log_audit_record R (audit_record_of ''dataset_loader''
        (AuditWriteCompleted (di_name ds) path job_id (str_int row_count)))) (\<lambda>_.
      return_op row_count))))))))"

definition write_dataset_async ::
  "('s, 'df, 'f) spark \<Rightarrow> 's reporters \<Rightarrow> string \<Rightarrow> 'df \<Rightarrow> app_dataset \<Rightarrow> ('s, int) op" where
  "write_dataset_async S R job_id df ds =
    bind_op (log_operational_event R (operational_event_of (DatasetWriteStarted (di_name ds) (di_path ds)))) (\<lambda>_.
    bind_op (sp_conf_set S ''mapreduce.fileoutputcommitter.marksuccessfuljobs'' ''false'') (\<lambda>_.
    bind_op (sp_conf_set S ''dfs.client.write.checksum'' ''false'') (\<lambda>_.
    bind_op (sp_conf_set S ''mapreduce.fileoutputcommitter.algorithm.version'' ''2'') (\<lambda>_.
    bind_op (sp_today S) (\<lambda>today.
    let path = output_path ds today job_id
    in catch_op (write_body S R job_id df ds path) (\<lambda>e.
         bind_op (log_operational_event R (operational_event_of
           (DatasetWriteFailed (di_name ds) (sp_str_exc S e) path))) (\<lambda>_.
         bind_op (log_audit_record R (audit_record_of ''dataset_loader''
           (AuditWriteFailed (di_name ds) path job_id (sp_str_exc S e)))) (\<lambda>_.
         raise_op e))))))))"

section \<open>The days of a range\<close>

definition date_lt :: "date \<Rightarrow> date \<Rightarrow> bool" where
  "date_lt a b \<longleftrightarrow> date_le a b \<and> a \<noteq> b"

lemma date_le_refl [simp]: "date_le d d"
  by (cases d) simp

lemma date_le_trans: "date_le a b \<Longrightarrow> date_le b c \<Longrightarrow> date_le a c"
  by (cases a; cases b; cases c) auto

lemma date_le_total: "date_le a b \<or> date_le b a"
  by (cases a; cases b) auto

lemma date_le_antisym: "date_le a b \<Longrightarrow> date_le b a \<Longrightarrow> a = b"
  by (cases a; cases b) auto

lemma days_in_month_pos [simp]: "Suc 0 \<le> days_in_month y m"
  by (simp add: days_in_month_def)

lemma next_day_valid: "valid_date d \<Longrightarrow> next_day d = Some n \<Longrightarrow> valid_date n \<and> date_lt d n"
  by (cases d) (auto simp: date_lt_def split: if_splits)

text \<open>There is no day between a day and the next one.\<close>

lemma next_day_least:
  assumes "valid_date d" and "next_day d = Some n" and "valid_date x" and "date_lt d x"
  shows "date_le n x"
  using assms by (cases d; cases x) (auto simp: date_lt_def split: if_splits)

lemma next_day_None: "valid_date d \<Longrightarrow> next_day d = None \<longleftrightarrow> d = (9999, 12, 31)"
  by (cases d) (auto simp: days_in_month_def leap_year_def split: if_splits)

lemma valid_date_max: "valid_date d \<Longrightarrow> date_le d (9999, 12, 31)"
  by (cases d) (auto simp: days_in_month_def split: if_splits)

declare valid_date.simps [simp del] date_le.simps [simp del]

text \<open>The days \<open>ds\<close> are those from \<open>a\<close> to \<open>b\<close>, each once and in order.\<close>

definition days_of_range :: "date \<Rightarrow> date \<Rightarrow> date list \<Rightarrow> bool" where
  "days_of_range a b ds \<longleftrightarrow>
    sorted_wrt date_lt ds \<and> set ds = {d. valid_date d \<and> date_le a d \<and> date_le d b}"

lemma days_of_range_Nil: "\<not> date_le a b \<Longrightarrow> days_of_range a b []"
  unfolding days_of_range_def using date_le_trans [of a _ b] by auto

lemma days_of_range_Cons:
  assumes "valid_date a" and "date_le a b" and "next_day a = Some n" and "days_of_range n b ds"
  shows "days_of_range a b (a # ds)"
proof -
  have n: "valid_date n" "date_lt a n" using next_day_valid [OF assms(1,3)] by auto
  have "date_lt a d" if "date_le n d" for d
    using that n(2) date_le_trans date_le_antisym by (metis date_lt_def)
  moreover have "x = a \<or> date_le n x" if "valid_date x" "date_le a x" for x
    using next_day_least [OF assms(1,3) that(1)] that(2) by (auto simp: date_lt_def)
  ultimately show ?thesis
    using assms(1,2,4) n unfolding days_of_range_def sorted_wrt.simps date_lt_def by fastforce
qed

text \<open>
  C18. The loop over the dates terminates and loads the right days: for a range that ends before the
  last day of the calendar it is the fold over exactly the days from the first to the last date, each
  of them once and in order, and over no days when the range is empty.
\<close>

theorem load_dates_range:
  assumes "valid_date a" and "valid_date b" and "b \<noteq> (9999, 12, 31)"
  shows "\<exists>days. days_of_range a b days \<and> load_dates S ds a b dfs = fold_op (load_day S ds) days dfs"
proof -
  have "\<exists>days. days_of_range a b days \<and> (\<forall>dfs. load_dates S ds a b dfs = fold_op (load_day S ds) days dfs)"
    using assms
  proof (induction S ds a b dfs rule: load_dates.induct)
    case (1 S ds a b dfs)
    show ?case
    proof (cases "date_le a b")
      case False
      then show ?thesis using days_of_range_Nil by (intro exI [of _ "[]"]) (simp add: load_dates.simps)
    next
      case True
      then have "a \<noteq> (9999, 12, 31)" using "1.prems" date_le_antisym valid_date_max by blast
      then obtain n where n: "next_day a = Some n" using next_day_None "1.prems"(1) by fastforce
      have "valid_date n" using next_day_valid [OF "1.prems"(1) n] ..
      then obtain days where d: "days_of_range n b days"
        and l: "load_dates S ds n b dfs = fold_op (load_day S ds) days dfs" for dfs
        using "1.IH" [OF _ n] True "1.prems" by blast
      then have "load_dates S ds a b dfs = fold_op (load_day S ds) (a # days) dfs" for dfs
        using True n by (subst load_dates.simps) (simp add: l [abs_def])
      then show ?thesis using days_of_range_Cons [OF "1.prems"(1) True n d] by blast
    qed
  qed
  then show ?thesis by blast
qed

section \<open>The effects of loading and writing\<close>

text \<open>
  What Spark does to the catalog \<open>cat\<close> of views and to the files \<open>out\<close> that were written: creating
  a view binds it, writing appends the output, both unless they fail; reading, counting, caching,
  the settings and the reports do neither. A selection has the selected columns.
\<close>

definition spark_frame :: "('s, 'df, 'f) spark \<Rightarrow> 's reporters \<Rightarrow> ('s \<Rightarrow> 's \<Rightarrow> bool) \<Rightarrow> bool" where
  "spark_frame S R K \<longleftrightarrow>
    preorder_rel K \<and> steps K (sp_list_tables S) \<and> (\<forall>v. steps K (sp_table S v)) \<and> (\<forall>df. steps K (sp_count S df)) \<and>
    (\<forall>f g p sch. steps K (sp_read S f g p sch)) \<and> (\<forall>df. steps K (sp_cache S df)) \<and>
    (\<forall>k v. steps K (sp_conf_set S k v)) \<and> (\<forall>p. steps K (sp_makedirs S p)) \<and> steps K (sp_today S) \<and>
    steps K (sp_monotonic_ns S) \<and> (\<forall>e. steps K (log_operational_event R e)) \<and>
    (\<forall>k. steps K (log_audit_record R (audit_record_of ''dataset_loader'' k))) \<and>
    (\<forall>e. steps K (record_statistics_event R e))"

definition spark_effects ::
  "('s, 'df, 'f) spark \<Rightarrow> 's reporters \<Rightarrow> ('s \<Rightarrow> string \<Rightarrow> 'df option) \<Rightarrow> ('s \<Rightarrow> (string \<times> 'df) list) \<Rightarrow> bool" where
  "spark_effects S R cat out \<longleftrightarrow>
    spark_frame S R (\<lambda>s t. cat t = cat s \<and> out t = out s) \<and>
    (\<forall>r. steps (\<lambda>s t. cat t = cat s \<and> out t = out s) (log_audit_record R r)) \<and>
    (\<forall>v df s r t. sp_create_view S v df s = (r, t) \<longrightarrow>
      out t = out s \<and> (cat t = (cat s)(v \<mapsto> df) \<or> isl r \<and> cat t = cat s)) \<and>
    (\<forall>f p df s r t. sp_write S f p df s = (r, t) \<longrightarrow>
      cat t = cat s \<and> (out t = out s @ [(p, df)] \<or> isl r \<and> out t = out s)) \<and>
    (\<forall>cols df df'. sp_select S cols df = Inr df' \<longrightarrow> sp_columns S df' = cols)"

lemma load_folder_steps: "spark_frame S R K \<Longrightarrow> steps K (load_dataset_folder S ds p)"
  unfolding load_dataset_folder_def by (intro steps_intros) (simp_all add: spark_frame_def)

lemma load_day_steps: "spark_frame S R K \<Longrightarrow> steps K (load_day S ds d dfs)"
  unfolding load_day_def using load_folder_steps [of S R K]
  by (auto simp: spark_frame_def intro!: steps_intros)

lemma load_dates_steps:
  assumes "spark_frame S R K"
  shows "steps K (load_dates S ds a b dfs)"
  using assms
proof (induction S ds a b dfs rule: load_dates.induct)
  case (1 S ds a b dfs)
  note I = steps_intros [of K] load_day_steps [OF "1.prems"]
  have "preorder_rel K" using "1.prems" by (simp add: spark_frame_def)
  with 1 show ?case
    by (subst load_dates.simps) (auto intro!: I split: option.split)
qed

lemma load_consolidated_steps:
  assumes F: "spark_frame S R K"
  shows "steps K (load_consolidated S ds a b)"
proof -
  have P: "preorder_rel K" using F by (simp add: spark_frame_def)
  show ?thesis
    unfolding load_consolidated_def
    by (auto intro!: steps_intros [OF P] load_folder_steps [OF F] load_dates_steps [OF F] split: option.split list.split)
qed

lemma failure_steps:
  assumes "spark_frame S R K" and "steps K (log_audit_record R r)"
  shows "steps K (bind_op (log_operational_event R e) (\<lambda>_. bind_op (log_audit_record R r) (\<lambda>_. raise_op x)))"
  using assms by (auto simp: spark_frame_def intro!: steps_intros)

lemma catch_op_cases:
  assumes "catch_op m h s = (r, t)"
  obtains (ok) x where "m s = (Inr x, t)" and "r = Inr x" | (caught) e u where "m s = (Inl e, u)" and "h e u = (r, t)"
  using assms by (cases "m s"; cases "fst (m s)") (auto simp: catch_op_def)

lemma bind_op_cases:
  assumes "bind_op m f s = (r, t)"
  obtains (err) e where "m s = (Inl e, t)" and "r = Inl e" | (ok) x u where "m s = (Inr x, u)" and "f x u = (r, t)"
  using assms by (cases "m s"; cases "fst (m s)") (auto simp: bind_op_def)

text \<open>An operation \<open>B\<close> between steps of \<open>K\<close>: it was not reached, or it took place.\<close>

lemma effect_between:
  assumes K: "preorder_rel K" and A: "steps K A" and C: "\<And>x y. steps K (C x y)"
    and run: "bind_op A (\<lambda>x. bind_op (B x) (C x)) s = (r, t)"
  obtains (no) "K s t" and "isl r"
    | (yes) x u q w where "A s = (Inr x, u)" and "K s u" and "B x u = (q, w)" and "K w t" and "isl q \<longrightarrow> isl r"
  using run
proof (cases rule: bind_op_cases)
  case (err e)
  then show ?thesis using no stepsD [OF A] by simp
next
  case (ok x u)
  have refl: "K w w" for w using K by (simp add: preorder_rel_def)
  from ok(2) show ?thesis
  proof (cases rule: bind_op_cases)
    case (err e)
    then show ?thesis using yes [OF ok(1) stepsD [OF A ok(1)]] refl by simp
  next
    case (ok q w)
    then show ?thesis using yes [OF \<open>A s = (Inr x, u)\<close> stepsD [OF A \<open>A s = (Inr x, u)\<close>]] stepsD [OF C] by simp
  qed
qed

definition load_selected :: "('s, 'df, 'f) spark \<Rightarrow> app_dataset \<Rightarrow> string \<Rightarrow> string \<Rightarrow> ('s, 'df) op" where
  "load_selected S ds a b =
    bind_op (load_consolidated S ds a b) (\<lambda>df.
    bind_op (lift_res (sp_select S (allowed_columns S ds df) df)) (\<lambda>df.
    bind_op (sp_cache S df) (\<lambda>_. return_op df)))"

lemma load_selected_steps: "spark_frame S R K \<Longrightarrow> steps K (load_selected S ds a b)"
  unfolding load_selected_def using load_consolidated_steps [of S R K]
  by (auto simp: spark_frame_def intro!: steps_intros)

lemma load_selected_columns:
  assumes "\<And>cols df df'. sp_select S cols df = Inr df' \<Longrightarrow> sp_columns S df' = cols"
    and "load_selected S ds a b s = (Inr df, t)"
  shows "set (sp_columns S df) \<subseteq> set (di_allowedFields ds)"
  using assms(2) by (auto simp: load_selected_def bind_op_Inr_iff allowed_columns_def dest!: assms(1))

lemma loader_audit_steps: "spark_frame S R K \<Longrightarrow> steps K (log_audit_record R (audit_record_of ''dataset_loader'' k))"
  by (simp add: spark_frame_def)

lemma event_steps: "spark_frame S R K \<Longrightarrow> steps K (log_operational_event R e)"
  by (simp add: spark_frame_def)

text \<open>A body after steps of \<open>K\<close> and, when it fails, reports of the failure.\<close>

lemma reported_body:
  assumes F: "spark_frame S R K" and M: "steps K m"
    and run: "bind_op m (\<lambda>x. catch_op (body x) (\<lambda>e.
      bind_op (log_operational_event R (f x e)) (\<lambda>_. bind_op (log_audit_record R (g x e)) (\<lambda>_. raise_op e)))) s = (r, t)"
    and G: "\<And>x e. steps K (log_audit_record R (g x e))"
  obtains (no) "K s t" and "isl r"
    | (ran) x u q w where "K s u" and "body x u = (q, w)" and "K w t" and "isl q = isl r"
  using run
proof (cases rule: bind_op_cases)
  case (err e)
  then show ?thesis using no stepsD [OF M] by simp
next
  case (ok x u)
  have u: "K s u" using stepsD [OF M ok(1)] .
  have refl: "K w w" for w using F by (simp add: spark_frame_def preorder_rel_def)
  from ok(2) show ?thesis
  proof (cases rule: catch_op_cases)
    case (ok y)
    then show ?thesis using ran u refl by simp
  next
    case (caught e w)
    have "isl r" using caught(2) by (auto simp: bind_op_def split: prod.splits sum.splits)
    then show ?thesis using ran [OF u caught(1) stepsD [OF failure_steps [OF F G] caught(2)]] by simp
  qed
qed

definition load_finish :: "('s, 'df, 'f) spark \<Rightarrow> 's reporters \<Rightarrow> app_dataset \<Rightarrow> string \<Rightarrow> 'df \<Rightarrow> ('s, int) op" where
  "load_finish S R ds job df =
    bind_op (sp_count S df) (\<lambda>row_count.
    bind_op (log_operational_event R (operational_event_of
      (DatasetLoadCompleted (di_name ds) (di_path ds) (str_int row_count)))) (\<lambda>_.
    bind_op (log_audit_record R (audit_record_of ''dataset_loader'' (AuditLoadCompleted (di_name ds) job))) (\<lambda>_.
    return_op row_count)))"

lemma load_finish_steps: "spark_frame S R K \<Longrightarrow> steps K (load_finish S R ds job df)"
  unfolding load_finish_def by (auto simp: spark_frame_def intro!: steps_intros)

lemma load_dataset_parts:
  "load_dataset_async S R ds a b job =
    bind_op (log_operational_event R (operational_event_of (DatasetLoadStarted (di_name ds) (di_path ds)
      (if b \<noteq> [] then b else ''NA'') (if a \<noteq> [] then a else ''NA'')))) (\<lambda>_.
    catch_op (bind_op (load_selected S ds a b) (\<lambda>df.
        bind_op (sp_create_view S (di_view_name ds) df) (\<lambda>_. load_finish S R ds job df))) (\<lambda>e.
      bind_op (log_operational_event R (operational_event_of (DatasetLoadFailed (di_name ds) (di_path ds) (sp_str_exc S e)))) (\<lambda>_.
      bind_op (log_audit_record R (audit_record_of ''dataset_loader'' (AuditLoadFailed (di_name ds) job))) (\<lambda>_.
      raise_op e))))"
  by (simp add: load_dataset_async_def load_selected_def load_finish_def bind_op_assoc)

lemma load_dataset_effect:
  assumes E: "spark_effects S R cat out" and run: "load_dataset_async S R ds a b job s = (r, t)"
  shows "out t = out s \<and>
    (isl r \<and> cat t = cat s \<or>
     (\<exists>df. cat t = (cat s)(di_view_name ds \<mapsto> df) \<and> set (sp_columns S df) \<subseteq> set (di_allowedFields ds)))"
proof -
  let ?K = "\<lambda>s t. cat t = cat s \<and> out t = out s"
  have F: "spark_frame S R ?K" and P: "preorder_rel ?K"
    using E by (simp_all add: spark_effects_def spark_frame_def)
  show ?thesis
    using F event_steps [OF F] run [unfolded load_dataset_parts] loader_audit_steps [OF F]
  proof (cases rule: reported_body)
    case (ran x u q w)
    from P load_selected_steps [OF F] load_finish_steps [OF F] ran(2) show ?thesis
    proof (cases rule: effect_between)
      case no
      then show ?thesis using ran by simp
    next
      case (yes df v z y)
      have "set (sp_columns S df) \<subseteq> set (di_allowedFields ds)"
        using load_selected_columns [OF _ yes(1)] E by (simp add: spark_effects_def)
      moreover have "out y = out v \<and> (cat y = (cat v)(di_view_name ds \<mapsto> df) \<or> isl z \<and> cat y = cat v)"
        using E yes(3) by (simp add: spark_effects_def)
      ultimately show ?thesis using yes ran by auto
    qed
  qed simp
qed

text \<open>
  C11. Loading a dataset shows the queries only its allowed fields: whatever the outcome, loading
  writes nothing and touches no view but the dataset's own, and when that view is created, as it is
  on every successful load, all its columns are allowed fields.
\<close>

theorem load_only_allowed:
  assumes "spark_effects S R cat out" and "load_dataset_async S R ds a b job s = (r, t)"
  shows "out t = out s \<and>
    (isl r \<and> cat t = cat s \<or>
     (\<exists>df. cat t = (cat s)(di_view_name ds \<mapsto> df) \<and> set (sp_columns S df) \<subseteq> set (di_allowedFields ds)))"
  using assms by (rule load_dataset_effect)

text \<open>The same decomposition of a write.\<close>

definition write_checked :: "('s, 'df, 'f) spark \<Rightarrow> 'df \<Rightarrow> app_dataset \<Rightarrow> string \<Rightarrow> ('s, 'df) op" where
  "write_checked S df ds path =
    bind_op (lift_res (sp_select S (allowed_columns S ds df) df)) (\<lambda>df.
    bind_op (lift_res (parse_json_schema (di_schema ds))) (\<lambda>dataset_schema.
    if \<not> is_schema_compatible (sp_schema S df) dataset_schema
    then raise_op (ValueError ''DataFrame schema does not match expected dataset schema.'')
    else bind_op (sp_count S df) (\<lambda>_. bind_op (sp_makedirs S path) (\<lambda>_. return_op df))))"

definition write_finish :: "('s, 'df, 'f) spark \<Rightarrow> 's reporters \<Rightarrow> app_dataset \<Rightarrow> string \<Rightarrow> string \<Rightarrow> 'df \<Rightarrow> ('s, int) op" where
  "write_finish S R ds job path df =
    bind_op (sp_count S df) (\<lambda>row_count.
    bind_op (log_operational_event R (operational_event_of
      (DatasetWriteCompleted (di_name ds) path (str_int row_count)))) (\<lambda>_.
    bind_op (log_audit_record R (audit_record_of ''dataset_loader''
      (AuditWriteCompleted (di_name ds) path job (str_int row_count)))) (\<lambda>_.
    return_op row_count)))"

definition write_start :: "('s, 'df, 'f) spark \<Rightarrow> 's reporters \<Rightarrow> app_dataset \<Rightarrow> ('s, date) op" where
  "write_start S R ds =
    bind_op (log_operational_event R (operational_event_of (DatasetWriteStarted (di_name ds) (di_path ds)))) (\<lambda>_.
    bind_op (sp_conf_set S ''mapreduce.fileoutputcommitter.marksuccessfuljobs'' ''false'') (\<lambda>_.
    bind_op (sp_conf_set S ''dfs.client.write.checksum'' ''false'') (\<lambda>_.
    bind_op (sp_conf_set S ''mapreduce.fileoutputcommitter.algorithm.version'' ''2'') (\<lambda>_.
    sp_today S))))"

lemma write_parts_steps:
  assumes "spark_frame S R K"
  shows "steps K (write_checked S df ds path)" and "steps K (write_finish S R ds job path df)"
    and "steps K (write_start S R ds)"
  using assms unfolding write_checked_def write_finish_def write_start_def
  by (auto simp: spark_frame_def intro!: steps_intros)

lemma write_body_parts:
  "write_body S R job df ds path = bind_op (write_checked S df ds path) (\<lambda>df.
    bind_op (sp_write S (format_value (di_format ds)) path df) (\<lambda>_. write_finish S R ds job path df))"
  unfolding write_body_def write_checked_def write_finish_def bind_op_assoc
  by (intro arg_cong [where f = "bind_op _"] ext) (simp add: bind_op_assoc)

lemma write_dataset_parts:
  "write_dataset_async S R job df ds = bind_op (write_start S R ds) (\<lambda>today.
    catch_op (write_body S R job df ds (output_path ds today job)) (\<lambda>e.
      bind_op (log_operational_event R (operational_event_of
        (DatasetWriteFailed (di_name ds) (sp_str_exc S e) (output_path ds today job)))) (\<lambda>_.
      bind_op (log_audit_record R (audit_record_of ''dataset_loader''
        (AuditWriteFailed (di_name ds) (output_path ds today job) job (sp_str_exc S e)))) (\<lambda>_.
      raise_op e))))"
  by (simp add: write_dataset_async_def write_start_def bind_op_assoc Let_def)

text \<open>What may be written for a data sink: allowed fields only, of the types of its schema.\<close>

definition releasable :: "('s, 'df, 'f) spark \<Rightarrow> app_dataset \<Rightarrow> 'df \<Rightarrow> bool" where
  "releasable S ds df \<longleftrightarrow>
    list_all (\<lambda>c. c \<in> set (di_allowedFields ds)) (sp_columns S df) \<and>
    (case parse_json_schema (di_schema ds) of
       Inl e \<Rightarrow> False | Inr schema \<Rightarrow> is_schema_compatible (sp_schema S df) schema)"

lemma write_checked_releasable:
  assumes "\<And>cols df df'. sp_select S cols df = Inr df' \<Longrightarrow> sp_columns S df' = cols"
    and "write_checked S df ds path s = (Inr df', t)"
  shows "releasable S ds df'"
  using assms(2)
  by (auto simp: write_checked_def bind_op_Inr_iff allowed_columns_def releasable_def list_all_iff
      dest!: assms(1) split: if_splits)

lemma write_dataset_effect:
  assumes E: "spark_effects S R cat out" and run: "write_dataset_async S R job df ds s = (r, t)"
  shows "cat t = cat s \<and>
    (isl r \<and> out t = out s \<or>
     (\<exists>today df'. out t = out s @ [(output_path ds today job, df')] \<and> releasable S ds df'))"
proof -
  let ?K = "\<lambda>s t. cat t = cat s \<and> out t = out s"
  have F: "spark_frame S R ?K" and P: "preorder_rel ?K"
    using E by (simp_all add: spark_effects_def spark_frame_def)
  show ?thesis
    using F write_parts_steps(3) [OF F] run [unfolded write_dataset_parts] loader_audit_steps [OF F]
  proof (cases rule: reported_body)
    case (ran today u q w)
    from P write_parts_steps(1,2) [OF F] ran(2) [unfolded write_body_parts] show ?thesis
    proof (cases rule: effect_between)
      case no
      then show ?thesis using ran by simp
    next
      case (yes df' v z y)
      have "releasable S ds df'"
        using write_checked_releasable [OF _ yes(1)] E by (simp add: spark_effects_def)
      moreover have "cat y = cat v \<and> (out y = out v @ [(output_path ds today job, df')] \<or> isl z \<and> out y = out v)"
        using E yes(3) by (simp add: spark_effects_def)
      then have "cat t = cat s" "out t = out s @ [(output_path ds today job, df')] \<or> isl r \<and> out t = out s"
        using yes ran by auto
      ultimately show ?thesis by blast
    qed
  qed simp
qed

section \<open>Dates as texts\<close>

lemma str_split_plain: "c \<notin> set a \<Longrightarrow> str_split c a = [a]"
  by (induction c a rule: str_split.induct) auto

lemma str_split_sep: "c \<notin> set a \<Longrightarrow> str_split c (a @ c # b) = a # str_split c b"
  by (induction a) auto

lemma digits_no_sep: "list_all is_digit a \<Longrightarrow> CHR ''-'' \<notin> set a"
  by (auto simp: list_all_iff is_digit_def)

lemma two_digits_all:
  "n \<in> {1..31} \<Longrightarrow> list_all is_digit (two_digits n) \<and> strptime_day (two_digits n) \<and>
    (n \<le> 12 \<longrightarrow> strptime_month (two_digits n)) \<and> digits_val (two_digits n) = n"
proof -
  have "list_all (\<lambda>n. list_all is_digit (two_digits n) \<and> strptime_day (two_digits n) \<and>
    (n \<le> 12 \<longrightarrow> strptime_month (two_digits n)) \<and> digits_val (two_digits n) = n) [1..<32]"
    by code_simp
  then show "n \<in> {1..31} \<Longrightarrow> ?thesis" by (auto simp: list_all_iff)
qed

lemma str_nat_four: "1000 \<le> n \<Longrightarrow> n \<le> 9999 \<Longrightarrow> length (str_nat n) = 4"
  by (simp add: str_nat_unfold)

lemma strptime_iso_date:
  assumes "valid_date (y, m, t)" and "1000 \<le> y"
  shows "strptime_date (iso_date (y, m, t)) = Inr (y, m, t)"
proof -
  have r: "1 \<le> y" "y \<le> 9999" "m \<in> {1..31}" "m \<le> 12" "t \<in> {1..31}"
    using assms by (auto simp: valid_date.simps days_in_month_def split: if_splits)
  have y: "str_int y = str_nat (nat y)" "list_all is_digit (str_nat (nat y))" "length (str_nat (nat y)) = 4"
    using r assms(2) str_nat_digits [of "nat y"] by (auto simp: str_int_def list_all_iff intro: str_nat_four)
  note m = two_digits_all [OF r(3)] and t = two_digits_all [OF r(5)]
  have "str_split (CHR ''-'') (iso_date (y, m, t)) = [str_nat (nat y), two_digits m, two_digits t]"
    using digits_no_sep y m t by (simp add: iso_date_def str_split_sep str_split_plain)
  moreover have "filter is_digit (two_digits t) = two_digits t"
    using t by (auto simp: list_all_iff intro: filter_True)
  ultimately show ?thesis
    using y m t r assms(1) by (simp add: strptime_date_def digits_val_str_nat)
qed

text \<open>
  C29. The dates of a job survive the way from the frontend to the application: the texts the
  frontend puts into the job's environment for its start and end dates are read back by the dataset
  loader as the same dates, for every date with a year of four digits.
\<close>

theorem job_dates_round_trip:
  assumes "sj_start_date job = Some a" and "sj_end_date job = Some b"
    and "valid_date a" and "valid_date b" and "1000 \<le> fst a" and "1000 \<le> fst b"
  shows "map_of (map (\<lambda>e. (ed_key e, strptime_date (ed_value e))) (sql_env_vars url job_id job config)) ''START_DATE'' = Some (Inr a) \<and>
    map_of (map (\<lambda>e. (ed_key e, strptime_date (ed_value e))) (sql_env_vars url job_id job config)) ''END_DATE'' = Some (Inr b)"
proof -
  have "strptime_date (iso_date a) = Inr a" "strptime_date (iso_date b) = Inr b"
    using assms strptime_iso_date by (metis prod.collapse)+
  then show ?thesis using assms(1,2) by (simp add: sql_env_vars_def Let_def)
qed

theorem job_dates_round_trip_witness:
  "map_of (map (\<lambda>e. (ed_key e, strptime_date (ed_value e))) (sql_env_vars ''u'' ''j''
     (sample_job\<lparr>sj_start_date := Some (2024, 2, 29)\<rparr>) ''c'')) ''START_DATE'' = Some (Inr (2024, 2, 29))"
proof -
  have "sj_end_date sample_job = Some (2025, 1, 31)" by (simp add: sample_job_def)
  moreover have "valid_date (2024, 2, 29)" "valid_date (2025, 1, 31)" by code_simp+
  ultimately show ?thesis
    using job_dates_round_trip [of "sample_job\<lparr>sj_start_date := Some (2024, 2, 29)\<rparr>" "(2024, 2, 29)" "(2025, 1, 31)"] by simp
qed

section \<open>A small Spark\<close>

text \<open>Data frames of integers; a query is the name of the view it selects.\<close>

record mem_frame =
  mf_schema :: struct_type
  mf_rows :: "(string, int) dict list"

record mem_state =
  ms_views :: "(string, mem_frame) dict"
  ms_files :: "(string, mem_frame) dict"
  ms_out :: "(string \<times> mem_frame) list"
  ms_requests :: "http_request list"

definition mem_select :: "string list \<Rightarrow> mem_frame \<Rightarrow> mem_frame" where
  "mem_select cols df =
    \<lparr>mf_schema = map (\<lambda>c. (c, case map_of (mf_schema df) c of None \<Rightarrow> (StringType, True) | Some tn \<Rightarrow> tn)) cols,
     mf_rows = map (filter (\<lambda>(c, v). c \<in> set cols)) (mf_rows df)\<rparr>"

definition mem_spark :: "(mem_state, mem_frame, int) spark" where
  "mem_spark =
    \<lparr>sp_list_tables = get_op (\<lambda>s. map fst (ms_views s)),
     sp_table = (\<lambda>v s. (case map_of (ms_views s) v of None \<Rightarrow> Inl (OtherException ''no such view'') | Some df \<Rightarrow> Inr df, s)),
     sp_sql = (\<lambda>q s. (case map_of (ms_views s) q of None \<Rightarrow> Inl (OtherException ''no such view'') | Some df \<Rightarrow> Inr df, s)),
     sp_count = (\<lambda>df. return_op (int (length (mf_rows df)))),
     sp_columns = (\<lambda>df. map fst (mf_schema df)), sp_schema = mf_schema,
     sp_select = (\<lambda>cols df. Inr (mem_select cols df)),
     sp_filter_ge = (\<lambda>c v df. Inr (df\<lparr>mf_rows := filter (\<lambda>r. case map_of r c of None \<Rightarrow> False | Some x \<Rightarrow> v \<le> x) (mf_rows df)\<rparr>)),
     sp_union_by_name = (\<lambda>a b. Inr (a\<lparr>mf_rows := mf_rows a @ mf_rows b\<rparr>)),
     sp_read = (\<lambda>f g p sch s. (case map_of (ms_files s) p of
        None \<Rightarrow> Inl (OtherException (''Path does not exist: '' @ p)) | Some df \<Rightarrow> Inr df, s)),
     sp_cache = (\<lambda>df. return_op ()),
     sp_create_view = (\<lambda>v df s. (Inr (), s\<lparr>ms_views := AList.update v df (ms_views s)\<rparr>)),
     sp_conf_set = (\<lambda>k v. return_op ()),
     sp_write = (\<lambda>f p df s. (Inr (), s\<lparr>ms_out := ms_out s @ [(p, df)]\<rparr>)),
     sp_makedirs = (\<lambda>p. return_op ()), sp_today = return_op (2025, 3, 1), sp_monotonic_ns = return_op 7,
     sp_seconds = (\<lambda>n. n), sp_str_float = str_int, sp_stats_dumps = (\<lambda>q. ''{}''),
     sp_str_exc = (\<lambda>e. case e of OtherException m \<Rightarrow> m | ValueError m \<Rightarrow> m | _ \<Rightarrow> ''error'')\<rparr>"

text \<open>An HTTP endpoint that keeps the requests.\<close>

definition mem_client :: "mem_state http_client" where
  "mem_client =
    \<lparr>hc_request = (\<lambda>r s. (Inr 204, s\<lparr>ms_requests := ms_requests s @ [r]\<rparr>)), hc_transient = (\<lambda>e. False),
     hc_sleep = (\<lambda>n. return_op ()), hc_max_retries = 12, hc_retry_delay = 5,
     hc_dump_event = (\<lambda>e. oe_name e), hc_dump_statistics = se_type\<rparr>"

definition mem_reporters :: "mem_state reporters" where
  "mem_reporters = http_reporters mem_client ''/stats'' ''/events'' ''/audit''"

lemma mem_put:
  "put_with_retry mem_client u d b j s = (Inr (), s\<lparr>ms_requests := ms_requests s @
      [\<lparr>rq_method = ''PUT'', rq_url = u, rq_data = d, rq_json = j, rq_headers = request_headers j [], rq_verify = b\<rparr>]\<rparr>)"
  by (simp add: put_with_retry_def do_request_def mem_client_def eval_nat_numeral execute_request_def catch_op_def bind_op_def)

lemma mem_effects: "spark_effects mem_spark mem_reporters (\<lambda>s. map_of (ms_views s)) ms_out"
  by (auto simp: spark_effects_def spark_frame_def preorder_rel_def steps_def mem_spark_def mem_reporters_def
      http_reporters_def http_log_event_def http_log_audit_def http_record_statistics_def catch_op_def bind_op_def
      mem_put update_conv' mem_select_def comp_def split: option.split sum.split)

definition sample_dataset :: app_dataset where
  "sample_dataset =
    \<lparr>di_name = ''in'', di_view_name = ''v'', di_path = ''/in'', di_format = Format_csv,
     di_schema = Some [(''a'', [(''type'', ''long'')]), (''b'', [(''type'', ''long'')])], di_allowedFields = [''b'']\<rparr>"

definition sample_frame :: mem_frame where
  "sample_frame = \<lparr>mf_schema = [(''a'', LongType, True), (''b'', LongType, True)],
    mf_rows = [[(''a'', 1), (''b'', 2)], [(''a'', 3), (''b'', 4)]]\<rparr>"

definition sample_state :: mem_state where
  "sample_state = \<lparr>ms_views = [], ms_files = [(''/in/2024-02-29'', sample_frame), (''/in'', sample_frame)],
    ms_out = [], ms_requests = []\<rparr>"

theorem load_dates_range_witness:
  "\<exists>days. days_of_range (2024, 2, 28) (2024, 3, 1) days \<and>
     load_dates mem_spark sample_dataset (2024, 2, 28) (2024, 3, 1) [] = fold_op (load_day mem_spark sample_dataset) days []"
proof -
  have v: "valid_date (2024, 2, 28)" "valid_date (2024, 3, 1)" by code_simp+
  show ?thesis using load_dates_range [OF v] by simp
qed

lemma sample_load: "\<not> isl (fst (load_dataset_async mem_spark mem_reporters sample_dataset [] [] ''j'' sample_state))"
  by (simp add: load_dataset_async_def load_consolidated_def load_dataset_folder_def parse_json_schema_def parse_field_def
      mem_reporters_def http_reporters_def http_log_event_def http_log_audit_def mem_put bind_op_def catch_op_def
      mem_spark_def sample_dataset_def sample_state_def)

theorem load_only_allowed_witness:
  "\<exists>df. map_of (ms_views (snd (load_dataset_async mem_spark mem_reporters sample_dataset [] [] ''j''
       sample_state))) ''v'' = Some df \<and> set (sp_columns mem_spark df) \<subseteq> {''b''}"
  using sample_load load_only_allowed [OF mem_effects prod.collapse [symmetric],
    of sample_dataset "[]" "[]" "''j''" sample_state]
  by (auto simp: sample_dataset_def sample_state_def)

end
