(* ===== verification/Mounts.thy ===== *)
theory Mounts
  imports Py_Data
begin

text \<open>
  The mount launchers and the wait for their mounts: \<^verbatim>\<open>blobfuse_launcher\<close>,
  \<^verbatim>\<open>s3fs_launcher\<close>, and of \<^verbatim>\<open>cleanroom_internal.utilities\<close> the modules
  \<^verbatim>\<open>mountpoint_utilities\<close>, \<^verbatim>\<open>secret_utilities\<close> and \<^verbatim>\<open>utilities\<close>.
  The process's operating system and the sidecars it talks to are the fields of \<open>host\<close>, over an
  abstract state. A launcher's \<^verbatim>\<open>main\<close> is modelled up to the marker file; after it the
  process only sleeps until it is killed. Its arguments are those \<^verbatim>\<open>argparse\<close> returned.
  Telemetry is left out, but not the errors of decoding the trace context.
\<close>

section \<open>The host\<close>

record 's host =
  ho_getenv :: "'s \<Rightarrow> string \<Rightarrow> string option"
  ho_setenv :: "string \<Rightarrow> string \<Rightarrow> ('s, unit) op"
  ho_exists :: "'s \<Rightarrow> string \<Rightarrow> bool"
  ho_read :: "string \<Rightarrow> ('s, string) op"
  ho_write :: "string \<Rightarrow> string \<Rightarrow> ('s, unit) op"
  ho_makedirs :: "string \<Rightarrow> ('s, unit) op"
  ho_load_yaml :: "string \<Rightarrow> ('s, json) op"
  ho_dump_yaml :: "json \<Rightarrow> string \<Rightarrow> ('s, unit) op"
  ho_sleep :: "int \<Rightarrow> ('s, unit) op"
  ho_connect :: "int \<Rightarrow> ('s, unit) op" \<comment> \<open>to a port of localhost\<close>
  ho_serve :: "int \<Rightarrow> ('s, unit) op" \<comment> \<open>the readiness server's thread\<close>
  ho_popen :: "string list \<Rightarrow> ('s, nat) op"
  ho_wait :: "nat \<Rightarrow> ('s, int) op"
  ho_post :: "string \<Rightarrow> json option \<Rightarrow> ('s, int \<times> json res) op" \<comment> \<open>status, \<^verbatim>\<open>response.json()\<close>\<close>
  ho_sha256 :: "string \<Rightarrow> string"

definition environ_get :: "'s host \<Rightarrow> string \<Rightarrow> ('s, string option) op" where
  "environ_get H k = get_op (\<lambda>s. ho_getenv H s k)"

text \<open>\<^verbatim>\<open>os.environ.get(k, d)\<close>.\<close>

definition environ_default :: "'s host \<Rightarrow> 's \<Rightarrow> string \<Rightarrow> string \<Rightarrow> string" where
  "environ_default H s k d = (case ho_getenv H s k of None \<Rightarrow> d | Some v \<Rightarrow> v)"

text \<open>\<^verbatim>\<open>os.path.basename\<close>.\<close>

definition basename :: "string \<Rightarrow> string" where
  "basename p = rev (takeWhile (\<lambda>c. c \<noteq> CHR ''/'') (rev p))"

text \<open>\<^verbatim>\<open>str(b).lower()\<close> of an optional flag.\<close>

definition flag_text :: "bool option \<Rightarrow> string" where
  "flag_text b = str_lower (case b of None \<Rightarrow> ''None'' | Some b \<Rightarrow> str_bool b)"

section \<open>Processes, services and secrets\<close>

text \<open>The exit code is \<open>None\<close> while the process was not waited for.\<close>

definition subprocess_launch :: "'s host \<Rightarrow> string list \<Rightarrow> bool \<Rightarrow> ('s, nat \<times> int option) op" where
  "subprocess_launch H command wait_for_completion =
    bind_op (ho_popen H command) (\<lambda>p.
    if wait_for_completion then bind_op (ho_wait H p) (\<lambda>code. return_op (p, Some code))
    else return_op (p, None))"

definition launch_code :: "'s host \<Rightarrow> string list \<Rightarrow> ('s, int) op" where
  "launch_code H command =
    bind_op (subprocess_launch H command True) (\<lambda>(p, code).
    case code of None \<Rightarrow> raise_op AttributeError | Some c \<Rightarrow> return_op c)"

text \<open>
  The loop over one port; the numbers are the attempts still left, \<^verbatim>\<open>max_retries - attempt\<close>.
  The counter is not reset between the ports.
\<close>

primrec wait_for_port :: "'s host \<Rightarrow> int \<Rightarrow> nat \<Rightarrow> ('s, nat) op" where
  "wait_for_port H port 0 = return_op 0"
| "wait_for_port H port (Suc n) =
    bind_op (catch_op (bind_op (ho_connect H port) (\<lambda>_. return_op True)) (\<lambda>_. return_op False)) (\<lambda>up.
    if up then return_op (Suc n)
    else bind_op (ho_sleep H 5) (\<lambda>_. wait_for_port H port n))"

primrec wait_for_ports :: "'s host \<Rightarrow> int list \<Rightarrow> nat \<Rightarrow> ('s, unit) op" where
  "wait_for_ports H [] n = return_op ()"
| "wait_for_ports H (p # ps) n =
    bind_op (wait_for_port H p n) (\<lambda>m.
    if m = 0 then raise_op (OtherException (''Service on port '' @ str_int p @
      '' is not available even after waiting for the threshold. Exiting...''))
    else wait_for_ports H ps m)"

definition wait_for_services_readiness :: "'s host \<Rightarrow> int list \<Rightarrow> ('s, unit) op" where
  "wait_for_services_readiness H ports = wait_for_ports H ports 18"

text \<open>\<^verbatim>\<open>base64.b64decode(response.json()["value"])\<close> after \<^verbatim>\<open>raise_for_status\<close>.\<close>

definition secret_value :: "int \<times> json res \<Rightarrow> string res" where
  "secret_value r =
    (case r of (status, body) \<Rightarrow>
       if 400 \<le> status \<and> status < 600 then Inl (OtherException ''HTTPError'')
       else bind_res body (\<lambda>result. bind_res (json_item result ''value'') json_b64decode))"

definition unwrap_secret ::
  "'s host \<Rightarrow> int \<Rightarrow> string option \<Rightarrow> string option \<Rightarrow> string option \<Rightarrow> string option \<Rightarrow>
   string option \<Rightarrow> string option \<Rightarrow> string option \<Rightarrow> ('s, string) op" where
  "unwrap_secret H secrets_port client_id tenant_id kid akv_endpoint kek_kid kek_akv_endpoint maa_endpoint =
    (let j = (\<lambda>x. case x of None \<Rightarrow> JNull | Some t \<Rightarrow> JStr t)
     in bind_op (ho_post H (''http://localhost:'' @ str_int secrets_port @ ''/secrets/unwrap'')
          (Some (JObj [(''clientId'', j client_id), (''tenantId'', j tenant_id), (''kid'', j kid),
             (''akvEndpoint'', j akv_endpoint),
             (''kek'', JObj [(''kid'', j kek_kid), (''akvEndpoint'', j kek_akv_endpoint),
                (''maaEndpoint'', j maa_endpoint)])]))) (\<lambda>r. lift_res (secret_value r)))"

definition get_cgs_secret :: "'s host \<Rightarrow> int \<Rightarrow> string option \<Rightarrow> ('s, string) op" where
  "get_cgs_secret H governance_port kid =
    bind_op (ho_post H (''http://localhost:'' @ str_int governance_port @ ''/secrets/'' @ str_opt kid) None)
      (\<lambda>r. lift_res (secret_value r))"

text \<open>The carrier in \<^verbatim>\<open>OTEL_TRACE_CONTEXT_BASE64\<close>, decoded; attaching it is telemetry.\<close>

definition trace_context :: "'s host \<Rightarrow> ('s, json option) op" where
  "trace_context H =
    bind_op (environ_get H ''OTEL_TRACE_CONTEXT_BASE64'') (\<lambda>v.
    case v of
      None \<Rightarrow> return_op None
    | Some t \<Rightarrow> if t = [] then return_op None
               else bind_op (lift_res (json_b64_document (JStr t))) (\<lambda>c. return_op (Some c)))"

section \<open>Waiting for a mount\<close>

definition get_volumestatus_mountpath :: "'s host \<Rightarrow> 's \<Rightarrow> string" where
  "get_volumestatus_mountpath H s = environ_default H s ''VOLUMESTATUS_MOUNT_PATH'' ''/mnt/volumestatus''"

definition ready_file :: "string \<Rightarrow> string \<Rightarrow> string" where
  "ready_file dir access_name = path_join dir (access_name @ ''.volume.ready'')"

definition error_file :: "string \<Rightarrow> string \<Rightarrow> string" where
  "error_file dir access_name = path_join dir (access_name @ ''.volume.error'')"

definition is_volume_ready :: "'s host \<Rightarrow> string \<Rightarrow> 's \<Rightarrow> bool" where
  "is_volume_ready H access_name s = ho_exists H s (ready_file (get_volumestatus_mountpath H s) access_name)"

definition is_volume_error :: "'s host \<Rightarrow> string \<Rightarrow> 's \<Rightarrow> bool" where
  "is_volume_error H access_name s = ho_exists H s (error_file (get_volumestatus_mountpath H s) access_name)"

definition get_mount_path :: "'s host \<Rightarrow> string \<Rightarrow> ('s, json) op" where
  "get_mount_path H access_name =
    bind_op (get_op (get_volumestatus_mountpath H)) (\<lambda>dir.
    bind_op (ho_read H (ready_file dir access_name)) (\<lambda>t.
    lift_res (bind_res (json_loads t) (\<lambda>j. json_item j ''mount_path''))))"

definition get_blobfuse_error :: "'s host \<Rightarrow> string \<Rightarrow> ('s, json) op" where
  "get_blobfuse_error H access_name =
    bind_op (get_op (get_volumestatus_mountpath H)) (\<lambda>dir.
    bind_op (get_op (is_volume_error H access_name)) (\<lambda>failed.
    if failed then
      bind_op (ho_read H (error_file dir access_name)) (\<lambda>t.
      lift_res (bind_res (json_loads t) (\<lambda>j. json_item j ''error_code'')))
    else return_op (JStr ''Unknown'')))"

text \<open>The polling loop, with the attempts left: whether the volume was found ready.\<close>

primrec poll_volume :: "'s host \<Rightarrow> string \<Rightarrow> int \<Rightarrow> nat \<Rightarrow> ('s, bool) op" where
  "poll_volume H access_name retry_delay 0 = return_op False"
| "poll_volume H access_name retry_delay (Suc n) =
    bind_op (get_op (is_volume_ready H access_name)) (\<lambda>ready.
    if ready then return_op True
    else
      bind_op (get_op (is_volume_error H access_name)) (\<lambda>failed.
      if failed then return_op False
      else bind_op (ho_sleep H retry_delay) (\<lambda>_. poll_volume H access_name retry_delay n)))"

text \<open>\<open>mk\<close> is the class of the exception raised.\<close>

definition wait_for_mount_point :: "'s host \<Rightarrow> string \<Rightarrow> nat \<Rightarrow> int \<Rightarrow> (string \<Rightarrow> exc) \<Rightarrow> ('s, json) op" where
  "wait_for_mount_point H access_name max_retries retry_delay mk =
    bind_op (poll_volume H access_name retry_delay max_retries) (\<lambda>ready.
    if \<not> ready then
      bind_op (get_blobfuse_error H access_name) (\<lambda>err.
      raise_op (mk (''Mount point for '' @ access_name @
        '' is not available. Blobfuse exited with error : '' @ json_str err)))
    else get_mount_path H access_name)"

section \<open>The launcher modules\<close>

text \<open>What both modules read from the environment when they are loaded.\<close>

record launcher =
  la_source :: string \<comment> \<open>the container or bucket\<close>
  la_access_name :: string \<comment> \<open>as an f-string prints it\<close>
  la_volumestatus :: string
  la_telemetry :: string

definition load_launcher :: "'s host \<Rightarrow> string \<Rightarrow> string option \<Rightarrow> ('s, launcher) op" where
  "load_launcher H src access_name =
    get_op (\<lambda>s. \<lparr>la_source = src, la_access_name = str_opt access_name,
      la_volumestatus = environ_default H s ''VOLUMESTATUS_MOUNT_PATH'' ''/mnt/volumestatus'',
      la_telemetry = environ_default H s ''TELEMETRY_MOUNT_PATH'' ''/mnt/telemetry''\<rparr>)"

text \<open>The blobfuse launcher accepts a missing access name; the s3fs launcher rejects empty values.\<close>

definition blobfuse_module :: "'s host \<Rightarrow> ('s, launcher) op" where
  "blobfuse_module H =
    bind_op (environ_get H ''AZURE_STORAGE_ACCOUNT_CONTAINER'') (\<lambda>container.
    bind_op (environ_get H ''ACCESS_NAME'') (\<lambda>access_name.
    case container of
      None \<Rightarrow> raise_op (ValueError ''AZURE_STORAGE_ACCOUNT_CONTAINER environment variable is not set'')
    | Some c \<Rightarrow> load_launcher H c access_name))"

definition s3fs_module :: "'s host \<Rightarrow> ('s, launcher) op" where
  "s3fs_module H =
    bind_op (environ_get H ''AWS_BUCKET_NAME'') (\<lambda>bucket.
    bind_op (environ_get H ''ACCESS_NAME'') (\<lambda>access_name.
    if or_str bucket [] = [] then raise_op (ValueError ''AWS_BUCKET_NAME environment variable is not set'')
    else if or_str access_name [] = [] then raise_op (ValueError ''ACCESS_NAME environment variable is not set'')
    else load_launcher H (or_str bucket []) access_name))"

text \<open>
  The loop around a mount command: at most \<open>n\<close> launches, and after each failed one what the
  module does before the next. With no launch \<^verbatim>\<open>returncode\<close> would be unbound.
\<close>

fun mount_attempts :: "('s, int) op \<Rightarrow> ('s, unit) op \<Rightarrow> nat \<Rightarrow> ('s, int) op" where
  "mount_attempts launch failed 0 = raise_op (NameError ''returncode'')"
| "mount_attempts launch failed (Suc n) =
    bind_op launch (\<lambda>returncode.
    if returncode = 0 then return_op returncode
    else bind_op failed (\<lambda>_. if n = 0 then return_op returncode else mount_attempts launch failed n))"

definition write_marker :: "'s host \<Rightarrow> launcher \<Rightarrow> string \<Rightarrow> int \<Rightarrow> ('s, unit) op" where
  "write_marker H L mount_path returncode =
    (if returncode = 0 then
       ho_write H (ready_file (la_volumestatus L) (la_access_name L)) (json_dumps (JObj [(''mount_path'', JStr mount_path)]))
     else
       ho_write H (error_file (la_volumestatus L) (la_access_name L)) (json_dumps (JObj [(''error_code'', JInt returncode)])))"

section \<open>The blobfuse launcher\<close>

datatype mount_mode = Mode_CPK | Mode_CSE | Mode_SSE

record blobfuse_args =
  ba_skr_port :: int
  ba_governance_port :: int
  ba_secrets_port :: int
  ba_maa_endpoint :: "string option"
  ba_akv_endpoint :: "string option"
  ba_kid :: "string option"
  ba_imds_port :: int
  ba_otel_collector_port :: int
  ba_tenant_id :: "string option"
  ba_client_id :: "string option"
  ba_mount_path :: string
  ba_read_only :: "bool option"
  ba_use_adls :: "bool option"
  ba_wrapped_dek_secret :: "string option"
  ba_wrapped_dek_akv_endpoint :: "string option"
  ba_sub_directory :: string
  ba_encryption_mode :: mount_mode
  ba_block_size_mb :: int
  ba_cgs_dek_secret :: "string option"
  ba_readiness_port :: "int option"

definition blobfuse_log :: "string \<Rightarrow> string \<Rightarrow> string" where
  "blobfuse_log telemetryPath mountPath = telemetryPath @ ''/infrastructure/'' @ basename mountPath @ ''-blobfuse.log''"

definition launch_blobfuse ::
  "'s host \<Rightarrow> string \<Rightarrow> bool option \<Rightarrow> string \<Rightarrow> bool option \<Rightarrow> bool \<Rightarrow> bool \<Rightarrow> int \<Rightarrow> string \<Rightarrow> ('s, int) op" where
  "launch_blobfuse H mountPath readOnly subdirectory useAdls cpkEnabled disableWritebackCache blockSizeMB telemetryPath =
    launch_code H
      [''blobfuse2'', ''mount'', mountPath, ''--allow-other'',
       ''--read-only='' @ flag_text readOnly,
       ''--cpk-enabled='' @ flag_text (Some cpkEnabled),
       ''--virtual-directory=true'', ''--block-cache'', ''--block-cache-path'', ''/tmp/blobfuse_tmp'',
       ''--block-cache-block-size='' @ str_int blockSizeMB,
       ''--block-cache-pool-size=256'', ''--block-cache-prefetch=0'', ''--block-cache-disk-size=4096'',
       ''--log-file-path'', blobfuse_log telemetryPath mountPath, ''--log-level=LOG_INFO'',
       ''--subdirectory'', subdirectory,
       ''--use-adls='' @ flag_text useAdls,
       ''--disable-writeback-cache='' @ flag_text (Some disableWritebackCache)]"

text \<open>\<^verbatim>\<open>d.update(kvs)\<close> of a YAML mapping.\<close>

definition json_dict_update :: "(string \<times> json) list \<Rightarrow> json \<Rightarrow> json res" where
  "json_dict_update kvs j =
    (case j of JObj d \<Rightarrow> Inr (JObj (AList.updates (map fst kvs) (map snd kvs) d)) | _ \<Rightarrow> Inl AttributeError)"

definition launch_blobfuse_encrypted ::
  "'s host \<Rightarrow> string \<Rightarrow> bool option \<Rightarrow> string \<Rightarrow> string \<Rightarrow> ('s, int) op" where
  "launch_blobfuse_encrypted H mountPath readOnly subdirectory telemetryPath =
    bind_op (ho_load_yaml H ''encryptor-config.yaml'') (\<lambda>config.
    bind_op (lift_res (bind_res
      (json_update_item ''block_cache'' (json_dict_update [(''block-size-mb'', JInt 16)]) config)
      (json_update_item ''encryptor'' (json_dict_update
         [(''block-size-mb'', JInt 16), (''encrypted-mount-path'', JStr (mountPath @ ''-plain/''))])))) (\<lambda>config.
    bind_op (ho_dump_yaml H config ''config.yaml'') (\<lambda>_.
    launch_code H
      ([''blobfuse2'', ''mount'', mountPath, ''--config-file=config.yaml'',
        ''--read-only='' @ flag_text readOnly, ''--log-file-path'', blobfuse_log telemetryPath mountPath] @
       (if subdirectory = [] then [] else [''--subdirectory'', subdirectory])))))"

text \<open>Reading the logs only feeds the logger, and its errors are caught.\<close>

definition read_blobfuse_logs :: "'s host \<Rightarrow> string \<Rightarrow> string \<Rightarrow> ('s, unit) op" where
  "read_blobfuse_logs H mountPath telemetryPath =
    catch_op (bind_op (ho_read H (blobfuse_log telemetryPath mountPath)) (\<lambda>_. return_op ())) (\<lambda>_. return_op ())"

text \<open>The readiness probe: status and body.\<close>

definition readiness_do_GET :: "'s host \<Rightarrow> launcher \<Rightarrow> string \<Rightarrow> 's \<Rightarrow> int \<times> string" where
  "readiness_do_GET H L path s =
    (if path = ''/ready'' then
       if ho_exists H s (ready_file (la_volumestatus L) (la_access_name L)) \<or>
          ho_exists H s (error_file (la_volumestatus L) (la_access_name L))
       then (200, ''ready'') else (503, ''not ready'')
     else (404, []))"

text \<open>SIGTERM: unmount, and exit with 0 whatever happened.\<close>

definition handle_sigterm :: "'s host \<Rightarrow> launcher \<Rightarrow> blobfuse_args \<Rightarrow> ('s, int) op" where
  "handle_sigterm H L a =
    bind_op (catch_op
      (bind_op (read_blobfuse_logs H (ba_mount_path a) (la_telemetry L)) (\<lambda>_.
       bind_op (subprocess_launch H [''blobfuse2'', ''unmount'', ba_mount_path a] True) (\<lambda>_. return_op ())))
      (\<lambda>_. return_op ())) (\<lambda>_. return_op 0)"

text \<open>The data encryption key; none is needed with server side encryption.\<close>

definition blobfuse_key :: "'s host \<Rightarrow> blobfuse_args \<Rightarrow> ('s, string) op" where
  "blobfuse_key H a =
    (if or_str (ba_cgs_dek_secret a) [] \<noteq> [] then get_cgs_secret H (ba_governance_port a) (ba_cgs_dek_secret a)
     else
       bind_op (wait_for_services_readiness H [ba_skr_port a, ba_secrets_port a]) (\<lambda>_.
       unwrap_secret H (ba_secrets_port a) (ba_client_id a) (ba_tenant_id a) (ba_wrapped_dek_secret a)
         (ba_wrapped_dek_akv_endpoint a) (ba_kid a) (ba_akv_endpoint a) (ba_maa_endpoint a)))"

definition blobfuse_mount :: "'s host \<Rightarrow> launcher \<Rightarrow> blobfuse_args \<Rightarrow> string \<Rightarrow> ('s, int) op" where
  "blobfuse_mount H L a key =
    (case ba_encryption_mode a of
       Mode_CPK \<Rightarrow>
         bind_op (ho_setenv H ''AZURE_STORAGE_CPK_ENCRYPTION_KEY'' (b64encode key)) (\<lambda>_.
         bind_op (ho_setenv H ''AZURE_STORAGE_CPK_ENCRYPTION_KEY_SHA256'' (b64encode (ho_sha256 H key))) (\<lambda>_.
         launch_blobfuse H (ba_mount_path a) (ba_read_only a) (ba_sub_directory a) (ba_use_adls a) True False
           (ba_block_size_mb a) (la_telemetry L)))
     | Mode_SSE \<Rightarrow>
         launch_blobfuse H (ba_mount_path a) (ba_read_only a) (ba_sub_directory a) (ba_use_adls a) False False
           (ba_block_size_mb a) (la_telemetry L)
     | Mode_CSE \<Rightarrow>
         bind_op (ho_setenv H ''ENCRYPTION_KEY'' (b64encode key)) (\<lambda>_.
         launch_blobfuse_encrypted H (ba_mount_path a) (ba_read_only a) (ba_sub_directory a) (la_telemetry L)))"

text \<open>\<^verbatim>\<open>main\<close> up to the end of the mount loop: the exit code of the last mount command.\<close>

definition blobfuse_mounted :: "'s host \<Rightarrow> launcher \<Rightarrow> blobfuse_args \<Rightarrow> ('s, int) op" where
  "blobfuse_mounted H L a =
    bind_op (trace_context H) (\<lambda>_.
    bind_op (case ba_readiness_port a of None \<Rightarrow> return_op () | Some p \<Rightarrow> ho_serve H p) (\<lambda>_.
    bind_op (catch_op (wait_for_services_readiness H [ba_otel_collector_port a]) (\<lambda>_. return_op ())) (\<lambda>_.
    bind_op (wait_for_services_readiness H [ba_imds_port a, ba_governance_port a]) (\<lambda>_.
    bind_op (if ba_encryption_mode a \<noteq> Mode_SSE then blobfuse_key H a else return_op []) (\<lambda>key.
    bind_op (ho_makedirs H (ba_mount_path a)) (\<lambda>_.
    bind_op (ho_makedirs H ''/tmp/blobfuse_tmp'') (\<lambda>_.
    bind_op (ho_setenv H ''AZURE_STORAGE_AUTH_TYPE'' ''msi'') (\<lambda>_.
    bind_op (ho_setenv H ''MSI_ENDPOINT''
      (''http://localhost:'' @ str_int (ba_imds_port a) @ ''/metadata/identity/'' @ str_opt (ba_tenant_id a) @
       ''/'' @ str_opt (ba_client_id a) @ ''/oauth2/token'')) (\<lambda>_.
    mount_attempts (blobfuse_mount H L a key)
      (bind_op (read_blobfuse_logs H (ba_mount_path a) (la_telemetry L)) (\<lambda>_. ho_sleep H 10)) 5)))))))))"

definition blobfuse_main :: "'s host \<Rightarrow> launcher \<Rightarrow> blobfuse_args \<Rightarrow> ('s, int) op" where
  "blobfuse_main H L a =
    bind_op (blobfuse_mounted H L a) (\<lambda>returncode.
    bind_op (write_marker H L (ba_mount_path a) returncode) (\<lambda>_.
    return_op returncode))"

section \<open>The s3fs launcher\<close>

record s3fs_args =
  sa_governance_port :: int
  sa_otel_collector_port :: int
  sa_mount_path :: string
  sa_read_only :: "bool option"
  sa_aws_url :: string
  sa_use_path_request_style :: "bool option"
  sa_cgs_aws_s3_config_secret :: "string option"

definition launch_s3fs ::
  "'s host \<Rightarrow> string \<Rightarrow> string \<Rightarrow> bool option \<Rightarrow> string \<Rightarrow> bool option \<Rightarrow> string \<Rightarrow> ('s, int) op" where
  "launch_s3fs H bucketName mountPath readOnly awsUrl usePathRequestStyle telemetryPath =
    launch_code H
      ([''s3fs'', bucketName, mountPath, ''-o'',
        ''logfile='' @ telemetryPath @ ''/infrastructure/'' @ basename mountPath @ ''-s3fs.log'',
        ''-o'', ''url='' @ awsUrl, ''-o'', ''allow_other''] @
       (if readOnly = Some True then [''-o'', ''ro'', ''-o'', ''umask=022''] else []) @
       (if usePathRequestStyle = Some True then [''-o'', ''use_path_request_style''] else []))"

text \<open>The AWS key pair: from the environment when both variables are set, else from CGS.\<close>

definition s3fs_credentials :: "'s host \<Rightarrow> s3fs_args \<Rightarrow> ('s, json \<times> json) op" where
  "s3fs_credentials H a =
    bind_op (environ_get H ''AWS_ACCESS_KEY_ID'') (\<lambda>i.
    bind_op (environ_get H ''AWS_SECRET_ACCESS_KEY'') (\<lambda>k.
    case (i, k) of
      (Some i, Some k) \<Rightarrow> return_op (JStr i, JStr k)
    | _ \<Rightarrow>
      bind_op (catch_op (wait_for_services_readiness H [sa_otel_collector_port a]) (\<lambda>_. return_op ())) (\<lambda>_.
      bind_op (wait_for_services_readiness H [sa_governance_port a]) (\<lambda>_.
      bind_op (get_cgs_secret H (sa_governance_port a) (sa_cgs_aws_s3_config_secret a)) (\<lambda>b.
      lift_res (bind_res (utf8_decode b) (\<lambda>t. bind_res (json_loads t) (\<lambda>config.
        bind_res (json_item config ''awsAccessKeyId'') (\<lambda>i.
        bind_res (json_item config ''awsSecretAccessKey'') (\<lambda>k. Inr (i, k)))))))))))"

definition s3fs_mount :: "'s host \<Rightarrow> launcher \<Rightarrow> s3fs_args \<Rightarrow> json \<times> json \<Rightarrow> ('s, int) op" where
  "s3fs_mount H L a cred =
    bind_op (lift_res (json_as_str (fst cred))) (\<lambda>i.
    bind_op (ho_setenv H ''AWS_ACCESS_KEY_ID'' i) (\<lambda>_.
    bind_op (lift_res (json_as_str (snd cred))) (\<lambda>k.
    bind_op (ho_setenv H ''AWS_SECRET_ACCESS_KEY'' k) (\<lambda>_.
    launch_s3fs H (la_source L) (sa_mount_path a) (sa_read_only a) (sa_aws_url a) (sa_use_path_request_style a)
      (la_telemetry L)))))"

definition s3fs_mounted :: "'s host \<Rightarrow> launcher \<Rightarrow> s3fs_args \<Rightarrow> ('s, int) op" where
  "s3fs_mounted H L a =
    bind_op (trace_context H) (\<lambda>_.
    bind_op (s3fs_credentials H a) (\<lambda>cred.
    bind_op (ho_makedirs H (sa_mount_path a)) (\<lambda>_.
    bind_op (ho_makedirs H ''/tmp/s3fs_tmp'') (\<lambda>_.
    bind_op (mount_attempts (s3fs_mount H L a cred) (ho_sleep H 10) 5) (\<lambda>returncode.
    bind_op (get_op (\<lambda>s. ho_exists H s (la_volumestatus L))) (\<lambda>found.
    bind_op (if found then return_op () else ho_makedirs H (la_volumestatus L)) (\<lambda>_.
    return_op returncode)))))))"

definition s3fs_main :: "'s host \<Rightarrow> launcher \<Rightarrow> s3fs_args \<Rightarrow> ('s, int) op" where
  "s3fs_main H L a =
    bind_op (s3fs_mounted H L a) (\<lambda>returncode.
    bind_op (write_marker H L (sa_mount_path a) returncode) (\<lambda>_.
    return_op returncode))"

section \<open>What the launchers do to the markers\<close>

text \<open>The two marker files of an access name are as they were.\<close>

definition keeps_markers :: "('s \<Rightarrow> string \<Rightarrow> string option) \<Rightarrow> launcher \<Rightarrow> 's \<Rightarrow> 's \<Rightarrow> bool" where
  "keeps_markers fs L s t \<longleftrightarrow>
    fs t (ready_file (la_volumestatus L) (la_access_name L)) = fs s (ready_file (la_volumestatus L) (la_access_name L)) \<and>
    fs t (error_file (la_volumestatus L) (la_access_name L)) = fs s (error_file (la_volumestatus L) (la_access_name L))"

text \<open>
  The host of a launcher: a write stores the contents, and no other call touches the markers of
  this access name, which no other process writes.
\<close>

definition launcher_host :: "('s \<Rightarrow> string \<Rightarrow> string option) \<Rightarrow> launcher \<Rightarrow> 's host \<Rightarrow> bool" where
  "launcher_host fs L H \<longleftrightarrow>
    (\<forall>p c s t. ho_write H p c s = (Inr (), t) \<longrightarrow> fs t = (fs s)(p \<mapsto> c)) \<and>
    (\<forall>k v. steps (keeps_markers fs L) (ho_setenv H k v)) \<and> (\<forall>p. steps (keeps_markers fs L) (ho_read H p)) \<and>
    (\<forall>p. steps (keeps_markers fs L) (ho_makedirs H p)) \<and> (\<forall>p. steps (keeps_markers fs L) (ho_load_yaml H p)) \<and>
    (\<forall>j p. steps (keeps_markers fs L) (ho_dump_yaml H j p)) \<and> (\<forall>n. steps (keeps_markers fs L) (ho_sleep H n)) \<and>
    (\<forall>n. steps (keeps_markers fs L) (ho_connect H n)) \<and> (\<forall>n. steps (keeps_markers fs L) (ho_serve H n)) \<and>
    (\<forall>c. steps (keeps_markers fs L) (ho_popen H c)) \<and> (\<forall>p. steps (keeps_markers fs L) (ho_wait H p)) \<and>
    (\<forall>u b. steps (keeps_markers fs L) (ho_post H u b))"

text \<open>The host of a process that waits: it sees the same files.\<close>

definition sees_files :: "('s \<Rightarrow> string \<Rightarrow> string option) \<Rightarrow> 's host \<Rightarrow> bool" where
  "sees_files fs W \<longleftrightarrow>
    (\<forall>s p. ho_exists W s p \<longleftrightarrow> fs s p \<noteq> None) \<and>
    (\<forall>s p. ho_read W p s = ((case fs s p of None \<Rightarrow> Inl (FileNotFoundError p) | Some c \<Rightarrow> Inr c), s))"

lemma keeps_markers_preorder: "preorder_rel (keeps_markers fs L)"
  by (simp add: preorder_rel_def keeps_markers_def)

lemma steps_Pair: "steps (keeps_markers fs L) (Pair r)"
  by (simp add: steps_def keeps_markers_def)

lemmas marker_intros = steps_intros [OF keeps_markers_preorder] steps_get_op [OF keeps_markers_preorder] steps_Pair

lemma ready_error_files: "ready_file d n \<noteq> error_file d n"
  by (auto simp: ready_file_def error_file_def path_join_def hd_append split: if_splits)

text \<open>The parts of the launchers before the marker, by the calls they make.\<close>

lemma wait_for_services_steps:
  assumes "launcher_host fs L H"
  shows "steps (keeps_markers fs L) (wait_for_services_readiness H ps)"
proof -
  have port: "steps (keeps_markers fs L) (wait_for_port H p n)" for p n
    using assms by (induction n) (auto simp: launcher_host_def intro!: marker_intros)
  have "steps (keeps_markers fs L) (wait_for_ports H ps n)" for n
    by (induction ps arbitrary: n) (auto intro!: marker_intros port)
  then show ?thesis by (simp add: wait_for_services_readiness_def)
qed

lemma launch_code_steps:
  assumes "launcher_host fs L H"
  shows "steps (keeps_markers fs L) (launch_code H c)"
  using assms unfolding launch_code_def subprocess_launch_def launcher_host_def
  by (auto intro!: marker_intros split: prod.split option.split)

lemma secret_steps:
  assumes "launcher_host fs L H"
  shows "steps (keeps_markers fs L) (get_cgs_secret H p k)"
    and "steps (keeps_markers fs L) (unwrap_secret H p c t k v kk kv ma)"
  using assms unfolding get_cgs_secret_def unwrap_secret_def launcher_host_def Let_def
  by (auto intro!: marker_intros)

lemma trace_context_steps: "steps (keeps_markers fs L) (trace_context H)"
  unfolding trace_context_def environ_get_def by (auto intro!: marker_intros split: option.split)

lemma mount_attempts_steps:
  assumes "steps (keeps_markers fs L) m" and "steps (keeps_markers fs L) f"
  shows "steps (keeps_markers fs L) (mount_attempts m f n)"
  by (induction n) (auto intro!: marker_intros assms)

lemmas launcher_steps = wait_for_services_steps launch_code_steps secret_steps

lemmas plain_steps = marker_intros trace_context_steps mount_attempts_steps

lemma blobfuse_mounted_steps:
  assumes "launcher_host fs L H"
  shows "steps (keeps_markers fs L) (blobfuse_mounted H L a)"
  using assms
  unfolding blobfuse_mounted_def blobfuse_key_def blobfuse_mount_def launch_blobfuse_def launch_blobfuse_encrypted_def
    read_blobfuse_logs_def
  by (auto simp: launcher_host_def intro!: launcher_steps [OF assms] plain_steps split: option.split mount_mode.split)

lemma s3fs_mounted_steps:
  assumes "launcher_host fs L H"
  shows "steps (keeps_markers fs L) (s3fs_mounted H L a)"
  using assms unfolding s3fs_mounted_def s3fs_credentials_def s3fs_mount_def launch_s3fs_def environ_get_def
  by (auto simp: launcher_host_def intro!: launcher_steps [OF assms] plain_steps split: option.split prod.split)

text \<open>After the marker was written exactly the matching one of the two files is there.\<close>

lemma marker_after:
  assumes "launcher_host fs L H" and "steps (keeps_markers fs L) m"
    and "bind_op m (\<lambda>code. bind_op (write_marker H L path code) (\<lambda>_. return_op code)) s = (Inr code, t)"
    and "fs s (ready_file (la_volumestatus L) (la_access_name L)) = None"
  shows "if code = 0 then fs t (ready_file (la_volumestatus L) (la_access_name L)) =
           Some (json_dumps (JObj [(''mount_path'', JStr path)]))
         else fs t (ready_file (la_volumestatus L) (la_access_name L)) = None \<and>
           fs t (error_file (la_volumestatus L) (la_access_name L)) =
             Some (json_dumps (JObj [(''error_code'', JInt code)]))"
proof -
  obtain u where u: "m s = (Inr code, u)" and w: "write_marker H L path code u = (Inr (), t)"
    using assms(3) by (auto simp: bind_op_Inr_iff)
  have "keeps_markers fs L s u" using stepsD [OF assms(2) u] .
  moreover have "fs t = (fs u)((if code = 0 then ready_file else error_file) (la_volumestatus L) (la_access_name L) \<mapsto>
      json_dumps (JObj [if code = 0 then (''mount_path'', JStr path) else (''error_code'', JInt code)]))"
    using assms(1) w by (auto simp: launcher_host_def write_marker_def split: if_splits)
  ultimately show ?thesis
    using assms(4) ready_error_files by (auto simp: keeps_markers_def)
qed

lemma poll_found:
  assumes "0 < n" and "is_volume_ready W a t \<or> is_volume_error W a t"
  shows "poll_volume W a d n t = (Inr (is_volume_ready W a t), t)"
  using assms by (cases n) auto

definition mount_failed :: "string \<Rightarrow> int \<Rightarrow> string" where
  "mount_failed a code = ''Mount point for '' @ a @ '' is not available. Blobfuse exited with error : '' @ str_int code"

text \<open>The marker a started launcher leaves, and what a wait makes of it.\<close>

definition marker_left :: "('s \<Rightarrow> string \<Rightarrow> string option) \<Rightarrow> launcher \<Rightarrow> string \<Rightarrow> int \<Rightarrow> 's \<Rightarrow> bool" where
  "marker_left fs L path code t \<longleftrightarrow>
    (if code = 0 then fs t (ready_file (la_volumestatus L) (la_access_name L)) =
       Some (json_dumps (JObj [(''mount_path'', JStr path)]))
     else fs t (ready_file (la_volumestatus L) (la_access_name L)) = None \<and>
       fs t (error_file (la_volumestatus L) (la_access_name L)) =
         Some (json_dumps (JObj [(''error_code'', JInt code)])))"

lemma launchers_leave_marker:
  assumes "launcher_host fs L H" and "fs s (ready_file (la_volumestatus L) (la_access_name L)) = None"
  shows "blobfuse_main H L a s = (Inr code, t) \<Longrightarrow> marker_left fs L (ba_mount_path a) code t"
    and "s3fs_main H L b s = (Inr code, t) \<Longrightarrow> marker_left fs L (sa_mount_path b) code t"
  unfolding blobfuse_main_def s3fs_main_def marker_left_def
  by (auto dest: marker_after [OF assms(1) blobfuse_mounted_steps [OF assms(1)] _ assms(2)]
      marker_after [OF assms(1) s3fs_mounted_steps [OF assms(1)] _ assms(2)])

lemma wait_for_marker:
  assumes m: "marker_left fs L path code t" and "sees_files fs W"
    and v: "get_volumestatus_mountpath W t = la_volumestatus L" and "0 < n"
  shows "wait_for_mount_point W (la_access_name L) n d mk t =
    (if code = 0 then Inr (JStr path) else Inl (mk (mount_failed (la_access_name L) code)), t)"
proof -
  have ex: "ho_exists W t p \<longleftrightarrow> fs t p \<noteq> None"
    and rd: "ho_read W p t = (case fs t p of None \<Rightarrow> Inl (FileNotFoundError p) | Some c \<Rightarrow> Inr c, t)" for p
    using assms(2) by (simp_all add: sees_files_def)
  have poll: "poll_volume W (la_access_name L) d n t = (Inr (code = 0), t)"
    using poll_found [OF assms(4), of W "la_access_name L" t d] m ex
    by (auto simp: marker_left_def is_volume_ready_def is_volume_error_def v split: if_splits)
  show ?thesis
    using m by (cases "code = 0") (simp_all add: marker_left_def wait_for_mount_point_def poll get_mount_path_def
      get_blobfuse_error_def is_volume_error_def v ex rd bind_op_def json_str_def mount_failed_def)
qed


text \<open>A host whose state is its files, on which every command and service succeeds.\<close>

definition disk_host :: "(string, string) dict host" where
  "disk_host =
    \<lparr>ho_getenv = (\<lambda>s k. None), ho_setenv = (\<lambda>k v. return_op ()), ho_exists = (\<lambda>s p. map_of s p \<noteq> None),
     ho_read = (\<lambda>p s. (case map_of s p of None \<Rightarrow> Inl (FileNotFoundError p) | Some c \<Rightarrow> Inr c, s)),
     ho_write = (\<lambda>p c s. (Inr (), (p, c) # s)), ho_makedirs = (\<lambda>p. return_op ()),
     ho_load_yaml = (\<lambda>p. raise_op (FileNotFoundError p)), ho_dump_yaml = (\<lambda>j p. return_op ()),
     ho_sleep = (\<lambda>n. return_op ()), ho_connect = (\<lambda>p. return_op ()), ho_serve = (\<lambda>p. return_op ()),
     ho_popen = (\<lambda>c. return_op 7), ho_wait = (\<lambda>p. return_op 0),
     ho_post = (\<lambda>u b. return_op (200, Inr (JObj [(''value'', JStr ''a2V5'')]))), ho_sha256 = (\<lambda>b. b)\<rparr>"

definition sample_launcher :: launcher where
  "sample_launcher = \<lparr>la_source = ''c'', la_access_name = ''in'', la_volumestatus = ''/mnt/volumestatus'',
    la_telemetry = ''/mnt/telemetry''\<rparr>"

definition sample_mount :: blobfuse_args where
  "sample_mount =
    \<lparr>ba_skr_port = 8284, ba_governance_port = 8300, ba_secrets_port = 9300, ba_maa_endpoint = None,
     ba_akv_endpoint = None, ba_kid = None, ba_imds_port = 8290, ba_otel_collector_port = 4317,
     ba_tenant_id = None, ba_client_id = None, ba_mount_path = ''/mnt/remote/in'', ba_read_only = Some True,
     ba_use_adls = None, ba_wrapped_dek_secret = None, ba_wrapped_dek_akv_endpoint = None,
     ba_sub_directory = [], ba_encryption_mode = Mode_SSE, ba_block_size_mb = 16,
     ba_cgs_dek_secret = Some ''dek'', ba_readiness_port = None\<rparr>"

lemma disk_host_launcher: "launcher_host map_of L disk_host"
  by (auto simp: launcher_host_def disk_host_def steps_def keeps_markers_def split: option.split)

lemma disk_host_sees: "sees_files map_of disk_host"
  by (simp add: sees_files_def disk_host_def)

lemma disk_host_calls:
  "wait_for_services_readiness disk_host ps s = (Inr (), s)"
  "launch_code disk_host c s = (Inr 0, s)" "trace_context disk_host s = (Inr None, s)"
proof -
  have "wait_for_ports disk_host ps (Suc n) s = (Inr (), s)" for n
    by (induction ps) (simp_all add: disk_host_def bind_op_def catch_op_def)
  from this [of 17] show "wait_for_services_readiness disk_host ps s = (Inr (), s)"
    by (simp add: wait_for_services_readiness_def)
qed (simp_all add: bind_op_def launch_code_def subprocess_launch_def trace_context_def environ_get_def disk_host_def)

lemma disk_host_mounts:
  assumes "ba_encryption_mode a = Mode_SSE" and "ba_readiness_port a = None"
  shows "blobfuse_main disk_host L a s =
    (Inr 0, (ready_file (la_volumestatus L) (la_access_name L), json_dumps (JObj [(''mount_path'', JStr (ba_mount_path a))])) # s)"
proof -
  have [simp]: "ho_setenv disk_host k v = return_op ()" "ho_makedirs disk_host p = return_op ()"
    "ho_write disk_host p c s = (Inr (), (p, c) # s)" for k v p c s
    by (simp_all add: disk_host_def)
  have "mount_attempts (blobfuse_mount disk_host L a key) f 5 s = (Inr 0, s)" for key f
    by (simp add: eval_nat_numeral blobfuse_mount_def assms launch_blobfuse_def bind_op_def disk_host_calls)
  then have "blobfuse_mounted disk_host L a s = (Inr 0, s)"
    by (simp add: blobfuse_mounted_def bind_op_def catch_op_def assms disk_host_calls)
  then show ?thesis by (simp add: blobfuse_main_def bind_op_def write_marker_def)
qed


end
