(* ===== verification/Query_Runner.thy ===== *)
theory Query_Runner
  imports Dataset_Loader Mounts "HOL-Library.Multiset"
begin

text \<open>
  The analytics application's programs: \<^verbatim>\<open>run_query.py\<close> with the query model of
  \<^verbatim>\<open>config/query.py\<close>, and \<^verbatim>\<open>spark_launcher.py\<close> with its
  \<^verbatim>\<open>utilities.py\<close>. The coroutines contain no call that suspends, as the adapters report
  synchronously: \<^verbatim>\<open>gather\<close> runs its tasks one after the other, each to its end, and raises
  the first exception. Parsing a configuration or a query is a parameter.
\<close>

section \<open>The query\<close>

record pre_condition =
  pc_viewName :: string
  pc_minRowCount :: int

record post_filter =
  pf_columnName :: string
  pf_value :: int

record query_segment =
  sg_executionSequence :: int
  sg_data :: string
  sg_preConditions :: "pre_condition list option"
  sg_postFilters :: "post_filter list option"

section \<open>Segments\<close>

primrec check_preconditions :: "('s, 'df, 'f) spark \<Rightarrow> string list \<Rightarrow> pre_condition list \<Rightarrow> ('s, unit) op" where
  "check_preconditions S all_tables [] = return_op ()"
| "check_preconditions S all_tables (e # es) =
    (if pc_viewName e \<notin> set all_tables
     then raise_op (ValueError (''View '' @ pc_viewName e @ '' does not exist in the Spark catalog. Exiting''))
     else
       bind_op (sp_table S (pc_viewName e)) (\<lambda>df.
       bind_op (sp_count S df) (\<lambda>row_count.
       if row_count < pc_minRowCount e
       then raise_op (ValueError (''Pre-segment enforcement failed for view '' @ pc_viewName e @ '': row count '' @
         str_int row_count @ '' is less than minRowCount '' @ str_int (pc_minRowCount e)))
       else check_preconditions S all_tables es)))"

definition pre_segment_enforcement :: "('s, 'df, 'f) spark \<Rightarrow> pre_condition list \<Rightarrow> ('s, unit) op" where
  "pre_segment_enforcement S enforcements =
    bind_op (sp_list_tables S) (\<lambda>all_tables. check_preconditions S all_tables enforcements)"

text \<open>The message of a missing column also lists the columns, in the order of a Python set.\<close>

definition post_segment_filtering :: "('s, 'df, 'f) spark \<Rightarrow> 'df \<Rightarrow> post_filter list \<Rightarrow> 'df res" where
  "post_segment_filtering S df enforcements =
    (if \<not> list_all (\<lambda>e. pf_columnName e \<in> set (sp_columns S df)) enforcements
     then Inl (ValueError ''Required columns missing in the output for PostSegmentFilteringEnforcement'')
     else fold_res (\<lambda>e filtered. sp_filter_ge S (pf_columnName e) (pf_value e) filtered) enforcements df)"

definition segment_body :: "('s, 'df, 'f) spark \<Rightarrow> 's reporters \<Rightarrow> query_segment \<Rightarrow> ('s, 'df) op" where
  "segment_body S R seg =
    bind_op (log_operational_event R (operational_event_of
      (QuerySegmentExecutionStarted (str_int (sg_executionSequence seg))))) (\<lambda>_.
    bind_op (case sg_preConditions seg of None \<Rightarrow> return_op ()
             | Some es \<Rightarrow> if es = [] then return_op () else pre_segment_enforcement S es) (\<lambda>_.
    bind_op (sp_sql S (sg_data seg)) (\<lambda>result.
    bind_op (sp_count S result) (\<lambda>row_count.
    bind_op (case sg_postFilters seg of None \<Rightarrow> return_op (result, row_count)
             | Some es \<Rightarrow> if es = [] then return_op (result, row_count)
               else bind_op (lift_res (post_segment_filtering S result es)) (\<lambda>result.
                    bind_op (sp_count S result) (\<lambda>row_count. return_op (result, row_count)))) (\<lambda>(result, row_count).
    bind_op (log_operational_event R (operational_event_of
      (QuerySegmentExecutionCompleted (str_int row_count) (str_int (sg_executionSequence seg))))) (\<lambda>_.
    return_op result))))))"

definition run_query_segment :: "('s, 'df, 'f) spark \<Rightarrow> 's reporters \<Rightarrow> query_segment \<Rightarrow> ('s, 'df) op" where
  "run_query_segment S R seg =
    catch_op (segment_body S R seg) (\<lambda>e.
      bind_op (log_operational_event R (operational_event_of
        (QuerySegmentExecutionFailed (sp_str_exc S e) (str_int (sg_executionSequence seg))))) (\<lambda>_.
      raise_op e))"

section \<open>The query run\<close>

text \<open>All tasks run; the results are those of all of them, or the first exception.\<close>

primrec gather :: "('a \<Rightarrow> ('s, 'b) op) \<Rightarrow> 'a list \<Rightarrow> 's \<Rightarrow> 'b res list \<times> 's" where
  "gather f [] s = ([], s)"
| "gather f (x # xs) s = (case f x s of (r, s') \<Rightarrow> case gather f xs s' of (rs, t) \<Rightarrow> (r # rs, t))"

definition gather_op :: "('a \<Rightarrow> ('s, 'b) op) \<Rightarrow> 'a list \<Rightarrow> ('s, 'b list) op" where
  "gather_op f xs s = (case gather f xs s of (rs, t) \<Rightarrow> (map_res (\<lambda>r. r) rs, t))"

definition last_step :: "query_segment list \<Rightarrow> int" where
  "last_step segs = foldl (\<lambda>l seg. if l < sg_executionSequence seg then sg_executionSequence seg else l) 0 segs"

text \<open>The segments of a step, in the order of the query.\<close>

definition segments_of :: "query_segment list \<Rightarrow> int \<Rightarrow> query_segment list" where
  "segments_of segs step = filter (\<lambda>seg. sg_executionSequence seg = step) segs"

text \<open>The steps in order; the output is that of the last one's only segment.\<close>

definition run_steps :: "('s, 'df, 'f) spark \<Rightarrow> 's reporters \<Rightarrow> query_segment list \<Rightarrow> ('s, 'df option) op" where
  "run_steps S R segs =
    (if segs \<noteq> [] \<and> length (segments_of segs (last_step segs)) \<noteq> 1
     then raise_op (ValueError (''There should be just 1 last segment but there are '' @
       str_nat (length (segments_of segs (last_step segs))) @ ''.''))
     else
       fold_op (\<lambda>step output.
         bind_op (gather_op (run_query_segment S R) (segments_of segs step)) (\<lambda>results.
         if last_step segs = step
         then (case results of [] \<Rightarrow> raise_op IndexError | r # rs \<Rightarrow> return_op (Some r))
         else return_op output)) (sorted_list_of_set (sg_executionSequence ` set segs)) None)"

definition query_body ::
  "('s, 'df, 'f) spark \<Rightarrow> 's reporters \<Rightarrow> query_configuration \<Rightarrow> query_segment list \<Rightarrow> string \<Rightarrow> string \<Rightarrow> string \<Rightarrow> int \<Rightarrow>
   ('s, unit) op" where
  "query_body S R config segments start_date end_date job_id t0 =
    bind_op (gather_op (\<lambda>ds. load_dataset_async S R ds start_date end_date job_id) (qc_datasets config)) (\<lambda>results.
    bind_op (run_steps S R segments) (\<lambda>output.
    bind_op (case output of None \<Rightarrow> return_op 0
             | Some df \<Rightarrow> write_dataset_async S R job_id df (qc_datasink config)) (\<lambda>row_count_written.
    bind_op (sp_monotonic_ns S) (\<lambda>t1.
    let duration_sec = sp_seconds S (t1 - t0)
    in bind_op (log_operational_event R (operational_event_of (QueryExecutionCompleted (sp_str_float S duration_sec)))) (\<lambda>_.
       bind_op (log_audit_record R (audit_record_of ''run_query'' (AuditQueryCompleted job_id))) (\<lambda>_.
       bind_op (lift_res (QueryStatistics (sp_stats_dumps S) duration_sec (sum_list results) row_count_written)) (\<lambda>e.
       record_statistics_event R e)))))))"

definition run_query ::
  "('s, 'df, 'f) spark \<Rightarrow> 's reporters \<Rightarrow> query_configuration \<Rightarrow> query_segment list \<Rightarrow> string \<Rightarrow> string \<Rightarrow> string \<Rightarrow>
   ('s, unit) op" where
  "run_query S R config segments start_date end_date job_id =
    bind_op (sp_monotonic_ns S) (\<lambda>t0.
    catch_op (query_body S R config segments start_date end_date job_id t0) (\<lambda>e.
      bind_op (log_operational_event R (operational_event_of (QueryExecutionFailed (sp_str_exc S e)))) (\<lambda>_.
      bind_op (log_audit_record R (audit_record_of ''run_query'' (AuditQueryFailed job_id (sp_str_exc S e)))) (\<lambda>_.
      raise_op e))))"

section \<open>The programs\<close>

record app_parsers =
  pa_configuration :: "string \<Rightarrow> query_configuration res"
  pa_query :: "string \<Rightarrow> query_segment list res"

text \<open>\<^verbatim>\<open>base64.b64decode(t).decode("utf-8")\<close>.\<close>

definition decode_text :: "string \<Rightarrow> string res" where
  "decode_text t = bind_res (json_b64decode (JStr t)) utf8_decode"

definition env_or_empty :: "'s host \<Rightarrow> string \<Rightarrow> ('s, string) op" where
  "env_or_empty H k = bind_op (environ_get H k) (\<lambda>v. return_op (or_str v []))"

text \<open>What both programs do before their work: the job id, the trace context and the configuration.\<close>

definition load_job :: "'s host \<Rightarrow> app_parsers \<Rightarrow> ('s, string \<times> query_configuration) op" where
  "load_job H P =
    bind_op (env_or_empty H ''JOB_ID'') (\<lambda>job_id.
    if job_id = [] then raise_op (ValueError ''Environment variable JOB_ID is not set'')
    else
      bind_op (trace_context H) (\<lambda>_.
      bind_op (env_or_empty H ''JOB_CONFIG'') (\<lambda>job_config.
      if job_config = [] then raise_op (ValueError ''Environment variable JOB_CONFIG is not set'')
      else
        bind_op (lift_res (bind_res (decode_text job_config) (pa_configuration P))) (\<lambda>config.
        return_op (job_id, config)))))"

definition run_query_main ::
  "'s host \<Rightarrow> app_parsers \<Rightarrow> ('s, 'df, 'f) spark \<Rightarrow> 's reporters \<Rightarrow> ('s, unit) op" where
  "run_query_main H P S R =
    bind_op (load_job H P) (\<lambda>(job_id, config).
    bind_op (lift_res (bind_res (decode_text (qc_query config)) (pa_query P))) (\<lambda>segments.
    bind_op (env_or_empty H ''START_DATE'') (\<lambda>start_date.
    bind_op (env_or_empty H ''END_DATE'') (\<lambda>end_date.
    run_query S R config segments start_date end_date job_id))))"

text \<open>The exception class of the analytics application for a mount that is not there.\<close>

definition MountPointUnavailableFailure :: "string \<Rightarrow> exc" where
  "MountPointUnavailableFailure msg = OtherException (''MountPointUnavailableFailure: '' @ msg)"

definition app_wait_for_mount_point :: "'s host \<Rightarrow> string \<Rightarrow> ('s, json) op" where
  "app_wait_for_mount_point H access_name = wait_for_mount_point H access_name 10 30 MountPointUnavailableFailure"

definition wait_for_mounts :: "'s host \<Rightarrow> query_configuration \<Rightarrow> ('s, unit) op" where
  "wait_for_mounts H config =
    bind_op (map_op (\<lambda>ds. app_wait_for_mount_point H (di_name ds)) (qc_datasets config)) (\<lambda>_.
    bind_op (app_wait_for_mount_point H (di_name (qc_datasink config))) (\<lambda>_. return_op ()))"

text \<open>The launcher ends in replacing its process by Spark's entry point, \<open>execv\<close>.\<close>

definition spark_launcher_main ::
  "'s host \<Rightarrow> app_parsers \<Rightarrow> (string \<Rightarrow> string list \<Rightarrow> ('s, unit) op) \<Rightarrow> string list \<Rightarrow> ('s, unit) op" where
  "spark_launcher_main H P execv argv =
    bind_op (load_job H P) (\<lambda>(job_id, config).
    bind_op (wait_for_mounts H config) (\<lambda>_.
    execv ''/opt/entrypoint.sh'' (''/opt/entrypoint.sh'' # drop 1 argv)))"

section \<open>Enforcement\<close>

text \<open>
  What the enforcements rely on of Spark, for a catalog \<open>cat\<close>, the rows of a data frame and the
  integer in a cell: the tables listed are the views of the catalog, a view's table is its data
  frame, a count is the number of rows, and a filter keeps the rows whose cell holds at least the
  value, none where it is null.
\<close>

definition spark_rows ::
  "('s, 'df, 'f) spark \<Rightarrow> 's reporters \<Rightarrow> ('s \<Rightarrow> string \<Rightarrow> 'df option) \<Rightarrow> ('df \<Rightarrow> 'row list) \<Rightarrow>
   ('row \<Rightarrow> string \<Rightarrow> int option) \<Rightarrow> bool" where
  "spark_rows S R cat rows cell \<longleftrightarrow>
    spark_frame S R (\<lambda>s t. cat t = cat s) \<and>
    (\<forall>s names t. sp_list_tables S s = (Inr names, t) \<longrightarrow> set names = dom (cat s)) \<and>
    (\<forall>v s df t. sp_table S v s = (Inr df, t) \<longrightarrow> cat s v = Some df) \<and>
    (\<forall>df s n t. sp_count S df s = (Inr n, t) \<longrightarrow> n = int (length (rows df))) \<and>
    (\<forall>c v df df'. sp_filter_ge S c v df = Inr df' \<longrightarrow>
      rows df' = filter (\<lambda>r. case cell r c of None \<Rightarrow> False | Some x \<Rightarrow> v \<le> x) (rows df))"

definition optional_list :: "'a list option \<Rightarrow> 'a list" where
  "optional_list x = (case x of None \<Rightarrow> [] | Some xs \<Rightarrow> xs)"

text \<open>A row passes all filters of a list.\<close>

definition passes :: "('row \<Rightarrow> string \<Rightarrow> int option) \<Rightarrow> post_filter list \<Rightarrow> 'row \<Rightarrow> bool" where
  "passes cell fs r = list_all (\<lambda>f. case cell r (pf_columnName f) of None \<Rightarrow> False | Some x \<Rightarrow> pf_value f \<le> x) fs"

text \<open>A precondition holds in a catalog: its view is there, with enough rows.\<close>

definition precondition_met :: "(string \<Rightarrow> 'df option) \<Rightarrow> ('df \<Rightarrow> 'row list) \<Rightarrow> pre_condition \<Rightarrow> bool" where
  "precondition_met views rows e =
    (case views (pc_viewName e) of None \<Rightarrow> False | Some df \<Rightarrow> pc_minRowCount e \<le> int (length (rows df)))"

lemma check_preconditions_ok:
  assumes C: "spark_rows S R cat rows cell" and "set names \<subseteq> dom (cat s)"
    and "check_preconditions S names es s = (Inr (), t)"
  shows "cat t = cat s \<and> list_all (precondition_met (cat s) rows) es"
  using assms(2,3)
proof (induction es arbitrary: s)
  case Nil
  then show ?case by simp
next
  case (Cons e es)
  then obtain df u n w where tab: "sp_table S (pc_viewName e) s = (Inr df, u)" and cnt: "sp_count S df u = (Inr n, w)"
    and le: "pc_minRowCount e \<le> n" and rest: "check_preconditions S names es w = (Inr (), t)"
    by (auto simp: bind_op_Inr_iff split: if_splits)
  have F: "spark_frame S R (\<lambda>s t. cat t = cat s)" using C by (simp add: spark_rows_def)
  have "cat u = cat s" "cat w = cat u"
    using F stepsD [of _ "sp_table S (pc_viewName e)", OF _ tab] stepsD [of _ "sp_count S df", OF _ cnt]
    by (auto simp: spark_frame_def)
  moreover have "cat s (pc_viewName e) = Some df" "n = int (length (rows df))"
    using C tab cnt unfolding spark_rows_def by blast+
  ultimately show ?case
    using Cons.IH [OF _ rest] Cons.prems(1) le by (simp add: precondition_met_def)
qed

lemma pre_segment_ok:
  assumes C: "spark_rows S R cat rows cell" and run: "pre_segment_enforcement S es s = (Inr (), t)"
  shows "cat t = cat s \<and> list_all (precondition_met (cat s) rows) es"
proof -
  obtain names u where l: "sp_list_tables S s = (Inr names, u)" and c: "check_preconditions S names es u = (Inr (), t)"
    using run by (auto simp: pre_segment_enforcement_def bind_op_Inr_iff)
  have "cat u = cat s" using C stepsD [of _ "sp_list_tables S", OF _ l] by (auto simp: spark_rows_def spark_frame_def)
  then show ?thesis using check_preconditions_ok [OF C _ c] C l by (auto simp: spark_rows_def)
qed

lemma post_filter_rows:
  assumes C: "spark_rows S R cat rows cell" and "post_segment_filtering S df fs = Inr df'"
  shows "rows df' = filter (passes cell fs) (rows df)"
proof -
  have "fold_res (\<lambda>e d. sp_filter_ge S (pf_columnName e) (pf_value e) d) fs df = Inr df'"
    using assms(2) by (simp add: post_segment_filtering_def split: if_splits)
  then show ?thesis
  proof (induction fs arbitrary: df)
    case Nil
    then show ?case by (simp add: passes_def)
  next
    case (Cons f fs)
    then obtain d where d: "sp_filter_ge S (pf_columnName f) (pf_value f) df = Inr d" and "rows df' = filter (passes cell fs) (rows d)"
      by (auto simp: bind_res_Inr_iff)
    moreover have "rows d = filter (\<lambda>r. case cell r (pf_columnName f) of None \<Rightarrow> False | Some x \<Rightarrow> pf_value f \<le> x) (rows df)"
      using C d by (simp add: spark_rows_def)
    ultimately show ?case by (simp add: passes_def conj_commute)
  qed
qed

text \<open>
  C3. Enforcement of a query segment: when a segment returns a result, every view named in its
  preconditions was in the catalog with at least the required number of rows when the segment
  started, and the result's rows are exactly those rows of the segment's SQL query, run on that
  catalog, whose columns meet all its post filters.
\<close>

theorem segment_enforced:
  assumes C: "spark_rows S R cat rows cell" and run: "run_query_segment S R seg s = (Inr res, t)"
  shows "list_all (precondition_met (cat s) rows) (optional_list (sg_preConditions seg)) \<and>
    (\<exists>u df w. cat u = cat s \<and> sp_sql S (sg_data seg) u = (Inr df, w) \<and>
      rows res = filter (passes cell (optional_list (sg_postFilters seg))) (rows df))"
proof -
  have F: "spark_frame S R (\<lambda>s t. cat t = cat s)" using C by (simp add: spark_rows_def)
  have "segment_body S R seg s = (Inr res, t)"
    using run unfolding run_query_segment_def
    by (cases rule: catch_op_cases) (auto simp: bind_op_Inr_iff)
  then obtain s1 s2 df s3 n s4 m s5 where ev: "log_operational_event R (operational_event_of
        (QuerySegmentExecutionStarted (str_int (sg_executionSequence seg)))) s = (Inr (), s1)"
    and pre: "(case sg_preConditions seg of None \<Rightarrow> return_op ()
        | Some es \<Rightarrow> if es = [] then return_op () else pre_segment_enforcement S es) s1 = (Inr (), s2)"
    and sql: "sp_sql S (sg_data seg) s2 = (Inr df, s3)"
    and post: "(case sg_postFilters seg of None \<Rightarrow> return_op (df, n)
             | Some es \<Rightarrow> if es = [] then return_op (df, n)
               else bind_op (lift_res (post_segment_filtering S df es)) (\<lambda>result.
                    bind_op (sp_count S result) (\<lambda>row_count. return_op (result, row_count)))) s4 = (Inr (res, m), s5)"
    by (auto simp: segment_body_def bind_op_Inr_iff split: prod.splits)
  have "cat s1 = cat s" using stepsD [OF event_steps [OF F] ev] .
  moreover have "cat s2 = cat s1 \<and> list_all (precondition_met (cat s1) rows) (optional_list (sg_preConditions seg))"
    using pre pre_segment_ok [OF C] by (auto simp: optional_list_def split: option.splits if_splits)
  moreover have "rows res = filter (passes cell (optional_list (sg_postFilters seg))) (rows df)"
    using post post_filter_rows [OF C]
    by (auto simp: optional_list_def bind_op_Inr_iff passes_def split: option.splits if_splits)
  ultimately show ?thesis using sql by auto
qed

section \<open>The order of the steps\<close>

lemma gather_op_Cons:
  "gather_op f (x # xs) s = (Inr rs, t) \<longleftrightarrow>
    (\<exists>r u ys. f x s = (Inr r, u) \<and> gather_op f xs u = (Inr ys, t) \<and> rs = r # ys)"
  by (cases "f x s"; cases "fst (f x s)"; cases "gather f xs (snd (f x s))")
    (auto simp: gather_op_def bind_res_Inr_iff)

lemma gather_op_ok: "gather_op f xs s = (Inr rs, t) \<longleftrightarrow> map_op f xs s = (Inr rs, t)"
proof (induction xs arbitrary: rs s)
  case Nil
  then show ?case by (auto simp: gather_op_def)
next
  case (Cons x xs)
  then show ?case by (auto simp: gather_op_Cons bind_op_Inr_iff)
qed

lemma map_op_append_ok:
  "map_op f (xs @ ys) s = (Inr rs, t) \<longleftrightarrow>
    (\<exists>as u bs. map_op f xs s = (Inr as, u) \<and> map_op f ys u = (Inr bs, t) \<and> rs = as @ bs)"
proof (induction xs arbitrary: s rs)
  case (Cons x xs)
  then show ?case by (fastforce simp: bind_op_Inr_iff)
qed simp

lemma fold_op_append_ok:
  "fold_op f (xs @ ys) b s = (Inr c, t) \<longleftrightarrow> (\<exists>d u. fold_op f xs b s = (Inr d, u) \<and> fold_op f ys d u = (Inr c, t))"
proof (induction xs arbitrary: s b)
  case (Cons x xs)
  then show ?case by (fastforce simp: bind_op_Inr_iff)
qed simp

lemma last_step_bound: "seg \<in> set segs \<Longrightarrow> sg_executionSequence seg \<le> last_step segs"
proof -
  have "l \<le> foldl (\<lambda>l seg. if l < sg_executionSequence seg then sg_executionSequence seg else l) l segs \<and>
    (\<forall>seg \<in> set segs. sg_executionSequence seg \<le>
      foldl (\<lambda>l seg. if l < sg_executionSequence seg then sg_executionSequence seg else l) l segs)" for l
    by (induction segs arbitrary: l) (auto, (meson order_trans less_imp_le not_le)+)
  then show "seg \<in> set segs \<Longrightarrow> ?thesis" by (auto simp: last_step_def)
qed

text \<open>The segments step by step are the stably sorted segments.\<close>

lemma segments_sorted:
  assumes "sorted_wrt (<) ks" and "set ks = sg_executionSequence ` set segs"
  shows "concat (map (segments_of segs) ks) = sort_key sg_executionSequence segs"
proof -
  have fil: "filter (\<lambda>x. sg_executionSequence x = k) (concat (map (segments_of segs) js)) =
      (if k \<in> set js then segments_of segs k else [])" if "sorted_wrt (<) js" for k js
    using that by (induction js) (auto simp: segments_of_def filter_empty_conv intro: filter_cong)
  have srt: "sorted (map sg_executionSequence (concat (map (segments_of segs) js)))" if "sorted_wrt (<) js" for js
  proof -
    have "sorted (map sg_executionSequence (segments_of segs k))" for k
      unfolding segments_of_def by (induction segs) auto
    then show ?thesis using that by (induction js) (auto simp: sorted_append, auto simp: segments_of_def)
  qed
  let ?ys = "concat (map (segments_of segs) ks)"
  have "segments_of segs k = []" if "k \<notin> set ks" for k
    using that assms(2) by (auto simp: segments_of_def filter_empty_conv)
  then have eq: "filter (\<lambda>x. sg_executionSequence x = k) ?ys = filter (\<lambda>x. sg_executionSequence x = k) segs" for k
    unfolding fil [OF assms(1)] segments_of_def by simp
  have "mset ?ys = mset segs"
  proof (rule multiset_eqI)
    fix x :: query_segment
    have "count (mset zs) x = count (mset (filter (\<lambda>y. sg_executionSequence y = sg_executionSequence x) zs)) x" for zs
      by (induction zs) auto
    then show "count (mset ?ys) x = count (mset segs) x" using eq by metis
  qed
  then show ?thesis
    by (intro properties_for_sort_key [symmetric]) (use eq srt [OF assms(1)] in \<open>auto simp: eq_commute\<close>)
qed

lemma fold_steps_before:
  assumes "l \<notin> set ks"
  shows "fold_op (\<lambda>step output. bind_op (gather_op f (segments_of segs step)) (\<lambda>results.
      if l = step then (case results of [] \<Rightarrow> raise_op IndexError | r # rs \<Rightarrow> return_op (Some r))
      else return_op output)) ks output s = (Inr q, t) \<longleftrightarrow>
    q = output \<and> (\<exists>rs. map_op f (concat (map (segments_of segs) ks)) s = (Inr rs, t))"
  using assms
proof (induction ks arbitrary: s)
  case (Cons k ks)
  then show ?case by (fastforce simp: bind_op_Inr_iff gather_op_ok map_op_append_ok)
qed auto

text \<open>The steps end with the highest one, whose only segment is \<open>x\<close>.\<close>

lemma steps_split:
  assumes "length (segments_of segs (last_step segs)) = 1"
  obtains x ks where "segments_of segs (last_step segs) = [x]" and "last_step segs \<notin> set ks"
    and "sorted_list_of_set (sg_executionSequence ` set segs) = ks @ [last_step segs]"
    and "sort_key sg_executionSequence segs = concat (map (segments_of segs) ks) @ [x]"
proof -
  let ?l = "last_step segs" and ?K = "sg_executionSequence ` set segs"
  obtain x where x: "segments_of segs ?l = [x]" using assms by (auto simp: length_Suc_conv)
  have "x \<in> set (segments_of segs ?l)" by (simp add: x)
  then have "x \<in> set segs" "?l = sg_executionSequence x" by (simp_all add: segments_of_def)
  then have "?l \<in> ?K" by blast
  moreover have "\<forall>k \<in> ?K. k \<le> ?l" using last_step_bound by auto
  ultimately have ks: "sorted_list_of_set ?K = sorted_list_of_set (?K - {?l}) @ [?l]"
    by (intro strict_sorted_equal) (auto simp: sorted_wrt_append order_less_le)
  have "sort_key sg_executionSequence segs = concat (map (segments_of segs) (sorted_list_of_set (?K - {?l}))) @ [x]"
    using segments_sorted [of "sorted_list_of_set ?K" segs] x by (simp add: ks [symmetric]) (simp add: ks)
  then show ?thesis using that [OF x _ ks] by simp
qed


section \<open>The effects of a query run\<close>

lemma run_steps_None:
  assumes "run_steps S R segs s = (Inr None, t)"
  shows "segs = []"
proof (rule ccontr)
  assume "segs \<noteq> []"
  then have len: "length (segments_of segs (last_step segs)) = 1"
    using assms by (auto simp: run_steps_def split: if_splits)
  then obtain x ks where x: "segments_of segs (last_step segs) = [x]"
    and ks: "sorted_list_of_set (sg_executionSequence ` set segs) = ks @ [last_step segs]"
    by (rule steps_split)
  show False
    using assms unfolding run_steps_def ks
    by (auto simp: len fold_op_append_ok bind_op_Inr_iff gather_op_ok x)
qed

lemma steps_value: "preorder_rel K \<Longrightarrow> steps K (Pair r)"
  by (simp add: steps_def preorder_rel_def)

lemma gather_steps:
  assumes P: "preorder_rel K" and f: "\<And>x. steps K (f x)"
  shows "steps K (gather_op f xs)"
proof -
  have "K s (snd (gather f xs s))" for s
  proof (induction xs arbitrary: s)
    case Nil
    then show ?case using P by (simp add: preorder_rel_def)
  next
    case (Cons x xs)
    have "K s (snd (f x s))" using f by (simp add: steps_def)
    then show ?case using Cons [of "snd (f x s)"] P
      unfolding preorder_rel_def by (auto split: prod.split)
  qed
  then show ?thesis by (simp add: steps_def gather_op_def split: prod.split) (metis snd_conv)
qed

lemma fold_op_steps:
  assumes P: "preorder_rel K" and f: "\<And>x b. steps K (f x b)"
  shows "steps K (fold_op f xs b)"
proof (induction xs arbitrary: b)
  case (Cons x xs)
  then show ?case using f by (auto intro!: steps_intros [OF P])
qed (simp add: steps_def P [unfolded preorder_rel_def])

lemma run_steps_steps:
  assumes F: "spark_frame S R K" and sql: "\<And>q. steps K (sp_sql S q)"
  shows "steps K (run_steps S R segs)"
proof -
  have P: "preorder_rel K" using F by (simp add: spark_frame_def)
  note I = steps_intros [OF P] steps_value [OF P] event_steps [OF F] sql
  have op: "steps K (sp_count S df)" "steps K (sp_table S v)" "steps K (sp_list_tables S)" for df v
    using F by (simp_all add: spark_frame_def)
  have pre: "steps K (check_preconditions S names es)" for names es
    by (induction es) (auto intro!: I op)
  have "steps K (run_query_segment S R seg)" for seg
    unfolding run_query_segment_def segment_body_def pre_segment_enforcement_def
    by (auto intro!: I op pre split: option.split prod.split)
  then show ?thesis
    unfolding run_steps_def by (auto intro!: I gather_steps [OF P] fold_op_steps [OF P] split: list.split)
qed

text \<open>The parts of a query run around the write of its output.\<close>

definition query_result ::
  "('s, 'df, 'f) spark \<Rightarrow> 's reporters \<Rightarrow> query_configuration \<Rightarrow> query_segment list \<Rightarrow> string \<Rightarrow> string \<Rightarrow> string \<Rightarrow>
   ('s, int list \<times> 'df option) op" where
  "query_result S R config segments a b job =
    bind_op (gather_op (\<lambda>ds. load_dataset_async S R ds a b job) (qc_datasets config)) (\<lambda>results.
    bind_op (run_steps S R segments) (\<lambda>output. return_op (results, output)))"

definition query_write ::
  "('s, 'df, 'f) spark \<Rightarrow> 's reporters \<Rightarrow> query_configuration \<Rightarrow> string \<Rightarrow> int list \<times> 'df option \<Rightarrow> ('s, int) op" where
  "query_write S R config job x =
    (case snd x of None \<Rightarrow> return_op 0 | Some df \<Rightarrow> write_dataset_async S R job df (qc_datasink config))"

definition query_finish ::
  "('s, 'df, 'f) spark \<Rightarrow> 's reporters \<Rightarrow> string \<Rightarrow> int \<Rightarrow> int list \<times> 'df option \<Rightarrow> int \<Rightarrow> ('s, unit) op" where
  "query_finish S R job t0 x written =
    bind_op (sp_monotonic_ns S) (\<lambda>t1.
    bind_op (log_operational_event R (operational_event_of
      (QueryExecutionCompleted (sp_str_float S (sp_seconds S (t1 - t0)))))) (\<lambda>_.
    bind_op (log_audit_record R (audit_record_of ''run_query'' (AuditQueryCompleted job))) (\<lambda>_.
    bind_op (lift_res (QueryStatistics (sp_stats_dumps S) (sp_seconds S (t1 - t0)) (sum_list (fst x)) written)) (\<lambda>e.
    record_statistics_event R e))))"

lemma query_body_parts:
  "query_body S R config segments a b job t0 =
    bind_op (query_result S R config segments a b job) (\<lambda>x.
    bind_op (query_write S R config job x) (query_finish S R job t0 x))"
  unfolding query_body_def query_result_def query_write_def query_finish_def bind_op_assoc bind_op_return fst_conv snd_conv
    Let_def ..

lemma load_dataset_keeps_out:
  "spark_effects S R cat out \<Longrightarrow> steps (\<lambda>s t. out t = out s) (load_dataset_async S R ds a b job)"
  unfolding steps_def using load_dataset_effect [of S R cat out ds a b job] by (metis prod.collapse)

lemma out_frame:
  assumes "spark_effects S R cat out"
  shows "spark_frame S R (\<lambda>s t. out t = out s)" and "steps (\<lambda>s t. out t = out s) (log_audit_record R r)"
  using assms by (auto simp: spark_effects_def spark_frame_def steps_def preorder_rel_def)

text \<open>
  C4. What leaves a query run: whatever the query does and however it ends, the run writes at most
  one output, to the data sink's folder for the day and the job, and that output has only allowed
  fields of the data sink, with the types of its schema. A run that succeeds with at least one
  segment writes it. The SQL statements themselves must not write files.
\<close>

theorem run_query_output:
  assumes E: "spark_effects S R cat out" and sql: "\<And>q. steps (\<lambda>s t. out t = out s) (sp_sql S q)"
    and run: "run_query S R config segments a b job s = (r, t)"
  shows "out t = out s \<and> (isl r \<or> segments = []) \<or>
    (\<exists>today df. out t = out s @ [(output_path (qc_datasink config) today job, df)] \<and>
      releasable S (qc_datasink config) df)"
proof -
  let ?K = "\<lambda>s t. out t = out s"
  note F = out_frame(1) [OF E] and audit = out_frame(2) [OF E]
  have P: "preorder_rel ?K" by (simp add: preorder_rel_def)
  note I = steps_intros [OF P] steps_value [OF P]
  have A: "steps ?K (query_result S R config segments a b job)"
    unfolding query_result_def
    by (auto intro!: I gather_steps [OF P] load_dataset_keeps_out [OF E] run_steps_steps [OF F sql])
  have C: "steps ?K (query_finish S R job t0 x n)" for t0 x n
    unfolding query_finish_def using F audit by (auto simp: spark_frame_def intro!: I)
  have mono: "steps ?K (sp_monotonic_ns S)" using F by (simp add: spark_frame_def)
  show ?thesis
    using F mono run [unfolded run_query_def] audit
  proof (cases rule: reported_body)
    case (ran t0 u q w)
    from P A C ran(2) [unfolded query_body_parts] show ?thesis
    proof (cases rule: effect_between)
      case no
      then show ?thesis using ran by simp
    next
      case (yes x v z y)
      show ?thesis
      proof (cases "snd x")
        case None
        then have "segments = []" using yes(1) by (auto simp: query_result_def bind_op_Inr_iff dest: run_steps_None)
        then show ?thesis using yes ran None by (simp add: query_write_def)
      next
        case (Some df)
        then have "isl z \<and> out y = out v \<or>
            (\<exists>today df'. out y = out v @ [(output_path (qc_datasink config) today job, df')] \<and> releasable S (qc_datasink config) df')"
          using write_dataset_effect [OF E] yes(3) by (simp add: query_write_def)
        then show ?thesis using yes ran by auto
      qed
    qed
  qed simp
qed

section \<open>The audit trail\<close>

text \<open>
  The \<open>trail\<close> of sources and messages the governance service holds: an audit record that is logged
  is appended, nothing else is; and reading the clock does not fail.
\<close>

definition audit_trail :: "('s, 'df, 'f) spark \<Rightarrow> 's reporters \<Rightarrow> ('s \<Rightarrow> (string \<times> string) list) \<Rightarrow> bool" where
  "audit_trail S R trail \<longleftrightarrow>
    (let K = (\<lambda>s t. trail t = trail s)
     in (\<forall>src k s t u. log_audit_record R (audit_record_of src k) s = (u, t) \<longrightarrow> trail t = trail s @ [(src, audit_text k)]) \<and>
        (\<forall>s. \<not> isl (fst (sp_monotonic_ns S s))) \<and>
        steps K (sp_list_tables S) \<and> (\<forall>v. steps K (sp_table S v)) \<and> (\<forall>q. steps K (sp_sql S q)) \<and>
        (\<forall>df. steps K (sp_count S df)) \<and> (\<forall>f g p sch. steps K (sp_read S f g p sch)) \<and>
        (\<forall>df. steps K (sp_cache S df)) \<and> (\<forall>v df. steps K (sp_create_view S v df)) \<and>
        (\<forall>k v. steps K (sp_conf_set S k v)) \<and> (\<forall>f p df. steps K (sp_write S f p df)) \<and>
        (\<forall>p. steps K (sp_makedirs S p)) \<and> steps K (sp_today S) \<and> steps K (sp_monotonic_ns S) \<and>
        (\<forall>e. steps K (log_operational_event R e)) \<and> (\<forall>e. steps K (record_statistics_event R e)))"

text \<open>The trail grew by records of the dataset loader only.\<close>

definition loader_records :: "('s \<Rightarrow> (string \<times> string) list) \<Rightarrow> 's \<Rightarrow> 's \<Rightarrow> bool" where
  "loader_records trail s t \<longleftrightarrow> (\<exists>l. trail t = trail s @ l \<and> list_all (\<lambda>(src, msg). src = ''dataset_loader'') l)"

lemma loader_records_same: "trail t = trail s \<Longrightarrow> loader_records trail s t"
  by (auto simp: loader_records_def)

lemma loader_records_trans:
  assumes "loader_records trail s t" and "loader_records trail t u"
  shows "loader_records trail s u"
proof -
  obtain l where l: "trail t = trail s @ l" "list_all (\<lambda>(src, msg). src = ''dataset_loader'') l"
    using assms(1) by (auto simp: loader_records_def)
  obtain l' where "trail u = trail t @ l'" "list_all (\<lambda>(src, msg). src = ''dataset_loader'') l'"
    using assms(2) by (auto simp: loader_records_def)
  with l show ?thesis unfolding loader_records_def by (intro exI [of _ "l @ l'"]) simp
qed

lemma loader_records_preorder: "preorder_rel (loader_records trail)"
  using loader_records_trans [of trail] by (auto simp: preorder_rel_def intro: loader_records_same)

lemma loader_records_weaken: "steps (\<lambda>s t. trail t = trail s) m \<Longrightarrow> steps (loader_records trail) m"
  by (simp add: steps_def loader_records_same)

lemma audit_frame:
  assumes "audit_trail S R trail"
  shows "spark_frame S R (loader_records trail)"
proof -
  have "loader_records trail s (snd (log_audit_record R (audit_record_of ''dataset_loader'' k) s))" for k s
  proof -
    have "trail (snd (log_audit_record R (audit_record_of src k) s)) = trail s @ [(src, audit_text k)]" for src
      using assms unfolding audit_trail_def Let_def by (metis prod.collapse)
    then show ?thesis by (simp add: loader_records_def)
  qed
  then show ?thesis
    using assms loader_records_preorder
    by (auto simp: audit_trail_def Let_def spark_frame_def steps_def [of "loader_records trail" "log_audit_record R _"]
        intro: loader_records_weaken)
qed

lemma query_result_audit:
  assumes T: "audit_trail S R trail"
  shows "steps (loader_records trail) (query_result S R config segments a b job)"
    and "steps (loader_records trail) (query_write S R config job x)"
proof -
  note F = audit_frame [OF T] and P = loader_records_preorder
  note I = steps_intros [OF P] steps_value [OF P] event_steps [OF F] loader_audit_steps [OF F]
  have op: "steps (loader_records trail) (sp_sql S q)" "steps (loader_records trail) (sp_create_view S v df)"
    "steps (loader_records trail) (sp_write S f p df)" for q v df f p
    using T by (auto simp: audit_trail_def Let_def intro: loader_records_weaken)
  have "steps (loader_records trail) (load_dataset_async S R ds a b job)" for ds
    unfolding load_dataset_parts by (auto intro!: I load_selected_steps [OF F] load_finish_steps [OF F] op)
  then show "steps (loader_records trail) (query_result S R config segments a b job)"
    unfolding query_result_def by (auto intro!: I gather_steps [OF P] run_steps_steps [OF F op(1)])
  show "steps (loader_records trail) (query_write S R config job x)"
    unfolding query_write_def write_dataset_parts write_body_parts
    by (auto intro!: I write_parts_steps [OF F] op split: option.split)
qed

lemma trail_keeps:
  assumes "audit_trail S R trail"
  shows "sp_monotonic_ns S s = (n, t) \<Longrightarrow> trail t = trail s"
    and "log_operational_event R e s = (x, t) \<Longrightarrow> trail t = trail s"
    and "record_statistics_event R e' s = (x, t) \<Longrightarrow> trail t = trail s"
    and "log_audit_record R (audit_record_of src k) s = (x, t) \<Longrightarrow> trail t = trail s @ [(src, audit_text k)]"
  using assms stepsD [of "\<lambda>s t. trail t = trail s" "sp_monotonic_ns S" s n t]
    stepsD [of "\<lambda>s t. trail t = trail s" "log_operational_event R e" s x t]
    stepsD [of "\<lambda>s t. trail t = trail s" "record_statistics_event R e'" s x t]
  by (auto simp: audit_trail_def Let_def)

lemma QueryStatistics_returns: "\<exists>e. QueryStatistics dumps secs rd wr = Inr e"
  by (simp add: QueryStatistics_def utf8_decode_ascii b64encode_ascii)

context reporting
begin

text \<open>With reporters that do not raise, the end of a run cannot fail once the clock was read.\<close>

lemma query_finish_returns:
  assumes T: "audit_trail S R trail"
  shows "\<exists>t. query_finish S R job t0 x n s = (Inr (), t) \<and>
    trail t = trail s @ [(''run_query'', audit_text (AuditQueryCompleted job))]"
proof -
  have "\<not> isl (fst (sp_monotonic_ns S s))" using T by (simp add: audit_trail_def Let_def)
  then obtain t1 s1 where clock: "sp_monotonic_ns S s = (Inr t1, s1)"
    by (cases "sp_monotonic_ns S s"; cases "fst (sp_monotonic_ns S s)") auto
  obtain s2 where event: "log_operational_event R (operational_event_of
      (QueryExecutionCompleted (sp_str_float S (sp_seconds S (t1 - t0))))) s1 = (Inr (), s2)"
    using events_return by (rule exE)
  obtain s3 where audit: "log_audit_record R (audit_record_of ''run_query'' (AuditQueryCompleted job)) s2 = (Inr (), s3)"
    using audits_return by (rule exE)
  obtain e where e: "QueryStatistics (sp_stats_dumps S) (sp_seconds S (t1 - t0)) (sum_list (fst x)) n = Inr e"
    using QueryStatistics_returns [of "sp_stats_dumps S" "sp_seconds S (t1 - t0)" "sum_list (fst x)" n] by (rule exE)
  obtain s4 where stats: "record_statistics_event R e s3 = (Inr (), s4)"
    using statistics_return by (rule exE)
  have "trail s1 = trail s" "trail s2 = trail s1" "trail s4 = trail s3"
    by (rule trail_keeps [OF T], rule clock, rule trail_keeps(2) [OF T], rule event, rule trail_keeps(3) [OF T], rule stats)
  moreover have "trail s3 = trail s2 @ [(''run_query'', audit_text (AuditQueryCompleted job))]"
    using trail_keeps(4) [OF T] audit by blast
  ultimately show ?thesis
    by (simp add: query_finish_def bind_op_def clock event audit e stats)
qed

lemma query_body_audit:
  assumes T: "audit_trail S R trail" and run: "query_body S R config segments a b job t0 s = (r, t)"
  shows "if isl r then loader_records trail s t
    else \<exists>u. loader_records trail s u \<and> trail t = trail u @ [(''run_query'', audit_text (AuditQueryCompleted job))]"
  using run unfolding query_body_parts
proof (cases rule: bind_op_cases)
  case (err e)
  then show ?thesis using stepsD [OF query_result_audit(1) [OF T]] by simp
next
  case (ok x u)
  note u = stepsD [OF query_result_audit(1) [OF T] ok(1)]
  from ok(2) show ?thesis
  proof (cases rule: bind_op_cases)
    case (err e)
    then show ?thesis using loader_records_trans [OF u stepsD [OF query_result_audit(2) [OF T]]] by simp
  next
    case (ok n w)
    then show ?thesis
      using loader_records_trans [OF u stepsD [OF query_result_audit(2) [OF T] ok(1)]]
        query_finish_returns [OF T, of job t0 x n w] by auto
  qed
qed

text \<open>The run ends with exactly one record of its own.\<close>

lemma run_query_audit:
  assumes T: "audit_trail S R trail" and run: "run_query S R config segments a b job s = (r, t)"
  shows "\<exists>u. loader_records trail s u \<and> trail t = trail u @ [(''run_query'', audit_text
    (case r of Inr _ \<Rightarrow> AuditQueryCompleted job | Inl e \<Rightarrow> AuditQueryFailed job (sp_str_exc S e)))]"
proof -
  have clock: "\<not> isl (fst (sp_monotonic_ns S s))" using T by (simp add: audit_trail_def Let_def)
  obtain t0 s1 where c: "sp_monotonic_ns S s = (Inr t0, s1)"
    using clock by (cases "sp_monotonic_ns S s"; cases "fst (sp_monotonic_ns S s)") auto
  have s1: "loader_records trail s s1"
    by (rule loader_records_same [where trail = trail, OF trail_keeps(1) [OF T c]])
  have "catch_op (query_body S R config segments a b job t0) (\<lambda>e.
      bind_op (log_operational_event R (operational_event_of (QueryExecutionFailed (sp_str_exc S e)))) (\<lambda>_.
      bind_op (log_audit_record R (audit_record_of ''run_query'' (AuditQueryFailed job (sp_str_exc S e)))) (\<lambda>_.
      raise_op e))) s1 = (r, t)"
    using run unfolding run_query_def bind_op_Inr [where m = "sp_monotonic_ns S", OF c] .
  then show ?thesis
  proof (cases rule: catch_op_cases)
    case (ok x)
    obtain u where u: "loader_records trail s1 u" "trail t = trail u @ [(''run_query'', audit_text (AuditQueryCompleted job))]"
      using query_body_audit [OF T ok(1)] by auto
    show ?thesis using loader_records_trans [OF s1 u(1)] u(2) ok(2) by auto
  next
    case (caught e w)
    obtain v where v: "log_operational_event R (operational_event_of (QueryExecutionFailed (sp_str_exc S e))) w = (Inr (), v)"
      using events_return by (rule exE)
    have "loader_records trail w v" using stepsD [OF event_steps [OF audit_frame [OF T]] v] .
    moreover have "loader_records trail s1 w" using query_body_audit [OF T caught(1)] by simp
    ultimately have "loader_records trail s v"
      using loader_records_trans [OF loader_records_trans [OF s1]] by blast
    moreover obtain w' where w: "log_audit_record R (audit_record_of ''run_query'' (AuditQueryFailed job (sp_str_exc S e))) v =
      (Inr (), w')"
      using audits_return by (rule exE)
    moreover have "r = Inl e" "t = w'" using caught(2) v w by (simp_all add: bind_op_def)
    ultimately show ?thesis using trail_keeps(4) [OF T w] by auto
  qed
qed

end


section \<open>A sample run\<close>

definition sample_segment :: query_segment where
  "sample_segment =
    \<lparr>sg_executionSequence = 1, sg_data = ''v'', sg_preConditions = Some [\<lparr>pc_viewName = ''v'', pc_minRowCount = 2\<rparr>],
     sg_postFilters = Some [\<lparr>pf_columnName = ''b'', pf_value = 3\<rparr>]\<rparr>"

definition sample_config :: query_configuration where
  "sample_config = \<lparr>qc_query = [], qc_datasets = [sample_dataset],
    qc_datasink = sample_dataset\<lparr>di_name := ''out'', di_path := ''/out''\<rparr>\<rparr>"

definition loaded_state :: mem_state where
  "loaded_state = sample_state\<lparr>ms_views := [(''v'', sample_frame)]\<rparr>"

definition mem_trail :: "mem_state \<Rightarrow> (string \<times> string) list" where
  "mem_trail s = concat (map (\<lambda>r. if rq_url r = ''/audit''
    then (case rq_json r of [(_, JStr src), (_, JStr msg)] \<Rightarrow> [(src, msg)] | _ \<Rightarrow> []) else []) (ms_requests s))"

lemmas mem_reports = mem_reporters_def http_reporters_def http_log_event_def http_log_audit_def
  http_record_statistics_def mem_put catch_op_def bind_op_def

lemma mem_spark_rows:
  "spark_rows mem_spark mem_reporters (\<lambda>s. map_of (ms_views s)) mf_rows (\<lambda>r c. map_of r c)"
  by (auto simp: spark_rows_def spark_frame_def preorder_rel_def steps_def mem_spark_def mem_reports dom_map_of_conv_image_fst
      split: option.splits)

lemma ar_source_audit: "ar_source (audit_record_of src k) = src"
  by (cases k) (simp_all add: audit_record_of.simps)

lemma mem_audit_trail: "audit_trail mem_spark mem_reporters mem_trail"
  by (simp add: audit_trail_def Let_def steps_def mem_spark_def mem_reports mem_trail_def ar_source_audit split: option.split)

lemma mem_adapters: "AdapterFactory mem_client Provider_Http (Some ''/stats'') (Some ''/events'') (Some ''/audit'') = Inr mem_reporters"
  by (simp add: AdapterFactory_def or_str_def mem_reporters_def)

lemma sample_segment_runs: "\<not> isl (fst (run_query_segment mem_spark mem_reporters sample_segment loaded_state))"
  by (simp add: run_query_segment_def segment_body_def pre_segment_enforcement_def post_segment_filtering_def
      sample_segment_def loaded_state_def sample_frame_def mem_spark_def mem_reports)

lemma not_isl_run: "\<not> isl (fst p) \<Longrightarrow> \<exists>x t. p = (Inr x, t)"
  by (cases p; cases "fst p") auto

theorem segment_enforced_witness:
  "\<exists>res t. run_query_segment mem_spark mem_reporters sample_segment loaded_state = (Inr res, t) \<and>
     list_all (passes (\<lambda>r c. map_of r c) [\<lparr>pf_columnName = ''b'', pf_value = 3\<rparr>]) (mf_rows res)"
proof -
  obtain res t where run: "run_query_segment mem_spark mem_reporters sample_segment loaded_state = (Inr res, t)"
    using not_isl_run [OF sample_segment_runs] by blast
  then show ?thesis using segment_enforced [OF mem_spark_rows run]
    by (auto simp: sample_segment_def optional_list_def list_all_iff)
qed


lemma sample_query_runs: "\<not> isl (fst (run_query mem_spark mem_reporters sample_config [sample_segment] [] [] ''j'' sample_state))"
  by (simp add: run_query_def query_body_def gather_op_def load_dataset_async_def load_consolidated_def
      load_dataset_folder_def parse_json_schema_def parse_field_def run_steps_def segments_of_def last_step_def
      write_dataset_async_def write_body_def is_schema_compatible_def field_types_def allowed_columns_def mem_select_def
      run_query_segment_def segment_body_def pre_segment_enforcement_def post_segment_filtering_def
      sample_config_def sample_dataset_def sample_state_def sample_segment_def sample_frame_def mem_spark_def mem_reports
      QueryStatistics_def utf8_decode_ascii b64encode_ascii Let_def)

lemma mem_sql_keeps_out: "steps (\<lambda>s t. ms_out t = ms_out s) (sp_sql mem_spark q)"
  by (simp add: steps_def mem_spark_def)

theorem run_query_output_witness:
  "\<exists>today df. ms_out (snd (run_query mem_spark mem_reporters sample_config [sample_segment] [] [] ''j'' sample_state)) =
     [(output_path (qc_datasink sample_config) today ''j'', df)] \<and> releasable mem_spark (qc_datasink sample_config) df"
  using run_query_output [OF mem_effects mem_sql_keeps_out prod.collapse [symmetric],
    of sample_config "[sample_segment]" "[]" "[]" "''j''" sample_state] sample_query_runs
  by (auto simp: sample_state_def)


end
