(* ===== verification/Code_Launcher.thy ===== *)
theory Code_Launcher
  imports Mounts Cleanroom_Models
begin

text \<open>
  The code launcher, which runs the application of a clean room in a container:
  \<^verbatim>\<open>code_launcher/main.py\<close> with its HTTP handlers,
  \<^verbatim>\<open>utilities/podman_utilities.py\<close>, \<^verbatim>\<open>connectors/httpconnectors.py\<close>,
  \<^verbatim>\<open>cmd_executors/executors.py\<close> and \<^verbatim>\<open>utilities/utilities.py\<close>. The operating
  system is the \<open>host\<close> of the mount launchers; the Podman client, the HTTP library, the validation
  of the application's settings and the texts of exceptions are the fields of \<open>podman\<close>. The
  handlers run one after the other, as none of them suspends. The headers of requests, telemetry,
  logging and the server loop are left out. The exception classes of the launcher, and
  \<^verbatim>\<open>requests.HTTPError\<close>, are recognised by the name the text of the exception begins with.
\<close>

section \<open>Podman and HTTP\<close>

record bind_mount =
  bm_source :: string
  bm_target :: string
  bm_read_only :: bool

record container_request =
  cr_image :: string
  cr_name :: string
  cr_command :: "string list"
  cr_environment :: "(string, string) dict"
  cr_mounts :: "bind_mount list"
  cr_user :: string
  cr_log_path :: string

record ('s, 'c) podman =
  pd_ping :: "('s, bool) op"
  pd_image_get :: "string \<Rightarrow> ('s, string) op" \<comment> \<open>the image, by its id\<close>
  pd_pull :: "string \<Rightarrow> string \<Rightarrow> (string \<times> json) option \<Rightarrow> ('s, unit) op"
    \<comment> \<open>repository, tag, user name and password\<close>
  pd_container_get :: "string \<Rightarrow> ('s, 'c) op"
  pd_container_create :: "container_request \<Rightarrow> ('s, 'c) op"
  pd_container_start :: "'c \<Rightarrow> ('s, unit) op"
  pd_container_wait :: "'c \<Rightarrow> ('s, int) op"
  pd_container_id :: "'c \<Rightarrow> string"
  pd_container_status :: "'c \<Rightarrow> string"
  pd_ImageNotFound :: "exc \<Rightarrow> bool"
  pd_NotFound :: "exc \<Rightarrow> bool"
  pd_PodmanError :: "exc \<Rightarrow> bool"
  pd_APIError :: "exc \<Rightarrow> int option option" \<comment> \<open>the status code of an \<^verbatim>\<open>APIError\<close>\<close>
  pd_http_get :: "string \<Rightarrow> (string, string) dict \<Rightarrow> ('s, int \<times> json res) op"
  pd_http_post :: "string \<Rightarrow> string \<Rightarrow> ('s, int \<times> json res) op" \<comment> \<open>URL, form data\<close>
  pd_http_put :: "string \<Rightarrow> json \<Rightarrow> ('s, int) op"
  pd_copytree :: "string \<Rightarrow> string \<Rightarrow> ('s, unit) op"
  pd_validate_bytes :: "string \<Rightarrow> application res" \<comment> \<open>\<^verbatim>\<open>Application.model_validate_json\<close>\<close>
  pd_validate_text :: "string \<Rightarrow> application res"
  pd_repr :: "exc \<Rightarrow> string"
  pd_str :: "exc \<Rightarrow> string"

record code_launcher =
  cl_application :: application
  cl_telemetry_path :: string
  cl_identity_port :: int
  cl_governance_port :: int

section \<open>Connectors\<close>

definition HTTPError :: exc where "HTTPError = OtherException ''HTTPError''"

definition raise_for_status :: "int \<Rightarrow> unit res" where
  "raise_for_status status = (if 400 \<le> status \<and> status < 600 then Inl HTTPError else Inr ())"

text \<open>\<^verbatim>\<open>resp.raise_for_status(); return resp.json()\<close>.\<close>

definition json_response :: "int \<times> json res \<Rightarrow> json res" where
  "json_response r = bind_res (raise_for_status (fst r)) (\<lambda>_. snd r)"

text \<open>An HTTP error is logged and the function returns \<^verbatim>\<open>None\<close>.\<close>

definition none_on_http_error :: "('s, json) op \<Rightarrow> ('s, json) op" where
  "none_on_http_error m = catch_op m (\<lambda>e. if e = HTTPError then return_op JNull else raise_op e)"

definition fetch_aad_token :: "('s, 'c) podman \<Rightarrow> code_launcher \<Rightarrow> string \<Rightarrow> string \<Rightarrow> string \<Rightarrow> ('s, json) op" where
  "fetch_aad_token P L tenant_id client_id scope =
    none_on_http_error
      (bind_op (pd_http_get P (''http://localhost:'' @ str_int (cl_identity_port L) @ ''/metadata/identity/oauth2/token'')
         [(''scope'', scope), (''tenantId'', tenant_id), (''clientId'', client_id), (''apiVersion'', ''2018-02-01'')]) (\<lambda>r.
       bind_op (lift_res (bind_res (json_response r) (\<lambda>resp. json_get resp ''token'' JNull))) (\<lambda>token.
       if token = JNull then raise_op (OtherException ''identity token not found in response'') else return_op token)))"

definition fetch_acr_refresh_token :: "('s, 'c) podman \<Rightarrow> string \<Rightarrow> string \<Rightarrow> json \<Rightarrow> ('s, json) op" where
  "fetch_acr_refresh_token P private_acr_fqdn tenant_id aad_token =
    none_on_http_error
      (bind_op (pd_http_post P (''https://'' @ private_acr_fqdn @ ''/oauth2/exchange'')
         (''grant_type=access_token&service='' @ private_acr_fqdn @ ''&tenant='' @ tenant_id @ ''&access_token='' @
          json_str aad_token)) (\<lambda>r.
       bind_op (lift_res (bind_res (json_response r) (\<lambda>resp. json_get resp ''refresh_token'' JNull))) (\<lambda>token.
       if token = JNull then raise_op (OtherException ''ACR refresh_token not found in response'') else return_op token)))"

definition cl_events_enabled :: "'s host \<Rightarrow> 's \<Rightarrow> bool" where
  "cl_events_enabled H s \<longleftrightarrow> ho_getenv H s ''DISABLE_GOV_EVENTS'' \<noteq> Some ''true''"

definition put_event :: "'s host \<Rightarrow> ('s, 'c) podman \<Rightarrow> code_launcher \<Rightarrow> string \<Rightarrow> ('s, unit) op" where
  "put_event H P L message =
    bind_op (get_op (cl_events_enabled H)) (\<lambda>on.
    if \<not> on then return_op ()
    else
      catch_op
        (bind_op (pd_http_put P (''http://localhost:'' @ str_int (cl_governance_port L) @ ''/events'')
           (JObj [(''source'', JStr ''code-launcher''), (''message'', JStr message)])) (\<lambda>status.
         lift_res (raise_for_status status)))
        (\<lambda>e. if e = HTTPError then return_op () else raise_op e))"

definition ConsentCheckFailure :: "string \<Rightarrow> exc" where
  "ConsentCheckFailure msg = OtherException (''ConsentCheckFailure: '' @ msg)"

definition consent_url :: "code_launcher \<Rightarrow> string \<Rightarrow> string" where
  "consent_url L scope = ''http://localhost:'' @ str_int (cl_governance_port L) @ ''/consentcheck/'' @ scope"

definition check_consent :: "('s, 'c) podman \<Rightarrow> code_launcher \<Rightarrow> string \<Rightarrow> ('s, unit) op" where
  "check_consent P L scope =
    (let scope = str_lower scope
     in bind_op (pd_http_post P (consent_url L scope) []) (\<lambda>r.
        bind_op (lift_res (bind_res (json_response r) (\<lambda>resp. json_item resp ''status''))) (\<lambda>status.
        if status \<noteq> JStr ''enabled''
        then raise_op (ConsentCheckFailure (''Consent status for '' @ scope @ '' is not enabled. Status is: '' @
          [CHR 0x27] @ json_str status @ [CHR 0x27] @ ''.''))
        else return_op ())))"

section \<open>The container\<close>

text \<open>\<^verbatim>\<open>s.rsplit(":", 1)\<close> unpacked into two names.\<close>

definition rsplit_colon :: "string \<Rightarrow> (string \<times> string) res" where
  "rsplit_colon s =
    (let tag = rev (takeWhile (\<lambda>c. c \<noteq> CHR '':'') (rev s))
     in if CHR '':'' \<in> set s then Inr (take (length s - length tag - 1) s, tag)
        else Inl (ValueError ''not enough values to unpack (expected 2, got 1)''))"

definition image_url :: "application \<Rightarrow> string" where
  "image_url a = res_id (doc_resource (img_executable (app_image a)))"

definition fetch_application_image :: "'s host \<Rightarrow> ('s, 'c) podman \<Rightarrow> code_launcher \<Rightarrow> application \<Rightarrow> ('s, unit) op" where
  "fetch_application_image H P L a =
    bind_op (catch_op (bind_op (pd_image_get P (image_url a)) (\<lambda>_. return_op True))
      (\<lambda>e. if pd_ImageNotFound P e then return_op False else raise_op e)) (\<lambda>found.
    if found then return_op ()
    else
      (let acr_url = ep_url (res_provider (doc_resource (img_executable (app_image a))))
       in bind_op (put_event H P L (''Pulling image '' @ image_url a)) (\<lambda>_.
          bind_op (case doc_identity (img_executable (app_image a)) of
              None \<Rightarrow> return_op None
            | Some i \<Rightarrow>
                bind_op (fetch_aad_token P L (id_tenantId i) (id_clientId i) ''https://management.azure.com/.default'') (\<lambda>aad.
                bind_op (fetch_acr_refresh_token P acr_url (id_tenantId i) aad) (\<lambda>t.
                return_op (Some (''00000000-0000-0000-0000-000000000000'', t))))) (\<lambda>auth_config.
          bind_op (lift_res (rsplit_colon (image_url a))) (\<lambda>(repository, tag).
          bind_op (pd_pull P repository tag auth_config) (\<lambda>_.
          put_event H P L (''Pulled image '' @ image_url a)))))))"

definition wait_mounts :: "'s host \<Rightarrow> (string, string) dict option \<Rightarrow> ('s, unit) op" where
  "wait_mounts H d =
    (case d of None \<Rightarrow> return_op ()
     | Some kvs \<Rightarrow> bind_op (map_op (\<lambda>(k, v). wait_for_mount_point H k 12 30 OtherException) kvs) (\<lambda>_. return_op ()))"

definition bind_mounts :: "'s host \<Rightarrow> bool \<Rightarrow> (string, string) dict option \<Rightarrow> ('s, bind_mount list) op" where
  "bind_mounts H ro d =
    (case d of None \<Rightarrow> return_op []
     | Some kvs \<Rightarrow> map_op (\<lambda>(k, v). bind_op (get_mount_path H k) (\<lambda>p.
         return_op \<lparr>bm_source = json_str p, bm_target = v, bm_read_only = ro\<rparr>)) kvs)"

text \<open>
  Creating the container. An error of Podman is logged, and reading the container's id then fails,
  as no container was bound.
\<close>

definition create_container :: "'s host \<Rightarrow> ('s, 'c) podman \<Rightarrow> code_launcher \<Rightarrow> application \<Rightarrow> string \<Rightarrow> ('s, 'c) op" where
  "create_container H P L a img =
    bind_op (bind_mounts H True (app_datasources a)) (\<lambda>sources.
    bind_op (bind_mounts H False (app_datasinks a)) (\<lambda>sinks.
    bind_op (put_event H P L (''Creating container for '' @ app_name a)) (\<lambda>_.
    bind_op (catch_op
      (bind_op (pd_container_create P
         \<lparr>cr_image = img, cr_name = app_name a, cr_command = app_command a,
          cr_environment = app_environmentVariables a, cr_mounts = sources @ sinks, cr_user = ''1000'',
          cr_log_path = cl_telemetry_path L @ ''/application/'' @ app_name a @ ''.log''\<rparr>) (\<lambda>c. return_op (Some c)))
      (\<lambda>e. if pd_PodmanError P e then return_op None else raise_op e)) (\<lambda>created.
    case created of
      None \<Rightarrow> raise_op (NameError ''container'')
    | Some c \<Rightarrow>
        bind_op (put_event H P L (''Created container with Id '' @ pd_container_id P c @ '' for '' @ app_name a)) (\<lambda>_.
        return_op c)))))"

text \<open>An error of Podman when the container is started is only logged.\<close>

definition start_application_container :: "'s host \<Rightarrow> ('s, 'c) podman \<Rightarrow> code_launcher \<Rightarrow> application \<Rightarrow> ('s, unit) op" where
  "start_application_container H P L a =
    bind_op (wait_mounts H (app_datasources a)) (\<lambda>_.
    bind_op (wait_mounts H (app_datasinks a)) (\<lambda>_.
    bind_op (pd_image_get P (image_url a)) (\<lambda>img.
    bind_op (catch_op (bind_op (pd_container_get P (app_name a)) (\<lambda>c. return_op (Some c)))
      (\<lambda>e. if pd_NotFound P e then return_op None else raise_op e)) (\<lambda>existing.
    bind_op (case existing of None \<Rightarrow> create_container H P L a img | Some c \<Rightarrow> return_op c) (\<lambda>c.
    bind_op (put_event H P L (''Starting execution of '' @ app_name a @ '' container'')) (\<lambda>_.
    catch_op (pd_container_start P c) (\<lambda>e. if pd_PodmanError P e then return_op () else raise_op e)))))))"

definition PodmanContainerNotFound :: "string \<Rightarrow> exc" where
  "PodmanContainerNotFound name = OtherException (''PodmanContainerNotFound: '' @ name)"

definition get_application_status :: "'s host \<Rightarrow> ('s, 'c) podman \<Rightarrow> code_launcher \<Rightarrow> string \<Rightarrow> ('s, string \<times> int) op" where
  "get_application_status H P L name =
    bind_op (catch_op (pd_container_get P name)
      (\<lambda>e. if pd_NotFound P e then raise_op (PodmanContainerNotFound name) else raise_op e)) (\<lambda>c.
    bind_op (if pd_container_status P c \<in> {''stopped'', ''exited''} then pd_container_wait P c else return_op 0) (\<lambda>exit_code.
    bind_op (put_event H P L (name @ '' container status: '' @ pd_container_status P c @ '', exit code: '' @ str_int exit_code)) (\<lambda>_.
    return_op (pd_container_status P c, exit_code))))"

section \<open>Start-up\<close>

primrec ping_attempts :: "'s host \<Rightarrow> ('s, 'c) podman \<Rightarrow> nat \<Rightarrow> ('s, bool) op" where
  "ping_attempts H P 0 = return_op False"
| "ping_attempts H P (Suc n) =
    bind_op (catch_op (pd_ping P) (\<lambda>_. return_op False)) (\<lambda>up.
    if up then return_op True else bind_op (ho_sleep H 5) (\<lambda>_. ping_attempts H P n))"

definition wait_for_podman_service :: "'s host \<Rightarrow> ('s, 'c) podman \<Rightarrow> ('s, unit) op" where
  "wait_for_podman_service H P =
    bind_op (ping_attempts H P 12) (\<lambda>service_ready.
    if service_ready then return_op ()
    else raise_op (OtherException ''PodmanServiceUnreachable: Podman service in unreachable.''))"

definition ACRCmdExecutor_execute :: "'s host \<Rightarrow> ('s, 'c) podman \<Rightarrow> code_launcher \<Rightarrow> ('s, unit) op" where
  "ACRCmdExecutor_execute H P L =
    catch_op (fetch_application_image H P L (cl_application L)) (\<lambda>e.
      raise_op (OtherException (''PrivateACRCmdExecutorFailure: failed to pull image for application '' @
        app_name (cl_application L))))"

record launcher_args =
  ca_identity_port :: int
  ca_governance_port :: int
  ca_secrets_port :: int
  ca_otelcollector_port :: int
  ca_application_base_64 :: "string option"

text \<open>\<^verbatim>\<open>base64.urlsafe_b64decode\<close>.\<close>

definition urlsafe_b64decode :: "string \<Rightarrow> string res" where
  "urlsafe_b64decode s = b64decode (map (\<lambda>c. if c = CHR ''-'' then CHR ''+'' else if c = CHR ''_'' then CHR ''/'' else c) s)"

definition cl_validate_args :: "('s, 'c) podman \<Rightarrow> launcher_args \<Rightarrow> string res" where
  "cl_validate_args P a =
    (case ca_application_base_64 a of
       None \<Rightarrow> Inl (OtherException ''SystemExit: application details not provided'')
     | Some t \<Rightarrow>
         bind_res (urlsafe_b64decode t) (\<lambda>bytes. bind_res (pd_validate_bytes P bytes) (\<lambda>_. Inr t)))"

definition cl_wait_for_services :: "'s host \<Rightarrow> launcher_args \<Rightarrow> ('s, unit) op" where
  "cl_wait_for_services H a =
    bind_op (environ_get H ''DISABLE_WAIT_FOR_SERVICES'') (\<lambda>v.
    if v = Some ''true'' then return_op ()
    else
      bind_op (catch_op (wait_for_services_readiness H [ca_otelcollector_port a]) (\<lambda>_. return_op ())) (\<lambda>_.
      wait_for_services_readiness H [ca_governance_port a, ca_identity_port a, ca_secrets_port a]))"

text \<open>\<^verbatim>\<open>async_main\<close> up to the pull of the image, with the path the module read when it was loaded.\<close>

definition prepare :: "'s host \<Rightarrow> ('s, 'c) podman \<Rightarrow> launcher_args \<Rightarrow> ('s, code_launcher) op" where
  "prepare H P a =
    bind_op (get_op (\<lambda>s. environ_default H s ''TELEMETRY_MOUNT_PATH'' ''/mnt/telemetry'')) (\<lambda>telemetry_path.
    bind_op (lift_res (cl_validate_args P a)) (\<lambda>application_base_64.
    bind_op (cl_wait_for_services H a) (\<lambda>_.
    bind_op (ho_popen H [''podman'', ''system'', ''service'', ''--time'', ''0'']) (\<lambda>_.
    bind_op (wait_for_podman_service H P) (\<lambda>_.
    bind_op (lift_res (bind_res (urlsafe_b64decode application_base_64) (\<lambda>bytes.
      bind_res (utf8_decode bytes) (pd_validate_text P)))) (\<lambda>application.
    let L = \<lparr>cl_application = application, cl_telemetry_path = telemetry_path,
          cl_identity_port = ca_identity_port a, cl_governance_port = ca_governance_port a\<rparr>
    in bind_op (ACRCmdExecutor_execute H P L) (\<lambda>_. return_op L)))))))"

datatype consent_scope = Execution | Logging | Telemetry

fun scope_value :: "consent_scope \<Rightarrow> string" where
  "scope_value Execution = ''Execution''"
| "scope_value Logging = ''Logging''"
| "scope_value Telemetry = ''Telemetry''"

definition start_failed_event :: "('s, 'c) podman \<Rightarrow> code_launcher \<Rightarrow> exc \<Rightarrow> string" where
  "start_failed_event P L e =
    ''Starting application container for '' @ app_name (cl_application L) @ '' failed with error '' @ pd_repr P e @ ''.''"

definition auto_start :: "'s host \<Rightarrow> ('s, 'c) podman \<Rightarrow> code_launcher \<Rightarrow> ('s, unit) op" where
  "auto_start H P L =
    (if app_startType (cl_application L) = Start_Auto then
       catch_op
         (bind_op (check_consent P L (scope_value Execution)) (\<lambda>_.
          start_application_container H P L (cl_application L)))
         (\<lambda>e. put_event H P L (start_failed_event P L e))
     else return_op ())"

text \<open>What \<^verbatim>\<open>async_main\<close> does before it serves requests.\<close>

definition cl_async_main :: "'s host \<Rightarrow> ('s, 'c) podman \<Rightarrow> launcher_args \<Rightarrow> ('s, code_launcher) op" where
  "cl_async_main H P a = bind_op (prepare H P a) (\<lambda>L. bind_op (auto_start H P L) (\<lambda>_. return_op L))"

section \<open>Requests\<close>

datatype request = Start string | GetStatus string | ExportLogs | ExportTelemetry

fun request_path :: "request \<Rightarrow> string" where
  "request_path (Start n) = ''/gov/'' @ n @ ''/start''"
| "request_path (GetStatus n) = ''/gov/'' @ n @ ''/status''"
| "request_path ExportLogs = ''/gov/exportLogs''"
| "request_path ExportTelemetry = ''/gov/exportTelemetry''"

definition message_body :: "string \<Rightarrow> json" where
  "message_body m = JObj [(''message'', JStr m)]"

definition start :: "'s host \<Rightarrow> ('s, 'c) podman \<Rightarrow> code_launcher \<Rightarrow> string \<Rightarrow> ('s, json) op" where
  "start H P L application_name =
    bind_op (check_consent P L (scope_value Execution)) (\<lambda>_.
    if app_name (cl_application L) \<noteq> application_name then raise_op (HTTPException 404 ''Application not found'')
    else
      catch_op
        (bind_op (start_application_container H P L (cl_application L)) (\<lambda>_.
         return_op (message_body ''Application started successfully.'')))
        (\<lambda>e. bind_op (put_event H P L (start_failed_event P L e)) (\<lambda>_. raise_op e)))"

definition exc_named :: "string \<Rightarrow> exc \<Rightarrow> bool" where
  "exc_named name e = (case e of OtherException t \<Rightarrow> take (length name + 2) t = name @ '': '' | _ \<Rightarrow> False)"

definition getStatus :: "'s host \<Rightarrow> ('s, 'c) podman \<Rightarrow> code_launcher \<Rightarrow> string \<Rightarrow> ('s, json) op" where
  "getStatus H P L application_name =
    catch_op
      (bind_op (get_application_status H P L application_name) (\<lambda>(status, exit_code).
       return_op (JObj [(''status'', JStr status), (''exit_code'', JInt exit_code)])))
      (\<lambda>e. bind_op (put_event H P L (''Get Status for '' @ app_name (cl_application L) @ '' failed with error '' @
             pd_repr P e @ ''.'')) (\<lambda>_.
           if exc_named ''PodmanContainerNotFound'' e then raise_op (HTTPException 404 ''Application not found'')
           else raise_op e))"

definition cl_wait_for_mount_point :: "'s host \<Rightarrow> string \<Rightarrow> ('s, json) op" where
  "cl_wait_for_mount_point H access_name =
    wait_for_mount_point H access_name 5 10 (\<lambda>m. OtherException (''MountPointUnavailableFailure: '' @ m))"

definition exportLogs :: "'s host \<Rightarrow> ('s, 'c) podman \<Rightarrow> code_launcher \<Rightarrow> ('s, json) op" where
  "exportLogs H P L =
    bind_op (check_consent P L (scope_value Logging)) (\<lambda>_.
    bind_op (cl_wait_for_mount_point H ''application-telemetry'') (\<lambda>path.
    catch_op
      (bind_op (pd_copytree P (cl_telemetry_path L @ ''/application'') (json_str path)) (\<lambda>_.
       return_op (message_body ''Application telemetry data exported successfully.'')))
      (\<lambda>e. bind_op (put_event H P L (''Exporting application telemetry (logs) failed with error '' @ pd_str P e @ ''.'')) (\<lambda>_.
           raise_op (OtherException ''TelemetryCaptureFailure: Failed to export application telemetry'')))))"

definition exportTelemetry :: "'s host \<Rightarrow> ('s, 'c) podman \<Rightarrow> code_launcher \<Rightarrow> ('s, json) op" where
  "exportTelemetry H P L =
    bind_op (check_consent P L (scope_value Telemetry)) (\<lambda>_.
    bind_op (cl_wait_for_mount_point H ''infrastructure-telemetry'') (\<lambda>path.
    catch_op
      (bind_op (pd_copytree P (cl_telemetry_path L @ ''/infrastructure'') (json_str path)) (\<lambda>_.
       return_op (message_body ''Infrastructure telemetry data exported successfully.'')))
      (\<lambda>e. bind_op (put_event H P L (''Exporting infrastructure telemetry failed with error '' @ pd_repr P e @ ''.'')) (\<lambda>_.
           raise_op (OtherException ''TelemetryCaptureFailure: Failed to export infrastructure telemetry'')))))"

fun endpoint :: "'s host \<Rightarrow> ('s, 'c) podman \<Rightarrow> code_launcher \<Rightarrow> request \<Rightarrow> ('s, json) op" where
  "endpoint H P L (Start n) = start H P L n"
| "endpoint H P L (GetStatus n) = getStatus H P L n"
| "endpoint H P L ExportLogs = exportLogs H P L"
| "endpoint H P L ExportTelemetry = exportTelemetry H P L"

text \<open>
  The response to an exception: the handlers the module registers, FastAPI's own for
  \<^verbatim>\<open>HTTPException\<close>, and its answer to any other exception.
\<close>

definition podman_error_body :: "('s, 'c) podman \<Rightarrow> request \<Rightarrow> exc \<Rightarrow> json" where
  "podman_error_body P r e = JObj
    [(''message'', JStr (''An error occurred while processing '' @ request_path r)),
     (''error'', JStr (pd_repr P e)), (''details'', JStr (pd_str P e))]"

definition error_response :: "('s, 'c) podman \<Rightarrow> request \<Rightarrow> exc \<Rightarrow> int \<times> json" where
  "error_response P r e =
    (case e of
       HTTPException code detail \<Rightarrow> (code, JObj [(''detail'', JStr detail)])
     | _ \<Rightarrow>
         if exc_named ''ConsentCheckFailure'' e
         then (403, JObj [(''code'', JStr ''ConsentCheckFailed''), (''message'', JStr (pd_str P e))])
         else (case pd_APIError P e of
             Some status \<Rightarrow> (case status of None \<Rightarrow> 500 | Some c \<Rightarrow> c, podman_error_body P r e)
           | None \<Rightarrow> if pd_PodmanError P e then (500, podman_error_body P r e)
                     else (500, JStr ''Internal Server Error'')))"

definition respond :: "'s host \<Rightarrow> ('s, 'c) podman \<Rightarrow> code_launcher \<Rightarrow> request \<Rightarrow> 's \<Rightarrow> (int \<times> json) \<times> 's" where
  "respond H P L r s =
    (case endpoint H P L r s of (Inr body, t) \<Rightarrow> ((200, body), t) | (Inl e, t) \<Rightarrow> (error_response P r e, t))"

text \<open>The state after serving requests in order.\<close>

definition serve :: "'s host \<Rightarrow> ('s, 'c) podman \<Rightarrow> code_launcher \<Rightarrow> request list \<Rightarrow> 's \<Rightarrow> 's" where
  "serve H P L rs s = fold (\<lambda>r s. snd (respond H P L r s)) rs s"

section \<open>Effects\<close>

text \<open>
  What everything but creating and starting containers and copying telemetry may do to the state is
  a relation \<open>R\<close>; then so is what the operations built from it do.
\<close>

definition others :: "('s \<Rightarrow> 's \<Rightarrow> bool) \<Rightarrow> 's host \<Rightarrow> ('s, 'c) podman \<Rightarrow> bool" where
  "others R H P \<longleftrightarrow> preorder_rel R \<and>
    (\<forall>p. steps R (ho_read H p)) \<and> (\<forall>n. steps R (ho_sleep H n)) \<and> (\<forall>n. steps R (ho_connect H n)) \<and>
    (\<forall>c. steps R (ho_popen H c)) \<and>
    steps R (pd_ping P) \<and> (\<forall>u. steps R (pd_image_get P u)) \<and> (\<forall>r t a. steps R (pd_pull P r t a)) \<and>
    (\<forall>n. steps R (pd_container_get P n)) \<and> (\<forall>c. steps R (pd_container_wait P c)) \<and>
    (\<forall>u q. steps R (pd_http_get P u q)) \<and> (\<forall>u d. steps R (pd_http_post P u d)) \<and> (\<forall>u j. steps R (pd_http_put P u j))"

lemma steps_if: "(b \<Longrightarrow> steps R m) \<Longrightarrow> (\<not> b \<Longrightarrow> steps R m') \<Longrightarrow> steps R (if b then m else m')"
  by simp

lemma map_op_steps: "preorder_rel R \<Longrightarrow> (\<And>x. steps R (f x)) \<Longrightarrow> steps R (map_op f xs)"
  by (induction xs) (auto intro: steps_intros)

lemma others_steps:
  assumes "others R H P"
  shows "steps R (return_op x)" "steps R (raise_op e)" "steps R (lift_res r)" "steps R (get_op f)" "steps R (Pair y)"
    "steps R m \<Longrightarrow> (\<And>x. steps R (g x)) \<Longrightarrow> steps R (bind_op m g)"
    "steps R m' \<Longrightarrow> (\<And>e. steps R (h e)) \<Longrightarrow> steps R (catch_op m' h)"
    "(\<And>x. steps R (k x)) \<Longrightarrow> steps R (map_op k xs)"
    "steps R (ho_read H p)" "steps R (ho_sleep H n)" "steps R (ho_connect H n)" "steps R (ho_popen H c)"
    "steps R (pd_ping P)" "steps R (pd_image_get P u)" "steps R (pd_pull P u u' a)"
    "steps R (pd_container_get P u)" "steps R (pd_container_wait P i)"
    "steps R (pd_http_get P u q)" "steps R (pd_http_post P u d)" "steps R (pd_http_put P u j)"
proof -
  have R: "preorder_rel R" using assms by (simp add: others_def)
  show "steps R (return_op x)" "steps R (raise_op e)" "steps R (lift_res r)" "steps R (get_op f)"
    "steps R m \<Longrightarrow> (\<And>x. steps R (g x)) \<Longrightarrow> steps R (bind_op m g)"
    "steps R m' \<Longrightarrow> (\<And>e. steps R (h e)) \<Longrightarrow> steps R (catch_op m' h)"
    "(\<And>x. steps R (k x)) \<Longrightarrow> steps R (map_op k xs)"
    by (auto intro: steps_intros [OF R] steps_get_op [OF R] map_op_steps [OF R])
  show "steps R (Pair y)" using R by (simp add: steps_def preorder_rel_def)
qed (use assms in \<open>simp_all add: others_def\<close>)

lemma connector_steps:
  assumes "others R H P"
  shows "steps R (put_event H P L m)" "steps R (check_consent P L sc)"
    "steps R (fetch_aad_token P L tn cl scope)" "steps R (fetch_acr_refresh_token P fqdn tn tok)"
  unfolding put_event_def check_consent_def fetch_aad_token_def fetch_acr_refresh_token_def none_on_http_error_def Let_def
  by (intro others_steps [OF assms] steps_if)+

lemma mount_steps:
  assumes "others R H P"
  shows "steps R (get_mount_path H k)" "steps R (wait_for_mount_point H k n d mk)"
    "steps R (wait_mounts H ds)" "steps R (bind_mounts H ro ds)" "steps R (cl_wait_for_mount_point H k)"
proof -
  note s = others_steps [OF assms]
  have poll: "steps R (poll_volume H k d n)" for k d n
    by (induction n) (unfold poll_volume.simps, (intro s steps_if | assumption)+)
  show g: "steps R (get_mount_path H k)" for k
    unfolding get_mount_path_def by (intro s)
  show w: "steps R (wait_for_mount_point H k n d mk)" for k n d mk
    unfolding wait_for_mount_point_def get_blobfuse_error_def by (intro s steps_if g poll)
  show "steps R (wait_mounts H ds)" "steps R (bind_mounts H ro ds)" "steps R (cl_wait_for_mount_point H k)"
    unfolding wait_mounts_def bind_mounts_def cl_wait_for_mount_point_def
    by (auto intro!: s g w split: option.split)
qed

lemma start_steps:
  assumes "others R H P" and "\<And>img. steps R (create_container H P L a img)" and "\<And>c. steps R (pd_container_start P c)"
  shows "steps R (start_application_container H P L a)"
  unfolding start_application_container_def
  by (auto intro!: others_steps [OF assms(1)] mount_steps [OF assms(1)] connector_steps [OF assms(1)] assms(2,3)
      steps_if split: option.split)

lemma getStatus_steps:
  assumes "others R H P"
  shows "steps R (getStatus H P L n)"
  unfolding getStatus_def get_application_status_def
  by (intro others_steps [OF assms] connector_steps [OF assms] steps_if)
    (auto intro!: others_steps [OF assms] connector_steps [OF assms] split: prod.split)

lemma prepare_steps:
  assumes "others R H P"
  shows "steps R (prepare H P a)"
proof -
  note s = others_steps [OF assms] connector_steps [OF assms]
  have port: "steps R (wait_for_port H p n)" for p n
    by (induction n) (simp_all add: s)
  have ports: "steps R (wait_for_ports H ps n)" for ps n
    by (induction ps arbitrary: n) (simp_all add: s port)
  have ping: "steps R (ping_attempts H P n)" for n
    by (induction n) (simp_all add: s)
  have img: "steps R (fetch_application_image H P L b)" for L b
    unfolding fetch_application_image_def Let_def
    by (auto intro!: s steps_if split: option.split prod.split)
  show ?thesis
    unfolding prepare_def cl_wait_for_services_def environ_get_def wait_for_services_readiness_def
      wait_for_podman_service_def ACRCmdExecutor_execute_def Let_def
    by (intro s steps_if ports ping img)
qed

section \<open>Consent\<close>

text \<open>
  An observation \<open>v\<close> of the state that only the operations under consent of scope \<open>sc\<close> can change:
  for the execution scope creating and starting containers, for the other two the copy of the logs
  and of the telemetry under the directory \<open>tp\<close>.
\<close>

definition unchanged :: "('s \<Rightarrow> 'v) \<Rightarrow> 's \<Rightarrow> 's \<Rightarrow> bool" where
  "unchanged v s t \<longleftrightarrow> v t = v s"

definition under_consent :: "'s host \<Rightarrow> ('s, 'c) podman \<Rightarrow> string \<Rightarrow> consent_scope \<Rightarrow> ('s \<Rightarrow> 'v) \<Rightarrow> bool" where
  "under_consent H P tp sc v \<longleftrightarrow> others (unchanged v) H P \<and>
    (sc \<noteq> Execution \<longrightarrow> (\<forall>r. steps (unchanged v) (pd_container_create P r)) \<and>
       (\<forall>c. steps (unchanged v) (pd_container_start P c))) \<and>
    (sc \<noteq> Logging \<longrightarrow> (\<forall>d. steps (unchanged v) (pd_copytree P (tp @ ''/application'') d))) \<and>
    (sc \<noteq> Telemetry \<longrightarrow> (\<forall>d. steps (unchanged v) (pd_copytree P (tp @ ''/infrastructure'') d)))"

text \<open>The governance service, asked for the consent of a scope, says that it is enabled.\<close>

definition consent_given :: "('s, 'c) podman \<Rightarrow> code_launcher \<Rightarrow> consent_scope \<Rightarrow> 's \<Rightarrow> bool" where
  "consent_given P L sc s \<longleftrightarrow> (\<exists>code kvs t.
     pd_http_post P (consent_url L (str_lower (scope_value sc))) [] s = (Inr (code, Inr (JObj kvs)), t) \<and>
     \<not> (400 \<le> code \<and> code < 600) \<and> map_of kvs ''status'' = Some (JStr ''enabled''))"

fun request_scope :: "request \<Rightarrow> consent_scope option" where
  "request_scope (Start n) = Some Execution"
| "request_scope (GetStatus n) = None"
| "request_scope ExportLogs = Some Logging"
| "request_scope ExportTelemetry = Some Telemetry"

lemma check_consent_given:
  assumes "check_consent P L (scope_value sc) s = (Inr (), t)"
  shows "consent_given P L sc s"
proof -
  obtain code body u j where p: "pd_http_post P (consent_url L (str_lower (scope_value sc))) [] s = (Inr (code, body), u)"
    and r: "json_response (code, body) = Inr j" "json_item j ''status'' = Inr (JStr ''enabled'')"
    using assms by (auto simp: check_consent_def Let_def bind_op_Inr_iff bind_res_Inr_iff split: if_splits)
  have "\<not> (400 \<le> code \<and> code < 600)" "body = Inr j"
    using r(1) by (simp_all add: json_response_def raise_for_status_def split: if_splits)
  moreover from r(2) obtain kvs where "j = JObj kvs" "map_of kvs ''status'' = Some (JStr ''enabled'')"
    by (cases j) (auto simp: json_item_def split: option.splits)
  ultimately show ?thesis using p unfolding consent_given_def by blast
qed

lemma change_needs_return:
  assumes "steps (unchanged v) m" and "v (snd (bind_op m f s)) \<noteq> v s"
  shows "\<exists>x t. m s = (Inr x, t)"
proof (cases "m s")
  case (Pair r t)
  then show ?thesis
    using assms stepsD [OF assms(1) Pair] by (cases r) (auto simp: bind_op_Inl unchanged_def)
qed

text \<open>What a failed consent check answers.\<close>

lemma consent_refused:
  assumes "pd_http_post P (consent_url L (str_lower (scope_value sc))) [] s = (Inr (code, Inr (JObj kvs)), t)"
    and "\<not> (400 \<le> code \<and> code < 600)" and "map_of kvs ''status'' = Some st" "st \<noteq> JStr ''enabled''"
    and "request_scope r = Some sc"
  shows "\<exists>m. respond H P L r s = ((403, JObj [(''code'', JStr ''ConsentCheckFailed''), (''message'', JStr m)]), t)"
proof -
  obtain msg where "check_consent P L (scope_value sc) s = (Inl (ConsentCheckFailure msg), t)"
    using assms(1-4) by (simp add: check_consent_def Let_def bind_op_def json_response_def raise_for_status_def json_item_def)
  then have "endpoint H P L r s = (Inl (ConsentCheckFailure msg), t)"
    using assms(5) by (cases r) (auto simp: start_def exportLogs_def exportTelemetry_def bind_op_Inl)
  then show ?thesis
    by (simp add: respond_def error_response_def ConsentCheckFailure_def exc_named_def)
qed

lemma guarded_steps:
  assumes "under_consent H P tp sc v"
  shows "sc \<noteq> Execution \<Longrightarrow> steps (unchanged v) (start_application_container H P L a)"
    and "sc \<noteq> Logging \<Longrightarrow> cl_telemetry_path L = tp \<Longrightarrow> steps (unchanged v) (exportLogs H P L)"
    and "sc \<noteq> Telemetry \<Longrightarrow> cl_telemetry_path L = tp \<Longrightarrow> steps (unchanged v) (exportTelemetry H P L)"
proof -
  have O: "others (unchanged v) H P" using assms by (simp add: under_consent_def)
  note s = others_steps [OF O] connector_steps [OF O] mount_steps [OF O]
  show "sc \<noteq> Execution \<Longrightarrow> steps (unchanged v) (start_application_container H P L a)"
    using assms by (auto simp: under_consent_def create_container_def intro!: start_steps [OF O] s split: option.split)
  show "sc \<noteq> Logging \<Longrightarrow> cl_telemetry_path L = tp \<Longrightarrow> steps (unchanged v) (exportLogs H P L)"
    and "sc \<noteq> Telemetry \<Longrightarrow> cl_telemetry_path L = tp \<Longrightarrow> steps (unchanged v) (exportTelemetry H P L)"
    using assms unfolding exportLogs_def exportTelemetry_def
    by (auto simp: under_consent_def intro!: s)
qed

lemma request_needs_consent:
  assumes C: "under_consent H P (cl_telemetry_path L) sc v" and "v (snd (respond H P L r s)) \<noteq> v s"
  shows "request_scope r = Some sc \<and> consent_given P L sc s"
proof -
  have O: "others (unchanged v) H P" using C by (simp add: under_consent_def)
  note s = others_steps [OF O] connector_steps [OF O]
  have ch: "v (snd (endpoint H P L r s)) \<noteq> v s"
    using assms(2) by (auto simp: respond_def split: prod.splits sum.splits)
  have scope: "request_scope r = Some sc"
  proof (rule ccontr)
    assume "request_scope r \<noteq> Some sc"
    then have "steps (unchanged v) (endpoint H P L r)"
      using guarded_steps [OF C] getStatus_steps [OF O]
      by (cases r) (auto simp: start_def intro!: s)
    with ch show False by (simp add: steps_def unchanged_def)
  qed
  have "\<exists>f. endpoint H P L r = bind_op (check_consent P L (scope_value sc)) f"
    using scope by (cases r) (auto simp: start_def exportLogs_def exportTelemetry_def)
  then have "\<exists>x t. check_consent P L (scope_value sc) s = (Inr x, t)"
    using ch change_needs_return [OF connector_steps(2) [OF O]] by fastforce
  with scope show ?thesis by (auto intro: check_consent_given)
qed

lemma serve_needs_consent:
  assumes "under_consent H P (cl_telemetry_path L) sc v" and "v (serve H P L rs s) \<noteq> v s"
  shows "\<exists>i < length rs. request_scope (rs ! i) = Some sc \<and> consent_given P L sc (serve H P L (take i rs) s)"
  using assms(2)
proof (induction rs arbitrary: s)
  case Nil
  then show ?case by (simp add: serve_def)
next
  case (Cons r rs)
  let ?s = "snd (respond H P L r s)"
  show ?case
  proof (cases "v ?s = v s")
    case True
    with Cons.prems Cons.IH [of ?s] obtain i where "i < length rs" "request_scope (rs ! i) = Some sc"
      "consent_given P L sc (serve H P L (take i rs) ?s)"
      by (auto simp: serve_def)
    then show ?thesis by (auto simp: serve_def intro!: exI [of _ "Suc i"])
  next
    case False
    from request_needs_consent [OF assms(1) this] show ?thesis by (auto simp: serve_def)
  qed
qed

lemma auto_start_needs_consent:
  assumes C: "under_consent H P tp sc v" and "v (snd (auto_start H P L s)) \<noteq> v s"
  shows "sc = Execution \<and> app_startType (cl_application L) = Start_Auto \<and> consent_given P L sc s"
proof -
  have O: "others (unchanged v) H P" using C by (simp add: under_consent_def)
  note s = others_steps [OF O] connector_steps [OF O]
  have auto: "app_startType (cl_application L) = Start_Auto"
    using assms(2) by (auto simp: auto_start_def split: if_splits)
  have sc: "sc = Execution"
  proof (rule ccontr)
    assume "sc \<noteq> Execution"
    then have "steps (unchanged v) (auto_start H P L)"
      unfolding auto_start_def by (intro s steps_if guarded_steps(1) [OF C])
    with assms(2) show False by (simp add: steps_def unchanged_def)
  qed
  have "\<exists>x t. check_consent P L (scope_value Execution) s = (Inr x, t)"
  proof (cases "check_consent P L (scope_value Execution) s")
    case (Pair r t)
    moreover have "v (snd (put_event H P L m t)) = v t" for m
      using s(21) by (simp add: steps_def unchanged_def)
    ultimately show ?thesis
      using assms(2) auto stepsD [OF s(22) Pair]
      by (cases r) (auto simp: auto_start_def catch_op_def bind_op_def unchanged_def)
  qed
  with auto sc show ?thesis by (auto intro: check_consent_given)
qed

text \<open>
  C8. Nothing happens without consent. Over the whole life of a launcher, from its start-up through
  any requests in any order: whatever only the operations of one consent scope can change (the
  containers, the exported logs, the exported telemetry) does not change while the launcher prepares
  itself, and changes later only when the governance service, asked for exactly that scope, had
  answered that it is enabled: for the execution scope before an automatic start of the application,
  or else right at the beginning of a request that needs that scope.
\<close>

theorem effects_need_consent:
  assumes "under_consent H P (cl_telemetry_path L) sc v"
    and "prepare H P a s = (Inr L, s0)" and "cl_async_main H P a s = (Inr L, s1)"
  shows "v s0 = v s \<and>
    (v (serve H P L rs s1) \<noteq> v s \<longrightarrow>
      (sc = Execution \<and> app_startType (cl_application L) = Start_Auto \<and> consent_given P L sc s0) \<or>
      (\<exists>i < length rs. request_scope (rs ! i) = Some sc \<and> consent_given P L sc (serve H P L (take i rs) s1)))"
proof -
  have "others (unchanged v) H P" using assms(1) by (simp add: under_consent_def)
  from stepsD [OF prepare_steps [OF this] assms(2)] have p: "v s0 = v s" by (simp add: unchanged_def)
  have "auto_start H P L s0 = (Inr (), s1)"
    using assms(2,3) by (auto simp: cl_async_main_def bind_op_def split: prod.splits sum.splits)
  then show ?thesis
    using p auto_start_needs_consent [OF assms(1), of L s0] serve_needs_consent [OF assms(1), of rs s1] by fastforce
qed

section \<open>Containers\<close>

text \<open>
  The container of an application: its mounts are its data sources, read-only, and then its data
  sinks, writable, each from the path a mount launcher left for it to the place the application
  wants it at.
\<close>

definition bound :: "'s host \<Rightarrow> bool \<Rightarrow> string \<times> string \<Rightarrow> bind_mount \<Rightarrow> bool" where
  "bound H ro kv m \<longleftrightarrow> bm_read_only m = ro \<and> bm_target m = snd kv \<and>
    (\<exists>p s t. get_mount_path H (fst kv) s = (Inr p, t) \<and> bm_source m = json_str p)"

definition dict_items :: "('k, 'v) dict option \<Rightarrow> ('k \<times> 'v) list" where
  "dict_items d = (case d of None \<Rightarrow> [] | Some kvs \<Rightarrow> kvs)"

definition as_configured :: "'s host \<Rightarrow> code_launcher \<Rightarrow> container_request \<Rightarrow> bool" where
  "as_configured H L r \<longleftrightarrow> cr_user r = ''1000'' \<and> cr_name r = app_name (cl_application L) \<and>
    cr_command r = app_command (cl_application L) \<and> cr_environment r = app_environmentVariables (cl_application L) \<and>
    (\<exists>sources sinks. cr_mounts r = sources @ sinks \<and>
       list_all2 (bound H True) (dict_items (app_datasources (cl_application L))) sources \<and>
       list_all2 (bound H False) (dict_items (app_datasinks (cl_application L))) sinks)"

text \<open>\<open>made\<close> lists the containers asked for: only creating one adds to it.\<close>

definition logs_containers :: "('s \<Rightarrow> container_request list) \<Rightarrow> 's host \<Rightarrow> ('s, 'c) podman \<Rightarrow> bool" where
  "logs_containers made H P \<longleftrightarrow> others (unchanged made) H P \<and> (\<forall>c. steps (unchanged made) (pd_container_start P c)) \<and>
    (\<forall>p d. steps (unchanged made) (pd_copytree P p d)) \<and>
    (\<forall>r s x t. pd_container_create P r s = (x, t) \<longrightarrow> made t = made s @ [r])"

definition makes :: "('s \<Rightarrow> container_request list) \<Rightarrow> 's host \<Rightarrow> code_launcher \<Rightarrow> 's \<Rightarrow> 's \<Rightarrow> bool" where
  "makes made H L s t \<longleftrightarrow> (\<exists>rs. made t = made s @ rs \<and> list_all (as_configured H L) rs)"

lemma makes_preorder: "preorder_rel (makes made H L)"
proof -
  have "makes made H L s u" if "makes made H L s t" "makes made H L t u" for s t u
  proof -
    from that obtain rs rs' where "made t = made s @ rs" "made u = made t @ rs'"
      "list_all (as_configured H L) rs" "list_all (as_configured H L) rs'" by (auto simp: makes_def)
    then show ?thesis by (auto simp: makes_def intro!: exI [of _ "rs @ rs'"])
  qed
  then show ?thesis unfolding preorder_rel_def by (auto simp: makes_def)
qed

lemma unchanged_makes: "steps (unchanged made) m \<Longrightarrow> steps (makes made H L) m"
  by (simp add: steps_def unchanged_def makes_def)

lemma logs_makes:
  assumes "logs_containers made H P"
  shows "others (makes made H L) H P"
  using assms makes_preorder unchanged_makes
  unfolding logs_containers_def others_def by metis

lemma bind_mounts_bound:
  assumes "bind_mounts H ro d s = (Inr ms, t)"
  shows "list_all2 (bound H ro) (dict_items d) ms"
proof (cases d)
  case None
  with assms show ?thesis by (simp add: bind_mounts_def dict_items_def)
next
  case (Some kvs)
  with assms have "map_op (\<lambda>(k, v). bind_op (get_mount_path H k) (\<lambda>p.
      return_op \<lparr>bm_source = json_str p, bm_target = v, bm_read_only = ro\<rparr>)) kvs s = (Inr ms, t)"
    by (simp add: bind_mounts_def)
  from map_op_all2 [OF this, of "bound H ro"] Some show ?thesis
    by (force simp: dict_items_def bound_def bind_op_Inr_iff split: prod.splits)
qed

lemma steps_bind_result:
  assumes "preorder_rel R" and "steps R m" and "\<And>x u w. m u = (Inr x, w) \<Longrightarrow> steps R (f x)"
  shows "steps R (bind_op m f)"
  unfolding steps_def
proof
  fix s
  obtain r t where m: "m s = (r, t)" by fastforce
  then have "R s t" using stepsD assms(2) by metis
  show "R s (snd (bind_op m f s))"
  proof (cases r)
    case (Inl e)
    with m \<open>R s t\<close> show ?thesis by (simp add: bind_op_Inl)
  next
    case (Inr x)
    with m assms(3) [of s x t] have "R t (snd (f x t))" by (simp add: steps_def)
    with m Inr \<open>R s t\<close> assms(1) show ?thesis
      unfolding preorder_rel_def by (auto simp: bind_op_Inr)
  qed
qed

lemma create_makes:
  assumes "logs_containers made H P"
  shows "steps (makes made H L) (create_container H P L (cl_application L) img)"
proof -
  note O = logs_makes [OF assms, of L]
  note s = others_steps [OF O] connector_steps [OF O]
  let ?R = "makes made H L"
  have create: "steps ?R (pd_container_create P r)" if "as_configured H L r" for r
  proof -
    have "made (snd (pd_container_create P r s)) = made s @ [r]" for s
      using assms by (metis logs_containers_def prod.collapse)
    with that show ?thesis by (auto simp: steps_def makes_def)
  qed
  note use = steps_bind_result [OF makes_preorder]
  show ?thesis
    unfolding create_container_def
    by (rule use, rule mount_steps [OF O], rule use, rule mount_steps [OF O])
      (auto intro!: s create exI simp: as_configured_def dest!: bind_mounts_bound split: option.split)
qed

lemma serving_makes:
  assumes "logs_containers made H P"
  shows "steps (makes made H L) (auto_start H P L)" and "makes made H L s (serve H P L rs s)"
proof -
  note O = logs_makes [OF assms, of L]
  note s = others_steps [OF O] connector_steps [OF O] mount_steps [OF O]
  have cp: "steps (makes made H L) (pd_copytree P p d)" "steps (makes made H L) (pd_container_start P c)" for p d c
    using assms by (auto simp: logs_containers_def intro: unchanged_makes)
  have st: "steps (makes made H L) (start_application_container H P L (cl_application L))"
    by (rule start_steps [OF O create_makes [OF assms] cp(2)])
  show "steps (makes made H L) (auto_start H P L)"
    unfolding auto_start_def by (intro s steps_if st)
  have e: "steps (makes made H L) (endpoint H P L r)" for r
    by (cases r) (auto simp: start_def exportLogs_def exportTelemetry_def intro!: s cp st getStatus_steps [OF O])
  have "makes made H L s (snd (respond H P L r s))" for r s
    using e [of r] by (auto simp: respond_def steps_def split: prod.splits sum.splits) (metis snd_conv)+
  then show "makes made H L s (serve H P L rs s)"
    using makes_preorder [of made H L] unfolding preorder_rel_def
    by (induction rs arbitrary: s) (simp_all add: serve_def, blast)
qed

text \<open>
  C13. Every container is the configured one: whatever requests a launcher serves after its start-up,
  each container it asks Podman for runs the application's command as an unprivileged user under the
  application's name and environment, with the data sources mounted read-only and the data sinks
  writable, at the places the application names, from the paths the mount launchers left. No other
  mount is added: the application cannot write to its data sources.
\<close>

theorem containers_as_configured:
  assumes "logs_containers made H P" and "cl_async_main H P a s = (Inr L, s1)"
  shows "\<exists>new. made (serve H P L rs s1) = made s @ new \<and> list_all (as_configured H L) new"
proof -
  obtain s0 where p: "prepare H P a s = (Inr L, s0)" and "auto_start H P L s0 = (Inr (), s1)"
    using assms(2) by (auto simp: cl_async_main_def bind_op_Inr_iff)
  then have "makes made H L s s0" "makes made H L s0 s1"
    using stepsD [OF prepare_steps [OF logs_makes [OF assms(1)]] p] stepsD [OF serving_makes(1) [OF assms(1)]] by auto
  with serving_makes(2) [OF assms(1), of L s1 rs] have "makes made H L s (serve H P L rs s1)"
    using makes_preorder [of made H L] unfolding preorder_rel_def by blast
  then show ?thesis by (simp add: makes_def)
qed

text \<open>
  C37. A container that cannot be started is reported as started: the response to a start request,
  and the state it leaves, are the same as with a Podman whose start operation returns where the
  real one raises a Podman error.
\<close>

theorem start_failure_unreported:
  "respond H P L (Start n) s =
   respond H (P\<lparr>pd_container_start := \<lambda>c. catch_op (pd_container_start P c)
     (\<lambda>e. if pd_PodmanError P e then return_op () else raise_op e)\<rparr>) L (Start n) s"
proof -
  let ?h = "\<lambda>e. if pd_PodmanError P e then return_op () else raise_op e"
  have "catch_op (catch_op m ?h) ?h = catch_op m ?h" for m :: "('a, unit) op"
    by (rule ext) (simp add: catch_op_def split: prod.split sum.split)
  moreover have ev: "put_event H (P\<lparr>pd_container_start := f\<rparr>) L m = put_event H P L m" for f m
    by (simp add: put_event_def cong: if_cong)
  moreover have "create_container H (P\<lparr>pd_container_start := f\<rparr>) L a img = create_container H P L a img" for f a img
    by (simp add: create_container_def ev cong: if_cong option.case_cong)
  ultimately have "start_application_container H (P\<lparr>pd_container_start := \<lambda>c. catch_op (pd_container_start P c) ?h\<rparr>) L a =
      start_application_container H P L a" for a
    by (simp add: start_application_container_def cong: if_cong option.case_cong)
  then have "start H (P\<lparr>pd_container_start := \<lambda>c. catch_op (pd_container_start P c) ?h\<rparr>) L n = start H P L n"
    by (simp add: start_def check_consent_def ev start_failed_event_def cong: if_cong)
  moreover have "error_response (P\<lparr>pd_container_start := f\<rparr>) r e = error_response P r e" for f r e
    by (simp add: error_response_def podman_error_body_def cong: if_cong option.case_cong exc.case_cong)
  ultimately show ?thesis
    by (simp add: respond_def split: prod.split sum.split)
qed

section \<open>A sample launcher\<close>

text \<open>
  The state is the list of containers asked for. The mount of the data source is ready, the image is
  there, and the governance service consents.
\<close>

definition list_host :: "container_request list host" where
  "list_host =
    \<lparr>ho_getenv = (\<lambda>s k. None), ho_setenv = (\<lambda>k v. return_op ()), ho_exists = (\<lambda>s p. p = ''/mnt/volumestatus/in.volume.ready''),
     ho_read = (\<lambda>p. return_op (json_dumps (JObj [(''mount_path'', JStr ''/mnt/remote/in'')]))),
     ho_write = (\<lambda>p c. return_op ()), ho_makedirs = (\<lambda>p. return_op ()),
     ho_load_yaml = (\<lambda>p. raise_op (FileNotFoundError p)), ho_dump_yaml = (\<lambda>j p. return_op ()),
     ho_sleep = (\<lambda>n. return_op ()), ho_connect = (\<lambda>p. return_op ()), ho_serve = (\<lambda>p. return_op ()),
     ho_popen = (\<lambda>c. return_op 7), ho_wait = (\<lambda>p. return_op 0),
     ho_post = (\<lambda>u b. return_op (200, Inr JNull)), ho_sha256 = (\<lambda>b. b)\<rparr>"

definition sample_application :: application where
  "sample_application =
    \<lparr>app_name = ''app'',
     app_image = \<lparr>img_executable = \<lparr>documentType = ''OCI'', authenticityReceipt = [], doc_identity = None,
         doc_resource = \<lparr>res_name = ''app'', res_type = RT_AzureContainerRegistry, res_id = ''reg.io/app:1'',
           res_provider = \<lparr>ep_protocol = P_AzureContainerRegistry, ep_url = ''reg.io'', ep_configuration = None\<rparr>\<rparr>\<rparr>,
       img_protection = None, img_enforcementPolicy = \<lparr>pol_policy = None\<rparr>\<rparr>,
     app_startType = Start_Manual, app_command = [''run''], app_environmentVariables = [],
     app_datasources = Some [(''in'', ''/data'')], app_datasinks = None,
     app_runtimeSettings = \<lparr>rs_ports = [], rs_resource = \<lparr>ar_requests = \<lparr>req_cpu = ''1'', req_memoryInGB = ''1''\<rparr>\<rparr>\<rparr>\<rparr>"

definition list_podman :: "(container_request list, nat) podman" where
  "list_podman =
    \<lparr>pd_ping = return_op True, pd_image_get = (\<lambda>u. return_op u), pd_pull = (\<lambda>r t a. return_op ()),
     pd_container_get = (\<lambda>n. raise_op (ResourceNotFound n)),
     pd_container_create = (\<lambda>r s. (Inr (length s), s @ [r])), pd_container_start = (\<lambda>c. return_op ()),
     pd_container_wait = (\<lambda>c. return_op 0), pd_container_id = str_nat, pd_container_status = (\<lambda>c. ''running''),
     pd_ImageNotFound = (\<lambda>e. False), pd_NotFound = (\<lambda>e. case e of ResourceNotFound n \<Rightarrow> True | _ \<Rightarrow> False),
     pd_PodmanError = (\<lambda>e. False), pd_APIError = (\<lambda>e. None),
     pd_http_get = (\<lambda>u q. return_op (200, Inr JNull)),
     pd_http_post = (\<lambda>u d. return_op (200, Inr (JObj [(''status'', JStr ''enabled'')]))),
     pd_http_put = (\<lambda>u j. return_op 200), pd_copytree = (\<lambda>p d. return_op ()),
     pd_validate_bytes = (\<lambda>b. Inr sample_application), pd_validate_text = (\<lambda>t. Inr sample_application),
     pd_repr = (\<lambda>e. ''error''), pd_str = (\<lambda>e. ''error'')\<rparr>"

definition sample_args :: launcher_args where
  "sample_args = \<lparr>ca_identity_port = 8290, ca_governance_port = 8300, ca_secrets_port = 9300,
    ca_otelcollector_port = 4317, ca_application_base_64 = Some ''e30=''\<rparr>"

definition sample_code_launcher :: code_launcher where
  "sample_code_launcher = \<lparr>cl_application = sample_application, cl_telemetry_path = ''/mnt/telemetry'',
    cl_identity_port = 8290, cl_governance_port = 8300\<rparr>"

lemma list_others:
  assumes "preorder_rel R"
  shows "others R list_host list_podman"
  using assms by (simp add: others_def list_host_def list_podman_def steps_intros steps_def preorder_rel_def)

lemma unchanged_preorder: "preorder_rel (unchanged v)"
  by (simp add: preorder_rel_def unchanged_def)

lemma list_logs: "logs_containers (\<lambda>s. s) list_host list_podman"
  unfolding logs_containers_def using list_others [OF unchanged_preorder]
  by (simp add: list_podman_def steps_def unchanged_def)

lemma list_host_fields:
  "ho_getenv list_host s k = None" "ho_exists list_host s p \<longleftrightarrow> p = ''/mnt/volumestatus/in.volume.ready''"
  "ho_read list_host p = return_op (json_dumps (JObj [(''mount_path'', JStr ''/mnt/remote/in'')]))"
  "ho_popen list_host c = return_op 7" "ho_connect list_host n = return_op ()"
  by (simp_all add: list_host_def)

lemma list_podman_fields:
  "pd_ping list_podman = return_op True" "pd_image_get list_podman u = return_op u"
  "pd_container_get list_podman n = raise_op (ResourceNotFound n)"
  "pd_container_create list_podman r s' = (Inr (length s'), s' @ [r])" "pd_container_start list_podman c = return_op ()"
  "pd_NotFound list_podman (ResourceNotFound n)"
  "pd_http_post list_podman u d = return_op (200, Inr (JObj [(''status'', JStr ''enabled'')]))"
  "pd_http_put list_podman u j = return_op 200"
  "pd_validate_bytes list_podman b = Inr sample_application" "pd_validate_text list_podman b = Inr sample_application"
  by (simp_all add: list_podman_def)

lemma list_prepared: "prepare list_host list_podman sample_args s = (Inr sample_code_launcher, s)"
proof -
  have [simp]: "urlsafe_b64decode ''e30='' = Inr ''{}''" "utf8_decode ''{}'' = Inr ''{}''" by code_simp+
  have [simp]: "wait_for_services_readiness list_host ps s = (Inr (), s)" for ps
  proof -
    have "wait_for_ports list_host ps (Suc n) s = (Inr (), s)" for n
      by (induction ps) (simp_all add: list_host_fields bind_op_def catch_op_def)
    from this [of 17] show ?thesis by (simp add: wait_for_services_readiness_def)
  qed
  have [simp]: "ping_attempts list_host list_podman 12 s = (Inr True, s)"
    by (simp add: eval_nat_numeral bind_op_def catch_op_def list_podman_fields)
  show ?thesis
    by (simp add: prepare_def cl_validate_args_def cl_wait_for_services_def wait_for_podman_service_def
        ACRCmdExecutor_execute_def fetch_application_image_def bind_op_def catch_op_def environ_get_def Let_def
        sample_args_def sample_code_launcher_def list_podman_fields list_host_fields environ_default_def)
qed

text \<open>The container the sample launcher asks for.\<close>

definition sample_container_request :: container_request where
  "sample_container_request = \<lparr>cr_image = ''reg.io/app:1'', cr_name = ''app'', cr_command = [''run''], cr_environment = [],
    cr_mounts = [\<lparr>bm_source = ''/mnt/remote/in'', bm_target = ''/data'', bm_read_only = True\<rparr>], cr_user = ''1000'',
    cr_log_path = ''/mnt/telemetry/application/app.log''\<rparr>"

lemma list_main: "cl_async_main list_host list_podman sample_args s = (Inr sample_code_launcher, s)"
  by (simp add: cl_async_main_def list_prepared bind_op_def auto_start_def sample_code_launcher_def sample_application_def)

lemma list_started:
  "respond list_host list_podman sample_code_launcher (Start ''app'') s =
   ((200, message_body ''Application started successfully.''), s @ [sample_container_request])"
proof -
  have vol: "get_volumestatus_mountpath list_host s = ''/mnt/volumestatus''" for s
    by (simp add: get_volumestatus_mountpath_def environ_default_def list_host_fields)
  have path: "get_mount_path list_host ''in'' s = (Inr (JStr ''/mnt/remote/in''), s)" for s
    by (simp add: get_mount_path_def list_host_fields bind_op_def)
  have w: "wait_for_mount_point list_host ''in'' 12 30 mk s = (Inr (JStr ''/mnt/remote/in''), s)" for mk s
    using poll_found [of 12 list_host "''in''" s 30]
    by (simp add: wait_for_mount_point_def is_volume_ready_def vol list_host_fields ready_file_def path_join_def bind_op_def path)
  have ev: "put_event list_host list_podman sample_code_launcher m s = (Inr (), s)" for m s
    by (simp add: put_event_def cl_events_enabled_def list_host_fields list_podman_fields bind_op_def catch_op_def raise_for_status_def)
  have ok: "check_consent list_podman sample_code_launcher sc s = (Inr (), s)" for sc s
    by (simp add: check_consent_def Let_def list_podman_fields bind_op_def json_response_def raise_for_status_def json_item_def)
  have m: "wait_mounts list_host (Some [(''in'', ''/data'')]) s = (Inr (), s)" "wait_mounts list_host None s = (Inr (), s)"
    "bind_mounts list_host ro (Some [(''in'', ''/data'')]) s =
      (Inr [\<lparr>bm_source = ''/mnt/remote/in'', bm_target = ''/data'', bm_read_only = ro\<rparr>], s)"
    "bind_mounts list_host ro None s = (Inr [], s)" for ro s
    by (simp_all add: wait_mounts_def bind_mounts_def bind_op_def w path json_str_def)
  have a: "cl_application sample_code_launcher = sample_application" "app_name sample_application = ''app''"
    "app_datasources sample_application = Some [(''in'', ''/data'')]" "app_datasinks sample_application = None"
    "image_url sample_application = ''reg.io/app:1''" "app_command sample_application = [''run'']"
    "app_environmentVariables sample_application = []" "cl_telemetry_path sample_code_launcher = ''/mnt/telemetry''"
    by (simp_all add: sample_code_launcher_def sample_application_def image_url_def)
  show ?thesis
    by (simp add: respond_def start_def start_application_container_def create_container_def bind_op_def catch_op_def
        ok m ev a list_podman_fields sample_container_request_def)
qed

theorem effects_need_consent_witness:
  "consent_given list_podman sample_code_launcher Execution []"
proof -
  have u: "under_consent list_host list_podman (cl_telemetry_path sample_code_launcher) Execution length"
    unfolding under_consent_def using list_others [OF unchanged_preorder]
    by (simp add: list_podman_def steps_def unchanged_def)
  show ?thesis
    using effects_need_consent [OF u list_prepared list_main, of "[]" "[Start ''app'']"]
    by (auto simp: serve_def list_started)
qed

theorem containers_as_configured_witness:
  "serve list_host list_podman sample_code_launcher [Start ''app''] [] = [sample_container_request] \<and>
   as_configured list_host sample_code_launcher sample_container_request"
  using containers_as_configured [OF list_logs list_main, of "[Start ''app'']" "[]"]
  by (simp add: serve_def list_started)

end
