(* ===== verification/Inferencing.thy ===== *)
theory Inferencing
  imports App_Builder
begin

text \<open>
  The frontend for inferencing with KServe (\<^verbatim>\<open>kserve_inferencing_frontend\<close>): the builders of
  inference services, the converter of jobs, the Kubernetes client, the connector to the governance
  sidecar and the endpoints of \<^verbatim>\<open>main.py\<close>. The calls of the Kubernetes library, pydantic's
  conversions, HTTP, the clock and the texts of exceptions are the fields of \<open>isvc_api\<close>; the
  documents are read through the \<open>doc_api\<close> of the sidecar builder. An inference service of this
  frontend has no transformer and no explainer, so that the parts of the code that walk through their
  containers never run. The list of sidecars an application keeps is read by nobody and left out.
\<close>

section \<open>Input models\<close>

record env_var_input =
  evi_name :: string
  evi_value :: "string option"

record resource_requirements =
  rr_requests :: "(string, string) dict option"
  rr_limits :: "(string, string) dict option"

record model_input =
  mi_runtime :: "string option"
  mi_args :: "string list option"
  mi_resources :: "resource_requirements option"
  mi_env :: "env_var_input list option"

record batcher =
  bt_maxBatchSize :: "int option"
  bt_maxLatency :: "int option"
  bt_timeout :: "int option"

record auto_scaling_metric =
  asm_type :: string
  asm_resource :: json
  asm_external :: json
  asm_podmetric :: json

record auto_scaling =
  as_metrics :: "auto_scaling_metric list option"
  as_behavior :: json

record predictor_input =
  pi_model :: model_input
  pi_min_replicas :: "int option"
  pi_max_replicas :: "int option"
  pi_timeout :: "int option"
  pi_batcher :: "batcher option"
  pi_deployment_strategy :: json
  pi_scale_metric_type :: "string option"
  pi_auto_scaling :: "auto_scaling option"

record inferencing_job =
  ij_contract_id :: string
  ij_model_name :: string
  ij_predictor :: predictor_input
  ij_model_dir :: "string option"
  ij_datasets :: "dataset_info list"
  ij_governance :: "cgs_settings option"
  ij_placement :: "bool option option" \<comment> \<open>the placement's \<^verbatim>\<open>host_network\<close>\<close>

section \<open>Inference services\<close>

record serving_container =
  sv_name :: string
  sv_image :: string
  sv_port :: int
  sv_health_path :: "string option" \<comment> \<open>of the startup probe on the port, whose timings are constants\<close>
  sv_resources :: "resource_requirements option"
  sv_env :: "env_var_input list option"
  sv_args :: "string list option"
  sv_volume_mounts :: "volume_mount list option"
  sv_privileged :: "bool option" \<comment> \<open>both flags of the security context\<close>

record volume =
  vol_name :: string
  vol_host_path :: "string option" \<comment> \<open>\<open>None\<close>: an empty directory\<close>

record predictor_spec =
  ps_initContainers :: "container list option"
  ps_containers :: "serving_container list option"
  ps_volumes :: "volume list option"
  ps_hostNetwork :: "bool option"
  ps_nodeSelector :: "(string, string) dict option"
  ps_tolerations :: "(string, string) dict list option"
  ps_minReplicas :: "int option"
  ps_maxReplicas :: "int option"
  ps_timeout :: "int option"
  ps_scaleMetricType :: "string option"
  ps_autoScaling :: "auto_scaling option"
  ps_batcher :: "batcher option"
  ps_deploymentStrategy :: json
  ps_annotations :: "(string, json) dict option"

definition empty_predictor :: predictor_spec where
  "empty_predictor =
    \<lparr>ps_initContainers = None, ps_containers = None, ps_volumes = None, ps_hostNetwork = None, ps_nodeSelector = None,
     ps_tolerations = None, ps_minReplicas = None, ps_maxReplicas = None, ps_timeout = None,
     ps_scaleMetricType = None, ps_autoScaling = None, ps_batcher = None, ps_deploymentStrategy = JNull,
     ps_annotations = None\<rparr>"

record pod_policy =
  pp_json :: string
  pp_json_base64 :: string
  pp_pcrs :: json

record inferencing_application =
  ia_predictor :: predictor_spec
  ia_predictor_policy :: pod_policy
  ia_transformer_policy :: pod_policy

section \<open>The builder\<close>

record kserve_settings =
  ks_cleanroom :: cleanroom_settings
  ks_cvm_measurements_document :: string
  ks_runtime_digests_document :: string

datatype inferencing_provider = Inf_ConfidentialVirtualNode | Inf_ConfidentialVM | Inf_Virtual

record inference_builder =
  ib_provider :: inferencing_provider
  ib_settings :: kserve_settings
  ib_telemetry :: telemetry_settings
  ib_governance :: "cgs_settings option"
  ib_app_name :: string
  ib_contract_id :: string
  ib_trace_context :: "(string, string) dict"
  ib_allow_all :: bool
  ib_model_dir :: "string option"
  ib_model_name :: string
  ib_namespace :: string
  ib_placement :: "bool option option"
  ib_datasets :: "dataset_info list"

definition INF_ALLOW_ALL_POLICY_BASE64 :: string where "INF_ALLOW_ALL_POLICY_BASE64 = ''WyJhbGxvd2FsbCJd''"

definition SUPPORTED_RUNTIMES :: "string list" where
  "SUPPORTED_RUNTIMES = [''kserve-sklearnserver'', ''llamacpp-server'']"

definition RUNTIME_MODEL_ARG_MAP :: "(string, string) dict" where
  "RUNTIME_MODEL_ARG_MAP = [(''kserve-sklearnserver'', ''--model_dir''), (''llamacpp-server'', ''--model'')]"

definition RUNTIMES_WITH_MODEL_NAME :: "string list" where "RUNTIMES_WITH_MODEL_NAME = [''kserve-sklearnserver'']"

definition RUNTIME_HEALTH_PATH_MAP :: "(string, string) dict" where
  "RUNTIME_HEALTH_PATH_MAP = [(''kserve-sklearnserver'', ''/v2/health/ready''), (''llamacpp-server'', ''/health'')]"

definition kserve_name_char :: "char \<Rightarrow> bool" where
  "kserve_name_char c \<longleftrightarrow> is_digit c \<or> c = CHR ''-'' \<or> (97 \<le> char_code c \<and> char_code c \<le> 122)"

definition to_kserve_app_name :: "string \<Rightarrow> string" where
  "to_kserve_app_name name =
    take 63 (''cl-kserve-'' @ map (\<lambda>c. if kserve_name_char c then c else CHR ''-'') (str_lower name))"

text \<open>Both documents are downloaded once and then read from the temporary directory.\<close>

definition get_runtime_digests :: "'s doc_api \<Rightarrow> kserve_settings \<Rightarrow> ('s, json) op" where
  "get_runtime_digests E cfg =
    (let path = path_join (temp_dir E) ''inf-runtime-digests.yaml''
     in bind_op (cached_pull E path
          (oras_pull E (use_http (ks_cleanroom cfg)) (ks_runtime_digests_document cfg) (temp_dir E))) (\<lambda>_.
        load_yaml E path))"

definition get_cvm_measurements :: "'s doc_api \<Rightarrow> kserve_settings \<Rightarrow> ('s, json) op" where
  "get_cvm_measurements E cfg =
    (let path = path_join (temp_dir E) ''cvm-measurements.yaml''
     in bind_op (cached_pull E path
          (oras_pull E (use_http (ks_cleanroom cfg)) (ks_cvm_measurements_document cfg) (temp_dir E))) (\<lambda>_.
        load_yaml E path))"

text \<open>The loop over the entries of the digests document.\<close>

fun find_runtime :: "string \<Rightarrow> json list \<Rightarrow> string res" where
  "find_runtime runtime [] =
    Inl (ValueError (''Runtime '' @ [CHR 0x27] @ runtime @ [CHR 0x27] @ '' not found in runtime digests document.''))"
| "find_runtime runtime (e # es) =
    bind_res (json_get e ''runtime'' JNull) (\<lambda>r.
    if r = JStr runtime then
      bind_res (json_item e ''image'') (\<lambda>img. bind_res (json_item e ''digest'') (\<lambda>digest.
      Inr (json_str img @ ''@'' @ json_str digest)))
    else find_runtime runtime es)"

definition resolve_container_image :: "'s doc_api \<Rightarrow> kserve_settings \<Rightarrow> string \<Rightarrow> ('s, string) op" where
  "resolve_container_image E cfg runtime =
    bind_op (get_runtime_digests E cfg) (\<lambda>doc.
    lift_res (bind_res (json_iter doc) (find_runtime runtime)))"

text \<open>\<^verbatim>\<open>next(iter(measurements.values()))["pcrs"]\<close>.\<close>

definition first_pcrs :: "json \<Rightarrow> json res" where
  "first_pcrs j =
    (case j of
       JObj [] \<Rightarrow> Inl (OtherException ''StopIteration'')
     | JObj ((k, v) # kvs) \<Rightarrow> json_item v ''pcrs''
     | _ \<Rightarrow> Inl AttributeError)"

definition get_inferencing_pod_policy :: "'s doc_api \<Rightarrow> inference_builder \<Rightarrow> ('s, pod_policy) op" where
  "get_inferencing_pod_policy E b =
    (if ib_allow_all b then
       bind_op (lift_res (bind_res (b64decode INF_ALLOW_ALL_POLICY_BASE64) utf8_decode)) (\<lambda>pol.
       bind_op (get_cvm_measurements E (ib_settings b)) (\<lambda>m.
       bind_op (lift_res (first_pcrs m)) (\<lambda>pcrs.
       return_op \<lparr>pp_json = pol, pp_json_base64 = INF_ALLOW_ALL_POLICY_BASE64, pp_pcrs = pcrs\<rparr>)))
     else raise_op (OtherException ''NotImplementedError: Custom policy generation is not implemented yet.''))"

text \<open>
  \<^verbatim>\<open>_get_predictor\<close>, of the base class and with the default the builder for confidential
  virtual machines adds. The error message also lists the supported runtimes, in the arbitrary order
  of a set.
\<close>

definition serving_of :: "string \<Rightarrow> string \<Rightarrow> model_input \<Rightarrow> serving_container" where
  "serving_of runtime img m =
    \<lparr>sv_name = ''kserve-container'', sv_image = img, sv_port = 8080,
     sv_health_path = Some (case map_of RUNTIME_HEALTH_PATH_MAP runtime of None \<Rightarrow> ''/health'' | Some p \<Rightarrow> p),
     sv_resources = mi_resources m,
     sv_env = (case mi_env m of Some (e # es) \<Rightarrow> Some (e # es) | _ \<Rightarrow> None),
     sv_args = (case mi_args m of Some (a # as) \<Rightarrow> Some (a # as) | _ \<Rightarrow> None),
     sv_volume_mounts = None, sv_privileged = None\<rparr>"

definition auto_scaling_of :: "auto_scaling \<Rightarrow> auto_scaling" where
  "auto_scaling_of a =
    \<lparr>as_metrics = (case as_metrics a of Some (m # ms) \<Rightarrow> Some (m # ms) | _ \<Rightarrow> None),
     as_behavior = (if json_truthy (as_behavior a) then as_behavior a else JNull)\<rparr>"

definition base_predictor :: "inference_builder \<Rightarrow> predictor_input \<Rightarrow> string \<Rightarrow> string \<Rightarrow> predictor_spec" where
  "base_predictor b inp runtime img =
    empty_predictor\<lparr>ps_containers := Some [serving_of runtime img (pi_model inp)],
      ps_hostNetwork := (case ib_placement b of None \<Rightarrow> None | Some h \<Rightarrow> h),
      ps_minReplicas := pi_min_replicas inp, ps_maxReplicas := pi_max_replicas inp, ps_timeout := pi_timeout inp,
      ps_batcher := pi_batcher inp,
      ps_deploymentStrategy := (if json_truthy (pi_deployment_strategy inp) then pi_deployment_strategy inp else JNull),
      ps_scaleMetricType := (case pi_scale_metric_type inp of None \<Rightarrow> None | Some t \<Rightarrow> if t = [] then None else Some t),
      ps_autoScaling := map_option auto_scaling_of (pi_auto_scaling inp),
      ps_nodeSelector := Some [(''pod-policy'', ''required'')],
      ps_tolerations := Some [[(''key'', ''pod-policy''), (''operator'', ''Equal''), (''value'', ''required''),
        (''effect'', ''NoSchedule'')]]\<rparr>"

definition get_predictor :: "'s doc_api \<Rightarrow> inference_builder \<Rightarrow> predictor_input \<Rightarrow> ('s, predictor_spec \<times> string) op" where
  "get_predictor E b inp =
    (case mi_runtime (pi_model inp) of
       None \<Rightarrow> raise_op (ValueError ''Unsupported runtime: None. '')
     | Some runtime \<Rightarrow>
         if runtime \<notin> set SUPPORTED_RUNTIMES then raise_op (ValueError (''Unsupported runtime: '' @ runtime @ ''. ''))
         else
           bind_op (resolve_container_image E (ib_settings b) runtime) (\<lambda>img.
           let p = base_predictor b inp runtime img
           in return_op
                (if ib_provider b = Inf_ConfidentialVM \<and> ps_hostNetwork p = None then p\<lparr>ps_hostNetwork := Some True\<rparr> else p,
                 runtime)))"

definition ccr_proxy_fqdn :: "inference_builder \<Rightarrow> string" where
  "ccr_proxy_fqdn b =
    (if ib_model_name b \<noteq> [] \<and> ib_namespace b \<noteq> []
     then ib_model_name b @ ''-predictor-https'' @ ''.'' @ ib_namespace b @ ''.svc.cluster.local'' else '''')"

definition inference_app_builder :: "inference_builder \<Rightarrow> predictor_spec \<Rightarrow> app_builder res" where
  "inference_app_builder b p =
    bind_res (WithName (ib_app_name b) (new_app_builder (ks_cleanroom (ib_settings b)))) (\<lambda>a.
    let a = WithContractId (ib_contract_id b) a;
        a = (if telemetry_collection_enabled (ib_telemetry b)
             then WithTelemetry (ib_telemetry b) (ib_trace_context b) [] a else a)
    in bind_res (case ib_governance b of None \<Rightarrow> Inr a | Some g \<Rightarrow> WithGovernance g CVM a) (\<lambda>a.
       Inr (WithCcrProxyHttpsHttp 443 (if ps_batcher p \<noteq> None then 9081 else 8080) (ccr_proxy_fqdn b)
         (fold (\<lambda>d. AddStorage (ds_accessPoint d) (ds_ownerId d)) (ib_datasets b) a))))"

text \<open>The model path and name, and the mount of the model's storage.\<close>

definition model_args :: "inference_builder \<Rightarrow> string \<Rightarrow> string list option \<Rightarrow> string list option" where
  "model_args b runtime args =
    (let args = (case (map_of RUNTIME_MODEL_ARG_MAP runtime, ib_model_dir b) of
           (Some flag, Some (d # dir)) \<Rightarrow>
             Some ((case args of None \<Rightarrow> [] | Some xs \<Rightarrow> xs) @ [flag, ''/mnt/remote/'' @ (d # dir)])
         | _ \<Rightarrow> args)
     in if ib_model_name b \<noteq> [] \<and> runtime \<in> set RUNTIMES_WITH_MODEL_NAME
        then Some ((case args of None \<Rightarrow> [] | Some xs \<Rightarrow> xs) @ [''--model_name'', ib_model_name b]) else args)"

definition remote_mount :: volume_mount where
  "remote_mount = \<lparr>vm_name = JStr ''remotemounts'', vm_mount_path = JStr ''/mnt/remote'', vm_read_only = JNull,
    vm_mount_propagation = JNull\<rparr>"

definition wire_serving :: "inference_builder \<Rightarrow> string \<Rightarrow> serving_container \<Rightarrow> serving_container" where
  "wire_serving b runtime c = c\<lparr>sv_args := model_args b runtime (sv_args c), sv_volume_mounts := Some [remote_mount]\<rparr>"

text \<open>A change of the first element with a property.\<close>

fun change_first :: "('a \<Rightarrow> bool) \<Rightarrow> ('a \<Rightarrow> 'a) \<Rightarrow> 'a list \<Rightarrow> 'a list" where
  "change_first p f [] = []"
| "change_first p f (x # xs) = (if p x then f x # xs else x # change_first p f xs)"

definition is_serving :: "serving_container \<Rightarrow> bool" where "is_serving c \<longleftrightarrow> sv_name c = ''kserve-container''"

definition base_build :: "'s doc_api \<Rightarrow> inference_builder \<Rightarrow> predictor_spec \<times> string \<Rightarrow> ('s, inferencing_application) op" where
  "base_build E b pr =
    (case pr of (p, runtime) \<Rightarrow>
      if ib_app_name b = [] then raise_op (ValueError ''Missing required fields to build InferenceService'')
      else
        bind_op (lift_res (inference_app_builder b p)) (\<lambda>a.
        bind_op (Build E a) (\<lambda>scs.
        bind_op (get_inferencing_pod_policy E b) (\<lambda>pol.
        return_op
          \<lparr>ia_predictor = p\<lparr>ps_initContainers := Some (map sc_container scs),
             ps_volumes := Some (map (\<lambda>n. \<lparr>vol_name = n, vol_host_path = None\<rparr>)
               [''remotemounts'', ''telemetrymounts'', ''volumestatusmounts'', ''shared'']),
             ps_containers := map_option (change_first is_serving (wire_serving b runtime)) (ps_containers p)\<rparr>,
           ia_predictor_policy = pol, ia_transformer_policy = pol\<rparr>))))"
section \<open>The variants for virtual and for confidential machines\<close>

definition propagate :: "string \<Rightarrow> volume_mount \<Rightarrow> volume_mount" where
  "propagate v m = (if vm_name m = JStr ''remotemounts'' then m\<lparr>vm_mount_propagation := JStr v\<rparr> else m)"

definition propagate_init :: "string \<Rightarrow> container \<Rightarrow> container" where
  "propagate_init v c = c\<lparr>c_volume_mounts := map (propagate v) (c_volume_mounts c)\<rparr>"

definition propagate_serving :: "string \<Rightarrow> serving_container \<Rightarrow> serving_container" where
  "propagate_serving v c = c\<lparr>sv_volume_mounts := map_option (map (propagate v)) (sv_volume_mounts c)\<rparr>"

definition inf_virtual_governance_image :: "cleanroom_settings \<Rightarrow> string" where
  "inf_virtual_governance_image cfg =
    registry_url cfg @ ''/ccr-governance-virtual:'' @ last (str_split (CHR '':'') (versions_document cfg))"

definition virtual_init :: "cleanroom_settings \<Rightarrow> container list \<Rightarrow> container list" where
  "virtual_init cfg cs =
    filter (\<lambda>c. c_name c \<noteq> JStr ''cvm-attestation-agent'')
      (map (propagate_init ''Bidirectional'')
        (change_first (\<lambda>c. c_name c = JStr ''cvm-attestation-agent'')
          (\<lambda>c. c\<lparr>c_volume_mounts := filter (\<lambda>m. vm_name m \<noteq> JStr ''tpmrm0'') (c_volume_mounts c)\<rparr>)
          (change_first (\<lambda>c. c_name c = JStr ''ccr-governance'')
            (\<lambda>c. c\<lparr>c_image := JStr (inf_virtual_governance_image cfg),
                c_env := c_env c @ [\<lparr>ev_name = JStr ''INSECURE_VIRTUAL_DIR'', ev_value = JStr ''/app/cvm/insecure-virtual/''\<rparr>]\<rparr>)
            cs)))"

definition virtual_predictor :: "cleanroom_settings \<Rightarrow> predictor_spec \<Rightarrow> predictor_spec" where
  "virtual_predictor cfg p =
    (let serve = change_first is_serving (\<lambda>c. (propagate_serving ''Bidirectional'' c)\<lparr>sv_privileged := Some True\<rparr>);
         rest = (if ps_initContainers p \<in> {None, Some []} then id else map (propagate_serving ''Bidirectional''))
     in p\<lparr>ps_initContainers := map_option (virtual_init cfg) (ps_initContainers p),
          ps_containers := map_option (rest \<circ> serve) (ps_containers p)\<rparr>)"

text \<open>The name is only looked at where there is such a mount.\<close>

definition confidential_init :: "container \<Rightarrow> container res" where
  "confidential_init c =
    bind_res (map_res (\<lambda>m.
      if vm_name m = JStr ''remotemounts'' then
        bind_res (json_contains (c_name c) ''blobfuse'') (\<lambda>is_blobfuse.
        Inr (propagate (if is_blobfuse then ''Bidirectional'' else ''HostToContainer'') m))
      else Inr m) (c_volume_mounts c)) (\<lambda>ms.
    Inr (c\<lparr>c_volume_mounts := ms\<rparr>))"

definition confidential_predictor :: "predictor_spec \<Rightarrow> predictor_spec res" where
  "confidential_predictor p =
    bind_res (case ps_initContainers p of None \<Rightarrow> Inr None
      | Some cs \<Rightarrow> bind_res (map_res confidential_init cs) (\<lambda>cs. Inr (Some cs))) (\<lambda>init.
    Inr (p\<lparr>ps_initContainers := init,
      ps_volumes := map_option (\<lambda>vs. vs @ [\<lparr>vol_name = ''tpmrm0'', vol_host_path = Some ''/dev/tpmrm0''\<rparr>]) (ps_volumes p),
      ps_containers := map_option (map (propagate_serving ''HostToContainer'')) (ps_containers p)\<rparr>))"

definition inference_build :: "'s doc_api \<Rightarrow> inference_builder \<Rightarrow> predictor_spec \<times> string \<Rightarrow> ('s, inferencing_application) op" where
  "inference_build E b pr =
    bind_op (base_build E b pr) (\<lambda>app.
    if ib_provider b = Inf_Virtual
    then return_op (app\<lparr>ia_predictor := virtual_predictor (ks_cleanroom (ib_settings b)) (ia_predictor app)\<rparr>)
    else bind_op (lift_res (confidential_predictor (ia_predictor app))) (\<lambda>p. return_op (app\<lparr>ia_predictor := p\<rparr>)))"

section \<open>Converting jobs\<close>

record isvc_resource =
  ir_group :: string
  ir_version :: string
  ir_kind :: string
  ir_plural :: string

record kserve_config =
  kf_settings :: kserve_settings
  kf_provider :: inferencing_provider
  kf_resource :: isvc_resource
  kf_namespace :: string
  kf_policy_file :: string
  kf_debug_mode :: bool
  kf_allow_all :: bool
  kf_telemetry :: telemetry_settings

definition get_inference_svc_builder ::
  "(string, string) dict \<Rightarrow> inferencing_provider \<Rightarrow> inferencing_job \<Rightarrow> kserve_settings \<Rightarrow> telemetry_settings \<Rightarrow>
   inference_builder res" where
  "get_inference_svc_builder ctx provider job cfg tel =
    (if provider = Inf_ConfidentialVirtualNode then Inl (ValueError ''Confidential VN2 compute provider support not yet added!'')
     else Inr \<lparr>ib_provider = provider, ib_settings = cfg, ib_telemetry = tel, ib_governance = ij_governance job,
       ib_app_name = [], ib_contract_id = ij_contract_id job, ib_trace_context = ctx,
       ib_allow_all = (provider = Inf_Virtual), ib_model_dir = None, ib_model_name = [], ib_namespace = [],
       ib_placement = None, ib_datasets = []\<rparr>)"

definition convert_to_inference_svc_spec ::
  "'s doc_api \<Rightarrow> (string, string) dict \<Rightarrow> kserve_config \<Rightarrow> string \<Rightarrow> inferencing_job \<Rightarrow> bool \<Rightarrow> telemetry_settings option \<Rightarrow>
   ('s, inferencing_application) op" where
  "convert_to_inference_svc_spec E ctx cfg job_id job allow_all tel =
    bind_op (lift_res (get_inference_svc_builder ctx (kf_provider cfg) job (kf_settings cfg)
      (case tel of None \<Rightarrow> default_telemetry | Some t \<Rightarrow> t))) (\<lambda>b.
    let b = b\<lparr>ib_app_name := to_kserve_app_name job_id, ib_allow_all := allow_all, ib_namespace := kf_namespace cfg,
          ib_model_dir := (case ij_model_dir job of Some (c # d) \<Rightarrow> Some (c # d) | _ \<Rightarrow> None),
          ib_model_name := ij_model_name job, ib_placement := ij_placement job\<rparr>
    in bind_op (get_predictor E b (ij_predictor job)) (\<lambda>pr.
       inference_build E (b\<lparr>ib_datasets := ij_datasets job\<rparr>) pr))"

definition to_inference_svc_spec ::
  "'s doc_api \<Rightarrow> (string, string) dict \<Rightarrow> kserve_config \<Rightarrow> string \<Rightarrow> inferencing_job \<Rightarrow> telemetry_settings option \<Rightarrow>
   ('s, inferencing_application) op" where
  "to_inference_svc_spec E ctx cfg job_id job tel = convert_to_inference_svc_spec E ctx cfg job_id job True tel"

section \<open>The Kubernetes client\<close>

record k8s_service =
  svc_name :: string
  svc_namespace :: string
  svc_labels :: "(string, string) dict"
  svc_selector :: "(string, string) dict"
  svc_port :: int
  svc_target_port :: int
  svc_owner :: json

record 's isvc_api =
  iv_get :: "string \<Rightarrow> string \<Rightarrow> ('s, json) op" \<comment> \<open>namespace, name\<close>
  iv_replace :: "string \<Rightarrow> string \<Rightarrow> json \<Rightarrow> ('s, unit) op"
  iv_create :: "string \<Rightarrow> json \<Rightarrow> ('s, unit) op"
  iv_create_service :: "string \<Rightarrow> k8s_service \<Rightarrow> ('s, unit) op"
  iv_spec_dict :: "predictor_spec \<Rightarrow> json" \<comment> \<open>\<^verbatim>\<open>model_dump(exclude_unset=True)\<close> of the specification\<close>
  iv_validate :: "object_meta \<Rightarrow> json \<Rightarrow> json option res" \<comment> \<open>the status of the validated model\<close>
  iv_post :: "string \<Rightarrow> json \<Rightarrow> ('s, int \<times> json res) op"
  iv_time :: "('s, int) op" \<comment> \<open>\<^verbatim>\<open>int(time.time())\<close>\<close>
  iv_getenv :: "string \<Rightarrow> string option"
  iv_file_exists :: "string \<Rightarrow> 's \<Rightarrow> bool"
  iv_file_read :: "string \<Rightarrow> ('s, string) op"
  iv_str_exc :: "exc \<Rightarrow> string"

definition str_dict_json :: "(string, string) dict option \<Rightarrow> json" where
  "str_dict_json d = JObj (map (\<lambda>(k, v). (k, JStr v)) (case d of None \<Rightarrow> [] | Some kvs \<Rightarrow> kvs))"

definition resource_metadata :: "string \<Rightarrow> string \<Rightarrow> (string, string) dict option \<Rightarrow> (string, string) dict option \<Rightarrow> (string, json) dict" where
  "resource_metadata name ns tags anns =
    [(''name'', JStr name), (''namespace'', JStr ns), (''labels'', str_dict_json tags), (''annotations'', str_dict_json anns)]"

definition resource_body :: "isvc_resource \<Rightarrow> (string, json) dict \<Rightarrow> json \<Rightarrow> json" where
  "resource_body R md spec =
    JObj [(''apiVersion'', JStr (ir_group R @ ''/'' @ ir_version R)), (''kind'', JStr (ir_kind R)),
      (''metadata'', JObj md), (''spec'', spec)]"

text \<open>
  A missing resource is created with the body as it is at that moment: after the read of an
  existing one it holds that one's version.
\<close>

definition create_if_missing :: "'s isvc_api \<Rightarrow> string \<Rightarrow> json \<Rightarrow> exc \<Rightarrow> ('s, unit) op" where
  "create_if_missing K ns body e =
    (case e of ApiException (Some st) m \<Rightarrow> if st = 404 then iv_create K ns body else raise_op e | _ \<Rightarrow> raise_op e)"

definition submit_custom_resource ::
  "'s isvc_api \<Rightarrow> isvc_resource \<Rightarrow> string \<Rightarrow> string \<Rightarrow> json \<Rightarrow> (string, string) dict option \<Rightarrow> (string, string) dict option \<Rightarrow>
   ('s, unit) op" where
  "submit_custom_resource K R name ns spec tags anns =
    (let md = resource_metadata name ns tags anns
     in bind_op (catch_op (bind_op (iv_get K ns name) (\<lambda>x. return_op (Inr x))) (\<lambda>e. return_op (Inl e))) (\<lambda>found.
        case found of
          Inl e \<Rightarrow> create_if_missing K ns (resource_body R md spec) e
        | Inr existing \<Rightarrow>
            bind_op (lift_res (bind_res (json_item existing ''metadata'') (\<lambda>m. json_item m ''resourceVersion''))) (\<lambda>rv.
            let body = resource_body R (md @ [(''resourceVersion'', rv)]) spec
            in catch_op (iv_replace K ns name body) (create_if_missing K ns body))))"

definition get_custom_resource :: "'s isvc_api \<Rightarrow> string \<Rightarrow> string \<Rightarrow> ('s, json) op" where
  "get_custom_resource K name ns =
    catch_op (iv_get K ns name) (\<lambda>e. case e of
      ApiException st m \<Rightarrow>
        if st = Some 404 then raise_op (ResourceNotFound (''Custom resource '' @ name @ '' not found'')) else raise_op e
    | _ \<Rightarrow> raise_op e)"

definition owner_ref :: "'s isvc_api \<Rightarrow> isvc_resource \<Rightarrow> string \<Rightarrow> string \<Rightarrow> ('s, json) op" where
  "owner_ref K R name ns =
    bind_op (iv_get K ns name) (\<lambda>cr.
    bind_op (lift_res (bind_res (json_item cr ''metadata'') (\<lambda>m. json_item m ''uid''))) (\<lambda>uid.
    return_op (JObj [(''apiVersion'', JStr (ir_group R @ ''/'' @ ir_version R)), (''kind'', JStr (ir_kind R)),
      (''name'', JStr name), (''uid'', uid), (''blockOwnerDeletion'', JBool True), (''controller'', JBool True)])))"

definition ccr_proxy_service :: "string \<Rightarrow> string \<Rightarrow> json \<Rightarrow> k8s_service" where
  "ccr_proxy_service name ns owner =
    \<lparr>svc_name = name @ ''-predictor-https'', svc_namespace = ns,
     svc_labels = [(''app'', ''isvc.'' @ name @ ''-predictor''), (''component'', ''predictor'')],
     svc_selector = [(''app'', ''isvc.'' @ name @ ''-predictor'')], svc_port = 443, svc_target_port = 443, svc_owner = owner\<rparr>"

definition create_ccr_proxy_service :: "'s isvc_api \<Rightarrow> string \<Rightarrow> string \<Rightarrow> json \<Rightarrow> ('s, unit) op" where
  "create_ccr_proxy_service K name ns owner =
    catch_op (iv_create_service K ns (ccr_proxy_service name ns owner)) (\<lambda>e. case e of
      ApiException st m \<Rightarrow> if st = Some 409 then return_op () else raise_op e
    | _ \<Rightarrow> raise_op e)"

definition submit_inference_service ::
  "'s isvc_api \<Rightarrow> isvc_resource \<Rightarrow> string \<Rightarrow> string \<Rightarrow> predictor_spec \<Rightarrow> (string, string) dict option \<Rightarrow>
   (string, string) dict option \<Rightarrow> ('s, unit) op" where
  "submit_inference_service K R name ns p tags anns =
    bind_op (submit_custom_resource K R name ns (iv_spec_dict K p) tags anns) (\<lambda>_.
    bind_op (owner_ref K R name ns) (\<lambda>owner.
    create_ccr_proxy_service K name ns owner))"

definition get_inference_service :: "'s isvc_api \<Rightarrow> string \<Rightarrow> string \<Rightarrow> ('s, json option) op" where
  "get_inference_service K name ns =
    bind_op (get_custom_resource K name ns) (\<lambda>ret.
    bind_op (lift_res (json_get ret ''metadata'' (JObj []))) (\<lambda>md.
    bind_op (lift_res (map_res (\<lambda>k. json_get md k JNull)
      [''name'', ''namespace'', ''creationTimestamp'', ''labels'', ''annotations'', ''uid'', ''resourceVersion'', ''generation''])) (\<lambda>vs.
    bind_op (lift_res (json_get ret ''status'' (JObj []))) (\<lambda>status.
    lift_res (iv_validate K
      \<lparr>om_name = vs ! 0, om_namespace = vs ! 1, om_creation_timestamp = vs ! 2, om_labels = vs ! 3, om_annotations = vs ! 4,
       om_uid = vs ! 5, om_resource_version = vs ! 6, om_generation = vs ! 7\<rparr>
      (if json_truthy status then status else JNull))))))"

section \<open>The endpoints\<close>

definition sign_policy :: "'s isvc_api \<Rightarrow> string \<Rightarrow> ('s, json) op" where
  "sign_policy K payload =
    bind_op (iv_post K ''http://localhost:8300/signing/sign'' (JObj [(''payload'', JStr payload)])) (\<lambda>(status, body).
    if 400 \<le> status \<and> status < 600 then raise_op (OtherException ''HTTPError'')
    else
      bind_op (lift_res (bind_res body (\<lambda>result. json_get result ''value'' JNull))) (\<lambda>signature.
      if \<not> json_truthy signature
      then raise_op (ValueError (''No '' @ [CHR 0x27] @ ''value'' @ [CHR 0x27] @ '' field in signing response''))
      else return_op signature))"

definition success_reply :: "string \<Rightarrow> json" where
  "success_reply name = JObj [(''status'', JStr ''success''), (''id'', JStr name)]"

definition deploy_model ::
  "'s isvc_api \<Rightarrow> 's doc_api \<Rightarrow> (string, string) dict \<Rightarrow> kserve_config \<Rightarrow> string \<Rightarrow> inferencing_job \<Rightarrow> string \<Rightarrow> bool \<Rightarrow>
   (string, string) dict option \<Rightarrow> ('s, json) op" where
  "deploy_model K E ctx cfg job_id job ns enable_telemetry tags =
    bind_op (to_inference_svc_spec E ctx cfg job_id job (if enable_telemetry then Some (kf_telemetry cfg) else None)) (\<lambda>app.
    bind_op (sign_policy K INF_ALLOW_ALL_POLICY_BASE64) (\<lambda>signature.
    let p = (ia_predictor app)\<lparr>ps_annotations := Some [(''api-server-proxy.io/policy'', JStr INF_ALLOW_ALL_POLICY_BASE64),
          (''api-server-proxy.io/signature'', signature)]\<rparr>
    in bind_op (submit_inference_service K (kf_resource cfg) (ij_model_name job) ns p tags None) (\<lambda>_.
       return_op (success_reply (ij_model_name job)))))"

definition deploy_failed :: "'s isvc_api \<Rightarrow> string \<Rightarrow> exc \<Rightarrow> ('s, 'a) op" where
  "deploy_failed K what e = raise_op (HTTPException 500 (what @ iv_str_exc K e))"

definition deploy_inferencing_model ::
  "'s isvc_api \<Rightarrow> 's doc_api \<Rightarrow> (string, string) dict \<Rightarrow> kserve_config \<Rightarrow> inferencing_job \<Rightarrow> string \<Rightarrow> bool \<Rightarrow> ('s, json) op" where
  "deploy_inferencing_model K E ctx cfg job job_id enable_telemetry =
    bind_op (if job_id \<noteq> [] then return_op job_id else bind_op (iv_time K) (\<lambda>t. return_op (str_int t))) (\<lambda>job_id.
    catch_op (deploy_model K E ctx cfg job_id job (kf_namespace cfg) enable_telemetry (Some [(''job_type'', ''inferencing'')]))
      (deploy_failed K ''Failed to create inferencing service: ''))"

definition model_mount :: volume_mount where
  "model_mount = \<lparr>vm_name = JStr ''model-data'', vm_mount_path = JStr ''/mnt/models'', vm_read_only = JNull,
    vm_mount_propagation = JNull\<rparr>"

text \<open>
  The model of the test endpoint. The download runs in an init container, whose arguments the
  \<open>container\<close> of the sidecars does not have; they follow its command here.
\<close>

definition model_download :: container where
  "model_download =
    \<lparr>c_name = JStr ''model-download'', c_image = JStr ''busybox:1.36'',
     c_command = JArr (map JStr [''sh'', ''-c'', ''mkdir -p /mnt/models && wget -q -O /mnt/models/model.joblib '' @
       ''https://storage.googleapis.com/kfserving-examples/models/sklearn/1.0/model/model.joblib'']),
     c_env = [], c_resource_requests = JNull, c_volume_mounts = [model_mount], c_privileged = JNull, c_ports = None,
     c_startup_probe = None, c_restart_policy = ''''\<rparr>"

definition test_predictor :: "string \<Rightarrow> bool \<Rightarrow> bool option \<Rightarrow> predictor_spec" where
  "test_predictor name flexnode host_network =
    (let p = empty_predictor
           \<lparr>ps_initContainers := Some [model_download],
            ps_containers := Some [\<lparr>sv_name = ''kserve-container'', sv_image = ''docker.io/kserve/sklearnserver:v0.17.0'',
              sv_port = 8080, sv_health_path = None, sv_resources = None, sv_env = None,
              sv_args = Some [''--model_name='' @ name, ''--model_dir=/mnt/models''],
              sv_volume_mounts = Some [model_mount], sv_privileged = None\<rparr>],
            ps_volumes := Some [\<lparr>vol_name = ''model-data'', vol_host_path = None\<rparr>]\<rparr>
     in if flexnode then p\<lparr>ps_hostNetwork := host_network, ps_nodeSelector := Some [(''pod-policy'', ''required'')],
          ps_tolerations := Some [[(''key'', ''pod-policy''), (''operator'', ''Equal''), (''value'', ''required''),
            (''effect'', ''NoSchedule'')]]\<rparr>
        else p)"

definition deploy_inferencing_test_model ::
  "'s isvc_api \<Rightarrow> kserve_config \<Rightarrow> string \<Rightarrow> bool \<Rightarrow> bool option \<Rightarrow> string option \<Rightarrow> ('s, json) op" where
  "deploy_inferencing_test_model K cfg name flexnode host_network signature =
    bind_op (iv_time K) (\<lambda>_.
    catch_op
      (bind_op (submit_inference_service K (kf_resource cfg) name (kf_namespace cfg)
         (test_predictor name flexnode host_network) (Some [(''job_type'', ''inferencing'')])
         (case signature of None \<Rightarrow> None
          | Some g \<Rightarrow> Some [(''api-server-proxy.io/policy'', INF_ALLOW_ALL_POLICY_BASE64), (''api-server-proxy.io/signature'', g)]))
         (\<lambda>_. return_op (success_reply name)))
      (deploy_failed K ''Failed to create inferencing service: ''))"

definition get_inferencing_test_policy :: "bool \<Rightarrow> json res" where
  "get_inferencing_test_policy flexnode =
    (if \<not> flexnode
     then Inl (HTTPException 400 ''Security policy generation is not supported for non-flexnode node type.'')
     else Inr (JObj [(''predictor'', JObj [(''jsonBase64'', JStr INF_ALLOW_ALL_POLICY_BASE64)])]))"

definition inferencing_status :: "'s isvc_api \<Rightarrow> kserve_config \<Rightarrow> string \<Rightarrow> ('s, json) op" where
  "inferencing_status K cfg name =
    catch_op
      (bind_op (get_inference_service K name (kf_namespace cfg)) (\<lambda>status.
       return_op (JObj [(''id'', JStr name),
         (''status'', case status of None \<Rightarrow> JObj [(''url'', JStr [])] | Some st \<Rightarrow> st)])))
      (\<lambda>e. case e of
         ResourceNotFound _ \<Rightarrow> raise_op (HTTPException 404 (''Job with ID '' @ name @ '' not found''))
       | _ \<Rightarrow> deploy_failed K ''Failed to get model status: '' e)"

definition policy_reply :: "pod_policy \<Rightarrow> json" where
  "policy_reply p = JObj [(''jsonBase64'', JStr (pp_json_base64 p)), (''pcrs'', pp_pcrs p)]"

definition get_inferencing_service_policy ::
  "'s isvc_api \<Rightarrow> 's doc_api \<Rightarrow> (string, string) dict \<Rightarrow> kserve_config \<Rightarrow> inferencing_job \<Rightarrow> bool \<Rightarrow> ('s, json) op" where
  "get_inferencing_service_policy K E ctx cfg job enable_telemetry =
    bind_op (iv_time K) (\<lambda>t.
    catch_op
      (bind_op (to_inference_svc_spec E ctx cfg (str_int t) job (if enable_telemetry then Some (kf_telemetry cfg) else None)) (\<lambda>app.
       return_op (JObj [(''predictor'', policy_reply (ia_predictor_policy app)),
         (''transformer'', policy_reply (ia_transformer_policy app))])))
      (deploy_failed K ''Failed to get inferencing pod policy: ''))"

definition inferencing_get_report :: "'s isvc_api \<Rightarrow> string \<Rightarrow> ('s, json) op" where
  "inferencing_get_report K data =
    bind_op (iv_post K ''http://localhost:8284/attest/combined'' (JObj [(''runtime_data'', JStr (b64encode data))])) (\<lambda>(status, body).
    if 400 \<le> status \<and> status < 600 then raise_op (OtherException ''HTTPError'')
    else
      bind_op (lift_res body) (\<lambda>j.
      bind_op (lift_res (map_res (\<lambda>k. json_get j k JNull) [''evidence'', ''endorsements'', ''uvm_endorsements''])) (\<lambda>vs.
      return_op (JObj [(''attestation'', vs ! 0), (''platformCertificates'', vs ! 1), (''uvmEndorsements'', vs ! 2)]))))"

definition inferencing_report :: "'s isvc_api \<Rightarrow> ('s, json) op" where
  "inferencing_report K s =
    (let path = (case iv_getenv K ''SERVICE_CERT_LOCATION'' of None \<Rightarrow> ''/app/service/service-cert.pem'' | Some p \<Rightarrow> p)
     in if \<not> iv_file_exists K path s then raise_op (HTTPException 404 (''Service cert file not found at '' @ path)) s
        else
          bind_op (iv_file_read K path) (\<lambda>cert.
          let data = utf8_encode (json_dumps (JObj [(''serviceCert'', JStr cert)]))
          in bind_op (if iv_getenv K ''INSECURE_VIRTUAL_ENVIRONMENT'' \<noteq> Some ''true''
               then bind_op (inferencing_get_report K data) (\<lambda>r. return_op (''snp'', r))
               else return_op (''virtual'', JNull)) (\<lambda>(platform, report).
             return_op (JObj [(''platform'', JStr platform), (''report'', report),
               (''reportDataPayload'', JStr (b64encode data))]))) s)"

section \<open>Properties of the builder\<close>

lemma convert_allows_all:
  assumes "to_inference_svc_spec E ctx cfg job_id job tel s = (Inr app, t)"
  shows "pp_json (ia_predictor_policy app) = json_dumps (JArr [JStr ''allowall'']) \<and> pp_json_base64 (ia_predictor_policy app) = INF_ALLOW_ALL_POLICY_BASE64 \<and>
    ia_transformer_policy app = ia_predictor_policy app"
proof -
  have d: "bind_res (b64decode INF_ALLOW_ALL_POLICY_BASE64) utf8_decode = Inr (json_dumps (JArr [JStr ''allowall'']))" by code_simp
  show ?thesis
    using assms
    by (auto simp: to_inference_svc_spec_def convert_to_inference_svc_spec_def get_inference_svc_builder_def Let_def
        bind_op_Inr_iff inference_build_def base_build_def get_inferencing_pod_policy_def d split: if_splits prod.splits)
qed

text \<open>In a confidential machine only the blobfuse containers may propagate mounts out.\<close>

lemma confidential_propagation:
  assumes "confidential_predictor p = Inr q" and "ps_initContainers q = Some cs" "c \<in> set cs" "m \<in> set (c_volume_mounts c)"
    and "vm_name m = JStr ''remotemounts''" "c_name c = JStr n"
  shows "vm_mount_propagation m = JStr (if is_substring ''blobfuse'' n then ''Bidirectional'' else ''HostToContainer'')"
proof -
  obtain cs0 where "map_res confidential_init cs0 = Inr cs"
    using assms(1,2) by (auto simp: confidential_predictor_def bind_res_Inr_iff split: option.splits)
  then obtain c0 where c0: "confidential_init c0 = Inr c"
    using assms(3) by (metis in_set_conv_nth map_res_length map_res_nth)
  then obtain ms where ms: "map_res (\<lambda>m. if vm_name m = JStr ''remotemounts'' then
        bind_res (json_contains (c_name c0) ''blobfuse'') (\<lambda>is_blobfuse.
        Inr (propagate (if is_blobfuse then ''Bidirectional'' else ''HostToContainer'') m)) else Inr m) (c_volume_mounts c0) = Inr ms"
    and c: "c = c0\<lparr>c_volume_mounts := ms\<rparr>"
    by (auto simp: confidential_init_def bind_res_Inr_iff)
  have "c_name c0 = JStr n" using c assms(6) by simp
  moreover obtain i where "i < length ms" "ms ! i = m" using assms(4) c by (auto simp: in_set_conv_nth)
  ultimately show ?thesis
    using map_res_nth [OF ms, of i] map_res_length [OF ms] assms(5)
    by (auto simp: json_contains_def propagate_def split: if_splits dest!: sym [of "_\<lparr>vm_mount_propagation := _\<rparr>"])
qed

text \<open>A resource deleted between its read and its replacement is created with the version that was read.\<close>

lemma recreated_with_version:
  assumes "iv_get K ns name s = (Inr existing, s1)" and "json_item existing ''metadata'' = Inr m" "json_item m ''resourceVersion'' = Inr rv"
    and "iv_replace K ns name (resource_body R (resource_metadata name ns tags anns @ [(''resourceVersion'', rv)]) spec) s1 =
      (Inl (ApiException (Some 404) e), s2)"
  shows "submit_custom_resource K R name ns spec tags anns s =
    iv_create K ns (resource_body R (resource_metadata name ns tags anns @ [(''resourceVersion'', rv)]) spec) s2"
  using assms by (simp add: submit_custom_resource_def Let_def bind_op_def catch_op_def return_op_def lift_res_def create_if_missing_def)

section \<open>Deployments\<close>

text \<open>The DNS name of a service.\<close>

definition service_dns :: "k8s_service \<Rightarrow> string" where
  "service_dns svc = svc_name svc @ ''.'' @ svc_namespace svc @ ''.svc.cluster.local''"

lemma inference_builder_settings:
  assumes "inference_app_builder b p = Inr a"
  shows "ab_settings a = ks_cleanroom (ib_settings b)" and "ab_debug_mode a = False"
    and "ab_ccr_proxy a = Some (443, if ps_batcher p = None then 8080 else 9081, ccr_proxy_fqdn b)"
proof -
  have f: "ab_settings (fold (\<lambda>d. AddStorage (ds_accessPoint d) (ds_ownerId d)) ds a) = ab_settings a"
    "ab_debug_mode (fold (\<lambda>d. AddStorage (ds_accessPoint d) (ds_ownerId d)) ds a) = ab_debug_mode a" for ds a
    by (induction ds arbitrary: a) (simp_all add: AddStorage_def)
  show "ab_settings a = ks_cleanroom (ib_settings b)" "ab_debug_mode a = False"
    "ab_ccr_proxy a = Some (443, if ps_batcher p = None then 8080 else 9081, ccr_proxy_fqdn b)"
    using assms
    by (auto simp: inference_app_builder_def bind_res_Inr_iff Let_def WithCcrProxyHttpsHttp_def f WithName_def
        new_app_builder_def WithContractId_def WithTelemetry_def WithGovernance_def split: if_splits option.splits)
qed

text \<open>What both variants keep of a sidecar's container.\<close>

definition same_container :: "container \<Rightarrow> container \<Rightarrow> bool" where
  "same_container c c' \<longleftrightarrow> c_name c = c_name c' \<and> c_command c = c_command c' \<and> c_ports c = c_ports c'"

lemma change_first_mem: "x \<in> set xs \<Longrightarrow> x \<in> set (change_first p f xs) \<or> f x \<in> set (change_first p f xs)"
  by (induction xs) auto

lemma virtual_init_keeps:
  assumes "c \<in> set cs" and "c_name c \<noteq> JStr ''cvm-attestation-agent''"
  shows "\<exists>c' \<in> set (virtual_init cfg cs). same_container c' c"
proof -
  let ?g = "\<lambda>c. c\<lparr>c_image := JStr (inf_virtual_governance_image cfg),
    c_env := c_env c @ [\<lparr>ev_name = JStr ''INSECURE_VIRTUAL_DIR'', ev_value = JStr ''/app/cvm/insecure-virtual/''\<rparr>]\<rparr>"
  let ?a = "\<lambda>c. c\<lparr>c_volume_mounts := filter (\<lambda>m. vm_name m \<noteq> JStr ''tpmrm0'') (c_volume_mounts c)\<rparr>"
  let ?cs1 = "change_first (\<lambda>c. c_name c = JStr ''ccr-governance'') ?g cs"
  let ?cs2 = "change_first (\<lambda>c. c_name c = JStr ''cvm-attestation-agent'') ?a ?cs1"
  obtain c1 where c1: "c1 \<in> set ?cs1" "same_container c1 c"
    using change_first_mem [OF assms(1), of "\<lambda>c. c_name c = JStr ''ccr-governance''" ?g]
    by (auto simp: same_container_def)
  obtain c2 where c2: "c2 \<in> set ?cs2" "same_container c2 c"
    using change_first_mem [OF c1(1), of "\<lambda>c. c_name c = JStr ''cvm-attestation-agent''" ?a] c1(2)
    by (auto simp: same_container_def)
  have "propagate_init ''Bidirectional'' c2 \<in> set (virtual_init cfg cs)"
    using c2 assms(2) by (auto simp: virtual_init_def same_container_def propagate_init_def)
  moreover have "same_container (propagate_init ''Bidirectional'' c2) c"
    using c2(2) by (simp add: same_container_def propagate_init_def)
  ultimately show ?thesis ..
qed

lemma confidential_init_keeps:
  assumes "map_res confidential_init cs = Inr cs'" and "c \<in> set cs"
  shows "\<exists>c' \<in> set cs'. same_container c' c"
proof -
  obtain i where i: "i < length cs" "cs ! i = c" using assms(2) by (auto simp: in_set_conv_nth)
  with map_res_nth [OF assms(1) i(1)] have "same_container (cs' ! i) c"
    by (auto simp: confidential_init_def bind_res_Inr_iff same_container_def dest!: sym [of "_\<lparr>c_volume_mounts := _\<rparr>"])
  with i map_res_length [OF assms(1)] show ?thesis by (metis nth_mem)
qed

lemma build_keeps_sidecars:
  assumes "inference_build E b pr s = (Inr app, t)"
  shows "\<exists>a scs u cs. inference_app_builder b (fst pr) = Inr a \<and> Build E a s = (Inr scs, u) \<and>
    ps_initContainers (ia_predictor app) = Some cs \<and>
    (\<forall>sc \<in> set scs. c_name (sc_container sc) = JStr ''cvm-attestation-agent'' \<or>
      (\<exists>c \<in> set cs. same_container c (sc_container sc)))"
proof -
  obtain app0 s0 where base: "base_build E b pr s = (Inr app0, s0)"
    using assms by (auto simp: inference_build_def bind_op_Inr_iff)
  then obtain a scs u where a: "inference_app_builder b (fst pr) = Inr a" "Build E a s = (Inr scs, u)"
    and init: "ps_initContainers (ia_predictor app0) = Some (map sc_container scs)"
    by (cases pr) (auto simp: base_build_def bind_op_Inr_iff split: if_splits)
  have "\<exists>cs. ps_initContainers (ia_predictor app) = Some cs \<and>
    (\<forall>sc \<in> set scs. c_name (sc_container sc) = JStr ''cvm-attestation-agent'' \<or> (\<exists>c \<in> set cs. same_container c (sc_container sc)))"
  proof (cases "ib_provider b = Inf_Virtual")
    case True
    then have "ps_initContainers (ia_predictor app) = Some (virtual_init (ks_cleanroom (ib_settings b)) (map sc_container scs))"
      using assms base init by (auto simp: inference_build_def bind_op_def virtual_predictor_def Let_def)
    then show ?thesis using virtual_init_keeps [of "sc_container _" "map sc_container scs"] by auto
  next
    case False
    then obtain cs where "ps_initContainers (ia_predictor app) = Some cs" "map_res confidential_init (map sc_container scs) = Inr cs"
      using assms base init
      by (auto simp: inference_build_def bind_op_Inr_iff confidential_predictor_def bind_res_Inr_iff)
    then show ?thesis using confidential_init_keeps by fastforce
  qed
  with a show ?thesis by blast
qed

lemma deploy_run:
  assumes "deploy_model K E ctx cfg job_id job ns en tags s = (Inr r, t)"
  obtains b p0 a scs s0 s1 s3 p cs where
    "ib_model_name b = ij_model_name job" "ib_namespace b = kf_namespace cfg" "ib_settings b = kf_settings cfg"
    "ps_batcher p0 = pi_batcher (ij_predictor job)" "inference_app_builder b p0 = Inr a" "Build E a s0 = (Inr scs, s1)"
    "submit_inference_service K (kf_resource cfg) (ij_model_name job) ns p tags None s3 = (Inr (), t)"
    "ps_initContainers p = Some cs"
    "\<forall>sc \<in> set scs. c_name (sc_container sc) = JStr ''cvm-attestation-agent'' \<or> (\<exists>c \<in> set cs. same_container c (sc_container sc))"
proof -
  let ?tel = "if en then Some (kf_telemetry cfg) else None"
  obtain app s2 p s3 where app: "to_inference_svc_spec E ctx cfg job_id job ?tel s = (Inr app, s2)"
    and sub: "submit_inference_service K (kf_resource cfg) (ij_model_name job) ns p tags None s3 = (Inr (), t)"
    and p: "ps_initContainers p = ps_initContainers (ia_predictor app)"
    using assms by (auto simp: deploy_model_def bind_op_Inr_iff Let_def)
  obtain b pr s0 where b: "ib_model_name b = ij_model_name job" "ib_namespace b = kf_namespace cfg" "ib_settings b = kf_settings cfg"
    and pr: "ps_batcher (fst pr) = pi_batcher (ij_predictor job)" and bu: "inference_build E b pr s0 = (Inr app, s2)"
  proof -
    obtain b0 where b0: "get_inference_svc_builder ctx (kf_provider cfg) job (kf_settings cfg)
        (case ?tel of None \<Rightarrow> default_telemetry | Some t \<Rightarrow> t) = Inr b0"
      using app by (auto simp: to_inference_svc_spec_def convert_to_inference_svc_spec_def bind_op_Inr_iff)
    let ?b = "b0\<lparr>ib_app_name := to_kserve_app_name job_id, ib_allow_all := True, ib_namespace := kf_namespace cfg,
      ib_model_dir := (case ij_model_dir job of Some (c # d) \<Rightarrow> Some (c # d) | _ \<Rightarrow> None),
      ib_model_name := ij_model_name job, ib_placement := ij_placement job\<rparr>"
    obtain pr s0 where "get_predictor E ?b (ij_predictor job) s = (Inr pr, s0)"
      "inference_build E (?b\<lparr>ib_datasets := ij_datasets job\<rparr>) pr s0 = (Inr app, s2)"
      using app b0 by (auto simp: to_inference_svc_spec_def convert_to_inference_svc_spec_def bind_op_Inr_iff Let_def)
    moreover from this(1) have "ps_batcher (fst pr) = pi_batcher (ij_predictor job)"
      by (auto simp: get_predictor_def bind_op_Inr_iff Let_def base_predictor_def split: option.splits if_splits)
    moreover have "ib_settings b0 = kf_settings cfg"
      using b0 by (auto simp: get_inference_svc_builder_def split: if_splits)
    ultimately show ?thesis by (intro that [of "?b\<lparr>ib_datasets := ij_datasets job\<rparr>" pr s0]) simp_all
  qed
  from build_keeps_sidecars [OF bu] obtain a scs u cs where "inference_app_builder b (fst pr) = Inr a" "Build E a s0 = (Inr scs, u)"
    "ps_initContainers p = Some cs" "\<forall>sc \<in> set scs. c_name (sc_container sc) = JStr ''cvm-attestation-agent'' \<or>
      (\<exists>c \<in> set cs. same_container c (sc_container sc))"
    by (auto simp: p)
  with b pr sub show ?thesis by (intro that [of b "fst pr" a s0 scs u p s3 cs])
qed

text \<open>What the documents and the reads of the cluster do to the state is in a relation \<open>R\<close>.\<close>

definition reads_only :: "('s \<Rightarrow> 's \<Rightarrow> bool) \<Rightarrow> 's isvc_api \<Rightarrow> 's doc_api \<Rightarrow> bool" where
  "reads_only R K E \<longleftrightarrow> preorder_rel R \<and> (\<forall>p. steps R (make_dirs E p)) \<and> (\<forall>b u d. steps R (oras_pull E b u d)) \<and>
    (\<forall>p. steps R (load_yaml E p)) \<and> (\<forall>u j. steps R (iv_post K u j))"

lemma reads_only_steps:
  assumes "reads_only R K E"
  shows "steps R (return_op x)" "steps R (raise_op e)" "steps R (lift_res r)" "steps R (Pair y)"
    "steps R m \<Longrightarrow> (\<And>x. steps R (g x)) \<Longrightarrow> steps R (bind_op m g)"
    "steps R m' \<Longrightarrow> steps R (cached_pull E p m')"
    "(\<And>x a. steps R (k x a)) \<Longrightarrow> steps R (fold_op k xs acc)"
    "steps R (make_dirs E p)" "steps R (oras_pull E i u d)" "steps R (load_yaml E p)" "steps R (iv_post K u j)"
proof -
  have R: "preorder_rel R" using assms by (simp add: reads_only_def)
  show i: "steps R (return_op x)" "steps R (raise_op e)" "steps R (lift_res r)"
    "steps R m \<Longrightarrow> (\<And>x. steps R (g x)) \<Longrightarrow> steps R (bind_op m g)" for x e r m g
    by (auto intro: steps_intros [OF R])
  show "steps R (Pair y)" "steps R m' \<Longrightarrow> steps R (cached_pull E p m')"
    using R by (auto simp: steps_def preorder_rel_def cached_pull_def)
  show "(\<And>x a. steps R (k x a)) \<Longrightarrow> steps R (fold_op k xs acc)"
  proof (induction xs arbitrary: acc)
    case (Cons x xs)
    have "steps R (bind_op (k x acc) (fold_op k xs))"
      by (rule steps_intros(4) [OF R]) (use Cons in auto)
    then show ?case by simp
  qed (use steps_intros(1) [OF R] in simp)
qed (use assms in \<open>simp_all add: reads_only_def\<close>)

lemma Build_steps:
  assumes "reads_only R K E"
  shows "steps R (Build E a)"
proof -
  note s = reads_only_steps [OF assms]
  have sidecar: "steps R (get_sidecar E a n vars)" for n vars
    unfolding get_sidecar_def get_sidecar_policy_document_def get_sidecars_version_def Let_def by (intro s)
  have blob: "steps R (get_blobfuse_sidecar E a ap mp n tm vm port)" for ap mp n tm vm port
    unfolding get_blobfuse_sidecar_def by (auto intro!: s sidecar split: prod.split)
  have s3: "steps R (get_s3fs_sidecar E a ap mp n tm vm)" for ap mp n tm vm
    unfolding get_s3fs_sidecar_def by (intro s sidecar)
  have storage: "steps R (storage_sidecars E a)"
    unfolding storage_sidecars_def add_storage_item_def Let_def
    by (auto intro!: s blob s3 split: option.split prod.split)
  show ?thesis
    unfolding Build_def governance_sidecars_def get_otel_sidecar_def get_skr_sidecar_def get_ccr_governance_sidecar_def
      get_cvm_attestation_agent_sidecar_def get_ccr_proxy_sidecar_def get_identity_sidecar_def
    by (auto intro!: s sidecar storage split: option.split prod.split)
qed

lemma convert_steps:
  assumes "reads_only R K E"
  shows "steps R (to_inference_svc_spec E ctx cfg job_id job tel)" and "steps R (sign_policy K payload)"
proof -
  note s = reads_only_steps [OF assms]
  have "steps R (get_predictor E b inp)" for b inp
    unfolding get_predictor_def resolve_container_image_def get_runtime_digests_def Let_def
    by (auto intro!: s split: option.split)
  moreover have "steps R (inference_build E b pr)" for b pr
    unfolding inference_build_def base_build_def get_inferencing_pod_policy_def get_cvm_measurements_def Let_def
    by (auto intro!: s Build_steps [OF assms] split: prod.split)
  ultimately show "steps R (to_inference_svc_spec E ctx cfg job_id job tel)"
    unfolding to_inference_svc_spec_def convert_to_inference_svc_spec_def Let_def by (intro s)
  show "steps R (sign_policy K payload)"
    unfolding sign_policy_def by (auto intro!: s split: prod.split)
qed


lemma create_service_asked:
  assumes "create_ccr_proxy_service K name ns owner s = (Inr (), t)"
  shows "\<exists>x. iv_create_service K ns (ccr_proxy_service name ns owner) s = (x, t)"
proof (cases "iv_create_service K ns (ccr_proxy_service name ns owner) s")
  case (Pair r u)
  with assms show ?thesis
    by (cases r) (auto simp: create_ccr_proxy_service_def catch_op_def split: exc.splits if_splits)
qed


section \<open>A concrete deployment\<close>

text \<open>All documents are on disk; the state is the list of resources created in the cluster.\<close>

definition inf_files :: "(string, json) dict" where
  "inf_files =
    [(''/tmp/sidecar-digests.yaml'', JArr [sample_versions ''ccr-proxy-https-http'' ''d1'']),
     (''/tmp/p.yaml'', sample_document),
     (''/tmp/inf-runtime-digests.yaml'', JArr [JObj [(''runtime'', JStr ''llamacpp-server''), (''image'', JStr ''llama''),
        (''digest'', JStr ''sha'')]]),
     (''/tmp/cvm-measurements.yaml'', JObj [(''cvm'', JObj [(''pcrs'', JObj [])])])]"

definition inf_docs :: "json list doc_api" where
  "inf_docs =
    \<lparr>temp_dir = ''/tmp'', path_exists = (\<lambda>p s. True), make_dirs = (\<lambda>p. return_op ()),
     oras_pull = (\<lambda>i u d. return_op ()),
     load_yaml = (\<lambda>p. lift_res (case map_of inf_files p of None \<Rightarrow> Inl (FileNotFoundError p) | Some j \<Rightarrow> Inr j))\<rparr>"

definition inf_api :: "json list isvc_api" where
  "inf_api =
    \<lparr>iv_get = (\<lambda>ns n s. (if s = [] then Inl (ApiException (Some 404) '''')
       else Inr (JObj [(''metadata'', JObj [(''uid'', JStr ''u''), (''resourceVersion'', JStr ''1'')])]), s)),
     iv_replace = (\<lambda>ns n b s. (Inr (), [b])), iv_create = (\<lambda>ns b s. (Inr (), s @ [b])),
     iv_create_service = (\<lambda>ns v. return_op ()), iv_spec_dict = (\<lambda>p. JObj []), iv_validate = (\<lambda>m st. Inr None),
     iv_post = (\<lambda>u j. return_op (200, Inr (JObj [(''value'', JStr ''sig'')]))), iv_time = return_op 1,
     iv_getenv = (\<lambda>k. None), iv_file_exists = (\<lambda>p s. False), iv_file_read = (\<lambda>p. raise_op (FileNotFoundError p)),
     iv_str_exc = (\<lambda>e. ''error'')\<rparr>"

definition inf_config :: kserve_config where
  "inf_config =
    \<lparr>kf_settings = \<lparr>ks_cleanroom = \<lparr>registry_url = ''mcr'', sidecars_policy_document_registry_url = ''mcr'',
         versions_document = ''v'', use_http = False\<rparr>, ks_cvm_measurements_document = ''m'', ks_runtime_digests_document = ''r''\<rparr>,
     kf_provider = Inf_ConfidentialVM,
     kf_resource = \<lparr>ir_group = ''serving.kserve.io'', ir_version = ''v1beta1'', ir_kind = ''inferenceservice'', ir_plural = ''inferenceservices''\<rparr>,
     kf_namespace = ''inf'', kf_policy_file = [], kf_debug_mode = False, kf_allow_all = False, kf_telemetry = default_telemetry\<rparr>"

definition inf_job :: inferencing_job where
  "inf_job =
    \<lparr>ij_contract_id = ''c'', ij_model_name = ''m'',
     ij_predictor = \<lparr>pi_model = \<lparr>mi_runtime = Some ''llamacpp-server'', mi_args = None, mi_resources = None, mi_env = None\<rparr>,
       pi_min_replicas = None, pi_max_replicas = None, pi_timeout = None, pi_batcher = None, pi_deployment_strategy = JNull,
       pi_scale_metric_type = None, pi_auto_scaling = None\<rparr>,
     ij_model_dir = Some ''model'', ij_datasets = [], ij_governance = None, ij_placement = None\<rparr>"

lemma inf_reads:
  "load_yaml inf_docs p s = (case map_of inf_files p of None \<Rightarrow> Inl (FileNotFoundError p) | Some j \<Rightarrow> Inr j, s)"
  "cached_pull inf_docs p m s = (Inr (), s)" "temp_dir inf_docs = ''/tmp''"
  by (simp_all add: inf_docs_def cached_pull_def lift_res_def)

lemma inf_sidecar:
  assumes "plain_vars vars" and "registry_url (ab_settings a) = ''mcr''" "ab_debug_mode a = False"
  shows "get_sidecar inf_docs a ''ccr-proxy-https-http'' vars s = (Inr (sample_sidecar ''d1''), s)"
proof -
  let ?vars = "AList.update ''digest'' ''d1'' (AList.update ''containerRegistryUrl'' ''mcr'' vars)"
  have "plain_vars ?vars" using assms(1) by (auto intro!: plain_vars_update simp: json_plain_def)
  then have m: "make_sidecar False sample_document ?vars = Inr (sample_sidecar ''d1'')"
    by (rule make_sample_sidecar) simp
  have v: "get_sidecars_version inf_docs cfg s = (Inr (JArr [sample_versions ''ccr-proxy-https-http'' ''d1'']), s)" for cfg
    by (simp add: get_sidecars_version_def Let_def bind_op_def inf_reads path_join_def inf_files_def)
  have f: "find_sidecar_version ''ccr-proxy-https-http'' (JArr [sample_versions ''ccr-proxy-https-http'' ''d1'']) =
      Inr (sample_versions ''ccr-proxy-https-http'' ''d1'')"
    by (simp add: find_sidecar_version_def json_iter_def sample_versions_items)
  have "get_sidecar_policy_document inf_docs cfg ''ccr-proxy-https-http'' s = (Inr sample_document, s)" for cfg
    by (simp add: get_sidecar_policy_document_def Let_def bind_op_def v f sample_versions_items json_as_str_def inf_reads
        path_join_def inf_files_def)
  with m assms show ?thesis
    by (simp add: get_sidecar_def bind_op_def v f sample_versions_items)
qed

lemma inf_build:
  assumes "ab_settings a = ks_cleanroom (kf_settings inf_config)" and "ab_debug_mode a = False"
    and "\<not> telemetry_collection_enabled (ab_telemetry a)" and "\<not> ab_governance_required a" and "ab_storage_items a = []"
    and "ab_ccr_proxy a = Some (443, 8080, f)" and "list_all json_plain f"
  shows "Build inf_docs a s = (Inr [sample_sidecar ''d1''], s)"
proof -
  have "plain_vars (proxy_vars 443 8080 f)"
    using assms(7) by (simp add: plain_vars_def proxy_vars_def str_int_plain json_plain_def)
  then have "get_ccr_proxy_sidecar inf_docs a 443 8080 f s = (Inr (sample_sidecar ''d1''), s)"
    using assms(1,2) by (simp add: get_ccr_proxy_sidecar_def inf_sidecar inf_config_def)
  moreover have "storage_sidecars inf_docs a s =
      (Inr \<lparr>sa_identities = [], sa_blobfuse = [], sa_s3fs = [], sa_next_port = BLOBFUSE_READINESS_PORT_START\<rparr>, s)"
    using assms(5) by (simp add: storage_sidecars_def return_op_def)
  ultimately show ?thesis
    using assms(3-6) by (simp add: Build_def bind_op_def governance_sidecars_def return_op_def)
qed

lemma inf_converted: "\<exists>app. to_inference_svc_spec inf_docs [] inf_config ''job'' inf_job None s = (Inr app, s)"
proof -
  have dig: "get_runtime_digests inf_docs cfg s = (Inr (JArr [JObj [(''runtime'', JStr ''llamacpp-server''), (''image'', JStr ''llama''),
      (''digest'', JStr ''sha'')]]), s)" for cfg s
    by (simp add: get_runtime_digests_def Let_def bind_op_def inf_reads path_join_def inf_files_def)
  have cvm: "get_cvm_measurements inf_docs cfg s = (Inr (JObj [(''cvm'', JObj [(''pcrs'', JObj [])])]), s)" for cfg s
    by (simp add: get_cvm_measurements_def Let_def bind_op_def inf_reads path_join_def inf_files_def)
  have img: "resolve_container_image inf_docs cfg ''llamacpp-server'' s = (Inr ''llama@sha'', s)" for cfg s
    by (simp add: resolve_container_image_def bind_op_def dig json_iter_def json_get_def json_str_def)
  have pol: "bind_res (b64decode INF_ALLOW_ALL_POLICY_BASE64) utf8_decode = Inr (json_dumps (JArr [JStr ''allowall'']))" by code_simp
  have name: "to_kserve_app_name ''job'' \<noteq> []" by (simp add: to_kserve_app_name_def)
  let ?b = "\<lparr>ib_provider = Inf_ConfidentialVM, ib_settings = kf_settings inf_config, ib_telemetry = default_telemetry, ib_governance = None,
    ib_app_name = to_kserve_app_name ''job'', ib_contract_id = ''c'', ib_trace_context = [], ib_allow_all = True,
    ib_model_dir = Some ''model'', ib_model_name = ''m'', ib_namespace = ''inf'', ib_placement = None, ib_datasets = []\<rparr>"
  let ?p = "(base_predictor ?b (ij_predictor inf_job) ''llamacpp-server'' ''llama@sha'')\<lparr>ps_hostNetwork := Some True\<rparr>"
  obtain a where a: "inference_app_builder ?b ?p = Inr a" "Build inf_docs a s = (Inr [sample_sidecar ''d1''], s)"
  proof -
    obtain a where a: "inference_app_builder ?b ?p = Inr a" "\<not> telemetry_collection_enabled (ab_telemetry a)"
      "\<not> ab_governance_required a" "ab_storage_items a = []"
      by (simp add: inference_app_builder_def name WithName_def new_app_builder_def WithContractId_def WithCcrProxyHttpsHttp_def
          default_telemetry_def Let_def)
    have "Build inf_docs a s = (Inr [sample_sidecar ''d1''], s)"
      by (rule inf_build [where f = "ccr_proxy_fqdn ?b"])
        (use a inference_builder_settings [OF a(1)] in \<open>simp_all add: base_predictor_def inf_job_def ccr_proxy_fqdn_def json_plain_def\<close>)
    with a(1) show ?thesis by (rule that)
  qed
  have "\<exists>app. inference_build inf_docs ?b (?p, ''llamacpp-server'') s = (Inr app, s)"
    by (simp add: inference_build_def base_build_def bind_op_def a name get_inferencing_pod_policy_def pol cvm first_pcrs_def
        confidential_predictor_def confidential_init_def sample_sidecar_def return_op_def lift_res_def)
  moreover have "get_predictor inf_docs (?b\<lparr>ib_datasets := []\<rparr>) (ij_predictor inf_job) s = (Inr (?p, ''llamacpp-server''), s)"
    by (simp add: get_predictor_def inf_job_def SUPPORTED_RUNTIMES_def bind_op_def img base_predictor_def empty_predictor_def return_op_def)
  moreover have "get_inference_svc_builder [] (kf_provider inf_config) inf_job (kf_settings inf_config) default_telemetry =
      Inr (?b\<lparr>ib_app_name := [], ib_allow_all := False, ib_model_dir := None, ib_model_name := [], ib_namespace := []\<rparr>)"
    by (simp add: get_inference_svc_builder_def inf_config_def inf_job_def)
  moreover have "kf_namespace inf_config = ''inf''" "ij_model_dir inf_job = Some ''model''" "ij_model_name inf_job = ''m''"
    "ij_placement inf_job = None" "ij_datasets inf_job = []"
    by (simp_all add: inf_config_def inf_job_def)
  ultimately show ?thesis
    by (simp add: to_inference_svc_spec_def convert_to_inference_svc_spec_def bind_op_def Let_def)
qed

lemma inf_deployed: "\<exists>b. deploy_model inf_api inf_docs [] inf_config ''job'' inf_job ''inf'' False None [] = (Inr (success_reply ''m''), [b])"
proof -
  obtain app where app: "to_inference_svc_spec inf_docs [] inf_config ''job'' inf_job None [] = (Inr app, [])" using inf_converted by blast
  have sig: "sign_policy inf_api INF_ALLOW_ALL_POLICY_BASE64 s = (Inr (JStr ''sig''), s)" for s
    by (simp add: sign_policy_def inf_api_def bind_op_def return_op_def json_get_def)
  have sub: "\<exists>b. submit_inference_service inf_api R n ns p tags anns [] = (Inr (), [b])" for R n ns p tags anns
    by (simp add: submit_inference_service_def submit_custom_resource_def owner_ref_def create_ccr_proxy_service_def
        create_if_missing_def inf_api_def bind_op_def catch_op_def return_op_def Let_def)
  let ?p = "(ia_predictor app)\<lparr>ps_annotations := Some [(''api-server-proxy.io/policy'', JStr INF_ALLOW_ALL_POLICY_BASE64),
      (''api-server-proxy.io/signature'', JStr ''sig'')]\<rparr>"
  obtain b where "submit_inference_service inf_api (kf_resource inf_config) (ij_model_name inf_job) ''inf'' ?p None None [] = (Inr (), [b])"
    using sub by blast
  then have "deploy_model inf_api inf_docs [] inf_config ''job'' inf_job ''inf'' False None [] =
      (Inr (success_reply (ij_model_name inf_job)), [b])"
    by (simp add: deploy_model_def bind_op_def Let_def app sig return_op_def)
  moreover have "ij_model_name inf_job = ''m''" by (simp add: inf_job_def)
  ultimately show ?thesis by (intro exI [of _ b]) simp
qed

lemma inf_reads_only: "reads_only (\<lambda>s t. t = s) inf_api inf_docs"
  by (auto simp: reads_only_def preorder_rel_def steps_def inf_api_def inf_docs_def return_op_def lift_res_def)



end
