(* ===== verification/Spec2Isabelle.thy ===== *)
theory Spec2Isabelle
  imports Named_Stores Frontend Query_Runner Code_Launcher Inferencing
begin

text \<open>
  Verification of the Python parts of Azure Clean Room: the services that build, submit, admit and
  run confidential workloads.

  \<^bold>\<open>The program.\<close> A job arrives at the Spark frontend (\<^verbatim>\<open>cleanroom_spark_frontend/main.py\<close>). Its
  converter turns the job into a Spark application with the builder of the workload and the builder
  of the sidecars; the Kubernetes client stores the confidential computing policies of driver and
  executor in config maps and creates the application. When the Spark operator creates the pods, the
  two admission webhooks choose a node and inject the policy. In the driver pod the sidecars mount
  the storage; the launcher of the analytics application waits for the mounts and starts the query
  runner, which loads the datasets, runs the query's segments under their enforcements, writes the
  result and reports events, statistics and audit records, through the frontend, back to the cluster.
  The frontend's status handler finally adds the run to the job record of the query. A second frontend
  (\<^verbatim>\<open>kserve_inferencing_frontend/main.py\<close>) deploys models as KServe inference services with the same
  sidecar builder. A clean room outside Kubernetes has the code launcher in place of Spark: it runs one
  container under the consent of the governance service. The command line extension keeps the data
  stores, secret stores, collaborations and identities from which the specifications of the datasets
  are made.

  \<^bold>\<open>How the code is modelled.\<close> An exception is a value of \<open>exc\<close>; a function that may raise returns
  \<open>'a res\<close>; a method with effects is an \<open>('s, 'a) op\<close>, explicit passing of an arbitrary state that is
  kept also when it raises. A class with data is a record, an enumeration a datatype, a dict an
  association list in insertion order, an unbounded integer an \<open>int\<close>. Third-party code (Kubernetes,
  Spark, Podman, HTTP, pydantic, the operating system) is a record of operations over that state, which
  the definitions take as an argument; what a theorem needs of it is a named predicate, shown to be
  satisfiable by a concrete instance in the theorem's witness. Definitions keep the names of the
  source; a suffix or prefix resolves clashes.

  \<^bold>\<open>The theories.\<close>
  \<^item> \<^verbatim>\<open>Prelude\<close>: exceptions, the result and operation monads, operations whose state changes lie in a
    relation (\<open>steps\<close>), dictionaries, Python's string functions.
  \<^item> \<^verbatim>\<open>Codec\<close>, \<^verbatim>\<open>Json\<close>, \<^verbatim>\<open>Template\<close>, \<^verbatim>\<open>Py_Data\<close>: UTF-8 and base64, the json module with its round trip,
    \<^verbatim>\<open>string.Template\<close> with \<^verbatim>\<open>replace_vars\<close>, operations on decoded values, \<^verbatim>\<open>urlparse\<close>.
  \<^item> \<^verbatim>\<open>Cleanroom_Models\<close>, \<^verbatim>\<open>Named_Stores\<close>: \<^verbatim>\<open>azure_cleanroom_core/models\<close> and \<^verbatim>\<open>identity_manager.py\<close>. The
    locale \<open>named_store\<close> is the contract of the stores, interpreted for data stores, secret stores
    and collaborations; the reachable states of a collaboration specification are an inductive
    relation. Shown: lookups after any adds return the first entry of a name, the active
    collaboration is never dangling, access points carry the right secrets.
  \<^item> \<^verbatim>\<open>App_Builder\<close>: \<^verbatim>\<open>frontend_internal/cleanroom_application_builder.py\<close>. Shown: the order of the
    sidecars, one readiness port per mount, no mount whose encryption cannot be honoured, the
    arguments of the identity sidecar, and that a mount's command is the one its policy allows.
  \<^item> \<^verbatim>\<open>Spark_Builder\<close>: \<^verbatim>\<open>builders/\<close>, \<^verbatim>\<open>utilities/job_converters.py\<close>. Shown: the policies cover exactly the
    containers of a pod, confidential pods carry the labels of the webhooks, the job's configuration
    is pinned by the policy, names are valid.
  \<^item> \<^verbatim>\<open>Kube_Client\<close>, \<^verbatim>\<open>Job_Records\<close>: \<^verbatim>\<open>clients/\<close>. Shown: adding a run to a record is atomic with other
    clients writing at any moment, the history of a record, the retries after conflicts.
  \<^item> \<^verbatim>\<open>Scheduler\<close>, \<^verbatim>\<open>Webhooks\<close>: \<^verbatim>\<open>webhooks/\<close>. The locale \<open>enforcer_contract\<close> is the abstract class of the
    constraints, \<open>pod_handler\<close> that of the webhook handlers, interpreted for both of them. Shown: the
    policy webhook admits no pod without a policy, the scheduler takes a least loaded node, a webhook
    always answers.
  \<^item> \<^verbatim>\<open>Frontend\<close>: \<^verbatim>\<open>main.py\<close> and \<^verbatim>\<open>clients/ai_optimizer_client.py\<close>. Shown: polling records a run at most
    once and atomically, statistics survive the way to the record, the status is answered whatever
    the recording does, error codes, the attestation report binds the certificate.
  \<^item> \<^verbatim>\<open>Contracts\<close>, \<^verbatim>\<open>Reporters\<close>, \<^verbatim>\<open>Dataset_Loader\<close>, \<^verbatim>\<open>Query_Runner\<close>: \<^verbatim>\<open>analytics_contracts\<close> and
    \<^verbatim>\<open>analytics_workload\<close>. The locale \<open>reporting\<close> is the interface of the reporting adapters,
    interpreted for the HTTP and the mock ones. Shown: only allowed fields are loaded and written,
    the output has the schema of the data sink, preconditions and post filters are enforced, the
    order of the segments, one audit record per query run, the days a range of dates loads.
  \<^item> \<^verbatim>\<open>Mounts\<close>: \<^verbatim>\<open>blobfuse_launcher\<close>, \<^verbatim>\<open>s3fs_launcher\<close> and \<^verbatim>\<open>cleanroom_internal/utilities\<close>. Shown: the
    handshake between a launcher and a process that waits for its mount.
  \<^item> \<^verbatim>\<open>Code_Launcher\<close>: \<^verbatim>\<open>code_launcher\<close>. Shown: no container is created or started and nothing exported
    without the consent of the right scope, containers mount their sources read-only, a failing start
    is not reported.
  \<^item> \<^verbatim>\<open>Inferencing\<close>: \<^verbatim>\<open>kserve_inferencing_frontend\<close>. Shown: nothing is deployed before the governance
    sidecar signed the policy, and the deployed service carries that signature; the TLS proxy of a
    model answers under the name and port of the service that is created for it.
  \<^item> This theory holds what spans components: the policy computed when a job is submitted is the one
    the webhook injects into its pods; which data stores can be mounted; under which names an
    application finds its mounts.

  \<^bold>\<open>Bounds and termination.\<close> Every function is total. The retry loops have the source's own numbers of
  attempts: five for a job record, eighteen for a service, five or ten or twelve for a mount, twelve
  for Podman. The loop over dates and the substitution of templates have termination proofs. The
  parser of JSON starts with twice the length of its input as fuel, which is shown to be enough.

  \<^bold>\<open>Limits of the model.\<close> Strings have code points below 256. JSON numbers are integers. Floats are an
  arbitrary type where the code computes with them, and texts where it only prints them. Logs,
  metrics and traces are left out, as they have no effect on results. Handlers and coroutines run
  one after the other; other clients of the cluster may act between any two calls where a theorem
  says so.

  \<^bold>\<open>Not modelled.\<close> The start-up and the middleware of the servers; the commands of the command line
  extension, the helpers that fill ARM templates, the client and the tools around them, which mostly
  run other programs and call Azure; generated clients and vendored packages; the set-up of
  telemetry; and the services in C#, Go, TypeScript and Rego.
\<close>


section \<open>From a submitted job to the policy of its pods\<close>

text \<open>
  The pod the Spark operator creates from a pod specification: its labels and annotations hold
  those of the specification, possibly beside others.
\<close>

definition holds_dict :: "json \<Rightarrow> (string, string) dict option \<Rightarrow> bool" where
  "holds_dict j d \<longleftrightarrow> (\<exists>kvs. j = JObj kvs \<and> (case d of None \<Rightarrow> True
     | Some ps \<Rightarrow> \<forall>k v. map_of ps k = Some v \<longrightarrow> map_of kvs k = Some (JStr v)))"

definition pod_from :: "'a spark_pod_spec_scheme \<Rightarrow> json \<Rightarrow> bool" where
  "pod_from spec pd \<longleftrightarrow> (\<exists>kvs md ls an. pd = JObj kvs \<and> map_of kvs ''metadata'' = Some (JObj md) \<and>
     map_of md ''labels'' = Some ls \<and> map_of md ''annotations'' = Some an \<and>
     holds_dict ls (labels spec) \<and> holds_dict an (annotations spec))"

text \<open>The policy webhook, as the service configures it, admits the pod with exactly this policy.\<close>

definition admission_request :: "json \<Rightarrow> json \<Rightarrow> json" where
  "admission_request uid pd = JObj [(''request'', JObj [(''uid'', uid), (''object'', pd)])]"

definition injects :: "('s, 'd, 'f) frontend \<Rightarrow> 's \<Rightarrow> json \<Rightarrow> cce_policy \<Rightarrow> bool" where
  "injects F s pd pol \<longleftrightarrow> (\<forall>uid. \<exists>r t.
     handle_request (fe_str_exc F) (policy_handle_request (fe_str_exc F) (fe_kube F) CCE_POLICY_CONFIG_MAP_ANNOTATION
       CCE_POLICY_CONFIG_MAP_POLICY_KEY CCE_POLICY_ANNOTATION_NAME_LABEL) (admission_request uid pd) s = (Inr r, t) \<and>
     response_allowed r \<and>
     response_patch r = Inr (Some (add_patch (''/metadata/annotations/'' @ CCE_POLICY_ANNOTATION_VALUE)
       (JStr (rego_base64 pol)))))"

definition policy_reference :: "string \<Rightarrow> string \<Rightarrow> string" where
  "policy_reference ns cm = b64encode (json_dumps (JObj [(''name'', JStr cm), (''namespace'', JStr ns)]))"

lemma injects_stored_policy:
  assumes C: "cm_contract (fe_kube F) view" and ne: "ns \<noteq> []" "cm \<noteq> []" "rego_base64 pol \<noteq> []"
    and stored: "view s (ns, cm) = Some [(CCE_POLICY_CONFIG_MAP_POLICY_KEY, rego_base64 pol)]"
    and pod: "pod_from spec pd" "webhook_labels (labels spec)"
    and ref: "annotations spec = Some an" "map_of an CCE_POLICY_CONFIG_MAP_ANNOTATION = Some (policy_reference ns cm)"
  shows "injects F s pd pol"
  unfolding injects_def
proof
  fix uid
  obtain ls where ls: "labels spec = Some ls" "map_of ls CCE_POLICY_ANNOTATION_NAME_LABEL = Some CCE_POLICY_ANNOTATION_VALUE"
    using pod(2) by (auto simp: webhook_labels_def split: option.splits)
  obtain kvs md lj aj where p: "pd = JObj kvs" "map_of kvs ''metadata'' = Some (JObj md)"
    "map_of md ''labels'' = Some (JObj lj)" "map_of md ''annotations'' = Some (JObj aj)"
    "map_of lj CCE_POLICY_ANNOTATION_NAME_LABEL = Some (JStr CCE_POLICY_ANNOTATION_VALUE)"
    "map_of aj CCE_POLICY_CONFIG_MAP_ANNOTATION = Some (JStr (policy_reference ns cm))"
    using pod(1) ls ref by (auto simp: pod_from_def holds_dict_def)
  obtain t where t: "get_key_from_config_map (fe_kube F) cm ns CCE_POLICY_CONFIG_MAP_POLICY_KEY s =
      (Inr (Some (rego_base64 pol)), t)"
    using get_key_stored [OF C stored, of CCE_POLICY_CONFIG_MAP_POLICY_KEY] ne(3) by auto
  have ref_text: "json_truthy (JStr (policy_reference ns cm))" by (simp add: json_truthy_def policy_reference_def)
  have inj: "inject_policy (fe_kube F) CCE_POLICY_CONFIG_MAP_POLICY_KEY CCE_POLICY_ANNOTATION_NAME_LABEL pn
      (JStr (policy_reference ns cm)) (JObj lj) s =
    (Inr (True, ''Policy injected into pod '' @ json_str pn,
       Some (json_dumps (add_patch (''/metadata/annotations/'' @ CCE_POLICY_ANNOTATION_VALUE) (JStr (rego_base64 pol))))), t)" for pn
    using t ne
    by (simp add: inject_policy_def policy_reference_def json_b64decode_def b64encode_ascii utf8_decode_ascii bind_op_def
        json_get_dict json_truthy_def get_policy_from_config_map_def p(5) json_str_def add_patch_def
        CCE_POLICY_ANNOTATION_VALUE_def)
  have pd: "json_truthy pd" using p(1,2) by (auto simp: json_truthy_def)
  show "\<exists>r t. handle_request (fe_str_exc F) (policy_handle_request (fe_str_exc F) (fe_kube F) CCE_POLICY_CONFIG_MAP_ANNOTATION
       CCE_POLICY_CONFIG_MAP_POLICY_KEY CCE_POLICY_ANNOTATION_NAME_LABEL) (admission_request uid pd) s = (Inr r, t) \<and>
     response_allowed r \<and>
     response_patch r = Inr (Some (add_patch (''/metadata/annotations/'' @ CCE_POLICY_ANNOTATION_VALUE)
       (JStr (rego_base64 pol))))"
    using pd p ref_text inj
    by (simp add: handle_request_def policy_handle_request_def admission_request_def bind_op_def catch_op_def json_get_dict
        add_patch_def)
qed

lemma utf8_encode_empty [simp]: "utf8_encode s = [] \<longleftrightarrow> s = []"
  by (cases s) (auto simp: utf8_encode_def utf8_char_def Let_def)

lemma containers_rego_nonempty: "containers_rego pre post (p # ps) \<noteq> []"
proof -
  have "json_dumps_canonical p \<noteq> []" by (cases p) (auto simp: json_dumps_canonical_def json_quote_def str_int_def)
  then show ?thesis by (cases ps) (auto simp: containers_rego_def)
qed

lemma sql_policies_nonempty:
  assumes "rego_template V pre post" and "sc_compute_provider cfg = ConfidentialVirtualNode"
    and "\<not> an_allow_all (sc_analytics cfg)"
    and "sql_to_spark_spec V cfg job_id job tel sku s = (Inr app, t)"
  shows "rego_base64 (csa_driver_policy app) \<noteq> []" "rego_base64 (csa_executor_policy app) \<noteq> []"
    "webhook_labels (labels (sas_driver (csa_spec app)))" "webhook_labels (labels (sas_executor (csa_spec app)))"
proof -
  obtain jc s1 where c: "convert_to_spark_spec V (sc_cleanroom cfg) ConfidentialVirtualNode (to_spark_app_name job_id) job
      \<lparr>sjs_application_image = an_image (sc_analytics cfg), sjs_application_file = an_application_file (sc_analytics cfg),
       sjs_policy_file = an_policy_file (sc_analytics cfg),
       sjs_sku = (case sku of None \<Rightarrow> an_sql (sc_analytics cfg) | Some k \<Rightarrow> k),
       sjs_debug_mode = an_debug_mode (sc_analytics cfg), sjs_allow_all = an_allow_all (sc_analytics cfg)\<rparr>
      (sql_env_vars (sc_service_url cfg) job_id job jc) tel s1 = (Inr app, t)"
    using assms(2,4) by (auto simp: sql_to_spark_spec_def Let_def bind_op_Inr_iff)
  show "rego_base64 (csa_driver_policy app) \<noteq> []" "rego_base64 (csa_executor_policy app) \<noteq> []"
    by (rule confidential_policies [OF assms(1) c], simp add: assms(3),
        simp add: policy_of_rego_def containers_rego_nonempty)+
  show "webhook_labels (labels (sas_driver (csa_spec app)))" "webhook_labels (labels (sas_executor (csa_spec app)))"
    using convert_webhook_labels [OF c] by simp_all
qed

lemma annotated_references:
  assumes "annotate_policies ns app = Inr app'"
  shows "labels (sas_driver (csa_spec app')) = labels (sas_driver (csa_spec app))"
    and "labels (sas_executor (csa_spec app')) = labels (sas_executor (csa_spec app))"
    and "\<exists>an. annotations (sas_driver (csa_spec app')) = Some an \<and>
      map_of an CCE_POLICY_CONFIG_MAP_ANNOTATION = Some (policy_reference ns (driver_config_map_name app))"
    and "\<exists>an. annotations (sas_executor (csa_spec app')) = Some an \<and>
      map_of an CCE_POLICY_CONFIG_MAP_ANNOTATION = Some (policy_reference ns (executor_config_map_name app))"
  using assms by (auto simp: annotate_policies_Inr Let_def set_annotation_def policy_reference_def)

lemma config_map_names_nonempty: "driver_config_map_name app \<noteq> []" "executor_config_map_name app \<noteq> []"
  by (simp_all add: driver_config_map_name_def executor_config_map_name_def)

lemma submit_job_creates:
  assumes "submit_job K S name ns app tags s = (Inr (), t)"
  obtains app' u u' where "annotate_policies ns app = Inr app'"
    "custom_create K S ns (spark_body K S name ns (csa_spec app') tags) u = (Inr (), u')"
  using assms by (auto simp: submit_job_def bind_op_Inr_iff)

lemma fe_submit_sql:
  assumes "fe_submit_job F ''sql'' job_id (SqlJob job) ns tel tags sku s = (Inr name, t)"
  obtains app s1 where
    "sql_to_spark_spec (fe_env F) (fe_spark F) job_id job (if tel then Some (fe_telemetry F) else None) sku s = (Inr app, s1)"
    "name = sas_name (csa_spec app)" "submit_job (fe_kube F) (fe_resource F) name ns app tags s1 = (Inr (), t)"
  using assms by (auto simp: fe_submit_job_def bind_op_Inr_iff get_job_converter_def to_spark_spec_def Let_def)

text \<open>
  C1. The policy computed for a SQL job is the policy its pods get. When a job is submitted to the
  confidential provider, the Spark application created in the cluster is the one the converter
  built, with references to its policies; and as long as the two config maps are as the submission
  left them, the policy webhook admits every pod the Spark operator creates from its driver or
  executor and injects exactly the policy computed for that pod.
\<close>

theorem submitted_policy_injected:
  assumes C: "cm_contract (fe_kube F) view" and T: "rego_template (fe_env F) pre post"
    and P: "sc_compute_provider (fe_spark F) = ConfidentialVirtualNode" "\<not> an_allow_all (sc_analytics (fe_spark F))"
    and ns: "ns \<noteq> []"
    and run: "fe_submit_job F ''sql'' job_id (SqlJob job) ns tel tags sku s = (Inr name, t)"
  shows "\<exists>app app' s1 u u'.
    sql_to_spark_spec (fe_env F) (fe_spark F) job_id job (if tel then Some (fe_telemetry F) else None) sku s = (Inr app, s1) \<and>
    annotate_policies ns app = Inr app' \<and>
    custom_create (fe_kube F) (fe_resource F) ns
      (spark_body (fe_kube F) (fe_resource F) name ns (csa_spec app') tags) u = (Inr (), u') \<and>
    (\<forall>w pd. view w (ns, driver_config_map_name app) = view t (ns, driver_config_map_name app) \<longrightarrow>
      pod_from (sas_driver (csa_spec app')) pd \<longrightarrow> injects F w pd (csa_driver_policy app)) \<and>
    (\<forall>w pd. view w (ns, executor_config_map_name app) = view t (ns, executor_config_map_name app) \<longrightarrow>
      pod_from (sas_executor (csa_spec app')) pd \<longrightarrow> injects F w pd (csa_executor_policy app))"
proof -
  obtain app s1 where app: "sql_to_spark_spec (fe_env F) (fe_spark F) job_id job
      (if tel then Some (fe_telemetry F) else None) sku s = (Inr app, s1)"
    "submit_job (fe_kube F) (fe_resource F) name ns app tags s1 = (Inr (), t)"
    by (rule fe_submit_sql [OF run]) blast
  obtain app' u u' where app': "annotate_policies ns app = Inr app'"
    "custom_create (fe_kube F) (fe_resource F) ns (spark_body (fe_kube F) (fe_resource F) name ns (csa_spec app') tags) u = (Inr (), u')"
    by (rule submit_job_creates [OF app(2)])
  note built = sql_policies_nonempty [OF T P app(1)]
  note refs = annotated_references [OF app'(1)]
  note stored = submit_job_stores [OF C app(2)]
  have "injects F w pd (csa_driver_policy app)"
    if "view w (ns, driver_config_map_name app) = view t (ns, driver_config_map_name app)"
      "pod_from (sas_driver (csa_spec app')) pd" for w pd
  proof -
    obtain an where an: "annotations (sas_driver (csa_spec app')) = Some an"
      "map_of an CCE_POLICY_CONFIG_MAP_ANNOTATION = Some (policy_reference ns (driver_config_map_name app))"
      using refs by blast
    show ?thesis
      by (rule injects_stored_policy [OF C ns config_map_names_nonempty(1) built(1) _ that(2) _ an])
        (simp_all add: that(1) stored refs built)
  qed
  moreover have "injects F w pd (csa_executor_policy app)"
    if "view w (ns, executor_config_map_name app) = view t (ns, executor_config_map_name app)"
      "pod_from (sas_executor (csa_spec app')) pd" for w pd
  proof -
    obtain an where an: "annotations (sas_executor (csa_spec app')) = Some an"
      "map_of an CCE_POLICY_CONFIG_MAP_ANNOTATION = Some (policy_reference ns (executor_config_map_name app))"
      using refs by blast
    show ?thesis
      by (rule injects_stored_policy [OF C ns config_map_names_nonempty(2) built(2) _ that(2) _ an])
        (simp_all add: that(1) stored refs built)
  qed
  ultimately show ?thesis using app(1) app' by blast
qed

text \<open>A cluster whose config maps are kept beside the documents of the sample environment.\<close>

definition cm_key :: "string \<Rightarrow> string \<Rightarrow> string" where
  "cm_key ns n = json_dumps (JArr [JStr ns, JStr n])"

lemma cm_key_inject: "cm_key ns n = cm_key ns' n' \<longleftrightarrow> ns = ns' \<and> n = n'"
proof
  assume "cm_key ns n = cm_key ns' n'"
  then have "json_loads (cm_key ns n) = json_loads (cm_key ns' n')" by simp
  then show "ns = ns' \<and> n = n'" by (simp add: cm_key_def)
qed simp

definition data_json :: "(string, string) dict option \<Rightarrow> json" where
  "data_json d = (case d of None \<Rightarrow> JNull | Some ps \<Rightarrow> JObj (map (\<lambda>(k, v). (k, JStr v)) ps))"

definition json_data :: "json \<Rightarrow> (string, string) dict option" where
  "json_data j = (case j of JObj kvs \<Rightarrow> Some (map (\<lambda>(k, v). (k, json_str v)) kvs) | _ \<Rightarrow> None)"

lemma json_data_json [simp]: "json_data (data_json d) = d"
  by (cases d) (auto simp: json_data_def data_json_def json_str_def split_def comp_def)

definition file_view :: "(string, json) dict \<Rightarrow> string \<times> string \<Rightarrow> (string, string) dict option" where
  "file_view s k = (case map_of s (cm_key (fst k) (snd k)) of None \<Rightarrow> None | Some j \<Rightarrow> json_data j)"

definition file_kube :: "(string, json) dict kube_api" where
  "file_kube = (still_kube ended_meta (Some ended_status) [])
    \<lparr>config_map_create := (\<lambda>ns cm s. if map_of s (cm_key ns (cm_name cm)) \<noteq> None then (Inl (ApiException (Some 409) ''Conflict''), s)
       else (Inr (), (cm_key ns (cm_name cm), data_json (cm_data cm)) # s)),
     config_map_read := (\<lambda>ns n s. (case map_of s (cm_key ns n) of
         None \<Rightarrow> (Inl not_found_exc, s)
       | Some j \<Rightarrow> (Inr (Some \<lparr>cm_name = n, cm_namespace = ns, cm_labels = None, cm_data = json_data j\<rparr>), s)))\<rparr>"

lemma file_kube_contract: "cm_contract file_kube file_view"
  unfolding cm_contract_def keeps_data_def
  by (auto simp: file_kube_def still_kube_def file_view_def cm_key_inject fun_eq_iff split: option.splits if_splits)

definition file_frontend :: "((string, json) dict, unit, unit) frontend" where
  "file_frontend = sample_frontend file_kube sample_env still_records unit_floats"

lemma file_frontend_simps:
  "fe_kube file_frontend = file_kube" "fe_env file_frontend = sample_env"
  "fe_spark file_frontend = sample_spark_config ConfidentialVirtualNode"
  by (simp_all add: file_frontend_def sample_frontend_def)

lemma cm_key_absent: "map_of sample_files (cm_key ns n) = None"
  by (simp add: cm_key_def json_dumps_def sample_files_def)

lemma file_submit:
  "\<exists>t. submit_job file_kube S name ns app tags sample_files = (Inr (), t)"
proof -
  have "cm_key ns (driver_config_map_name app) \<noteq> cm_key ns (executor_config_map_name app)"
    by (simp add: cm_key_inject driver_config_map_name_def executor_config_map_name_def)
  moreover have "custom_create file_kube = (\<lambda>S ns b. return_op ())" "config_map_patch file_kube = (\<lambda>ns n b. return_op ())"
    "custom_get file_kube = (\<lambda>S ns n. return_op (JObj [(''metadata'', ended_meta)]))"
    "validate_spark_app file_kube = (\<lambda>m _. Inr \<lparr>sa_metadata = m, sa_status = Some ended_status\<rparr>)"
    "config_map_create file_kube = (\<lambda>ns cm s. if map_of s (cm_key ns (cm_name cm)) \<noteq> None then (Inl (ApiException (Some 409) ''Conflict''), s)
       else (Inr (), (cm_key ns (cm_name cm), data_json (cm_data cm)) # s))"
    by (simp_all add: file_kube_def still_kube_def)
  ultimately show ?thesis
    by (simp add: submit_job_def annotate_policies_Inr Let_def bind_op_def create_config_map_def set_config_map_owner_def
        get_spark_app_def catch_op_def json_get_dict ended_meta_def cm_key_absent driver_config_map_name_def
        executor_config_map_name_def)
qed

lemma holds_data_json: "holds_dict (data_json (Some ps)) (Some ps)"
  by (auto simp: holds_dict_def data_json_def map_of_map)

theorem submitted_policy_injected_witness:
  "\<exists>name t app app' s1 pd.
    sql_to_spark_spec sample_env (sample_spark_config ConfidentialVirtualNode) ''j'' sample_job None None sample_files = (Inr app, s1) \<and>
    fe_submit_job file_frontend ''sql'' ''j'' (SqlJob sample_job) ''analytics'' False None None sample_files = (Inr name, t) \<and>
    annotate_policies ''analytics'' app = Inr app' \<and>
    pod_from (sas_driver (csa_spec app')) pd \<and> injects file_frontend t pd (csa_driver_policy app)"
proof -
  let ?cfg = "sample_spark_config ConfidentialVirtualNode"
  obtain app where app: "sql_to_spark_spec sample_env ?cfg ''j'' sample_job None None sample_files = (Inr app, sample_files)"
    using sample_convert_sql by blast
  obtain t where t: "submit_job file_kube (fe_resource file_frontend) (sas_name (csa_spec app)) ''analytics'' app None sample_files = (Inr (), t)"
    using file_submit by blast
  have run: "fe_submit_job file_frontend ''sql'' ''j'' (SqlJob sample_job) ''analytics'' False None None sample_files =
      (Inr (sas_name (csa_spec app)), t)"
    using app t by (simp add: fe_submit_job_def get_job_converter_def to_spark_spec_def file_frontend_simps bind_op_def Let_def)
  have P: "sc_compute_provider ?cfg = ConfidentialVirtualNode" "\<not> an_allow_all (sc_analytics ?cfg)"
    by (simp_all add: sample_spark_config_def)
  from submitted_policy_injected [of file_frontend file_view, unfolded file_frontend_simps,
      OF file_kube_contract sample_rego_template P _ run] app
  obtain app' where app': "annotate_policies ''analytics'' app = Inr app'"
    and inj: "\<And>w pd. file_view w (''analytics'', driver_config_map_name app) = file_view t (''analytics'', driver_config_map_name app) \<Longrightarrow>
      pod_from (sas_driver (csa_spec app')) pd \<Longrightarrow> injects file_frontend w pd (csa_driver_policy app)"
    by auto
  obtain ls an where "labels (sas_driver (csa_spec app')) = Some ls" "annotations (sas_driver (csa_spec app')) = Some an"
    using annotated_references [OF app'] sql_policies_nonempty(3) [OF sample_rego_template P app]
    by (auto simp: webhook_labels_def split: option.splits)
  then have "pod_from (sas_driver (csa_spec app')) (JObj [(''metadata'', JObj [(''labels'', data_json (Some ls)), (''annotations'', data_json (Some an))])])"
    by (simp add: pod_from_def holds_data_json)
  with app run app' inj show ?thesis by blast
qed

section \<open>Access points and their mounts\<close>



text \<open>Names the sidecar builder does not change.\<close>

definition plain_mount_name :: "string \<Rightarrow> bool" where
  "plain_mount_name n \<longleftrightarrow> list_all (\<lambda>c. lower_char c = c \<and> c \<noteq> CHR '' '' \<and> c \<noteq> CHR ''_'') n"

lemma sanitize_fixpoint: "sanitize_access_name n = n \<longleftrightarrow> plain_mount_name n"
proof -
  define f where "f c = (if lower_char c = CHR '' '' then [] else if lower_char c = CHR ''_'' then ''-'' else [lower_char c])" for c
  have s: "sanitize_access_name n = concat (map f n)" for n
    by (induction n) (simp_all add: sanitize_access_name_def str_lower_def str_replace_char_def f_def)
  have len: "length (concat (map f n)) \<le> length n" for n
    by (induction n) (auto simp: f_def)
  have f: "f c = [c] \<longleftrightarrow> lower_char c = c \<and> c \<noteq> CHR '' '' \<and> c \<noteq> CHR ''_''" for c
    by (auto simp: f_def lower_char_def)
  show ?thesis
  proof (induction n)
    case Nil
    then show ?case by (simp add: s plain_mount_name_def)
  next
    case (Cons c n)
    have "f c = [] \<or> (\<exists>x. f c = [x])" by (simp add: f_def)
    with len [of n] Cons f [of c] show ?case
      by (auto simp: s plain_mount_name_def)
  qed
qed

text \<open>What the waiting process relies on of its host: sleeping returns and changes no files and no environment.\<close>

definition sleeps :: "('s \<Rightarrow> string \<Rightarrow> string option) \<Rightarrow> 's host \<Rightarrow> bool" where
  "sleeps fs W \<longleftrightarrow> (\<forall>n s. \<exists>u. ho_sleep W n s = (Inr (), u) \<and> fs u = fs s \<and> ho_getenv W u = ho_getenv W s)"

lemma poll_missing:
  assumes "sees_files fs W" and "sleeps fs W"
    and "fs s (ready_file (get_volumestatus_mountpath W s) a) = None" "fs s (error_file (get_volumestatus_mountpath W s) a) = None"
  shows "\<exists>u. poll_volume W a d n s = (Inr False, u) \<and> fs u = fs s \<and> ho_getenv W u = ho_getenv W s"
  using assms(3,4)
proof (induction n arbitrary: s)
  case 0
  then show ?case by simp
next
  case (Suc n)
  obtain v where v: "ho_sleep W d s = (Inr (), v)" "fs v = fs s" "ho_getenv W v = ho_getenv W s"
    using assms(2) by (auto simp: sleeps_def)
  have p: "get_volumestatus_mountpath W v = get_volumestatus_mountpath W s"
    by (simp add: get_volumestatus_mountpath_def environ_default_def v(3))
  show ?case
    using Suc.IH [of v] Suc.prems assms(1) v
    by (auto simp: p sees_files_def is_volume_ready_def is_volume_error_def bind_op_def)
qed

text \<open>
  C36. The application finds its mounts exactly under plain names. The sidecar builder hands its
  blobfuse launcher the name of the access point in lower case, without spaces and with hyphens for
  underscores, while the application waits for the name as it is: once that launcher has mounted the
  storage, the wait returns the mount path when the name has no upper-case letter, space or
  underscore; and else, when nobody else made a marker for the name, it ends in the failure of a
  mount that is not available.
\<close>

theorem mount_found_under_plain_name:
  assumes "blobfuse_vars ctx ap mp name tm vm port = Inr (vars, sub)"
    and "map_of vars ''datasetName'' = Some (la_access_name L)"
    and "launcher_host fs L H" and "sees_files fs W" and "sleeps fs W"
    and "fs s (ready_file (la_volumestatus L) (la_access_name L)) = None"
    and "blobfuse_main H L a s = (Inr 0, t)"
    and "get_volumestatus_mountpath W t = la_volumestatus L"
    and "name \<noteq> la_access_name L \<Longrightarrow> fs t (ready_file (la_volumestatus L) name) = None"
    and "name \<noteq> la_access_name L \<Longrightarrow> fs t (error_file (la_volumestatus L) name) = None"
  shows "if plain_mount_name name then app_wait_for_mount_point W name t = (Inr (JStr (ba_mount_path a)), t)
    else \<exists>msg u. app_wait_for_mount_point W name t = (Inl (MountPointUnavailableFailure msg), u)"
proof -
  have n: "la_access_name L = sanitize_access_name name"
    using assms(1,2) by (auto simp: blobfuse_vars_def bind_res_Inr_iff Let_def split: option.splits)
  show ?thesis
  proof (cases "plain_mount_name name")
    case True
    then have "la_access_name L = name" by (simp add: n sanitize_fixpoint)
    with wait_for_marker [OF launchers_leave_marker(1) [OF assms(3,6,7)] assms(4,8), of 10 30 MountPointUnavailableFailure] True
    show ?thesis by (simp add: app_wait_for_mount_point_def)
  next
    case False
    then have "name \<noteq> la_access_name L" using n sanitize_fixpoint [of name] by metis
    then obtain u where u: "poll_volume W name 30 10 t = (Inr False, u)" "fs u = fs t" "ho_getenv W u = ho_getenv W t"
      and "fs t (error_file (la_volumestatus L) name) = None"
      using poll_missing [OF assms(4,5), of t name 30 10] assms(8-10) by auto
    moreover from u(3) have "get_volumestatus_mountpath W u = la_volumestatus L"
      by (simp add: get_volumestatus_mountpath_def environ_default_def assms(8) [symmetric])
    ultimately show ?thesis
      using False assms(4) by (auto simp: app_wait_for_mount_point_def wait_for_mount_point_def get_blobfuse_error_def
        is_volume_error_def sees_files_def bind_op_def)
  qed
qed

text \<open>The sample mount under a name with a capital letter.\<close>

lemma disk_host_sleeps: "sleeps map_of disk_host"
  by (simp add: sleeps_def disk_host_def)

theorem mount_found_under_plain_name_witness:
  "\<exists>msg u. app_wait_for_mount_point disk_host ''In''
     [(''/mnt/volumestatus/in.volume.ready'', json_dumps (JObj [(''mount_path'', JStr ''/mnt/remote/in'')]))] =
   (Inl (MountPointUnavailableFailure msg), u)"
proof -
  have "sanitize_access_name ''In'' = ''in''" by code_simp
  then have "\<exists>vars. blobfuse_vars [] sample_access_point ''/mnt/remote'' ''In'' tm vm 6300 = Inr (vars, ''d'') \<and>
      map_of vars ''datasetName'' = Some ''in''" for tm vm
    by (auto simp: blobfuse_vars_def sample_blob_location cpk_secret_id_def)
      (simp_all add: sample_access_point_def option_json_def)
  then obtain vars where v: "blobfuse_vars [] sample_access_point ''/mnt/remote'' ''In'' [] [] 6300 = Inr (vars, ''d'')"
    "map_of vars ''datasetName'' = Some (la_access_name sample_launcher)"
    by (auto simp: sample_launcher_def)
  have "\<not> plain_mount_name ''In''" by code_simp
  moreover have "blobfuse_main disk_host sample_launcher sample_mount [] = (Inr 0,
      [(''/mnt/volumestatus/in.volume.ready'', json_dumps (JObj [(''mount_path'', JStr ''/mnt/remote/in'')]))])"
    using disk_host_mounts [of sample_mount sample_launcher "[]"]
    by (simp add: sample_mount_def sample_launcher_def ready_file_def path_join_def)
  moreover have "get_volumestatus_mountpath disk_host t = la_volumestatus sample_launcher" for t
    by (simp add: get_volumestatus_mountpath_def environ_default_def disk_host_def sample_launcher_def)
  ultimately show ?thesis
    using mount_found_under_plain_name [OF v disk_host_launcher disk_host_sees disk_host_sleeps, where s = "[]"
      and a = sample_mount]
    by (simp add: sample_launcher_def ready_file_def error_file_def path_join_def)
qed

end
